(* ===== verification/Prelude.thy ===== *)
theory Prelude
  imports Main "HOL-Library.AList" "HOL-Library.Multiset"
begin

text \<open>
  Shared vocabulary of the development: Go errors, panics and divergence as values, the
  sequencing of fallible steps, Go maps as association lists, and the generic list lemmas that
  the component theories use.
\<close>

section \<open>Collections of facts\<close>

named_theorems model_simps \<open>definitions of the model that the component proofs unfold\<close>
named_theorems len_simps \<open>how an operation changes the length of the list it returns\<close>

section \<open>Errors, panics and divergence\<close>

text \<open>
  The API server answers a request with an object or with one of these failures. The
  distinguished ones are those the source tests with \<open>apierrors.IsNotFound\<close> and
  \<open>apierrors.IsAlreadyExists\<close>.
\<close>

datatype api_error = NotFound | AlreadyExists | OtherApiError string

text \<open>
  A Go \<open>error\<close>: an API failure, or one made by \<open>errors.New\<close> or \<open>fmt.Errorf\<close>, kept as its
  format and its arguments.
\<close>

datatype go_error = ErrApi api_error | ErrMsg string | ErrFmt string "string list"

text \<open>
  How a Go call can end without a result: it returns an error, it panics (nil dereference, index
  out of range, division by zero, a type assertion that fails), or it never returns.
\<close>

datatype panic = NilDereference | IndexOutOfRange | DivideByZero | NilMapWrite | WrongType

datatype fail = Err go_error | Panic panic | Diverge

type_synonym 'a res = "fail + 'a"

abbreviation Ret :: "'a \<Rightarrow> 'a res" where "Ret \<equiv> Inr"
abbreviation Raise :: "go_error \<Rightarrow> 'a res" where "Raise e \<equiv> Inl (Err e)"
abbreviation Crash :: "panic \<Rightarrow> 'a res" where "Crash p \<equiv> Inl (Panic p)"

definition bindR :: "'a res \<Rightarrow> ('a \<Rightarrow> 'b res) \<Rightarrow> 'b res" where
  "bindR m f = (case m of Inl e \<Rightarrow> Inl e | Inr x \<Rightarrow> f x)"

lemma bindR_simps [simp]:
  "bindR (Inl e) f = Inl e"
  "bindR (Inr x) f = f x"
  by (simp_all add: bindR_def)

lemma bindR_Inr_iff: "bindR m f = Inr y \<longleftrightarrow> (\<exists>x. m = Inr x \<and> f x = Inr y)"
  by (cases m) simp_all

lemma bindR_Inl_iff: "bindR m f = Inl e \<longleftrightarrow> m = Inl e \<or> (\<exists>x. m = Inr x \<and> f x = Inl e)"
  by (cases m) simp_all

lemma bindR_assoc: "bindR (bindR m f) g = bindR m (\<lambda>x. bindR (f x) g)"
  by (cases m) simp_all

lemma bindR_cong [fundef_cong]:
  "m = m' \<Longrightarrow> (\<And>x. m' = Inr x \<Longrightarrow> f x = f' x) \<Longrightarrow> bindR m f = bindR m' f'"
  by (cases m') simp_all

text \<open>An API answer as the result of a Go call that only forwards the error.\<close>

definition liftApi :: "api_error + 'a \<Rightarrow> 'a res" where
  "liftApi r = (case r of Inl e \<Rightarrow> Inl (Err (ErrApi e)) | Inr x \<Rightarrow> Inr x)"

lemma liftApi_simps [simp]:
  "liftApi (Inl e) = Inl (Err (ErrApi e))"
  "liftApi (Inr x) = Inr x"
  by (simp_all add: liftApi_def)

lemma liftApi_Inr_iff [simp]: "liftApi r = Inr x \<longleftrightarrow> r = Inr x"
  by (cases r) simp_all

text \<open>Slice indexing: out of range is a panic.\<close>

definition idx :: "'a list \<Rightarrow> nat \<Rightarrow> 'a res" where
  "idx xs i = (if i < length xs then Inr (xs ! i) else Crash IndexOutOfRange)"

lemma idx_simps [simp]:
  "i < length xs \<Longrightarrow> idx xs i = Inr (xs ! i)"
  "\<not> i < length xs \<Longrightarrow> idx xs i = Crash IndexOutOfRange"
  by (simp_all add: idx_def)

section \<open>Loops\<close>

text \<open>
  \<open>for j, x := range xs\<close> over a body that may leave the function with an error: the loop
  carries what the body assigns.
\<close>

fun forRange :: "(nat \<Rightarrow> 'a \<Rightarrow> 'b \<Rightarrow> 'b res) \<Rightarrow> nat \<Rightarrow> 'a list \<Rightarrow> 'b \<Rightarrow> 'b res" where
  "forRange f j [] acc = Inr acc"
| "forRange f j (x # xs) acc = bindR (f j x acc) (forRange f (Suc j) xs)"

lemma forRange_cong [fundef_cong]:
  assumes "xs = ys" "j = j'" "acc = acc'" "\<And>i x a. x \<in> set ys \<Longrightarrow> f i x a = g i x a"
  shows "forRange f j xs acc = forRange g j' ys acc'"
  unfolding assms(1-3) using assms(4)
proof (induction ys arbitrary: j' acc')
  case (Cons y ys)
  then show ?case by (auto intro!: bindR_cong)
qed simp

lemma forRange_append:
  "forRange f j (xs @ ys) acc = bindR (forRange f j xs acc) (forRange f (j + length xs) ys)"
  by (induction xs arbitrary: j acc) (auto simp: bindR_def split: sum.splits)

text \<open>A loop invariant indexed by the iteration: partial and total correctness.\<close>

lemma forRange_inv:
  assumes "forRange f j xs acc = Inr acc'" and "I j acc"
    and "\<And>i a b. j \<le> i \<Longrightarrow> i < j + length xs \<Longrightarrow> I i a \<Longrightarrow> f i (xs ! (i - j)) a = Inr b \<Longrightarrow> I (Suc i) b"
  shows "I (j + length xs) acc'"
  using assms
proof (induction xs arbitrary: j acc)
  case (Cons x xs)
  from Cons.prems(1) obtain b where b: "f j x acc = Inr b" "forRange f (Suc j) xs b = Inr acc'"
    by (auto simp: bindR_Inr_iff)
  have "I (Suc j) b" using Cons.prems(3) [of j acc b] Cons.prems(2) b(1) by simp
  moreover have "I (Suc i) b'"
    if "Suc j \<le> i" "i < Suc j + length xs" "I i a" "f i (xs ! (i - Suc j)) a = Inr b'" for i a b'
    using Cons.prems(3) [of i a b'] that by (simp add: nth_Cons')
  ultimately have "I (Suc j + length xs) acc'" using Cons.IH [OF b(2)] by blast
  then show ?case by simp
qed simp

lemma forRange_total:
  assumes "I j acc"
    and "\<And>i a. j \<le> i \<Longrightarrow> i < j + length xs \<Longrightarrow> I i a \<Longrightarrow>
           \<exists>b. f i (xs ! (i - j)) a = Inr b \<and> I (Suc i) b"
  shows "\<exists>acc'. forRange f j xs acc = Inr acc' \<and> I (j + length xs) acc'"
  using assms
proof (induction xs arbitrary: j acc)
  case (Cons x xs)
  from Cons.prems(2) [of j acc] Cons.prems(1)
  obtain b where b: "f j x acc = Inr b" "I (Suc j) b" by auto
  have "\<exists>acc'. forRange f (Suc j) xs b = Inr acc' \<and> I (Suc j + length xs) acc'"
  proof (rule Cons.IH [OF b(2)])
    fix i a assume "Suc j \<le> i" "i < Suc j + length xs" "I i a"
    then show "\<exists>b'. f i (xs ! (i - Suc j)) a = Inr b' \<and> I (Suc i) b'"
      using Cons.prems(2) [of i a] by (simp add: nth_Cons')
  qed
  with b(1) show ?case by simp
qed simp

section \<open>Steps that write to the server\<close>

text \<open>
  A step takes the server's state and answers with a result and the next state; what follows an
  error is skipped, the writes made before it remain.
\<close>

type_synonym ('s, 'a) step = "'s \<Rightarrow> 'a res \<times> 's"

definition bindS :: "('s, 'a) step \<Rightarrow> ('a \<Rightarrow> ('s, 'b) step) \<Rightarrow> ('s, 'b) step" where
  "bindS m f s = (case m s of (Inl e, s') \<Rightarrow> (Inl e, s') | (Inr x, s') \<Rightarrow> f x s')"

definition retS :: "'a \<Rightarrow> ('s, 'a) step" where "retS x s = (Inr x, s)"

definition liftS :: "'a res \<Rightarrow> ('s, 'a) step" where "liftS r s = (r, s)"

text \<open>A read, and a write whose answer is a stored object or an error.\<close>

definition readS :: "('s \<Rightarrow> 'a res) \<Rightarrow> ('s, 'a) step" where "readS f s = (f s, s)"

definition writeS :: "('s \<Rightarrow> (api_error + 'a) \<times> 's) \<Rightarrow> ('s, 'a) step" where
  "writeS w s = (case w s of (r, s') \<Rightarrow> (liftApi r, s'))"

definition deleteS :: "('s \<Rightarrow> api_error option \<times> 's) \<Rightarrow> ('s, unit) step" where
  "deleteS w s =
     (case w s of (None, s') \<Rightarrow> (Inr (), s') | (Some e, s') \<Rightarrow> (Inl (Err (ErrApi e)), s'))"

text \<open>\<open>for _, x := range xs\<close> over a body that writes and carries what it assigns.\<close>

fun forS :: "('a \<Rightarrow> 'b \<Rightarrow> ('s, 'b) step) \<Rightarrow> 'a list \<Rightarrow> 'b \<Rightarrow> ('s, 'b) step" where
  "forS f [] acc = retS acc"
| "forS f (x # xs) acc = bindS (f x acc) (forS f xs)"

lemma step_simps [simp]:
  "bindS (retS x) f = f x"
  "bindS (liftS (Inr x)) f = f x"
  "retS x s = (Inr x, s)"
  "liftS r s = (r, s)"
  "readS g s = (g s, s)"
  by (simp_all add: bindS_def retS_def liftS_def readS_def fun_eq_iff)

lemma bindS_Inr [simp]: "m s = (Inr x, s') \<Longrightarrow> bindS m f s = f x s'"
  by (simp add: bindS_def)

lemma bindS_Inl [simp]: "m s = (Inl e, s') \<Longrightarrow> bindS m f s = (Inl e, s')"
  by (simp add: bindS_def)

lemma bindS_Inr_iff: "bindS m f s = (Inr y, t) \<longleftrightarrow> (\<exists>x s'. m s = (Inr x, s') \<and> f x s' = (Inr y, t))"
  by (auto simp: bindS_def split: prod.splits sum.splits)

lemma bindS_assoc: "bindS (bindS m f) g = bindS m (\<lambda>x. bindS (f x) g)"
  by (auto simp: bindS_def fun_eq_iff split: prod.splits sum.splits)

lemma bindS_cong [fundef_cong]:
  assumes "m = m'" and "\<And>x. f x = f' x"
  shows "bindS m f = bindS m' f'"
proof -
  have "f = f'" using assms(2) by (rule ext)
  with assms(1) show ?thesis by simp
qed

text \<open>An invariant of such a loop, over the carried value and the server's state.\<close>

lemma forS_total:
  assumes "I acc s" and "\<And>x a s. x \<in> set xs \<Longrightarrow> I a s \<Longrightarrow> \<exists>b s'. f x a s = (Inr b, s') \<and> I b s'"
  shows "\<exists>b s'. forS f xs acc s = (Inr b, s') \<and> I b s'"
  using assms
proof (induction xs arbitrary: acc s)
  case (Cons x xs)
  then obtain b s1 where b: "f x acc s = (Inr b, s1)" "I b s1" by (metis list.set_intros(1))
  have "\<exists>b' s'. forS f xs b s1 = (Inr b', s') \<and> I b' s'"
    using Cons.IH [OF b(2)] Cons.prems(2) by (metis list.set_intros(2))
  with b(1) show ?case by simp
qed simp

lemma forS_noop:
  "(\<And>x. x \<in> set xs \<Longrightarrow> f x acc s = (Inr acc, s)) \<Longrightarrow> forS f xs acc s = (Inr acc, s)"
  by (induction xs) (simp_all add: bindS_def)

section \<open>Go maps\<close>

text \<open>
  A Go map is an association list with distinct keys; the order of the list stands for the order
  in which one \<open>range\<close> over the map visits it, which Go leaves unspecified. A theorem about all
  such lists holds for every visiting order.
\<close>

type_synonym ('k, 'v) gomap = "('k \<times> 'v) list"

definition gomap_wf :: "('k, 'v) gomap \<Rightarrow> bool" where
  "gomap_wf m \<longleftrightarrow> distinct (map fst m)"

definition gomap_get :: "('k, 'v) gomap \<Rightarrow> 'k \<Rightarrow> 'v option" where
  "gomap_get m k = map_of m k"

definition gomap_put :: "('k, 'v) gomap \<Rightarrow> 'k \<Rightarrow> 'v \<Rightarrow> ('k, 'v) gomap" where
  "gomap_put m k v = AList.update k v m"

definition gomap_del :: "('k, 'v) gomap \<Rightarrow> 'k \<Rightarrow> ('k, 'v) gomap" where
  "gomap_del m k = AList.delete k m"

text \<open>\<open>reflect.DeepEqual\<close> on two non-nil maps: the same keys with the same values.\<close>

definition gomap_eq :: "('k, 'v) gomap \<Rightarrow> ('k, 'v) gomap \<Rightarrow> bool" where
  "gomap_eq m n \<longleftrightarrow>
     list_all (\<lambda>k. gomap_get m k = gomap_get n k) (map fst m @ map fst n)"

lemma gomap_get_put [simp]:
  "gomap_get (gomap_put m k v) k' = (if k' = k then Some v else gomap_get m k')"
  by (simp add: gomap_get_def gomap_put_def update_conv')

lemma gomap_get_del [simp]:
  "gomap_get (gomap_del m k) k' = (if k' = k then None else gomap_get m k')"
  by (simp add: gomap_get_def gomap_del_def delete_conv')

lemma gomap_get_Nil [simp]: "gomap_get [] k = None"
  by (simp add: gomap_get_def)

lemma gomap_wf_Nil [simp]: "gomap_wf []"
  by (simp add: gomap_wf_def)

lemma gomap_wf_put [simp]: "gomap_wf m \<Longrightarrow> gomap_wf (gomap_put m k v)"
  by (simp add: gomap_wf_def gomap_put_def distinct_update)

lemma gomap_wf_del [simp]: "gomap_wf m \<Longrightarrow> gomap_wf (gomap_del m k)"
  by (simp add: gomap_wf_def gomap_del_def distinct_delete)

lemma gomap_get_Some_iff: "gomap_wf m \<Longrightarrow> gomap_get m k = Some v \<longleftrightarrow> (k, v) \<in> set m"
  by (auto simp: gomap_wf_def gomap_get_def)

lemma gomap_get_None_iff: "gomap_get m k = None \<longleftrightarrow> k \<notin> fst ` set m"
  by (simp add: gomap_get_def map_of_eq_None_iff)

lemma gomap_eq_iff: "gomap_eq m n \<longleftrightarrow> gomap_get m = gomap_get n"
proof
  assume eq: "gomap_eq m n"
  show "gomap_get m = gomap_get n"
  proof
    fix k
    show "gomap_get m k = gomap_get n k"
    proof (cases "k \<in> fst ` set m \<union> fst ` set n")
      case True
      then show ?thesis using eq by (auto simp: gomap_eq_def list_all_iff)
    next
      case False
      then have "gomap_get m k = None" and "gomap_get n k = None"
        by (auto simp: gomap_get_None_iff)
      then show ?thesis by simp
    qed
  qed
qed (simp add: gomap_eq_def list_all_iff)

lemma gomap_get_Cons:
  "gomap_get ((k', v') # m) k = (if k = k' then Some v' else gomap_get m k)"
  by (simp add: gomap_get_def)

lemma gomap_get_filter:
  "gomap_get (filter (\<lambda>(k, v). P k) m) k = (if P k then gomap_get m k else None)"
  by (induction m) (auto simp: gomap_get_def)

lemma gomap_get_fold_del:
  "gomap_get (fold (\<lambda>(k, v) m. gomap_del m k) xs m) k =
     (if k \<in> fst ` set xs then None else gomap_get m k)"
  by (induction xs arbitrary: m) auto

lemma gomap_get_fold_put:
  "gomap_wf xs \<Longrightarrow> gomap_get (fold (\<lambda>(k, v) m. gomap_put m k v) xs m) k =
     (case gomap_get xs k of Some v \<Rightarrow> Some v | None \<Rightarrow> gomap_get m k)"
proof (induction xs arbitrary: m)
  case (Cons x xs)
  obtain k' v' where x: "x = (k', v')" by (cases x)
  have "gomap_wf xs" and "gomap_get xs k' = None"
    using Cons.prems by (auto simp: x gomap_wf_def gomap_get_None_iff)
  then show ?case using Cons.IH [of "gomap_put m k' v'"]
    by (auto simp: x gomap_get_Cons split: option.splits)
qed simp

lemma gomap_get_ne: "gomap_get m k = Some v \<Longrightarrow> m \<noteq> []"
  by auto

section \<open>Lists\<close>

lemma sum_list_update_int:
  fixes xs :: "int list"
  shows "j < length xs \<Longrightarrow> sum_list (xs[j := v]) = sum_list xs - xs ! j + v"
proof (induction xs arbitrary: j)
  case (Cons x xs)
  then show ?case by (cases j) simp_all
qed simp

end
