(* ===== verification/GoLib.thy ===== *)
theory GoLib
  imports Prelude "HOL-Library.Sublist"
begin

text \<open>
  The functions of Go's standard library the source computes with, on byte strings:
  \<open>strings.HasPrefix\<close>, \<open>Contains\<close>, \<open>Replace\<close> (with count -1), \<open>ToLower\<close> (ASCII), and
  \<open>strconv.Itoa\<close> and \<open>Atoi\<close> at 64 bits. \<open>cuelang.org/go/pkg/strings\<close>, which one file
  imports in place of \<open>strings\<close>, re-exports the same functions.
\<close>

section \<open>strings\<close>

definition strHasPrefix :: "string \<Rightarrow> string \<Rightarrow> bool" where
  "strHasPrefix s p \<longleftrightarrow> take (length p) s = p"

fun strContains :: "string \<Rightarrow> string \<Rightarrow> bool" where
  "strContains [] p \<longleftrightarrow> p = []"
| "strContains (c # s) p \<longleftrightarrow> strHasPrefix (c # s) p \<or> strContains s p"

text \<open>\<open>strings.Replace(s, old, new, -1)\<close> for a non-empty \<open>old\<close>: left to right, no overlaps.\<close>

function strReplaceAll :: "string \<Rightarrow> string \<Rightarrow> string \<Rightarrow> string" where
  "strReplaceAll [] old new = []"
| "strReplaceAll (c # s) old new =
     (if old \<noteq> [] \<and> strHasPrefix (c # s) old
      then new @ strReplaceAll (drop (length old) (c # s)) old new
      else c # strReplaceAll s old new)"
  by pat_completeness auto
termination
  by (relation "measure (\<lambda>(s, old, new). length s)") auto

definition chrToLower :: "char \<Rightarrow> char" where
  "chrToLower c = (let n = of_char c :: nat in if 65 \<le> n \<and> n \<le> 90 then char_of (n + 32) else c)"

definition strToLower :: "string \<Rightarrow> string" where
  "strToLower s = map chrToLower s"

lemma strHasPrefix_iff: "strHasPrefix s p \<longleftrightarrow> (\<exists>r. s = p @ r)"
  by (metis strHasPrefix_def append_eq_conv_conj append_take_drop_id)

lemma strHasPrefix_append [simp]: "strHasPrefix (p @ r) p"
  by (simp add: strHasPrefix_def)

lemma strContains_append_right: "strContains r p \<Longrightarrow> strContains (s @ r) p"
  by (induction s) (auto split: if_splits)

lemma strContains_prefix [simp]: "strContains (p @ r) p"
proof (cases "p @ r")
  case (Cons c s)
  have "strHasPrefix (p @ r) p" by simp
  with Cons show ?thesis by simp
qed simp

lemma strContains_iff: "strContains s p \<longleftrightarrow> (\<exists>a b. s = a @ p @ b)"
proof
  show "strContains s p \<Longrightarrow> \<exists>a b. s = a @ p @ b"
  proof (induction s)
    case Nil
    then show ?case by simp
  next
    case (Cons c s)
    then show ?case
      by (metis strContains.simps(2) strHasPrefix_iff append_Cons append_Nil)
  qed
next
  assume "\<exists>a b. s = a @ p @ b"
  then show "strContains s p" by (auto intro: strContains_append_right)
qed

lemma strReplaceAll_absent: "\<not> strContains s old \<Longrightarrow> strReplaceAll s old new = s"
  by (induction s) auto

lemma strReplaceAll_prefix:
  assumes "old \<noteq> []"
  shows "strReplaceAll (old @ r) old new = new @ strReplaceAll r old new"
proof -
  obtain c p where "old = c # p" using assms by (cases old) auto
  then show ?thesis by (simp add: strHasPrefix_def)
qed

lemma length_strReplaceAll_erase: "length (strReplaceAll s old []) \<le> length s"
proof (induction s old "[] :: string" rule: strReplaceAll.induct)
  case (2 c s old)
  show ?case
  proof (cases "old \<noteq> [] \<and> strHasPrefix (c # s) old")
    case True
    with 2(1) have "length (strReplaceAll (drop (length old) (c # s)) old []) \<le> length (c # s)"
      by (metis (no_types) True diff_le_self le_trans length_drop)
    with True show ?thesis by simp
  next
    case False
    with 2(2) show ?thesis by auto
  qed
qed simp

lemma length_strReplaceAll_erase_prefix:
  assumes "old \<noteq> []" and "strContains s old"
  shows "length (strReplaceAll s old []) < length s"
  using assms
proof (induction s)
  case (Cons c s)
  show ?case
  proof (cases "strHasPrefix (c # s) old")
    case True
    have "length (strReplaceAll (drop (length old) (c # s)) old []) \<le> length (drop (length old) (c # s))"
      by (rule length_strReplaceAll_erase)
    also have "\<dots> < length (c # s)" using Cons.prems(1) by simp
    finally show ?thesis using True Cons.prems(1) by simp
  next
    case False
    then show ?thesis using Cons by auto
  qed
qed simp

section \<open>strconv\<close>

definition digitChar :: "nat \<Rightarrow> char" where
  "digitChar d = char_of (48 + d)"

fun natDigits :: "nat \<Rightarrow> string" where
  "natDigits n = (if n < 10 then [digitChar n] else natDigits (n div 10) @ [digitChar (n mod 10)])"

declare natDigits.simps [simp del]

definition strconvItoa :: "int \<Rightarrow> string" where
  "strconvItoa i = (if i < 0 then CHR ''-'' # natDigits (nat (- i)) else natDigits (nat i))"

fun parseDigits :: "nat \<Rightarrow> string \<Rightarrow> nat option" where
  "parseDigits acc [] = Some acc"
| "parseDigits acc (c # s) =
     (let n = of_char c :: nat
      in if 48 \<le> n \<and> n \<le> 57 then parseDigits (10 * acc + (n - 48)) s else None)"

definition in_int64 :: "int \<Rightarrow> bool" where
  "in_int64 i \<longleftrightarrow> - (2 ^ 63) \<le> i \<and> i < 2 ^ 63"

definition strconvAtoi :: "string \<Rightarrow> int option" where
  "strconvAtoi s =
     (let (neg, ds) =
        (case s of
           [] \<Rightarrow> (False, [])
         | c # r \<Rightarrow> if c = CHR ''-'' then (True, r) else if c = CHR ''+'' then (False, r) else (False, s))
      in if ds = [] then None
         else case parseDigits 0 ds of
                None \<Rightarrow> None
              | Some n \<Rightarrow> let v = (if neg then - int n else int n)
                          in if in_int64 v then Some v else None)"

lemma of_char_digitChar: "d < 10 \<Longrightarrow> (of_char (digitChar d) :: nat) = 48 + d"
  by (simp add: digitChar_def)

lemma natDigits_ne [simp]: "natDigits n \<noteq> []"
  by (subst natDigits.simps) simp

lemma parseDigits_append:
  "parseDigits acc (s @ t) = (case parseDigits acc s of None \<Rightarrow> None | Some n \<Rightarrow> parseDigits n t)"
  by (induction acc s rule: parseDigits.induct) (auto simp: Let_def)

lemma parseDigits_natDigits: "parseDigits 0 (natDigits n) = Some n"
proof (induction n rule: natDigits.induct)
  case (1 n)
  show ?case
  proof (cases "n < 10")
    case True
    then show ?thesis by (subst natDigits.simps) (simp add: of_char_digitChar)
  next
    case False
    with 1 have "parseDigits 0 (natDigits (n div 10)) = Some (n div 10)" by simp
    with False show ?thesis
      by (subst natDigits.simps) (simp add: parseDigits_append of_char_digitChar)
  qed
qed

lemma natDigits_digit: "c \<in> set (natDigits n) \<Longrightarrow> 48 \<le> (of_char c :: nat) \<and> (of_char c :: nat) \<le> 57"
proof (induction n rule: natDigits.induct)
  case (1 n)
  show ?case
  proof (cases "n < 10")
    case True
    with "1.prems" have "c = digitChar n" by (subst (asm) natDigits.simps) simp
    with True show ?thesis by (simp add: of_char_digitChar)
  next
    case False
    with "1.prems" have "c \<in> set (natDigits (n div 10)) \<or> c = digitChar (n mod 10)"
      by (subst (asm) natDigits.simps) auto
    with False 1 show ?thesis by (auto simp: of_char_digitChar)
  qed
qed

lemma natDigits_no_sign:
  assumes "natDigits n = c # r"
  shows "c \<noteq> CHR ''-''" and "c \<noteq> CHR ''+''"
proof -
  have "48 \<le> (of_char c :: nat)" using natDigits_digit [of c n] assms by simp
  then show "c \<noteq> CHR ''-''" and "c \<noteq> CHR ''+''" by auto
qed

text \<open>Every replica count the scheduler prints is read back unchanged.\<close>

lemma strconvAtoi_Itoa [simp]: "in_int64 i \<Longrightarrow> strconvAtoi (strconvItoa i) = Some i"
proof (cases "i < 0")
  case True
  moreover assume "in_int64 i"
  ultimately show ?thesis
    by (simp add: strconvAtoi_def strconvItoa_def parseDigits_natDigits)
next
  case False
  assume "in_int64 i"
  obtain c r where cr: "natDigits (nat i) = c # r"
    by (cases "natDigits (nat i)") auto
  then have "parseDigits 0 (c # r) = Some (nat i)" using parseDigits_natDigits [of "nat i"] by simp
  with False \<open>in_int64 i\<close> cr natDigits_no_sign [OF cr] show ?thesis
    by (simp add: strconvAtoi_def strconvItoa_def)
qed

end
