(* ===== verification/KubeTypes.thy ===== *)
theory KubeTypes
  imports Prelude GoLib
begin

text \<open>
  The data of the system: the custom resources of \<open>pkg/apis/multicluster\<close>, field by field, with
  the part of \<open>metav1.ObjectMeta\<close> and of the core Kubernetes objects that the source reads or
  writes. Every field name carries a prefix for its struct, because Isabelle's record fields share
  one name space. A Go pointer is an \<open>option\<close>, a slice a list, a map a
  \<^typ>\<open>('k, 'v) gomap\<close> (an \<open>option\<close> of it where the source tests for a nil map), a
  timestamp a number of nanoseconds, and a \<open>runtime.RawExtension\<close> its raw bytes. String-based
  enumerations stay strings, since the API server admits any string, with one abbreviation per
  constant.
\<close>

section \<open>Kubernetes metadata\<close>

record OwnerReference =
  or_Kind :: string
  or_Name :: string

record ObjectMeta =
  om_Name :: string
  om_Namespace :: string
  om_Generation :: int
  om_Labels :: "(string, string) gomap option"
  om_Annotations :: "(string, string) gomap option"
  om_Finalizers :: "string list"
  om_DeletionTimestamp :: "int option"
  om_OwnerReferences :: "OwnerReference list"

definition zeroMeta :: ObjectMeta where
  "zeroMeta = \<lparr>om_Name = [], om_Namespace = [], om_Generation = 0, om_Labels = None,
     om_Annotations = None, om_Finalizers = [], om_DeletionTimestamp = None,
     om_OwnerReferences = []\<rparr>"

text \<open>The server counts the generation of an object itself: metadata are compared up to it.\<close>

definition sameMeta :: "ObjectMeta \<Rightarrow> ObjectMeta \<Rightarrow> bool" where
  "sameMeta m m' \<longleftrightarrow> m\<lparr>om_Generation := 0\<rparr> = m'\<lparr>om_Generation := 0\<rparr>"

lemma sameMeta_refl [simp, intro]: "sameMeta m m"
  by (simp add: sameMeta_def)

lemma sameMeta_trans [trans]: "sameMeta m m' \<Longrightarrow> sameMeta m' m'' \<Longrightarrow> sameMeta m m''"
  by (simp add: sameMeta_def)

lemma sameMeta_fields:
  assumes "sameMeta m m'"
  shows "om_Name m = om_Name m'" and "om_Namespace m = om_Namespace m'" and "om_Labels m = om_Labels m'"
    and "om_Annotations m = om_Annotations m'" and "om_Finalizers m = om_Finalizers m'"
    and "om_DeletionTimestamp m = om_DeletionTimestamp m'" and "om_OwnerReferences m = om_OwnerReferences m'"
  using assms by (cases m; cases m'; simp add: sameMeta_def)+

lemma sameMeta_labels: "sameMeta m m' \<Longrightarrow> sameMeta (m\<lparr>om_Labels := l\<rparr>) (m'\<lparr>om_Labels := l\<rparr>)"
  by (cases m; cases m'; simp add: sameMeta_def)

text \<open>Reading a nil map is like reading an empty one.\<close>

definition mapOr :: "('k, 'v) gomap option \<Rightarrow> ('k, 'v) gomap" where
  "mapOr m = (case m of None \<Rightarrow> [] | Some l \<Rightarrow> l)"

lemma mapOr_simps [simp]: "mapOr None = []" "mapOr (Some l) = l"
  by (simp_all add: mapOr_def)

record GroupVersionKind =
  gvk_Group :: string
  gvk_Version :: string
  gvk_Kind :: string

type_synonym raw = string

text \<open>The zero \<open>time.Time\<close> (January 1 of year 1), in nanoseconds from the Unix epoch.\<close>

definition zeroTime :: int where "zeroTime = - (62135596800 * 10 ^ 9)"

section \<open>pkg/apis/multicluster/common\<close>

text \<open>The value of a patch is an \<open>apiextensionsv1.JSON\<close> in the source, a struct around the raw JSON, which it is here.\<close>

record JSONPatch =
  jp_Op :: string
  jp_Value :: string
  jp_Path :: string

record Condition =
  cd_Timestamp :: int
  cd_Message :: string
  cd_Reason :: string
  cd_Type :: string

abbreviation phCreating :: string where "phCreating \<equiv> ''Creating''"
abbreviation phComplete :: string where "phComplete \<equiv> ''Complete''"
abbreviation phTerminating :: string where "phTerminating \<equiv> ''Terminating''"

record MultiClusterResourceClusterStatus =
  ms_Name :: string
  ms_Resource :: string
  ms_ObservedReceiveGeneration :: int
  ms_Phase :: string
  ms_Message :: string
  ms_Binding :: string

abbreviation ClusterTypeClusterSet :: string where "ClusterTypeClusterSet \<equiv> ''clusterset''"
abbreviation ClusterTypeClusters :: string where "ClusterTypeClusters \<equiv> ''clusters''"

section \<open>Cluster\<close>

record ClusterAddon =
  ad_Type :: string
  ad_Name :: string
  ad_Url :: string
  ad_Configuration :: "raw option"

abbreviation InTreeType :: string where "InTreeType \<equiv> ''in-tree''"
abbreviation OutTreeType :: string where "OutTreeType \<equiv> ''out-tree''"

record ClusterSecretRef =
  sr_Type :: string
  sr_Name :: string
  sr_Namespace :: string
  sr_Field :: string

abbreviation KubeConfigType :: string where "KubeConfigType \<equiv> ''kubeconfig''"
abbreviation TokenType :: string where "TokenType \<equiv> ''token''"

record ClusterSpec =
  cp_ApiServer :: string
  cp_SecretRef :: ClusterSecretRef
  cp_Addons :: "ClusterAddon list"
  cp_Configuration :: "raw option"

record ClusterAddonStatus =
  as_Name :: string
  as_Info :: "raw option"

abbreviation OnlineStatus :: string where "OnlineStatus \<equiv> ''online''"
abbreviation OfflineStatus :: string where "OfflineStatus \<equiv> ''offline''"
abbreviation InitializingStatus :: string where "InitializingStatus \<equiv> ''initializing''"

record ClusterStatus =
  ct_Addons :: "ClusterAddonStatus list"
  ct_Conditions :: "Condition list"
  ct_LastReceiveHeartBeatTimestamp :: int
  ct_LastUpdateTimestamp :: int
  ct_Healthy :: bool
  ct_Status :: string

record Cluster =
  cl_Meta :: ObjectMeta
  cl_Spec :: ClusterSpec
  cl_Status :: ClusterStatus

definition zeroClusterSpec :: ClusterSpec where
  "zeroClusterSpec = \<lparr>cp_ApiServer = [],
     cp_SecretRef = \<lparr>sr_Type = [], sr_Name = [], sr_Namespace = [], sr_Field = []\<rparr>,
     cp_Addons = [], cp_Configuration = None\<rparr>"

definition zeroClusterStatus :: ClusterStatus where
  "zeroClusterStatus = \<lparr>ct_Addons = [], ct_Conditions = [],
     ct_LastReceiveHeartBeatTimestamp = zeroTime, ct_LastUpdateTimestamp = zeroTime,
     ct_Healthy = False, ct_Status = []\<rparr>"

section \<open>ClusterSet\<close>

record ClusterSetTarget =
  tg_Name :: string
  tg_Role :: string

record ClusterSetSpec =
  se_Selector :: "(string, string) gomap"
  se_Clusters :: "ClusterSetTarget list"
  se_Policy :: string

record ClusterSet =
  cs_Meta :: ObjectMeta
  cs_Spec :: ClusterSetSpec

section \<open>MultiClusterResource, its binding and its override\<close>

record MultiClusterResourceSpec =
  rs_Resource :: "raw option"
  rs_ResourceRef :: "GroupVersionKind option"
  rs_ReplicasField :: string
  rs_Workload :: bool

record MultiClusterResource =
  mr_Meta :: ObjectMeta
  mr_Spec :: MultiClusterResourceSpec
  mr_Status :: "MultiClusterResourceClusterStatus list"

text \<open>
  The Go struct of a binding's cluster declares a name only, while the scheduler and the CRD also
  have a list of overrides (string values); the record has the fields the scheduler uses.
\<close>

record MultiClusterResourceBindingCluster =
  bc_Name :: string
  bc_Override :: "JSONPatch list"

record MultiClusterResourceBindingResource =
  br_Name :: string
  br_Namespace :: string
  br_Clusters :: "MultiClusterResourceBindingCluster list"

record MultiClusterResourceBinding =
  bd_Meta :: ObjectMeta
  bd_Resources :: "MultiClusterResourceBindingResource list"
  bd_Status :: "MultiClusterResourceClusterStatus list"

record MultiClusterResourceOverrideClusters =
  oc_Names :: "string list"
  oc_Overrides :: "JSONPatch list option"

record MultiClusterResourceOverrideSpec =
  ov_Resources :: "string list option"
  ov_Clusters :: "MultiClusterResourceOverrideClusters list"

record MultiClusterResourceOverride =
  ro_Meta :: ObjectMeta
  ro_Spec :: "MultiClusterResourceOverrideSpec option"

section \<open>MultiClusterResourceSchedulePolicy\<close>

record SchedulePolicyResource =
  pr_Name :: string

record SchedulePolicy =
  sp_Name :: string
  sp_Role :: string
  sp_Weight :: int
  sp_Min :: int
  sp_Max :: int

definition zeroSchedulePolicy :: SchedulePolicy where
  "zeroSchedulePolicy = \<lparr>sp_Name = [], sp_Role = [], sp_Weight = 0, sp_Min = 0, sp_Max = 0\<rparr>"

record ScheduleFailoverPolicy =
  fo_Name :: string
  fo_Type :: string

abbreviation ClusterSourceTypeAssign :: string where "ClusterSourceTypeAssign \<equiv> ''assign''"
abbreviation ClusterSourceTypeClusterset :: string where
  "ClusterSourceTypeClusterset \<equiv> ''clusterset''"
abbreviation ScheduleModeTypeWeighted :: string where "ScheduleModeTypeWeighted \<equiv> ''Weighted''"
abbreviation ScheduleModeTypeDuplicated :: string where
  "ScheduleModeTypeDuplicated \<equiv> ''Duplicated''"

record ScheduleOutTreePolicy =
  op_Url :: string
  op_Properties :: "raw option"

record MultiClusterResourceSchedulePolicySpec =
  ps_Resources :: "SchedulePolicyResource list"
  ps_ClusterSource :: string
  ps_Clusterset :: string
  ps_Replicas :: int
  ps_ScheduleMode :: string
  ps_Reschedule :: bool
  ps_Policy :: "SchedulePolicy list"
  ps_FailoverPolicy :: "ScheduleFailoverPolicy list"
  ps_OutTreePolicy :: ScheduleOutTreePolicy

record ScheduleStatus =
  ss_Status :: bool
  ss_Message :: string
  ss_LastScheduleTime :: "int option"
  ss_LastModifyTime :: "int option"

record MultiClusterResourceSchedulePolicy =
  po_Meta :: ObjectMeta
  po_Spec :: MultiClusterResourceSchedulePolicySpec
  po_Status :: ScheduleStatus

section \<open>ClusterResource\<close>

record ClusterResourceStatus =
  rt_ObservedReceiveGeneration :: int
  rt_Phase :: string
  rt_Message :: string

record ClusterResource =
  cr_Meta :: ObjectMeta
  cr_Resource :: "raw option"
  cr_Status :: ClusterResourceStatus

definition zeroClusterResourceStatus :: ClusterResourceStatus where
  "zeroClusterResourceStatus =
     \<lparr>rt_ObservedReceiveGeneration = 0, rt_Phase = [], rt_Message = []\<rparr>"

section \<open>NamespaceMapping and the aggregation resources\<close>

record NamespaceMapping =
  nm_Meta :: ObjectMeta
  nm_Mapping :: "(string, string) gomap"

record MultiClusterResourceAggregateRule =
  ar_Meta :: ObjectMeta
  ar_ResourceRef :: "GroupVersionKind option"
  ar_Cue :: string

record LimitRule =
  lr_Namespaces :: string
  lr_Regexp :: string
  lr_List :: "string list"

record PolicyLimit =
  pl_Requests :: "LimitRule list"
  pl_Ignores :: "LimitRule list"

record PolicyClusters =
  pc_Type :: string
  pc_Clusters :: "string list"
  pc_Clusterset :: string

record MultiClusterResourceAggregatePolicy =
  ap_Meta :: ObjectMeta
  ap_AggregateRules :: "string list"
  ap_Clusters :: "PolicyClusters option"
  ap_Policy :: string
  ap_Limit :: "PolicyLimit option"
  ap_Status :: string
  ap_Message :: string

text \<open>
  The results of an aggregation and a policy of one cluster. No operation of the repository uses them yet: the
  handler of the core for aggregations only logs its request.
\<close>

abbreviation ClusterStatusNormal :: string where "ClusterStatusNormal \<equiv> ''normal''"
abbreviation ClusterStatusError :: string where "ClusterStatusError \<equiv> ''error''"

record AggregatedResourceClusters =
  gc_Name :: string
  gc_ResourceName :: string
  gc_Result :: raw

record AggregatedResourceStatusClusters =
  gs_Name :: string
  gs_ResourceName :: string
  gs_UpdateTime :: "int option"
  gs_Status :: string

record AggregatedResource =
  ga_Meta :: ObjectMeta
  ga_Clusters :: "AggregatedResourceClusters option"
  ga_Aggregation :: raw
  ga_Status :: "AggregatedResourceStatusClusters list"

record ResourceAggregatePolicy =
  rg_Meta :: ObjectMeta
  rg_ResourceRef :: "GroupVersionKind option"
  rg_Limit :: "PolicyLimit option"

section \<open>Core objects\<close>

record Namespace =
  ns_Meta :: ObjectMeta

record ConfigMap =
  cm_Meta :: ObjectMeta
  cm_Data :: "(string, string) gomap"

record Secret =
  sc_Meta :: ObjectMeta
  sc_Data :: "(string, string) gomap"

section \<open>JSON values and unstructured objects\<close>

text \<open>
  A decoded JSON value. Objects list their members in key order, so that \<open>reflect.DeepEqual\<close> of
  two decoded values is equality.
\<close>

datatype json =
    JNull
  | JBool bool
  | JNumber string
  | JString string
  | JArray "json list"
  | JObject "(string \<times> json) list"

text \<open>
  An \<open>unstructured.Unstructured\<close>: its metadata as the accessors give it, and the other members
  of the object by name.
\<close>

record Unstructured =
  un_GVK :: GroupVersionKind
  un_Meta :: ObjectMeta
  un_Object :: "(string, json) gomap"

end
