(* ===== verification/KubeClient.thy ===== *)
theory KubeClient
  imports KubeTypes
begin

text \<open>
  What the source calls outside itself: the API server, through controller-runtime's
  \<open>client.Client\<close> or through the generated clientset. None of that code is in the repository, so
  it is a parameter. A record \<open>kube\<close> holds one \<open>api\<close> per kind of object, over an
  unspecified type of server states. A read is a function of the server's state; a
  write returns the answer and the next state. Between two requests of one reconcile the state
  does not move by itself. The definitions use nothing else of the server; where a property needs
  documented laws of it, they are a named hypothesis (\<open>api_kind\<close> and the like).
\<close>

section \<open>Requests\<close>

type_synonym selector = "(string \<times> string) list"

record list_opts =
  lo_Namespace :: string
  lo_Selector :: "selector option"

definition listAll :: list_opts where
  "listAll = \<lparr>lo_Namespace = [], lo_Selector = None\<rparr>"

text \<open>
  The requests on one kind of object. \<open>api_Get s ns name\<close>; \<open>api_Update\<close> is the write of the main
  resource and \<open>api_UpdateStatus\<close> the write of its status subresource; both answer with the
  stored object.
\<close>

record ('s, 'o) api =
  api_Get :: "'s \<Rightarrow> string \<Rightarrow> string \<Rightarrow> api_error + 'o"
  api_List :: "'s \<Rightarrow> list_opts \<Rightarrow> api_error + 'o list"
  api_Create :: "'o \<Rightarrow> 's \<Rightarrow> (api_error + 'o) \<times> 's"
  api_Update :: "'o \<Rightarrow> 's \<Rightarrow> (api_error + 'o) \<times> 's"
  api_UpdateStatus :: "'o \<Rightarrow> 's \<Rightarrow> (api_error + 'o) \<times> 's"
  api_Delete :: "'o \<Rightarrow> 's \<Rightarrow> api_error option \<times> 's"

record 's kube =
  kCluster :: "('s, Cluster) api"
  kClusterSet :: "('s, ClusterSet) api"
  kMultiClusterResource :: "('s, MultiClusterResource) api"
  kBinding :: "('s, MultiClusterResourceBinding) api"
  kOverride :: "('s, MultiClusterResourceOverride) api"
  kSchedulePolicy :: "('s, MultiClusterResourceSchedulePolicy) api"
  kClusterResource :: "('s, ClusterResource) api"
  kNamespaceMapping :: "('s, NamespaceMapping) api"
  kNamespace :: "('s, Namespace) api"
  kAggregatePolicy :: "('s, MultiClusterResourceAggregatePolicy) api"
  kAggregateRule :: "('s, MultiClusterResourceAggregateRule) api"
  kConfigMap :: "('s, ConfigMap) api"
  kSecret :: "('s, Secret) api"
  kObject :: "GroupVersionKind \<Rightarrow> ('s, Unstructured) api"
  kParseSelector :: "string \<Rightarrow> go_error + selector"
  kSelectorFromSet :: "(string, string) gomap \<Rightarrow> selector"
  kControllerRef :: "ObjectMeta \<Rightarrow> string \<Rightarrow> OwnerReference"
  kJsonPatch :: "JSONPatch list \<Rightarrow> raw \<Rightarrow> go_error + raw"

text \<open>
  The last four are libraries: the selector parser and \<open>labels.SelectorFromSet\<close>,
  \<open>metav1.NewControllerRef\<close> (of an object and a kind), and the application of a marshalled list of
  JSON patches to raw bytes.
\<close>

section \<open>Documented laws of the server\<close>

text \<open>
  What one kind of objects on the server promises: a read answers with an object of the name asked
  for; a create or the update of a live object that succeeded is seen by the next read of that name,
  with the spec and the metadata that were written (but for the generation, which the server counts),
  and leaves other names alone; a write that failed changes nothing. An update may still fail at any time (a conflict, a lost connection).
\<close>

locale api_kind =
  fixes a :: "('s, 'o) api" and meta :: "'o \<Rightarrow> ObjectMeta" and spec :: "'o \<Rightarrow> 'c"
  assumes get_key: "api_Get a s ns n = Inr x \<Longrightarrow> om_Namespace (meta x) = ns \<and> om_Name (meta x) = n"
    and get_create: "api_Create a obj s = (Inr o2, s') \<Longrightarrow>
          sameMeta (meta o2) (meta obj) \<and> spec o2 = spec obj \<and>
          api_Get a s' ns n = (if ns = om_Namespace (meta obj) \<and> n = om_Name (meta obj) then Inr o2
                               else api_Get a s ns n)"
    and get_update: "api_Get a s (om_Namespace (meta obj)) (om_Name (meta obj)) = Inr x \<Longrightarrow>
          om_DeletionTimestamp (meta x) = None \<Longrightarrow> om_DeletionTimestamp (meta obj) = None \<Longrightarrow>
          api_Update a obj s = (Inr o2, s') \<Longrightarrow>
          sameMeta (meta o2) (meta obj) \<and> spec o2 = spec obj \<and>
          api_Get a s' (om_Namespace (meta obj)) (om_Name (meta obj)) = Inr o2"
    and update_other: "api_Update a obj s = (Inr o2, s') \<Longrightarrow>
          (ns, n) \<noteq> (om_Namespace (meta obj), om_Name (meta obj)) \<Longrightarrow> api_Get a s' ns n = api_Get a s ns n"
    and create_failed: "api_Create a obj s = (Inl e, s') \<Longrightarrow> s' = s"
    and update_failed: "api_Update a obj s = (Inl e, s') \<Longrightarrow> s' = s"
begin

lemma update_reads_back:
  assumes "api_Get a s ns n = Inr x" and "meta obj = (meta x)\<lparr>om_Labels := l\<rparr>"
    and "om_DeletionTimestamp (meta x) = None" and "api_Update a obj s = (Inr o2, s')"
  shows "api_Get a s' ns n = Inr o2" and "sameMeta (meta o2) (meta obj)" and "spec o2 = spec obj"
  using get_update [OF _ _ _ assms(4)] get_key [OF assms(1)] assms(1-3) by simp_all

text \<open>A create over an existing name is refused or replaces nothing that was read before.\<close>

lemma create_other:
  assumes "api_Create a obj s = (r, s')" and "(ns, n) \<noteq> (om_Namespace (meta obj), om_Name (meta obj))"
  shows "api_Get a s' ns n = api_Get a s ns n"
proof (cases r)
  case (Inl e)
  with assms(1) have "s' = s" by (simp add: create_failed)
  then show ?thesis by simp
next
  case (Inr o2)
  with assms(1) have "api_Create a obj s = (Inr o2, s')" by simp
  from get_create [OF this] assms(2) show ?thesis by auto
qed

end

text \<open>
  A kind with a status subresource promises more: an update of the main resource keeps the stored
  status, an update of the status keeps everything else.
\<close>

locale api_status_kind = api_kind a meta spec
  for a :: "('s, 'o) api" and meta :: "'o \<Rightarrow> ObjectMeta" and spec :: "'o \<Rightarrow> 'c" +
  fixes status :: "'o \<Rightarrow> 'd"
  assumes update_keeps_status: "api_Update a obj s = (Inr o2, s') \<Longrightarrow>
          api_Get a s (om_Namespace (meta obj)) (om_Name (meta obj)) = Inr x \<Longrightarrow> status o2 = status x"
    and get_update_status: "api_UpdateStatus a obj s = (Inr o2, s') \<Longrightarrow>
          \<exists>x. api_Get a s (om_Namespace (meta obj)) (om_Name (meta obj)) = Inr x \<and>
            sameMeta (meta o2) (meta x) \<and> spec o2 = spec x \<and> status o2 = status obj \<and>
            api_Get a s' ns n = (if ns = om_Namespace (meta obj) \<and> n = om_Name (meta obj) then Inr o2
                                 else api_Get a s ns n)"
begin

lemma status_reads_back:
  assumes "api_Get a s ns n = Inr x" and "sameMeta (meta obj) (meta x)" and "api_UpdateStatus a obj s = (Inr o2, s')"
  shows "api_Get a s' ns n = Inr o2" and "sameMeta (meta o2) (meta x)" and "spec o2 = spec x" and "status o2 = status obj"
  using get_update_status [OF assms(3), of ns n] get_key [OF assms(1)] assms(1) sameMeta_fields [OF assms(2)] by auto

lemma update_then_status:
  assumes g: "api_Get a s ns n = Inr x" and o: "sameMeta (meta obj) (meta x)" "om_DeletionTimestamp (meta x) = None"
    and u: "api_Update a obj s = (Inr o2, s')" and t: "sameMeta (meta obj2) (meta o2)" "api_UpdateStatus a obj2 s' = (Inr o3, s2)"
  shows "api_Get a s2 ns n = Inr o3 \<and> sameMeta (meta o3) (meta x) \<and> spec o3 = spec obj \<and> status o3 = status obj2 \<and>
         status o2 = status x"
proof -
  note k = get_key [OF g] sameMeta_fields [OF o(1)]
  then have g2: "api_Get a s (om_Namespace (meta obj)) (om_Name (meta obj)) = Inr x" using g by simp
  have u2: "sameMeta (meta o2) (meta obj)" "spec o2 = spec obj" "api_Get a s' ns n = Inr o2"
    using get_update [OF g2 o(2) _ u] k o(2) by simp_all
  have "status o2 = status x" by (rule update_keeps_status [OF u g2])
  with status_reads_back [OF u2(3) t] u2(2) sameMeta_trans [OF sameMeta_trans [OF _ u2(1)] o(1)]
  show ?thesis by simp
qed

end

text \<open>
  And it promises how an object goes: a delete marks one that has finalizers, and keeps the rest of it, and
  removes one that has none; the update that takes the last finalizer from a marked one removes it.
\<close>

locale api_delete_kind = api_status_kind a meta spec status
  for a :: "('s, 'o) api" and meta :: "'o \<Rightarrow> ObjectMeta" and spec :: "'o \<Rightarrow> 'c" and status :: "'o \<Rightarrow> 'd" +
  assumes delete_marks: "api_Delete a obj s = (None, s') \<Longrightarrow>
          api_Get a s (om_Namespace (meta obj)) (om_Name (meta obj)) = Inr x \<Longrightarrow> om_Finalizers (meta x) \<noteq> [] \<Longrightarrow>
          \<exists>y. api_Get a s' (om_Namespace (meta obj)) (om_Name (meta obj)) = Inr y \<and>
            om_DeletionTimestamp (meta y) \<noteq> None \<and> om_Finalizers (meta y) = om_Finalizers (meta x) \<and>
            spec y = spec x \<and> status y = status x"
    and delete_removes: "api_Delete a obj s = (None, s') \<Longrightarrow>
          api_Get a s (om_Namespace (meta obj)) (om_Name (meta obj)) = Inr x \<Longrightarrow> om_Finalizers (meta x) = [] \<Longrightarrow>
          api_Get a s' (om_Namespace (meta obj)) (om_Name (meta obj)) = Inl NotFound"
    and release: "api_Update a obj s = (Inr o2, s') \<Longrightarrow> om_DeletionTimestamp (meta obj) \<noteq> None \<Longrightarrow>
          om_Finalizers (meta obj) = [] \<Longrightarrow>
          api_Get a s' (om_Namespace (meta obj)) (om_Name (meta obj)) = Inl NotFound"

text \<open>
  Objects of any kind, of which a client knows less. The server defaults, prunes and admits what is written, so
  that the object it stores, and answers with, need not be the one that was sent. What is documented for every kind:
  the answer to a successful write is what the next read gives; the annotations that a client sends are kept
  (they are there for external tools, and others may be added); a write that fails changes
  nothing; and a delete that is accepted removes the object, or marks it and leaves its removal to finalizers
  and to graceful or cascading deletion.
\<close>

definition going :: "api_error + Unstructured \<Rightarrow> bool" where
  "going r \<longleftrightarrow> (case r of Inl e \<Rightarrow> e = NotFound | Inr y \<Rightarrow> om_DeletionTimestamp (un_Meta y) \<noteq> None)"

definition keeps_annotations :: "Unstructured \<Rightarrow> Unstructured \<Rightarrow> bool" where
  "keeps_annotations obj o2 \<longleftrightarrow>
     (\<forall>key v. gomap_get (mapOr (om_Annotations (un_Meta obj))) key = Some v \<longrightarrow>
        gomap_get (mapOr (om_Annotations (un_Meta o2))) key = Some v)"

locale object_kind =
  fixes a :: "('s, Unstructured) api"
  assumes get_key: "api_Get a s ns n = Inr x \<Longrightarrow> om_Namespace (un_Meta x) = ns \<and> om_Name (un_Meta x) = n"
    and created: "api_Create a obj s = (Inr o2, s') \<Longrightarrow>
          api_Get a s' (om_Namespace (un_Meta obj)) (om_Name (un_Meta obj)) = Inr o2 \<and> keeps_annotations obj o2"
    and updated: "api_Get a s (om_Namespace (un_Meta obj)) (om_Name (un_Meta obj)) = Inr x \<Longrightarrow>
          om_DeletionTimestamp (un_Meta x) = None \<Longrightarrow> om_DeletionTimestamp (un_Meta obj) = None \<Longrightarrow>
          api_Update a obj s = (Inr o2, s') \<Longrightarrow>
          api_Get a s' (om_Namespace (un_Meta obj)) (om_Name (un_Meta obj)) = Inr o2 \<and> keeps_annotations obj o2"
    and create_failed: "api_Create a obj s = (Inl e, s') \<Longrightarrow> s' = s"
    and deleted: "api_Delete a obj s = (None, s') \<Longrightarrow>
          api_Get a s (om_Namespace (un_Meta obj)) (om_Name (un_Meta obj)) = Inr x \<Longrightarrow>
          going (api_Get a s' (om_Namespace (un_Meta obj)) (om_Name (un_Meta obj)))"

text \<open>Writes of one kind that the reads of another do not see.\<close>

definition apart :: "('s, 'o) api \<Rightarrow> ('s, 'p) api \<Rightarrow> bool" where
  "apart a b \<longleftrightarrow>
     (\<forall>obj s. api_Get b (snd (api_Create a obj s)) = api_Get b s \<and> api_Get b (snd (api_Update a obj s)) = api_Get b s \<and>
        api_Get b (snd (api_UpdateStatus a obj s)) = api_Get b s \<and> api_Get b (snd (api_Delete a obj s)) = api_Get b s)"

text \<open>What a delete does to the other names: nothing.\<close>

definition delete_local :: "('s, 'o) api \<Rightarrow> ('o \<Rightarrow> ObjectMeta) \<Rightarrow> bool" where
  "delete_local a meta \<longleftrightarrow>
     (\<forall>obj s r s' ns n. api_Delete a obj s = (r, s') \<longrightarrow>
        (ns, n) \<noteq> (om_Namespace (meta obj), om_Name (meta obj)) \<longrightarrow>
        api_Get a s' ns n = api_Get a s ns n)"

text \<open>A server that lets the writes through: no conflict, no lost connection, no refusal.\<close>

definition writable :: "('s, 'o) api \<Rightarrow> ('o \<Rightarrow> ObjectMeta) \<Rightarrow> bool" where
  "writable a meta \<longleftrightarrow>
     (\<forall>s obj x. api_Get a s (om_Namespace (meta obj)) (om_Name (meta obj)) = Inr x \<longrightarrow>
        (\<exists>o2 s'. api_Update a obj s = (Inr o2, s')))"

definition creatable :: "('s, 'o) api \<Rightarrow> ('o \<Rightarrow> ObjectMeta) \<Rightarrow> bool" where
  "creatable a meta \<longleftrightarrow>
     (\<forall>s obj. api_Get a s (om_Namespace (meta obj)) (om_Name (meta obj)) = Inl NotFound \<longrightarrow>
        (\<exists>o2 s'. api_Create a obj s = (Inr o2, s')))"

definition status_writable :: "('s, 'o) api \<Rightarrow> ('o \<Rightarrow> ObjectMeta) \<Rightarrow> bool" where
  "status_writable a meta \<longleftrightarrow>
     (\<forall>s obj x. api_Get a s (om_Namespace (meta obj)) (om_Name (meta obj)) = Inr x \<longrightarrow>
        (\<exists>o2 s'. api_UpdateStatus a obj s = (Inr o2, s')))"

definition deletable :: "('s, 'o) api \<Rightarrow> ('o \<Rightarrow> ObjectMeta) \<Rightarrow> bool" where
  "deletable a meta \<longleftrightarrow>
     (\<forall>s obj x. api_Get a s (om_Namespace (meta obj)) (om_Name (meta obj)) = Inr x \<longrightarrow>
        (\<exists>s'. api_Delete a obj s = (None, s')))"

section \<open>The result of a reconcile\<close>

text \<open>
  \<open>ctrl.Result\<close>: whether to queue the request again, and after how many seconds. A reconcile
  answers with a result and an error (\<open>None\<close> for nil).
\<close>

record ctrl_result =
  cr_Requeue :: bool
  cr_RequeueAfter :: int

definition doneResult :: ctrl_result where
  "doneResult = \<lparr>cr_Requeue = False, cr_RequeueAfter = 0\<rparr>"

definition requeueAfter :: "int \<Rightarrow> ctrl_result" where
  "requeueAfter t = \<lparr>cr_Requeue = True, cr_RequeueAfter = t\<rparr>"

type_synonym reconciled = "ctrl_result \<times> go_error option"

definition reQueueResult :: "go_error \<Rightarrow> reconciled" where
  "reQueueResult e = (requeueAfter 30, Some e)"

text \<open>\<open>client.IgnoreNotFound\<close>\<close>

definition ignoreNotFound :: "api_error \<Rightarrow> go_error option" where
  "ignoreNotFound e = (if e = NotFound then None else Some (ErrApi e))"

text \<open>
  How a reconcile ends when a fallible call was its last word: an error is answered with
  \<open>ReQueueResult\<close>, a panic or an endless loop is not answered at all.
\<close>

definition requeueOnErr :: "'a res \<Rightarrow> ('a \<Rightarrow> reconciled res) \<Rightarrow> reconciled res" where
  "requeueOnErr r k =
     (case r of
        Inl (Err e) \<Rightarrow> Inr (reQueueResult e)
      | Inl f \<Rightarrow> Inl f
      | Inr x \<Rightarrow> k x)"

lemma requeueOnErr_simps [simp]:
  "requeueOnErr (Inl (Err e)) k = Inr (reQueueResult e)"
  "requeueOnErr (Inl (Panic p)) k = Inl (Panic p)"
  "requeueOnErr (Inl Diverge) k = Inl Diverge"
  "requeueOnErr (Inr x) k = k x"
  by (simp_all add: requeueOnErr_def)

text \<open>The same for a step that writes, and the end of a reconcile that has nothing more to do.\<close>

definition requeueS :: "('s, 'a) step \<Rightarrow> ('a \<Rightarrow> ('s, reconciled) step) \<Rightarrow> ('s, reconciled) step" where
  "requeueS m f s =
     (case m s of
        (Inl (Err e), s') \<Rightarrow> (Inr (reQueueResult e), s')
      | (Inl x, s') \<Rightarrow> (Inl x, s')
      | (Inr x, s') \<Rightarrow> f x s')"

definition doneS :: "('s, reconciled) step" where "doneS = retS (doneResult, None)"

lemma requeueS_simps [simp]:
  "m s = (Inr x, s') \<Longrightarrow> requeueS m f s = f x s'"
  "m s = (Inl (Err e), s') \<Longrightarrow> requeueS m f s = (Inr (reQueueResult e), s')"
  "m s = (Inl (Panic p), s') \<Longrightarrow> requeueS m f s = (Inl (Panic p), s')"
  "doneS s = (Inr (doneResult, None), s)"
  by (simp_all add: requeueS_def doneS_def)

end
