(* ===== verification/Failover.thy ===== *)
theory Failover
  imports KubeClient
begin

text \<open>
  The part of \<open>resource_schedule_policy_controller.go\<close> that decides which clusters are usable and
  which failover clusters stand in for the others: \<open>checkCluster\<close>, \<open>checkClusters\<close>,
  \<open>failoverPolicyCheck\<close>, \<open>getClusterListByClusterSet\<close> and \<open>doFailoverPolicy\<close>. The last one is an
  endless \<open>for\<close>: it is a partial function whose value \<open>None\<close> means that it does not return.
\<close>

section \<open>Clusters and cluster sets\<close>

definition checkCluster :: "'s kube \<Rightarrow> 's \<Rightarrow> string \<Rightarrow> go_error option" where
  "checkCluster k s clusterName =
     (case api_Get (kCluster k) s [] clusterName of
        Inl e \<Rightarrow> Some (ErrApi e)
      | Inr cluster \<Rightarrow>
          if ct_Status (cl_Status cluster) \<noteq> OnlineStatus
          then Some (ErrFmt ''cluster %v offline'' [clusterName])
          else None)"

definition getClusterListByClusterSet :: "'s kube \<Rightarrow> 's \<Rightarrow> ClusterSet \<Rightarrow> string list" where
  "getClusterListByClusterSet k s clusterSet =
     (if 0 < length (se_Clusters (cs_Spec clusterSet))
      then map tg_Name (se_Clusters (cs_Spec clusterSet))
      else if 0 < length (se_Selector (cs_Spec clusterSet))
      then (case api_List (kCluster k) s
                   \<lparr>lo_Namespace = [],
                    lo_Selector = Some (kSelectorFromSet k (se_Selector (cs_Spec clusterSet)))\<rparr> of
              Inl e \<Rightarrow> []
            | Inr items \<Rightarrow> map (\<lambda>c. om_Name (cl_Meta c)) items)
      else [])"

section \<open>Availability\<close>

text \<open>The loop over the members of one failover cluster set, and over the failover policy.\<close>

fun checkMembers :: "'s kube \<Rightarrow> 's \<Rightarrow> string list \<Rightarrow> nat \<times> string list \<Rightarrow> nat \<times> string list" where
  "checkMembers k s [] acc = acc"
| "checkMembers k s (cluster # cs) (n, unavail) =
     (case checkCluster k s cluster of
        Some e \<Rightarrow> checkMembers k s cs (n, unavail @ [cluster])
      | None \<Rightarrow> checkMembers k s cs (n + 1, unavail))"

fun failoverPolicyLoop ::
  "'s kube \<Rightarrow> 's \<Rightarrow> ScheduleFailoverPolicy list \<Rightarrow> nat \<times> string list \<Rightarrow> nat \<times> string list" where
  "failoverPolicyLoop k s [] acc = acc"
| "failoverPolicyLoop k s (i # is) (n, unavail) =
     (if fo_Type i = ClusterTypeClusters then
        (case checkCluster k s (fo_Name i) of
           Some e \<Rightarrow> failoverPolicyLoop k s is (n, unavail @ [fo_Name i])
         | None \<Rightarrow> failoverPolicyLoop k s is (n + 1, unavail))
      else if fo_Type i = ClusterTypeClusterSet then
        (case api_Get (kClusterSet k) s [] (fo_Name i) of
           Inl e \<Rightarrow> failoverPolicyLoop k s is (n, unavail @ [fo_Name i])
         | Inr clusterSet \<Rightarrow>
             failoverPolicyLoop k s is
               (checkMembers k s (getClusterListByClusterSet k s clusterSet) (n, unavail)))
      else failoverPolicyLoop k s is (n, unavail))"

definition failoverPolicyCheck ::
  "'s kube \<Rightarrow> 's \<Rightarrow> MultiClusterResourceSchedulePolicy \<Rightarrow> nat \<times> string list" where
  "failoverPolicyCheck k s policy =
     failoverPolicyLoop k s (ps_FailoverPolicy (po_Spec policy)) (0, [])"

text \<open>The clusters of a list that fail \<open>checkCluster\<close>, and their positions.\<close>

fun unavailableFrom :: "'s kube \<Rightarrow> 's \<Rightarrow> nat \<Rightarrow> string list \<Rightarrow> string list \<times> nat list" where
  "unavailableFrom k s i [] = ([], [])"
| "unavailableFrom k s i (c # cs) =
     (case unavailableFrom k s (Suc i) cs of (names, indexes) \<Rightarrow>
        if checkCluster k s c \<noteq> None then (c # names, i # indexes) else (names, indexes))"

definition checkClusters ::
  "'s kube \<Rightarrow> 's \<Rightarrow> MultiClusterResourceSchedulePolicy \<Rightarrow> (nat list \<times> string list) res" where
  "checkClusters k s policy =
     bindR
       (if ps_ClusterSource (po_Spec policy) = ClusterSourceTypeClusterset
        then bindR (liftApi (api_Get (kClusterSet k) s [] (ps_Clusterset (po_Spec policy))))
               (\<lambda>clusterSet. Inr (getClusterListByClusterSet k s clusterSet))
        else Inr (map sp_Name (ps_Policy (po_Spec policy))))
       (\<lambda>names. case unavailableFrom k s 0 names of (unavailableClusters, unavailableIndex) \<Rightarrow>
          if 0 < length (ps_FailoverPolicy (po_Spec policy)) \<and> 0 < length unavailableClusters then
            (case failoverPolicyCheck k s policy of (failoverCount, unavailableFailoverClusters) \<Rightarrow>
               if failoverCount < length unavailableClusters
               then Raise (ErrFmt ''clusters unavailable: %s,but %d failover clusters available''
                             unavailableClusters)
               else Inr (unavailableIndex, unavailableFailoverClusters))
          else if 0 < length unavailableClusters
          then Raise (ErrFmt ''clusters unavailable: %s'' unavailableClusters)
          else Inr (unavailableIndex, []))"

section \<open>Choosing a failover cluster\<close>

record FailoverPolicyIndex =
  fi_DoneIndex :: nat
  fi_ClusterSetIndex :: nat
  fi_UnavailableFailoverClusterIndex :: nat
  fi_FailoverIndex :: nat

definition zeroIndex :: FailoverPolicyIndex where
  "zeroIndex = \<lparr>fi_DoneIndex = 0, fi_ClusterSetIndex = 0,
     fi_UnavailableFailoverClusterIndex = 0, fi_FailoverIndex = 0\<rparr>"

definition bindingCluster :: "string \<Rightarrow> MultiClusterResourceBindingCluster" where
  "bindingCluster name = \<lparr>bc_Name = name, bc_Override = []\<rparr>"

text \<open>\<open>if index.U < len(unavailable)-1 { index.U++ }\<close>\<close>

definition nextUnavailable :: "string list \<Rightarrow> FailoverPolicyIndex \<Rightarrow> FailoverPolicyIndex" where
  "nextUnavailable unavail ix =
     (if Suc (fi_UnavailableFailoverClusterIndex ix) < length unavail
      then ix\<lparr>fi_UnavailableFailoverClusterIndex := fi_UnavailableFailoverClusterIndex ix + 1\<rparr>
      else ix)"

text \<open>The condition that the current candidate may be used, with the slice accesses it makes.\<close>

definition candidateFree :: "string list \<Rightarrow> FailoverPolicyIndex \<Rightarrow> string res \<Rightarrow> bool res" where
  "candidateFree unavail ix candidate =
     (if length unavail = 0 then Inr True
      else bindR candidate (\<lambda>c.
             bindR (idx unavail (fi_UnavailableFailoverClusterIndex ix)) (\<lambda>u. Inr (c \<noteq> u))))"

text \<open>
  One iteration of the endless loop: \<open>Inl r\<close> leaves it with \<open>r\<close> (the \<open>break\<close>s and the
  \<open>return err\<close>), \<open>Inr ix\<close> goes round again with the indices \<open>ix\<close>.
\<close>

definition failoverStep ::
  "'s kube \<Rightarrow> 's \<Rightarrow> ScheduleFailoverPolicy list \<Rightarrow> string list \<Rightarrow>
   MultiClusterResourceBindingCluster list \<Rightarrow> FailoverPolicyIndex \<Rightarrow>
   (FailoverPolicyIndex \<times> MultiClusterResourceBindingCluster list) res + FailoverPolicyIndex" where
  "failoverStep k s policy unavail clusters ix =
     (case idx policy (fi_FailoverIndex ix) of
        Inl e \<Rightarrow> Inl (Inl e)
      | Inr p \<Rightarrow>
          if fo_Type p = ClusterTypeClusters then
            (case candidateFree unavail ix (Inr (fo_Name p)) of
               Inl e \<Rightarrow> Inl (Inl e)
             | Inr free \<Rightarrow>
                 if free then
                   Inl (Inr (ix\<lparr>fi_DoneIndex := fi_DoneIndex ix + 1,
                                fi_FailoverIndex := fi_FailoverIndex ix + 1\<rparr>,
                             clusters @ [bindingCluster (fo_Name p)]))
                 else
                   Inr (nextUnavailable unavail
                          (ix\<lparr>fi_FailoverIndex := fi_FailoverIndex ix + 1\<rparr>)))
          else if fo_Type p = ClusterTypeClusterSet then
            (case api_Get (kClusterSet k) s [] (fo_Name p) of
               Inl e \<Rightarrow> Inl (Raise (ErrApi e))
             | Inr clusterSet \<Rightarrow>
                 let clusterList = getClusterListByClusterSet k s clusterSet in
                 (case candidateFree unavail ix (idx clusterList (fi_ClusterSetIndex ix)) of
                    Inl e \<Rightarrow> Inl (Inl e)
                  | Inr free \<Rightarrow>
                      if free then
                        Inl (bindR (idx clusterList (fi_ClusterSetIndex ix)) (\<lambda>c.
                               Inr (let ix' = ix\<lparr>fi_DoneIndex := fi_DoneIndex ix + 1\<rparr> in
                                    if Suc (fi_ClusterSetIndex ix) < length clusterList
                                    then ix'\<lparr>fi_ClusterSetIndex := fi_ClusterSetIndex ix + 1\<rparr>
                                    else ix'\<lparr>fi_ClusterSetIndex := 0,
                                             fi_FailoverIndex := fi_FailoverIndex ix + 1\<rparr>,
                                    clusters @ [bindingCluster c])))
                      else
                        Inr (nextUnavailable unavail
                               (ix\<lparr>fi_ClusterSetIndex := fi_ClusterSetIndex ix + 1\<rparr>))))
          else Inr ix)"

partial_function (option) doFailoverPolicy ::
  "'s kube \<Rightarrow> 's \<Rightarrow> ScheduleFailoverPolicy list \<Rightarrow> string list \<Rightarrow>
   MultiClusterResourceBindingCluster list \<Rightarrow> FailoverPolicyIndex \<Rightarrow>
   (FailoverPolicyIndex \<times> MultiClusterResourceBindingCluster list) res option" where
  "doFailoverPolicy k s policy unavail clusters ix =
     (case failoverStep k s policy unavail clusters ix of
        Inl r \<Rightarrow> Some r
      | Inr ix' \<Rightarrow> doFailoverPolicy k s policy unavail clusters ix')"

declare doFailoverPolicy.simps [code]

text \<open>
  The block that the four binding generators repeat for the \<open>j\<close>-th cluster: a cluster at a failed
  position is replaced by a failover cluster, any other is taken over.
\<close>

definition returned :: "'a res option \<Rightarrow> 'a res" where
  "returned r = (case r of None \<Rightarrow> Inl Diverge | Some x \<Rightarrow> x)"

lemma returned_simps [simp]: "returned None = Inl Diverge" "returned (Some x) = x"
  by (simp_all add: returned_def)

definition placeCluster ::
  "'s kube \<Rightarrow> 's \<Rightarrow> nat list \<Rightarrow> ScheduleFailoverPolicy list \<Rightarrow> string list \<Rightarrow> nat \<Rightarrow> string \<Rightarrow>
   FailoverPolicyIndex \<times> MultiClusterResourceBindingCluster list \<Rightarrow>
   (FailoverPolicyIndex \<times> MultiClusterResourceBindingCluster list) res" where
  "placeCluster k s failIndex failoverPolicy unavail j name st =
     (case st of (ix, clusters) \<Rightarrow>
        if failIndex \<noteq> [] then
          if fi_DoneIndex ix < length failIndex \<and> j = failIndex ! fi_DoneIndex ix
          then returned (doFailoverPolicy k s failoverPolicy unavail clusters ix)
          else Inr (ix, clusters @ [bindingCluster name])
        else Inr (ix, clusters @ [bindingCluster name]))"

end
