(* ===== verification/Float64.thy ===== *)
theory Float64
  imports Prelude GoLib Complex_Main "HOL-Library.Signed_Division"
begin

text \<open>
  Go's \<open>int\<close> (64 bits, two's complement) and \<open>float64\<close> (IEEE 754 binary64, round to nearest,
  ties to even), as far as the scheduler computes with them: integer sums and truncating
  division, conversion of an \<open>int\<close>, one division, one product, and conversion back. A finite
  double is a sign, a significand and a binary exponent. The exponent is not bounded: quotients
  and products of 64-bit integers stay within binary64's exponent range, so neither overflow to
  infinity nor subnormals can occur here.
\<close>

section \<open>64-bit integers\<close>

text \<open>The value a 64-bit register holds after an operation with mathematical result \<open>i\<close>.\<close>

definition wrap64 :: "int \<Rightarrow> int" where
  "wrap64 i = (i + 2 ^ 63) mod 2 ^ 64 - 2 ^ 63"

definition addI :: "int \<Rightarrow> int \<Rightarrow> int" where "addI a b = wrap64 (a + b)"
definition subI :: "int \<Rightarrow> int \<Rightarrow> int" where "subI a b = wrap64 (a - b)"
definition negI :: "int \<Rightarrow> int" where "negI a = wrap64 (- a)"

text \<open>A \<open>time.Duration\<close> is a number of nanoseconds in 64 bits.\<close>

definition Second :: int where "Second = 10 ^ 9"

text \<open>\<open>time.Duration(n) * time.Second\<close>, in 64 bits.\<close>

definition seconds :: "int \<Rightarrow> int" where "seconds n = wrap64 (n * Second)"

text \<open>Go's \<open>/\<close> and \<open>%\<close> truncate towards zero; a zero divisor panics.\<close>

definition quotI :: "int \<Rightarrow> int \<Rightarrow> int res" where
  "quotI a b = (if b = 0 then Crash DivideByZero else Inr (wrap64 (a sdiv b)))"

definition remI :: "int \<Rightarrow> int \<Rightarrow> int res" where
  "remI a b = (if b = 0 then Crash DivideByZero else Inr (wrap64 (a smod b)))"

lemma wrap64_id [simp]: "in_int64 i \<Longrightarrow> wrap64 i = i"
  by (simp add: wrap64_def in_int64_def)

lemma in_int64_wrap64 [simp]: "in_int64 (wrap64 i)"
proof -
  have "0 \<le> (i + 2 ^ 63) mod 2 ^ 64" and "(i + 2 ^ 63) mod 2 ^ 64 < 2 ^ 64"
    by simp_all
  then show ?thesis by (simp add: wrap64_def in_int64_def)
qed

lemma addI_id [simp]: "in_int64 (a + b) \<Longrightarrow> addI a b = a + b" by (simp add: addI_def)
lemma subI_id [simp]: "in_int64 (a - b) \<Longrightarrow> subI a b = a - b" by (simp add: subI_def)
lemma negI_id [simp]: "in_int64 (- a) \<Longrightarrow> negI a = - a" by (simp add: negI_def)

lemma in_int64_arith [simp]:
  "in_int64 (addI a b)" "in_int64 (subI a b)" "in_int64 (negI a)"
  by (simp_all add: addI_def subI_def negI_def)

text \<open>Addition modulo the register width: wrapped sums may be regrouped.\<close>

lemma wrap64_cong: "wrap64 (wrap64 a + b) = wrap64 (a + b)"
  by (simp add: wrap64_def mod_simps)
     (metis (no_types) add.assoc add.commute diff_add_cancel mod_add_left_eq)

section \<open>Rounding\<close>

text \<open>Magnitudes are non-negative integers; \<open>bitLen n\<close> is the number of binary digits of \<open>n\<close>.\<close>

function bitLen :: "int \<Rightarrow> nat" where
  "bitLen n = (if n \<le> 0 then 0 else Suc (bitLen (n div 2)))"
  by pat_completeness auto
termination
  by (relation "measure nat") auto

declare bitLen.simps [simp del]

lemma bitLen_pos: "0 < n \<Longrightarrow> 0 < bitLen n"
  by (subst bitLen.simps) simp

lemma bitLen_step: "0 < n \<Longrightarrow> bitLen n = Suc (bitLen (n div 2))"
  by (subst bitLen.simps) simp

lemma bitLen_bounds: "0 < n \<Longrightarrow> 2 ^ (bitLen n - 1) \<le> n \<and> n < 2 ^ bitLen n"
proof (induction n rule: bitLen.induct)
  case (1 n)
  show ?case
  proof (cases "n = 1")
    case True
    have "bitLen (0 :: int) = 0" by (subst bitLen.simps) simp
    then have "bitLen n = 1" using True bitLen_step [of 1] by simp
    with True show ?thesis by simp
  next
    case False
    with "1.prems" have half: "0 < n div 2" by linarith
    with 1 have ih: "2 ^ (bitLen (n div 2) - 1) \<le> n div 2" "n div 2 < 2 ^ bitLen (n div 2)"
      by auto
    have pos: "0 < bitLen (n div 2)" by (rule bitLen_pos [OF half])
    have bl: "bitLen n = Suc (bitLen (n div 2))" by (rule bitLen_step [OF "1.prems"])
    have "(2 :: int) ^ (bitLen n - 1) = 2 * 2 ^ (bitLen (n div 2) - 1)"
      using bl pos by (cases "bitLen (n div 2)") simp_all
    with ih(1) have lo: "2 ^ (bitLen n - 1) \<le> n" by linarith
    have "(2 :: int) ^ bitLen n = 2 * 2 ^ bitLen (n div 2)" using bl by simp
    with ih(2) have "n < 2 ^ bitLen n" by linarith
    with lo show ?thesis by simp
  qed
qed

text \<open>The quotient of two magnitudes, rounded to the nearest integer, ties to even.\<close>

definition roundHalfEven :: "int \<Rightarrow> int \<Rightarrow> int" where
  "roundHalfEven a b =
     (let d = a div b; r = a mod b
      in if 2 * r < b then d else if b < 2 * r then d + 1 else if even d then d else d + 1)"

text \<open>\<open>p * 2 ^ k / q\<close> as a fraction of integers.\<close>

definition scaled :: "int \<Rightarrow> int \<Rightarrow> int \<Rightarrow> int \<times> int" where
  "scaled p q k = (if 0 \<le> k then (p * 2 ^ nat k, q) else (p, q * 2 ^ nat (- k)))"

text \<open>
  The double nearest to \<open>p / q\<close>: scale so that the quotient has 53 bits, round it to an integer,
  and scale back.
\<close>

definition scaleOf :: "int \<Rightarrow> int \<Rightarrow> int" where
  "scaleOf p q =
     (let k = 53 + int (bitLen q) - int (bitLen p); (a, b) = scaled p q k
      in if b * 2 ^ 53 \<le> a then k - 1 else k)"

definition roundMag :: "int \<Rightarrow> int \<Rightarrow> int \<times> int" where
  "roundMag p q =
     (if p = 0 then (0, 0)
      else let k = scaleOf p q; (a, b) = scaled p q k in (roundHalfEven a b, - k))"

section \<open>Doubles\<close>

text \<open>\<open>Fin s m e\<close> is \<open>m * 2 ^ e\<close>, negated when \<open>s\<close>.\<close>

datatype float64 = Fin bool int int | Infinity bool | NaN

definition float64OfInt :: "int \<Rightarrow> float64" where
  "float64OfInt i = (case roundMag \<bar>i\<bar> 1 of (m, e) \<Rightarrow> Fin (i < 0) m e)"

fun float64Div :: "float64 \<Rightarrow> float64 \<Rightarrow> float64" where
  "float64Div (Fin s m e) (Fin t n f) =
     (if n = 0 then if m = 0 then NaN else Infinity (s \<noteq> t)
      else case roundMag m n of (m', e') \<Rightarrow> Fin (s \<noteq> t) m' (e' + e - f))"
| "float64Div (Fin s m e) (Infinity t) = Fin (s \<noteq> t) 0 0"
| "float64Div (Infinity s) (Fin t n f) = Infinity (s \<noteq> t)"
| "float64Div _ _ = NaN"

fun float64Mul :: "float64 \<Rightarrow> float64 \<Rightarrow> float64" where
  "float64Mul (Fin s m e) (Fin t n f) =
     (case roundMag (m * n) 1 of (m', e') \<Rightarrow> Fin (s \<noteq> t) m' (e' + e + f))"
| "float64Mul (Fin s m e) (Infinity t) = (if m = 0 then NaN else Infinity (s \<noteq> t))"
| "float64Mul (Infinity s) (Fin t n f) = (if n = 0 then NaN else Infinity (s \<noteq> t))"
| "float64Mul (Infinity s) (Infinity t) = Infinity (s \<noteq> t)"
| "float64Mul _ _ = NaN"

text \<open>
  \<open>int(f)\<close>: the fraction is discarded. Where the value is no 64-bit integer (or NaN or
  infinite), Go leaves the result to the implementation; the images are built for amd64
  (\<open>build/\<close>), whose conversion instruction then yields the least 64-bit integer.
\<close>

definition truncMag :: "int \<Rightarrow> int \<Rightarrow> int" where
  "truncMag m e = (if 0 \<le> e then m * 2 ^ nat e else m div 2 ^ nat (- e))"

fun intOfFloat64 :: "float64 \<Rightarrow> int" where
  "intOfFloat64 (Fin s m e) =
     (let v = (if s then - truncMag m e else truncMag m e)
      in if in_int64 v then v else - (2 ^ 63))"
| "intOfFloat64 _ = - (2 ^ 63)"

lemma in_int64_intOfFloat64 [simp]: "in_int64 (intOfFloat64 f)"
  by (cases f) (auto simp: Let_def in_int64_def)

end
