(* ===== verification/Replicas.thy ===== *)
theory Replicas
  imports KubeClient Float64 Failover
begin

text \<open>
  How the scheduler divides \<open>spec.replicas\<close> among the clusters of a weighted policy
  (\<open>resource_schedule_policy_controller.go\<close>): \<open>calculateWeight\<close>, the first split by weight
  (\<open>firstReplaceReplicasByWeight\<close>) and the second one that hands out the difference
  (\<open>replaceReplicasByWeight\<close>), over the overrides of the binding's clusters, whose values are
  decimal strings. Also the two override writers that all modes share.
\<close>

section \<open>schedule_policy_model.go\<close>

record SortPolicy =
  so_List :: "SchedulePolicy list"
  so_Index :: int

record FirstReplaceReplicasModel =
  fm_ResourceName :: string
  fm_TotalWeight :: int
  fm_DiffReplicas :: int

section \<open>Overrides\<close>

definition BindingOpReplace :: string where "BindingOpReplace = ''replace''"
definition BindingPathNamespace :: string where "BindingPathNamespace = ''/metadata/namespace''"
definition NamespaceMappingLabel :: string where
  "NamespaceMappingLabel = ''stellaris.harmonycloud.cn.namespacemapping/''"

text \<open>\<open>controllerCommon.GenerateLabelKey\<close>; its error is always nil.\<close>

definition GenerateLabelKey :: "string \<Rightarrow> string \<Rightarrow> string" where
  "GenerateLabelKey k v = NamespaceMappingLabel @ k @ ''_'' @ v"

definition appendOverride ::
  "string \<Rightarrow> string \<Rightarrow> MultiClusterResourceBindingCluster \<Rightarrow> MultiClusterResourceBindingCluster" where
  "appendOverride path value c =
     c\<lparr>bc_Override := bc_Override c
         @ [\<lparr>jp_Op = BindingOpReplace, jp_Value = value, jp_Path = path\<rparr>]\<rparr>"

abbreviation policyNamespace :: "MultiClusterResourceSchedulePolicy \<Rightarrow> string" where
  "policyNamespace policy \<equiv> om_Namespace (po_Meta policy)"

definition checkNamespaceMapping ::
  "'s kube \<Rightarrow> 's \<Rightarrow> MultiClusterResourceSchedulePolicy \<Rightarrow> string \<Rightarrow>
   MultiClusterResourceBindingCluster \<Rightarrow> MultiClusterResourceBindingCluster res" where
  "checkNamespaceMapping k s policy policyName c =
     bindR (liftApi (api_Get (kNamespace k) s [] (policyNamespace policy))) (\<lambda>namespace.
       let mappingK = GenerateLabelKey policyName (policyNamespace policy) in
       case gomap_get (mapOr (om_Labels (ns_Meta namespace))) mappingK of
         None \<Rightarrow> Inr c
       | Some value \<Rightarrow> Inr (appendOverride BindingPathNamespace value c))"

definition replaceResourceReplicasField ::
  "'s kube \<Rightarrow> 's \<Rightarrow> MultiClusterResourceSchedulePolicy \<Rightarrow> string \<Rightarrow>
   MultiClusterResourceBindingCluster \<Rightarrow> MultiClusterResourceBindingCluster res" where
  "replaceResourceReplicasField k s policy resourceName c =
     bindR (liftApi (api_Get (kMultiClusterResource k) s (policyNamespace policy) resourceName))
       (\<lambda>resource.
          if 0 < length (rs_ReplicasField (mr_Spec resource))
          then Inr (appendOverride (rs_ReplicasField (mr_Spec resource))
                      (strconvItoa (ps_Replicas (po_Spec policy))) c)
          else Inr c)"

section \<open>Weights\<close>

text \<open>\<open>int((float64(replicas) / float64(totalWeight)) * float64(weight))\<close>\<close>

definition shareOf :: "int \<Rightarrow> int \<Rightarrow> int \<Rightarrow> int" where
  "shareOf replicas totalWeight weight =
     intOfFloat64 (float64Mul (float64Div (float64OfInt replicas) (float64OfInt totalWeight))
                              (float64OfInt weight))"

definition sumI :: "int list \<Rightarrow> int" where
  "sumI xs = foldl addI 0 xs"

definition calculateWeight :: "MultiClusterResourceSchedulePolicy \<Rightarrow> int \<times> int" where
  "calculateWeight policy =
     (let totalWeight = sumI (map sp_Weight (ps_Policy (po_Spec policy)));
          nowReplicas = sumI (map (\<lambda>p. shareOf (ps_Replicas (po_Spec policy)) totalWeight (sp_Weight p))
                               (ps_Policy (po_Spec policy)));
          diffReplicas = (if nowReplicas \<noteq> ps_Replicas (po_Spec policy)
                          then subI (ps_Replicas (po_Spec policy)) nowReplicas else 0)
      in (totalWeight, diffReplicas))"

text \<open>
  \<open>sort.Slice\<close> does not promise an order among equal weights; the model takes the stable one.
\<close>

definition doSortPolicyList :: "MultiClusterResourceSchedulePolicy \<Rightarrow> SortPolicy" where
  "doSortPolicyList policy =
     \<lparr>so_List = sort_key (\<lambda>p. - sp_Weight p) (ps_Policy (po_Spec policy)), so_Index = 0\<rparr>"

section \<open>The first split\<close>

definition firstReplaceReplicasByWeight ::
  "'s kube \<Rightarrow> 's \<Rightarrow> MultiClusterResourceSchedulePolicy \<Rightarrow> SchedulePolicy \<Rightarrow>
   FirstReplaceReplicasModel \<Rightarrow> MultiClusterResourceBindingCluster \<Rightarrow>
   (FirstReplaceReplicasModel \<times> MultiClusterResourceBindingCluster) res" where
  "firstReplaceReplicasByWeight k s policy policyInstance model c =
     bindR (liftApi (api_Get (kMultiClusterResource k) s (policyNamespace policy) (fm_ResourceName model)))
       (\<lambda>resource.
          if 0 < length (rs_ReplicasField (mr_Spec resource)) then
            (let replicas = shareOf (ps_Replicas (po_Spec policy)) (fm_TotalWeight model)
                              (sp_Weight policyInstance);
                 (diff, replicas) =
                   (if replicas < sp_Min policyInstance
                    then (subI (fm_DiffReplicas model) (subI (sp_Min policyInstance) replicas),
                          sp_Min policyInstance)
                    else if sp_Max policyInstance < replicas
                    then (addI (fm_DiffReplicas model) (subI replicas (sp_Max policyInstance)),
                          sp_Max policyInstance)
                    else (fm_DiffReplicas model, replicas))
             in Inr (model\<lparr>fm_DiffReplicas := diff\<rparr>,
                     appendOverride (rs_ReplicasField (mr_Spec resource)) (strconvItoa replicas) c))
          else Inr (model, c))"

section \<open>The second split\<close>

text \<open>\<open>strconv.Atoi(Clusters[j].Override[0].Value)\<close> and the assignment to the same place.\<close>

definition atoiOrErr :: "string \<Rightarrow> int res" where
  "atoiOrErr v = (case strconvAtoi v of
                    None \<Rightarrow> Raise (ErrFmt ''strconv.Atoi: parsing %q'' [v])
                  | Some i \<Rightarrow> Inr i)"

definition readReplicas :: "MultiClusterResourceBindingCluster list \<Rightarrow> nat \<Rightarrow> int res" where
  "readReplicas clusters j =
     bindR (idx clusters j) (\<lambda>c. bindR (idx (bc_Override c) 0) (\<lambda>o1. atoiOrErr (jp_Value o1)))"

definition setReplicas ::
  "MultiClusterResourceBindingCluster list \<Rightarrow> nat \<Rightarrow> int \<Rightarrow> MultiClusterResourceBindingCluster list" where
  "setReplicas clusters j v =
     clusters[j := (clusters ! j)
       \<lparr>bc_Override := (bc_Override (clusters ! j))
          [0 := (bc_Override (clusters ! j) ! 0)\<lparr>jp_Value := strconvItoa v\<rparr>]\<rparr>]"

text \<open>
  The first loop of \<open>replaceReplicasByWeight\<close>: every cluster takes \<open>fillNum\<close>, or as much of it
  as its bound admits; what it cannot take is added to \<open>addNum\<close>.
\<close>

definition fillOne ::
  "int \<Rightarrow> int \<Rightarrow> nat \<Rightarrow> SchedulePolicy \<Rightarrow> MultiClusterResourceBindingCluster list \<times> int \<Rightarrow>
   (MultiClusterResourceBindingCluster list \<times> int) res" where
  "fillOne diffReplicas fillNum j policyInstance st =
     (case st of (clusters, addNum) \<Rightarrow>
        bindR (readReplicas clusters j) (\<lambda>replicas.
          let (policyMaxOrMin, toMaxOrMin) =
                (if 0 < diffReplicas then (sp_Max policyInstance, subI (sp_Max policyInstance) replicas)
                 else if diffReplicas < 0
                 then (sp_Min policyInstance, subI replicas (sp_Min policyInstance))
                 else (0, 0))
          in if toMaxOrMin < fillNum
             then Inr (setReplicas clusters j policyMaxOrMin, addI addNum (subI fillNum toMaxOrMin))
             else if 0 < diffReplicas then Inr (setReplicas clusters j (addI replicas fillNum), addNum)
             else if diffReplicas < 0 then Inr (setReplicas clusters j (subI replicas fillNum), addNum)
             else Inr (clusters, addNum)))"

text \<open>
  The second loop hands out \<open>addNum\<close> one by one, to the clusters in the order of the sorted list.
  One pass of its inner \<open>for\<close> visits every cluster of the policy; the pass either ends normally
  or leaves the function because the sorted list is exhausted (the flag).
\<close>

type_synonym pass_state = "MultiClusterResourceBindingCluster list \<times> int \<times> SortPolicy"

definition advanceIndex :: "SortPolicy \<Rightarrow> SortPolicy" where
  "advanceIndex so =
     (if so_Index so = int (length (so_List so)) - 1 then so\<lparr>so_Index := 0\<rparr>
      else so\<lparr>so_Index := so_Index so + 1\<rparr>)"

definition removeAtIndex :: "SortPolicy \<Rightarrow> SortPolicy" where
  "removeAtIndex so =
     so\<lparr>so_List := take (nat (so_Index so)) (so_List so) @ drop (Suc (nat (so_Index so))) (so_List so)\<rparr>"

definition sortEntry :: "SortPolicy \<Rightarrow> SchedulePolicy res" where
  "sortEntry so =
     (if so_Index so < 0 then Crash IndexOutOfRange else idx (so_List so) (nat (so_Index so)))"

definition weightStep ::
  "int \<Rightarrow> nat \<Rightarrow> SchedulePolicy \<Rightarrow> pass_state \<Rightarrow> (bool \<times> pass_state) res" where
  "weightStep diffReplicas j policyInstance st =
     (case st of (clusters, addNum, so) \<Rightarrow>
        bindR (sortEntry so) (\<lambda>e.
          if sp_Weight policyInstance = sp_Weight e \<and> sp_Name policyInstance = sp_Name e then
            bindR (readReplicas clusters j) (\<lambda>replicas.
              let more = (if 0 < diffReplicas then replicas < sp_Max policyInstance
                          else sp_Min policyInstance < replicas);
                  so' = removeAtIndex so;
                  so'' = (if so_Index so' = int (length (so_List so')) then so'\<lparr>so_Index := 0\<rparr> else so')
              in if diffReplicas = 0 then Inr (False, st)
                 else if more
                 then Inr (False, setReplicas clusters j
                             (if 0 < diffReplicas then addI replicas 1 else subI replicas 1),
                           subI addNum 1, advanceIndex so)
                 else Inr (length (so_List so'') = 0, clusters, addNum, so''))
          else Inr (False, st)))"

fun weightPass ::
  "int \<Rightarrow> nat \<Rightarrow> SchedulePolicy list \<Rightarrow> pass_state \<Rightarrow> (bool \<times> pass_state) res" where
  "weightPass diffReplicas j [] st = Inr (False, st)"
| "weightPass diffReplicas j (p # ps) st =
     bindR (weightStep diffReplicas j p st) (\<lambda>(returns, st').
       if returns then Inr (True, st') else weightPass diffReplicas (Suc j) ps st')"

partial_function (option) weightLoop ::
  "int \<Rightarrow> SchedulePolicy list \<Rightarrow> pass_state \<Rightarrow> MultiClusterResourceBindingCluster list res option" where
  "weightLoop diffReplicas policy st =
     (if fst (snd st) = 0 then Some (Inr (fst st))
      else case weightPass diffReplicas 0 policy st of
             Inl e \<Rightarrow> Some (Inl e)
           | Inr r \<Rightarrow>
               if fst r then Some (Inr (fst (snd r)))
               else weightLoop diffReplicas policy (snd r))"

declare weightLoop.simps [code]

definition fillAndRest :: "int \<Rightarrow> int \<Rightarrow> (int \<times> int) res" where
  "fillAndRest diffReplicas n =
     (if 0 < diffReplicas
      then bindR (quotI diffReplicas n) (\<lambda>q. bindR (remI diffReplicas n) (\<lambda>r. Inr (q, r)))
      else if diffReplicas < 0
      then bindR (quotI (negI diffReplicas) n) (\<lambda>q. bindR (remI (negI diffReplicas) n) (\<lambda>r. Inr (q, r)))
      else Inr (0, 0))"

definition replaceReplicasByWeight ::
  "MultiClusterResourceSchedulePolicy \<Rightarrow> MultiClusterResourceBindingCluster list \<Rightarrow> int \<Rightarrow> SortPolicy \<Rightarrow>
   MultiClusterResourceBindingCluster list res" where
  "replaceReplicasByWeight policy clusters diffReplicas sortPolicy =
     bindR (fillAndRest diffReplicas (int (length (ps_Policy (po_Spec policy))))) (\<lambda>(fillNum, addNum).
     bindR (forRange (fillOne diffReplicas fillNum) 0 (ps_Policy (po_Spec policy)) (clusters, addNum))
       (\<lambda>(clusters, addNum).
          returned (weightLoop diffReplicas (ps_Policy (po_Spec policy)) (clusters, addNum, sortPolicy))))"

end
