(* ===== verification/RoleReplicas.thy ===== *)
theory RoleReplicas
  imports Replicas
begin

text \<open>
  The division of \<open>spec.replicas\<close> for a policy over a cluster set, where a policy entry speaks about
  a role and a cluster of the set has one (\<open>resource_schedule_policy_controller.go\<close>):
  \<open>calculateWeightByRole\<close>, \<open>firstReplaceReplicasByClusterRole\<close> and \<open>replaceReplicasByClusterRole\<close>.
  The second loop of the last one is kept as it is written: its \<open>break\<close> leaves only the \<open>switch\<close>,
  and the loop does not end when the entries that are left have no cluster.
\<close>

section \<open>Weights\<close>

definition roleWeights :: "MultiClusterResourceSchedulePolicy \<Rightarrow> ClusterSet \<Rightarrow> int list" where
  "roleWeights policy clusterSet =
     concat (map (\<lambda>i. map (\<lambda>c. sp_Weight i)
                          (filter (\<lambda>c. tg_Role c = sp_Role i) (se_Clusters (cs_Spec clusterSet))))
                 (ps_Policy (po_Spec policy)))"

definition calculateWeightByRole ::
  "MultiClusterResourceSchedulePolicy \<Rightarrow> ClusterSet \<Rightarrow> int \<times> int" where
  "calculateWeightByRole policy clusterSet =
     (let totalWeight = sumI (roleWeights policy clusterSet);
          nowReplicas = sumI (map (shareOf (ps_Replicas (po_Spec policy)) totalWeight)
                                  (roleWeights policy clusterSet));
          diffReplicas = (if nowReplicas \<noteq> ps_Replicas (po_Spec policy)
                          then subI (ps_Replicas (po_Spec policy)) nowReplicas else 0)
      in (totalWeight, diffReplicas))"

section \<open>The policy entry of a cluster\<close>

text \<open>
  \<open>for _, instance := range policy.Spec.Policy { if instance.Role == role { ...; break } }\<close>, and the
  loop around it that finds the role of a cluster by its name.
\<close>

fun instanceOfRole :: "SchedulePolicy list \<Rightarrow> string \<Rightarrow> SchedulePolicy option" where
  "instanceOfRole [] role = None"
| "instanceOfRole (i # is) role = (if sp_Role i = role then Some i else instanceOfRole is role)"

fun instanceOfCluster ::
  "ClusterSetTarget list \<Rightarrow> SchedulePolicy list \<Rightarrow> string \<Rightarrow> SchedulePolicy option" where
  "instanceOfCluster [] policy clusterName = None"
| "instanceOfCluster (c # cs) policy clusterName =
     (if tg_Name c = clusterName then instanceOfRole policy (tg_Role c)
      else instanceOfCluster cs policy clusterName)"

definition orZero :: "SchedulePolicy option \<Rightarrow> SchedulePolicy" where
  "orZero i = (case i of None \<Rightarrow> zeroSchedulePolicy | Some p \<Rightarrow> p)"

section \<open>The first split\<close>

definition firstReplaceReplicasByClusterRole ::
  "'s kube \<Rightarrow> 's \<Rightarrow> MultiClusterResourceSchedulePolicy \<Rightarrow> ClusterSet \<Rightarrow> string \<Rightarrow>
   FirstReplaceReplicasModel \<Rightarrow> MultiClusterResourceBindingCluster \<Rightarrow>
   (FirstReplaceReplicasModel \<times> MultiClusterResourceBindingCluster) res" where
  "firstReplaceReplicasByClusterRole k s policy clusterSet clusterName model c =
     bindR (liftApi (api_Get (kMultiClusterResource k) s (policyNamespace policy) (fm_ResourceName model)))
       (\<lambda>resource.
          if 0 < length (rs_ReplicasField (mr_Spec resource)) then
            (let found = instanceOfCluster (se_Clusters (cs_Spec clusterSet))
                           (ps_Policy (po_Spec policy)) clusterName;
                 policyInstance = orZero found;
                 replicas = (case found of
                               None \<Rightarrow> 0
                             | Some i \<Rightarrow> shareOf (ps_Replicas (po_Spec policy)) (fm_TotalWeight model)
                                          (sp_Weight i));
                 (diff, replicas) =
                   (if replicas < sp_Min policyInstance
                    then (subI (fm_DiffReplicas model) (subI (sp_Min policyInstance) replicas),
                          sp_Min policyInstance)
                    else (fm_DiffReplicas model, replicas));
                 (diff, replicas) =
                   (if sp_Max policyInstance < replicas
                    then (addI diff (subI replicas (sp_Max policyInstance)), sp_Max policyInstance)
                    else (diff, replicas))
             in Inr (model\<lparr>fm_DiffReplicas := diff\<rparr>,
                     appendOverride (rs_ReplicasField (mr_Spec resource)) (strconvItoa replicas) c))
          else Inr (model, c))"

section \<open>The second split\<close>

text \<open>The body of the inner \<open>for\<close>: the flag says that the function returns.\<close>

definition roleStep ::
  "int \<Rightarrow> SchedulePolicy list \<Rightarrow> nat \<Rightarrow> ClusterSetTarget \<Rightarrow> pass_state \<Rightarrow> (bool \<times> pass_state) res" where
  "roleStep diffReplicas policy j cluster st =
     (case st of (clusters, addNum, so) \<Rightarrow>
        if addNum = 0 then Inr (False, st)
        else
          (let policyInstance = orZero (instanceOfRole policy (tg_Role cluster)) in
           bindR (sortEntry so) (\<lambda>e.
             if sp_Role policyInstance = sp_Role e then
               bindR (readReplicas clusters j) (\<lambda>replicas.
                 let more = (if 0 < diffReplicas then replicas < sp_Max policyInstance
                             else sp_Min policyInstance < replicas);
                     so' = removeAtIndex so;
                     so'' = (if so_Index so' = int (length (so_List so')) then so'\<lparr>so_Index := - 1\<rparr> else so')
                 in if diffReplicas = 0 then Inr (False, st)
                    else if more
                    then Inr (False, setReplicas clusters j
                                (if 0 < diffReplicas then addI replicas 1 else subI replicas 1),
                              subI addNum 1, so)
                    else if length (so_List so') = 0 then Inr (True, clusters, addNum, so')
                    else Inr (False, clusters, addNum, so''))
             else Inr (False, st))))"

fun rolePass ::
  "int \<Rightarrow> SchedulePolicy list \<Rightarrow> nat \<Rightarrow> ClusterSetTarget list \<Rightarrow> pass_state \<Rightarrow> (bool \<times> pass_state) res"
where
  "rolePass diffReplicas policy j [] st = Inr (False, st)"
| "rolePass diffReplicas policy j (c # cs) st =
     bindR (roleStep diffReplicas policy j c st) (\<lambda>(returns, st').
       if returns then Inr (True, st') else rolePass diffReplicas policy (Suc j) cs st')"

definition nextIndex :: "SortPolicy \<Rightarrow> SortPolicy" where
  "nextIndex so =
     (if so_Index so = int (length (so_List so)) - 1 then so\<lparr>so_Index := 0\<rparr>
      else so\<lparr>so_Index := so_Index so + 1\<rparr>)"

partial_function (option) roleLoop ::
  "int \<Rightarrow> SchedulePolicy list \<Rightarrow> ClusterSetTarget list \<Rightarrow> pass_state \<Rightarrow>
   MultiClusterResourceBindingCluster list res option" where
  "roleLoop diffReplicas policy targets st =
     (if fst (snd st) = 0 then Some (Inr (fst st))
      else case rolePass diffReplicas policy 0 targets (fst st, fst (snd st), nextIndex (snd (snd st))) of
             Inl e \<Rightarrow> Some (Inl e)
           | Inr r \<Rightarrow>
               if fst r then Some (Inr (fst (snd r)))
               else roleLoop diffReplicas policy targets (snd r))"

declare roleLoop.simps [code]

definition fillAndRestByRole :: "int \<Rightarrow> int \<Rightarrow> (int \<times> int) res" where
  "fillAndRestByRole diffReplicas n =
     (if 0 < diffReplicas
      then bindR (quotI diffReplicas n) (\<lambda>q. bindR (remI diffReplicas n) (\<lambda>r. Inr (q, r)))
      else if diffReplicas < 0
      then bindR (quotI diffReplicas n) (\<lambda>q. bindR (remI diffReplicas n) (\<lambda>r. Inr (negI q, negI r)))
      else Inr (0, 0))"

definition replaceReplicasByClusterRole ::
  "'s kube \<Rightarrow> 's \<Rightarrow> MultiClusterResourceSchedulePolicy \<Rightarrow>
   MultiClusterResourceBindingCluster list \<Rightarrow> int \<Rightarrow> SortPolicy \<Rightarrow> ClusterSet \<Rightarrow>
   MultiClusterResourceBindingCluster list res" where
  "replaceReplicasByClusterRole k s policy clusters diffReplicas sortPolicy clusterSet =
     (let clusterList = getClusterListByClusterSet k s clusterSet;
          targets = se_Clusters (cs_Spec clusterSet);
          entries = ps_Policy (po_Spec policy) in
      bindR (fillAndRestByRole diffReplicas (int (length clusterList))) (\<lambda>(fillNum, addNum).
      bindR (forRange
               (\<lambda>j clusterName. fillOne diffReplicas fillNum j
                  (orZero (instanceOfCluster targets entries clusterName)))
               0 clusterList (clusters, addNum)) (\<lambda>(clusters, addNum).
        returned (roleLoop diffReplicas entries targets
                    (clusters, addNum, sortPolicy\<lparr>so_Index := - 1\<rparr>)))))"

end
