(* ===== verification/Schedule.thy ===== *)
theory Schedule
  imports Failover Replicas RoleReplicas
begin

text \<open>
  The reconciler of \<open>MultiClusterResourceSchedulePolicy\<close>
  (\<open>resource_schedule_policy_controller.go\<close>): the four binding generators, the choice between
  them, and the reconcile that stores the binding and stamps the policy's status. The clock is an
  argument: one time per call of \<open>time.Now()\<close>.
\<close>

section \<open>Generating a binding\<close>

definition Scheduler :: string where "Scheduler = ''multiclusterresourceschedulepolicy''"

definition zeroBinding :: MultiClusterResourceBinding where
  "zeroBinding = \<lparr>bd_Meta = zeroMeta, bd_Resources = [], bd_Status = []\<rparr>"

definition addBindingMeta ::
  "'s kube \<Rightarrow> MultiClusterResourceSchedulePolicy \<Rightarrow> MultiClusterResourceBinding" where
  "addBindingMeta k policy =
     zeroBinding\<lparr>bd_Meta := zeroMeta
       \<lparr>om_Name := Scheduler @ ''-'' @ om_Name (po_Meta policy),
        om_Namespace := policyNamespace policy,
        om_OwnerReferences :=
          [kControllerRef k (po_Meta policy) ''MultiClusterResourceSchedulePolicy'']\<rparr>\<rparr>"

text \<open>
  The loop over the clusters of one resource, common to the generators: the \<open>j\<close>-th cluster or its
  substitute is appended, and then \<open>Clusters[j]\<close> gets its overrides from \<open>f\<close>, which also updates
  the generator's own state.
\<close>

definition clusterStep ::
  "'s kube \<Rightarrow> 's \<Rightarrow> MultiClusterResourceSchedulePolicy \<Rightarrow> nat list \<Rightarrow> string list \<Rightarrow> ('p \<Rightarrow> string) \<Rightarrow>
   ('p \<Rightarrow> 'm \<Rightarrow> MultiClusterResourceBindingCluster \<Rightarrow> ('m \<times> MultiClusterResourceBindingCluster) res) \<Rightarrow>
   nat \<Rightarrow> 'p \<Rightarrow> (FailoverPolicyIndex \<times> 'm \<times> MultiClusterResourceBindingCluster list) \<Rightarrow>
   (FailoverPolicyIndex \<times> 'm \<times> MultiClusterResourceBindingCluster list) res" where
  "clusterStep k s policy failIndex unavail nameOf f j p st =
     (case st of (ix, model, clusters) \<Rightarrow>
        bindR (placeCluster k s failIndex (ps_FailoverPolicy (po_Spec policy)) unavail j (nameOf p)
                 (ix, clusters)) (\<lambda>(ix, clusters).
        bindR (idx clusters j) (\<lambda>c.
        bindR (f p model c) (\<lambda>(model, c).
          Inr (ix, model, clusters[j := c])))))"

definition clustersLoop where
  "clustersLoop k s policy failIndex unavail nameOf f ps model =
     bindR (forRange (clusterStep k s policy failIndex unavail nameOf f) 0 ps (zeroIndex, model, []))
       (\<lambda>(ix, model, clusters). Inr (model, clusters))"

definition forResources ::
  "'s kube \<Rightarrow> MultiClusterResourceSchedulePolicy \<Rightarrow>
   (string \<Rightarrow> MultiClusterResourceBindingCluster list res) \<Rightarrow> MultiClusterResourceBinding res" where
  "forResources k policy f =
     bindR (forRange (\<lambda>i r rs. bindR (f (pr_Name r)) (\<lambda>clusters.
              Inr (rs @ [\<lparr>br_Name = pr_Name r, br_Namespace = [], br_Clusters = clusters\<rparr>])))
              0 (ps_Resources (po_Spec policy)) [])
       (\<lambda>rs. Inr ((addBindingMeta k policy)\<lparr>bd_Resources := rs\<rparr>))"

text \<open>What Duplicated and ClusterSelector do with a cluster.\<close>

definition duplicateOverrides ::
  "'s kube \<Rightarrow> 's \<Rightarrow> MultiClusterResourceSchedulePolicy \<Rightarrow> string \<Rightarrow> string \<Rightarrow>
   MultiClusterResourceBindingCluster \<Rightarrow> MultiClusterResourceBindingCluster res" where
  "duplicateOverrides k s policy resourceName clusterName c =
     bindR (replaceResourceReplicasField k s policy resourceName c)
       (checkNamespaceMapping k s policy clusterName)"

definition withoutModel where
  "withoutModel f m c = bindR (f c) (\<lambda>c'. Inr (m, c'))"

definition generateBindingByDuplicated ::
  "'s kube \<Rightarrow> 's \<Rightarrow> MultiClusterResourceSchedulePolicy \<Rightarrow> nat list \<Rightarrow> string list \<Rightarrow>
   MultiClusterResourceBinding res" where
  "generateBindingByDuplicated k s policy failIndex unavail =
     forResources k policy (\<lambda>resourceName.
       bindR (clustersLoop k s policy failIndex unavail sp_Name
                (\<lambda>p. withoutModel (duplicateOverrides k s policy resourceName (sp_Name p)))
                (ps_Policy (po_Spec policy)) ())
         (\<lambda>(_, clusters). Inr clusters))"

definition weightOverrides ::
  "'s kube \<Rightarrow> 's \<Rightarrow> MultiClusterResourceSchedulePolicy \<Rightarrow> SchedulePolicy \<Rightarrow> FirstReplaceReplicasModel \<Rightarrow>
   MultiClusterResourceBindingCluster \<Rightarrow> (FirstReplaceReplicasModel \<times> MultiClusterResourceBindingCluster) res" where
  "weightOverrides k s policy policyInstance model c =
     bindR (firstReplaceReplicasByWeight k s policy policyInstance model c) (\<lambda>(model, c).
       withoutModel (checkNamespaceMapping k s policy (sp_Name policyInstance)) model c)"

definition weightedClusters ::
  "'s kube \<Rightarrow> 's \<Rightarrow> MultiClusterResourceSchedulePolicy \<Rightarrow> nat list \<Rightarrow> string list \<Rightarrow> string \<Rightarrow>
   MultiClusterResourceBindingCluster list res" where
  "weightedClusters k s policy failIndex unavail resourceName =
     (case calculateWeight policy of (totalWeight, diff) \<Rightarrow>
        bindR (clustersLoop k s policy failIndex unavail sp_Name (weightOverrides k s policy)
                 (ps_Policy (po_Spec policy))
                 \<lparr>fm_ResourceName = resourceName, fm_TotalWeight = totalWeight, fm_DiffReplicas = diff\<rparr>)
          (\<lambda>(model, clusters).
             if fm_DiffReplicas model \<noteq> 0
             then replaceReplicasByWeight policy clusters (fm_DiffReplicas model) (doSortPolicyList policy)
             else Inr clusters))"

definition generateBindingByWeighted ::
  "'s kube \<Rightarrow> 's \<Rightarrow> MultiClusterResourceSchedulePolicy \<Rightarrow> nat list \<Rightarrow> string list \<Rightarrow>
   MultiClusterResourceBinding res" where
  "generateBindingByWeighted k s policy failIndex unavail =
     forResources k policy (weightedClusters k s policy failIndex unavail)"

text \<open>
  The error of \<open>firstReplaceReplicasByClusterRole\<close> is overwritten by the next assignment: the
  cluster then stays without the override, and the loop goes on.
\<close>

definition roleOverrides ::
  "'s kube \<Rightarrow> 's \<Rightarrow> MultiClusterResourceSchedulePolicy \<Rightarrow> ClusterSet \<Rightarrow> string \<Rightarrow>
   FirstReplaceReplicasModel \<Rightarrow> MultiClusterResourceBindingCluster \<Rightarrow>
   (FirstReplaceReplicasModel \<times> MultiClusterResourceBindingCluster) res" where
  "roleOverrides k s policy clusterSet clusterName model c =
     (case (case firstReplaceReplicasByClusterRole k s policy clusterSet clusterName model c of
              Inl e \<Rightarrow> (model, c)
            | Inr r \<Rightarrow> r) of (model, c) \<Rightarrow>
        withoutModel (checkNamespaceMapping k s policy clusterName) model c)"

definition generateBindingByClusterRole ::
  "'s kube \<Rightarrow> 's \<Rightarrow> MultiClusterResourceSchedulePolicy \<Rightarrow> ClusterSet \<Rightarrow> nat list \<Rightarrow> string list \<Rightarrow>
   MultiClusterResourceBinding res" where
  "generateBindingByClusterRole k s policy clusterSet failIndex unavail =
     (case calculateWeightByRole policy clusterSet of (totalWeight, diff) \<Rightarrow>
        forResources k policy (\<lambda>resourceName.
          bindR (clustersLoop k s policy failIndex unavail (\<lambda>c. c) (roleOverrides k s policy clusterSet)
                   (getClusterListByClusterSet k s clusterSet)
                   \<lparr>fm_ResourceName = resourceName, fm_TotalWeight = totalWeight, fm_DiffReplicas = diff\<rparr>)
            (\<lambda>(model, clusters).
               if fm_DiffReplicas model \<noteq> 0
               then replaceReplicasByClusterRole k s policy clusters (fm_DiffReplicas model)
                      (doSortPolicyList policy) clusterSet
               else Inr clusters)))"

definition generateBindingByClusterSelector ::
  "'s kube \<Rightarrow> 's \<Rightarrow> MultiClusterResourceSchedulePolicy \<Rightarrow> ClusterSet \<Rightarrow> nat list \<Rightarrow> string list \<Rightarrow>
   MultiClusterResourceBinding res" where
  "generateBindingByClusterSelector k s policy clusterSet failIndex unavail =
     forResources k policy (\<lambda>resourceName.
       bindR (clustersLoop k s policy failIndex unavail (\<lambda>c. c)
                (\<lambda>c. withoutModel (duplicateOverrides k s policy resourceName c))
                (getClusterListByClusterSet k s clusterSet) ())
         (\<lambda>(_, clusters). Inr clusters))"

section \<open>Choosing the generator\<close>

definition doTypeDuplicated where
  "doTypeDuplicated k s policy =
     bindR (checkClusters k s policy) (\<lambda>(failIndex, unavail).
       generateBindingByDuplicated k s policy failIndex unavail)"

definition doTypeWeighted where
  "doTypeWeighted k s policy =
     bindR (checkClusters k s policy) (\<lambda>(failIndex, unavail).
       generateBindingByWeighted k s policy failIndex unavail)"

definition doTypeClusterRole where
  "doTypeClusterRole k s policy clusterSet =
     bindR (checkClusters k s policy) (\<lambda>(failIndex, unavail).
       generateBindingByClusterRole k s policy clusterSet failIndex unavail)"

definition doTypeClusterSelector where
  "doTypeClusterSelector k s policy clusterSet =
     bindR (checkClusters k s policy) (\<lambda>(failIndex, unavail).
       generateBindingByClusterSelector k s policy clusterSet failIndex unavail)"

text \<open>The result \<open>None\<close> is the nil binding.\<close>

definition scheduleByAssign ::
  "'s kube \<Rightarrow> 's \<Rightarrow> MultiClusterResourceSchedulePolicy \<Rightarrow> MultiClusterResourceBinding option res" where
  "scheduleByAssign k s policy =
     (if ps_ScheduleMode (po_Spec policy) = ScheduleModeTypeDuplicated
      then bindR (doTypeDuplicated k s policy) (\<lambda>b. Inr (Some b))
      else if ps_ScheduleMode (po_Spec policy) = ScheduleModeTypeWeighted
      then bindR (doTypeWeighted k s policy) (\<lambda>b. Inr (Some b))
      else Inr None)"

definition scheduleByClusterSet ::
  "'s kube \<Rightarrow> 's \<Rightarrow> MultiClusterResourceSchedulePolicy \<Rightarrow> MultiClusterResourceBinding option res" where
  "scheduleByClusterSet k s policy =
     bindR (liftApi (api_Get (kClusterSet k) s [] (ps_Clusterset (po_Spec policy)))) (\<lambda>clusterSet.
       if 0 < length (se_Clusters (cs_Spec clusterSet))
       then bindR (doTypeClusterRole k s policy clusterSet) (\<lambda>b. Inr (Some b))
       else if 0 < length (se_Selector (cs_Spec clusterSet))
       then bindR (doTypeClusterSelector k s policy clusterSet) (\<lambda>b. Inr (Some b))
       else Inr None)"

section \<open>Storing the binding\<close>

definition compareBinding :: "'s kube \<Rightarrow> 's \<Rightarrow> MultiClusterResourceBinding option \<Rightarrow> bool res" where
  "compareBinding k s binding =
     (case binding of
        None \<Rightarrow> Crash NilDereference
      | Some b \<Rightarrow>
          (case api_Get (kBinding k) s (om_Namespace (bd_Meta b)) (om_Name (bd_Meta b)) of
             Inl e \<Rightarrow> Inr False
           | Inr previousBinding \<Rightarrow> Inr (bd_Resources previousBinding = bd_Resources b)))"

definition createOrUpdateBinding ::
  "'s kube \<Rightarrow> MultiClusterResourceBinding \<Rightarrow> 's \<Rightarrow> unit res \<times> 's" where
  "createOrUpdateBinding k binding s =
     (case api_Get (kBinding k) s (om_Namespace (bd_Meta binding)) (om_Name (bd_Meta binding)) of
        Inl NotFound \<Rightarrow>
          (case api_Create (kBinding k) binding s of
             (Inl e, s') \<Rightarrow> (Raise (ErrApi e), s')
           | (Inr b, s') \<Rightarrow> (Inr (), s'))
      | Inl e \<Rightarrow> (Raise (ErrApi e), s)
      | Inr i \<Rightarrow>
          if bd_Resources i = bd_Resources binding then (Inr (), s)
          else (case api_Update (kBinding k) (i\<lparr>bd_Resources := bd_Resources binding\<rparr>) s of
                  (Inl e, s') \<Rightarrow> (Raise (ErrApi e), s')
                | (Inr b, s') \<Rightarrow> (Inr (), s')))"

section \<open>The status of the policy\<close>

definition updateLastModifyTime ::
  "'s kube \<Rightarrow> int \<Rightarrow> MultiClusterResourceSchedulePolicy \<Rightarrow> 's \<Rightarrow>
   MultiClusterResourceSchedulePolicy res \<times> 's" where
  "updateLastModifyTime k now policy s =
     (case api_UpdateStatus (kSchedulePolicy k)
             (policy\<lparr>po_Status := (po_Status policy)\<lparr>ss_LastModifyTime := Some now\<rparr>\<rparr>) s of
        (r, s') \<Rightarrow> (liftApi r, s'))"

definition updateLastScheduleTime ::
  "'s kube \<Rightarrow> int \<Rightarrow> MultiClusterResourceSchedulePolicy \<Rightarrow> 's \<Rightarrow>
   MultiClusterResourceSchedulePolicy res \<times> 's" where
  "updateLastScheduleTime k now policy s =
     (case api_UpdateStatus (kSchedulePolicy k)
             (policy\<lparr>po_Status := (po_Status policy)\<lparr>ss_LastScheduleTime := Some now\<rparr>\<rparr>) s of
        (r, s') \<Rightarrow> (liftApi r, s'))"

section \<open>The reconcile\<close>

definition chooseBinding ::
  "'s kube \<Rightarrow> 's \<Rightarrow> MultiClusterResourceSchedulePolicy \<Rightarrow> MultiClusterResourceBinding option res" where
  "chooseBinding k s policy =
     (if ps_ClusterSource (po_Spec policy) = ClusterSourceTypeAssign then scheduleByAssign k s policy
      else if ps_ClusterSource (po_Spec policy) = ClusterSourceTypeClusterset
      then scheduleByClusterSet k s policy
      else Inr None)"

definition stampSchedule ::
  "'s kube \<Rightarrow> int \<Rightarrow> MultiClusterResourceSchedulePolicy \<Rightarrow> 's \<Rightarrow> reconciled res \<times> 's" where
  "stampSchedule k now policy s =
     (case updateLastScheduleTime k now policy s of
        (r, s') \<Rightarrow> (requeueOnErr r (\<lambda>_. Inr (doneResult, None)), s'))"

definition doSchedule ::
  "'s kube \<Rightarrow> int \<Rightarrow> MultiClusterResourceSchedulePolicy \<Rightarrow> 's \<Rightarrow> reconciled res \<times> 's" where
  "doSchedule k now policy s =
     (case bindR (chooseBinding k s policy) (\<lambda>b. bindR (compareBinding k s b) (\<lambda>same. Inr (b, same))) of
        Inl (Err e) \<Rightarrow> (Inr (reQueueResult e), s)
      | Inl f \<Rightarrow> (Inl f, s)
      | Inr (b, same) \<Rightarrow>
          if same then stampSchedule k now policy s
          else (case createOrUpdateBinding k (the b) s of
                  (Inl (Err e), s') \<Rightarrow> (Inr (reQueueResult e), s')
                | (Inl f, s') \<Rightarrow> (Inl f, s')
                | (Inr _, s') \<Rightarrow> stampSchedule k now policy s'))"

definition reconcileSchedulePolicy ::
  "'s kube \<Rightarrow> int \<Rightarrow> int \<Rightarrow> string \<Rightarrow> string \<Rightarrow> 's \<Rightarrow> reconciled res \<times> 's" where
  "reconcileSchedulePolicy k modifyTime scheduleTime namespace name s =
     (case api_Get (kSchedulePolicy k) s namespace name of
        Inl e \<Rightarrow> (Inr (doneResult, ignoreNotFound e), s)
      | Inr policy \<Rightarrow>
          (case updateLastModifyTime k modifyTime policy s of
             (Inl (Err e), s') \<Rightarrow> (Inr (reQueueResult e), s')
           | (Inl f, s') \<Rightarrow> (Inl f, s')
           | (Inr policy', s') \<Rightarrow>
               if ps_Reschedule (po_Spec policy')
               then doSchedule k scheduleTime policy' s'
               else (Inr (doneResult, None), s')))"

end
