(* ===== verification/FailoverCorrect.thy ===== *)
theory FailoverCorrect
  imports Failover
begin

text \<open>
  Correctness of the failover choice against a specification that knows no indices: the failover
  policy offers a flat list of candidates, and every unavailable cluster takes the next candidate
  that is available. \<open>failoverPolicyCheck\<close> counts exactly the available candidates, and
  \<open>doFailoverPolicy\<close>, which walks the policy with three indices and a list of the unavailable
  names, hands them out in order, provided every cluster set of the policy resolves, is not empty
  and ends in an available cluster (\<open>failover_wf\<close>).
\<close>

section \<open>The specification\<close>

definition up :: "'s kube \<Rightarrow> 's \<Rightarrow> string \<Rightarrow> bool" where
  "up k s c \<longleftrightarrow> checkCluster k s c = None"

definition offers :: "'s kube \<Rightarrow> 's \<Rightarrow> ScheduleFailoverPolicy \<Rightarrow> string list" where
  "offers k s p =
     (if fo_Type p = ClusterTypeClusters then [fo_Name p]
      else if fo_Type p = ClusterTypeClusterSet then
        (case api_Get (kClusterSet k) s [] (fo_Name p) of
           Inl e \<Rightarrow> []
         | Inr clusterSet \<Rightarrow> getClusterListByClusterSet k s clusterSet)
      else [])"

definition candidates :: "'s kube \<Rightarrow> 's \<Rightarrow> ScheduleFailoverPolicy list \<Rightarrow> string list" where
  "candidates k s ps = concat (map (offers k s) ps)"

fun substitute :: "(string \<Rightarrow> bool) \<Rightarrow> string list \<Rightarrow> string list \<Rightarrow> string list" where
  "substitute ok [] cand = []"
| "substitute ok (c # cs) cand =
     (if ok c then c # substitute ok cs cand
      else case cand of [] \<Rightarrow> [] | d # ds \<Rightarrow> d # substitute ok cs ds)"

definition entry_wf :: "'s kube \<Rightarrow> 's \<Rightarrow> ScheduleFailoverPolicy \<Rightarrow> bool" where
  "entry_wf k s p \<longleftrightarrow>
     fo_Type p = ClusterTypeClusters \<or>
     (fo_Type p = ClusterTypeClusterSet \<and>
        (case api_Get (kClusterSet k) s [] (fo_Name p) of
           Inl e \<Rightarrow> False
         | Inr clusterSet \<Rightarrow>
             getClusterListByClusterSet k s clusterSet \<noteq> [] \<and>
             up k s (last (getClusterListByClusterSet k s clusterSet))))"

definition failover_wf :: "'s kube \<Rightarrow> 's \<Rightarrow> ScheduleFailoverPolicy list \<Rightarrow> bool" where
  "failover_wf k s ps \<longleftrightarrow> list_all (entry_wf k s) ps"

section \<open>Counting\<close>

lemma checkCluster_case:
  "(case checkCluster k s c of None \<Rightarrow> a | Some e \<Rightarrow> b) = (if up k s c then a else b)"
  by (auto simp: up_def split: option.splits)

lemma checkMembers_eq:
  "checkMembers k s cs (n, u) =
     (n + length (filter (up k s) cs), u @ filter (\<lambda>c. \<not> up k s c) cs)"
  by (induction cs arbitrary: n u) (auto simp: checkCluster_case)

lemma failoverPolicyLoop_eq:
  assumes "failover_wf k s ps"
  shows "failoverPolicyLoop k s ps (n, u) =
     (n + length (filter (up k s) (candidates k s ps)),
      u @ filter (\<lambda>c. \<not> up k s c) (candidates k s ps))"
  using assms
proof (induction ps arbitrary: n u)
  case Nil
  then show ?case by (simp add: candidates_def)
next
  case (Cons p ps)
  then have wf: "entry_wf k s p" and ih: "\<And>n u. failoverPolicyLoop k s ps (n, u) =
     (n + length (filter (up k s) (candidates k s ps)),
      u @ filter (\<lambda>c. \<not> up k s c) (candidates k s ps))"
    by (simp_all add: failover_wf_def)
  show ?case
  proof (cases "fo_Type p = ClusterTypeClusters")
    case True
    then show ?thesis
      by (auto simp: ih candidates_def offers_def checkCluster_case)
  next
    case False
    then obtain cs where "api_Get (kClusterSet k) s [] (fo_Name p) = Inr cs"
        and "fo_Type p = ClusterTypeClusterSet"
      using wf by (auto simp: entry_wf_def split: sum.splits)
    then show ?thesis
      by (simp add: ih candidates_def offers_def checkMembers_eq)
  qed
qed

lemma unavailableFrom_eq:
  "unavailableFrom k s i cs =
     (filter (\<lambda>c. \<not> up k s c) cs,
      filter (\<lambda>j. \<not> up k s (cs ! (j - i))) [i..<i + length cs])"
proof (induction cs arbitrary: i)
  case (Cons c cs)
  have "filter (\<lambda>j. \<not> up k s ((c # cs) ! (j - i))) [i..<i + length (c # cs)]
      = (if \<not> up k s c then [i] else [])
        @ filter (\<lambda>j. \<not> up k s ((c # cs) ! (j - i))) [Suc i..<i + length (c # cs)]"
    using upt_conv_Cons [of i "i + length (c # cs)"] by (simp del: upt_Suc)
  moreover have "filter (\<lambda>j. \<not> up k s ((c # cs) ! (j - i))) [Suc i..<Suc i + length cs]
      = filter (\<lambda>j. \<not> up k s (cs ! (j - Suc i))) [Suc i..<Suc i + length cs]"
    by (rule filter_cong) (auto simp: nth_Cons')
  ultimately show ?case
    using Cons.IH [of "Suc i"] by (auto simp: up_def)
qed simp

section \<open>The walk over the failover policy\<close>

text \<open>What is still to be offered when the walk stands at the indices \<open>ix\<close>.\<close>

definition remaining ::
  "'s kube \<Rightarrow> 's \<Rightarrow> ScheduleFailoverPolicy list \<Rightarrow> FailoverPolicyIndex \<Rightarrow> string list" where
  "remaining k s ps ix =
     (if fi_FailoverIndex ix < length ps
      then drop (fi_ClusterSetIndex ix) (offers k s (ps ! fi_FailoverIndex ix))
           @ candidates k s (drop (Suc (fi_FailoverIndex ix)) ps)
      else [])"

definition ptr_ok ::
  "'s kube \<Rightarrow> 's \<Rightarrow> ScheduleFailoverPolicy list \<Rightarrow> FailoverPolicyIndex \<Rightarrow> bool" where
  "ptr_ok k s ps ix \<longleftrightarrow>
     (if fi_FailoverIndex ix < length ps
      then fi_ClusterSetIndex ix < length (offers k s (ps ! fi_FailoverIndex ix))
      else fi_ClusterSetIndex ix = 0)"

definition walk_inv ::
  "'s kube \<Rightarrow> 's \<Rightarrow> ScheduleFailoverPolicy list \<Rightarrow> string list \<Rightarrow> string list \<Rightarrow>
   FailoverPolicyIndex \<Rightarrow> bool" where
  "walk_inv k s ps unavail seen ix \<longleftrightarrow>
     candidates k s ps = seen @ remaining k s ps ix \<and>
     unavail = filter (\<lambda>c. \<not> up k s c) (candidates k s ps) \<and>
     fi_UnavailableFailoverClusterIndex ix =
       min (length (filter (\<lambda>c. \<not> up k s c) seen)) (length unavail - 1) \<and>
     ptr_ok k s ps ix"

lemma offers_ne: "entry_wf k s p \<Longrightarrow> offers k s p \<noteq> []"
  by (auto simp: entry_wf_def offers_def split: sum.splits)

lemma remaining_next_entry:
  assumes "failover_wf k s ps" and "f < length ps"
    and "fi_FailoverIndex ix = Suc f" and "fi_ClusterSetIndex ix = 0"
  shows "remaining k s ps ix = candidates k s (drop (Suc f) ps)"
    and "ptr_ok k s ps ix"
proof -
  show "remaining k s ps ix = candidates k s (drop (Suc f) ps)"
  proof (cases "Suc f < length ps")
    case True
    then have "drop (Suc f) ps = ps ! Suc f # drop (Suc (Suc f)) ps" by (rule Cons_nth_drop_Suc [symmetric])
    with True assms show ?thesis by (simp add: remaining_def candidates_def)
  qed (use assms in \<open>simp add: remaining_def candidates_def\<close>)
  show "ptr_ok k s ps ix"
    using assms by (auto simp: ptr_ok_def failover_wf_def list_all_length intro!: offers_ne)
qed

text \<open>The comparison with the list of unavailable names decides availability.\<close>

lemma candidateFree_up:
  assumes "walk_inv k s ps unavail seen ix" and "remaining k s ps ix = c # rest"
  shows "candidateFree unavail ix (Inr c) = Inr (up k s c)"
proof -
  let ?down = "\<lambda>c. \<not> up k s c"
  let ?u = "fi_UnavailableFailoverClusterIndex ix"
  have un: "unavail = filter ?down seen @ filter ?down (c # rest)"
    and u: "?u = min (length (filter ?down seen)) (length unavail - 1)"
    using assms by (auto simp: walk_inv_def)
  show ?thesis
  proof (cases "unavail = []")
    case True
    then show ?thesis using un by (auto simp: candidateFree_def split: if_splits)
  next
    case False
    then have lt: "?u < length unavail" using u by (cases unavail) (auto simp: min_def)
    show ?thesis
    proof (cases "up k s c")
      case True
      have "unavail ! ?u \<in> set unavail" using lt by simp
      then have "\<not> up k s (unavail ! ?u)" using un by auto
      then have "c \<noteq> unavail ! ?u" using True by auto
      with lt False True show ?thesis by (simp add: candidateFree_def)
    next
      case down: False
      then have "?u = length (filter ?down seen)" using u un by simp
      then have "unavail ! ?u = c" using un down by (simp add: nth_append)
      with lt False down show ?thesis by (simp add: candidateFree_def)
    qed
  qed
qed

text \<open>The entry under the indices, and the candidate it puts first.\<close>

lemma remaining_Cons:
  assumes wf: "failover_wf k s ps" and inv: "walk_inv k s ps unavail seen ix"
    and rem: "remaining k s ps ix = c # rest"
  defines "p \<equiv> ps ! fi_FailoverIndex ix" and "j \<equiv> fi_ClusterSetIndex ix"
  shows "fi_FailoverIndex ix < length ps"
    and "entry_wf k s p"
    and "j < length (offers k s p)" and "offers k s p ! j = c"
    and "rest = drop (Suc j) (offers k s p) @ candidates k s (drop (Suc (fi_FailoverIndex ix)) ps)"
proof -
  show f: "fi_FailoverIndex ix < length ps" using rem by (auto simp: remaining_def split: if_splits)
  then show "entry_wf k s p" using wf by (simp add: failover_wf_def list_all_length p_def)
  show j: "j < length (offers k s p)" using inv f by (simp add: walk_inv_def ptr_ok_def p_def j_def)
  have "drop j (offers k s p) @ candidates k s (drop (Suc (fi_FailoverIndex ix)) ps) = c # rest"
    using rem f by (simp add: remaining_def p_def j_def)
  moreover have "drop j (offers k s p) = offers k s p ! j # drop (Suc j) (offers k s p)"
    using j by (rule Cons_nth_drop_Suc [symmetric])
  ultimately show "offers k s p ! j = c"
    and "rest = drop (Suc j) (offers k s p) @ candidates k s (drop (Suc (fi_FailoverIndex ix)) ps)"
    by simp_all
qed

text \<open>Moving past a candidate keeps the invariant once the indices point at the rest.\<close>

lemma walk_inv_next:
  assumes inv: "walk_inv k s ps unavail seen ix" and rem: "remaining k s ps ix = c # rest"
    and rem': "remaining k s ps ix' = rest"
    and ptr: "ptr_ok k s ps ix'"
    and u: "fi_UnavailableFailoverClusterIndex ix' =
            (if up k s c then fi_UnavailableFailoverClusterIndex ix
             else min (Suc (fi_UnavailableFailoverClusterIndex ix)) (length unavail - 1))"
  shows "walk_inv k s ps unavail (seen @ [c]) ix'"
  using assms by (auto simp: walk_inv_def min_def)

lemma nextUnavailable_index:
  assumes "fi_UnavailableFailoverClusterIndex ix \<le> length unavail - 1"
  shows "fi_UnavailableFailoverClusterIndex (nextUnavailable unavail ix)
           = min (Suc (fi_UnavailableFailoverClusterIndex ix)) (length unavail - 1)"
  using assms by (auto simp: nextUnavailable_def min_def)

lemma nextUnavailable_other [simp]:
  "fi_FailoverIndex (nextUnavailable unavail ix) = fi_FailoverIndex ix"
  "fi_ClusterSetIndex (nextUnavailable unavail ix) = fi_ClusterSetIndex ix"
  "fi_DoneIndex (nextUnavailable unavail ix) = fi_DoneIndex ix"
  by (simp_all add: nextUnavailable_def)

lemma remaining_indices:
  "fi_FailoverIndex ix = fi_FailoverIndex ix' \<Longrightarrow> fi_ClusterSetIndex ix = fi_ClusterSetIndex ix' \<Longrightarrow>
   remaining k s ps ix = remaining k s ps ix'"
  by (simp add: remaining_def)

lemma ptr_ok_indices:
  "fi_FailoverIndex ix = fi_FailoverIndex ix' \<Longrightarrow> fi_ClusterSetIndex ix = fi_ClusterSetIndex ix' \<Longrightarrow>
   ptr_ok k s ps ix = ptr_ok k s ps ix'"
  by (simp add: ptr_ok_def)

lemma walk_inv_u: "walk_inv k s ps unavail seen ix \<Longrightarrow>
  fi_UnavailableFailoverClusterIndex ix \<le> length unavail - 1"
  by (simp add: walk_inv_def)

text \<open>One iteration of the loop: an available candidate is taken, another is passed over.\<close>

lemma failoverStep_clusters:
  assumes wf: "failover_wf k s ps" and inv: "walk_inv k s ps unavail seen ix"
    and rem: "remaining k s ps ix = c # rest"
    and ty: "fo_Type (ps ! fi_FailoverIndex ix) = ClusterTypeClusters"
  defines "ix' \<equiv> ix\<lparr>fi_FailoverIndex := fi_FailoverIndex ix + 1\<rparr>"
  shows "failoverStep k s ps unavail clusters ix =
     (if up k s c
      then Inl (Inr (ix'\<lparr>fi_DoneIndex := fi_DoneIndex ix + 1\<rparr>, clusters @ [bindingCluster c]))
      else Inr (nextUnavailable unavail ix'))"
    and "remaining k s ps ix' = rest"
    and "ptr_ok k s ps ix'"
proof -
  note R = remaining_Cons [OF wf inv rem]
  have off: "offers k s (ps ! fi_FailoverIndex ix) = [fo_Name (ps ! fi_FailoverIndex ix)]"
    using ty by (simp add: offers_def)
  with R have j: "fi_ClusterSetIndex ix = 0" and c: "fo_Name (ps ! fi_FailoverIndex ix) = c"
    and rest: "rest = candidates k s (drop (Suc (fi_FailoverIndex ix)) ps)"
    by simp_all
  show "failoverStep k s ps unavail clusters ix =
     (if up k s c
      then Inl (Inr (ix'\<lparr>fi_DoneIndex := fi_DoneIndex ix + 1\<rparr>, clusters @ [bindingCluster c]))
      else Inr (nextUnavailable unavail ix'))"
    using R(1) ty candidateFree_up [OF inv rem] c by (simp add: failoverStep_def ix'_def)
  have "fi_FailoverIndex ix' = Suc (fi_FailoverIndex ix)" and "fi_ClusterSetIndex ix' = 0"
    using j by (simp_all add: ix'_def)
  from remaining_next_entry [OF wf R(1) this] rest
  show "remaining k s ps ix' = rest"
    and "ptr_ok k s ps ix'"
    by simp_all
qed

lemma entry_set:
  assumes "entry_wf k s p" and "fo_Type p \<noteq> ClusterTypeClusters"
  obtains cs where "fo_Type p = ClusterTypeClusterSet"
    and "api_Get (kClusterSet k) s [] (fo_Name p) = Inr cs"
    and "offers k s p = getClusterListByClusterSet k s cs"
    and "up k s (last (offers k s p))"
  using assms by (auto simp: entry_wf_def offers_def split: sum.splits)

lemma failoverStep_set_up:
  assumes wf: "failover_wf k s ps" and inv: "walk_inv k s ps unavail seen ix"
    and rem: "remaining k s ps ix = c # rest"
    and ty: "fo_Type (ps ! fi_FailoverIndex ix) \<noteq> ClusterTypeClusters" and c: "up k s c"
  shows "\<exists>ix'. failoverStep k s ps unavail clusters ix =
             Inl (Inr (ix', clusters @ [bindingCluster c])) \<and>
           walk_inv k s ps unavail (seen @ [c]) ix' \<and> remaining k s ps ix' = rest \<and>
           fi_DoneIndex ix' = Suc (fi_DoneIndex ix)"
proof -
  let ?p = "ps ! fi_FailoverIndex ix" and ?j = "fi_ClusterSetIndex ix"
  note R = remaining_Cons [OF wf inv rem]
  obtain cs where set: "fo_Type ?p = ClusterTypeClusterSet"
      "api_Get (kClusterSet k) s [] (fo_Name ?p) = Inr cs"
      "offers k s ?p = getClusterListByClusterSet k s cs"
    using entry_set [OF R(2) ty] by metis
  define ix1 where "ix1 = ix\<lparr>fi_DoneIndex := fi_DoneIndex ix + 1\<rparr>"
  define ix' where "ix' = (if Suc ?j < length (offers k s ?p)
      then ix1\<lparr>fi_ClusterSetIndex := ?j + 1\<rparr>
      else ix1\<lparr>fi_ClusterSetIndex := 0, fi_FailoverIndex := fi_FailoverIndex ix + 1\<rparr>)"
  have step: "failoverStep k s ps unavail clusters ix = Inl (Inr (ix', clusters @ [bindingCluster c]))"
    using R set ty c candidateFree_up [OF inv rem]
    by (simp add: failoverStep_def ix'_def ix1_def Let_def)
  have rem': "remaining k s ps ix' = rest \<and> ptr_ok k s ps ix'"
  proof (cases "Suc ?j < length (offers k s ?p)")
    case True
    then show ?thesis using R(1,5) by (simp add: ix'_def ix1_def remaining_def ptr_ok_def)
  next
    case False
    then have "fi_FailoverIndex ix' = Suc (fi_FailoverIndex ix)" and "fi_ClusterSetIndex ix' = 0"
      by (simp_all add: ix'_def ix1_def)
    from remaining_next_entry [OF wf R(1) this] False R(3,5) show ?thesis by simp
  qed
  have "walk_inv k s ps unavail (seen @ [c]) ix'"
    by (rule walk_inv_next [OF inv rem conjunct1 [OF rem'] conjunct2 [OF rem']])
       (use c in \<open>simp add: ix'_def ix1_def\<close>)
  with step rem' show ?thesis by (auto simp: ix'_def ix1_def)
qed

lemma failoverStep_set_down:
  assumes wf: "failover_wf k s ps" and inv: "walk_inv k s ps unavail seen ix"
    and rem: "remaining k s ps ix = c # rest"
    and ty: "fo_Type (ps ! fi_FailoverIndex ix) \<noteq> ClusterTypeClusters" and c: "\<not> up k s c"
  shows "\<exists>ix'. failoverStep k s ps unavail clusters ix = Inr ix' \<and>
           walk_inv k s ps unavail (seen @ [c]) ix' \<and> remaining k s ps ix' = rest \<and>
           fi_DoneIndex ix' = fi_DoneIndex ix"
proof -
  let ?p = "ps ! fi_FailoverIndex ix" and ?j = "fi_ClusterSetIndex ix"
  note R = remaining_Cons [OF wf inv rem]
  obtain cs where set: "fo_Type ?p = ClusterTypeClusterSet"
      "api_Get (kClusterSet k) s [] (fo_Name ?p) = Inr cs"
      "offers k s ?p = getClusterListByClusterSet k s cs" "up k s (last (offers k s ?p))"
    using entry_set [OF R(2) ty] by metis
  have j: "Suc ?j < length (offers k s ?p)"
  proof (rule ccontr)
    assume "\<not> ?thesis"
    with R(3) have "?j = length (offers k s ?p) - 1" and "offers k s ?p \<noteq> []" by auto
    with R(4) have "last (offers k s ?p) = c" by (simp add: last_conv_nth)
    with set(4) c show False by simp
  qed
  define ix1 where "ix1 = ix\<lparr>fi_ClusterSetIndex := ?j + 1\<rparr>"
  define ix' where "ix' = nextUnavailable unavail ix1"
  have step: "failoverStep k s ps unavail clusters ix = Inr ix'"
    using R set ty c candidateFree_up [OF inv rem]
    by (simp add: failoverStep_def ix'_def ix1_def Let_def)
  have rem': "remaining k s ps ix' = rest"
    using R(1,5) j by (simp add: ix'_def ix1_def remaining_def)
  have "walk_inv k s ps unavail (seen @ [c]) ix'"
    by (rule walk_inv_next [OF inv rem rem'])
       (use R(1) j c walk_inv_u [OF inv] in
          \<open>simp_all add: ix'_def nextUnavailable_index ix1_def ptr_ok_def\<close>)
  with step rem' show ?thesis by (auto simp: ix'_def ix1_def)
qed

lemma failoverStep_up:
  assumes wf: "failover_wf k s ps" and inv: "walk_inv k s ps unavail seen ix"
    and rem: "remaining k s ps ix = c # rest" and c: "up k s c"
  shows "\<exists>ix'. failoverStep k s ps unavail clusters ix =
             Inl (Inr (ix', clusters @ [bindingCluster c])) \<and>
           walk_inv k s ps unavail (seen @ [c]) ix' \<and> remaining k s ps ix' = rest \<and>
           fi_DoneIndex ix' = Suc (fi_DoneIndex ix)"
proof (cases "fo_Type (ps ! fi_FailoverIndex ix) = ClusterTypeClusters")
  case True
  let ?ix = "ix\<lparr>fi_FailoverIndex := fi_FailoverIndex ix + 1\<rparr>"
  let ?ix' = "?ix\<lparr>fi_DoneIndex := fi_DoneIndex ix + 1\<rparr>"
  note S = failoverStep_clusters [OF wf inv rem True]
  have rem': "remaining k s ps ?ix' = rest"
    using S(2) remaining_indices [of ?ix' ?ix k s ps] by simp
  have "ptr_ok k s ps ?ix'" using S(3) ptr_ok_indices [of ?ix' ?ix k s ps] by simp
  then have "walk_inv k s ps unavail (seen @ [c]) ?ix'"
    by (rule walk_inv_next [OF inv rem rem']) (use c in simp)
  with S(1) [of clusters] c rem' show ?thesis by auto
qed (use failoverStep_set_up [OF wf inv rem _ c] in blast)

lemma failoverStep_down:
  assumes wf: "failover_wf k s ps" and inv: "walk_inv k s ps unavail seen ix"
    and rem: "remaining k s ps ix = c # rest" and c: "\<not> up k s c"
  shows "\<exists>ix'. failoverStep k s ps unavail clusters ix = Inr ix' \<and>
           walk_inv k s ps unavail (seen @ [c]) ix' \<and> remaining k s ps ix' = rest \<and>
           fi_DoneIndex ix' = fi_DoneIndex ix"
proof (cases "fo_Type (ps ! fi_FailoverIndex ix) = ClusterTypeClusters")
  case True
  let ?ix = "ix\<lparr>fi_FailoverIndex := fi_FailoverIndex ix + 1\<rparr>"
  let ?ix' = "nextUnavailable unavail ?ix"
  note S = failoverStep_clusters [OF wf inv rem True]
  have rem': "remaining k s ps ?ix' = rest"
    using S(2) remaining_indices [of ?ix' ?ix k s ps] by simp
  have "ptr_ok k s ps ?ix'" using S(3) ptr_ok_indices [of ?ix' ?ix k s ps] by simp
  then have "walk_inv k s ps unavail (seen @ [c]) ?ix'"
    by (rule walk_inv_next [OF inv rem rem'])
       (use c walk_inv_u [OF inv] in \<open>simp add: nextUnavailable_index\<close>)
  with S(1) [of clusters] c rem' show ?thesis by auto
qed (use failoverStep_set_down [OF wf inv rem _ c] in blast)

end
