(* ===== verification/Placement.thy ===== *)
theory Placement
  imports FailoverCorrect
begin

text \<open>
  From one failover choice to the clusters of a whole binding: \<open>doFailoverPolicy\<close> hands out the
  next available candidate, and the loop over the clusters of a policy produces the list in which
  every unavailable cluster is replaced. Also the three ways in which the choice goes wrong
  outside \<open>failover_wf\<close>.
\<close>

section \<open>One choice\<close>

lemma doFailoverPolicy_next:
  assumes wf: "failover_wf k s ps" and c: "up k s c"
    and inv: "walk_inv k s ps unavail seen ix"
    and rem: "remaining k s ps ix = downs @ c # rest" and downs: "\<forall>d\<in>set downs. \<not> up k s d"
  shows "\<exists>ix' seen'. doFailoverPolicy k s ps unavail clusters ix =
             Some (Inr (ix', clusters @ [bindingCluster c])) \<and>
           walk_inv k s ps unavail seen' ix' \<and> remaining k s ps ix' = rest \<and>
           fi_DoneIndex ix' = Suc (fi_DoneIndex ix)"
  using inv rem downs
proof (induction downs arbitrary: ix seen)
  case Nil
  then show ?case
    using failoverStep_up [OF wf Nil.prems(1) _ c, of rest clusters]
    by (auto simp: doFailoverPolicy.simps)
next
  case (Cons d downs)
  then obtain ix1 where step: "failoverStep k s ps unavail clusters ix = Inr ix1"
      and inv1: "walk_inv k s ps unavail (seen @ [d]) ix1"
      and rem1: "remaining k s ps ix1 = downs @ c # rest"
      and done1: "fi_DoneIndex ix1 = fi_DoneIndex ix"
    using failoverStep_down [OF wf Cons.prems(1), of d "downs @ c # rest" clusters] by auto
  from Cons.IH [OF inv1 rem1] Cons.prems(3) done1 step show ?case
    by (auto simp: doFailoverPolicy.simps [of k s ps unavail clusters ix])
qed

lemma walk_inv_start:
  assumes "failover_wf k s ps"
  shows "walk_inv k s ps (filter (\<lambda>c. \<not> up k s c) (candidates k s ps)) [] zeroIndex"
    and "remaining k s ps zeroIndex = candidates k s ps"
proof -
  show rem: "remaining k s ps zeroIndex = candidates k s ps"
    by (cases ps) (simp_all add: remaining_def zeroIndex_def candidates_def)
  have "ptr_ok k s ps zeroIndex"
    using assms by (cases ps) (simp_all add: ptr_ok_def zeroIndex_def failover_wf_def offers_ne)
  with rem show "walk_inv k s ps (filter (\<lambda>c. \<not> up k s c) (candidates k s ps)) [] zeroIndex"
    by (simp add: walk_inv_def) (simp add: zeroIndex_def)
qed

section \<open>The loop over the clusters\<close>

text \<open>
  \<open>place_inv\<close> relates the state of the loop after \<open>j\<close> clusters to the specification: what was
  placed, followed by the substitution of what is left, is the substitution of the whole list.
\<close>

definition place_inv ::
  "'s kube \<Rightarrow> 's \<Rightarrow> ScheduleFailoverPolicy list \<Rightarrow> string list \<Rightarrow> nat list \<Rightarrow> string list \<Rightarrow>
   nat \<Rightarrow> FailoverPolicyIndex \<times> MultiClusterResourceBindingCluster list \<Rightarrow> bool" where
  "place_inv k s ps names fails unavail j st \<longleftrightarrow>
     fails = filter (\<lambda>i. \<not> up k s (names ! i)) [0..<length names] \<and>
     length (snd st) = j \<and>
     fi_DoneIndex (fst st) = length (filter (\<lambda>c. \<not> up k s c) (take j names)) \<and>
     map bc_Name (snd st) @ substitute (up k s) (drop j names) (filter (up k s) (remaining k s ps (fst st)))
       = substitute (up k s) names (filter (up k s) (candidates k s ps)) \<and>
     (fails \<noteq> [] \<longrightarrow>
        (\<exists>seen. walk_inv k s ps unavail seen (fst st)) \<and>
        length (filter (\<lambda>c. \<not> up k s c) (drop j names))
          \<le> length (filter (up k s) (remaining k s ps (fst st))))"

lemma filter_upt_nth:
  assumes "j < n"
  shows "filter P [0..<n] = filter P [0..<j] @ (if P j then [j] else []) @ filter P [Suc j..<n]"
proof -
  have "[0..<n] = [0..<j] @ j # [Suc j..<n]"
    using assms by (metis upt_conv_Cons upt_add_eq_append le0 less_imp_le_nat le_add_diff_inverse)
  then show ?thesis by simp
qed

lemma length_filter_take_upt:
  assumes "j \<le> length xs"
  shows "length (filter (\<lambda>i. P (xs ! i)) [0..<j]) = length (filter P (take j xs))"
  using assms
proof (induction j)
  case (Suc j)
  then show ?case by (simp add: take_Suc_conv_app_nth)
qed simp

lemma failIndex_hit:
  fixes ok :: "string \<Rightarrow> bool"
  assumes "j < length names"
  defines "fails \<equiv> filter (\<lambda>i. \<not> ok (names ! i)) [0..<length names]"
    and "d \<equiv> length (filter (\<lambda>c. \<not> ok c) (take j names))"
  shows "(d < length fails \<and> j = fails ! d) \<longleftrightarrow> \<not> ok (names ! j)"
proof -
  let ?P = "\<lambda>i. \<not> ok (names ! i)"
  have d: "length (filter ?P [0..<j]) = d"
    using assms length_filter_take_upt [of j names "\<lambda>c. \<not> ok c"] by simp
  have split: "fails = filter ?P [0..<j] @ (if ?P j then [j] else []) @ filter ?P [Suc j..<length names]"
    unfolding fails_def using assms(1) by (rule filter_upt_nth)
  show ?thesis
  proof (cases "?P j")
    case True
    then show ?thesis using split d by (simp add: nth_append)
  next
    case False
    have "fails ! d \<noteq> j" if "d < length fails"
    proof -
      have "fails ! d \<in> set fails" using that by simp
      with False show ?thesis by (auto simp: fails_def)
    qed
    with False show ?thesis by auto
  qed
qed

lemma first_up:
  assumes "filter ok xs = c # cs"
  obtains downs rest where "xs = downs @ c # rest" "\<forall>d\<in>set downs. \<not> ok d" "ok c" "filter ok rest = cs"
  using assms by (metis filter_eq_Cons_iff)

lemma placeCluster_next:
  assumes wf: "failover_wf k s ps" and inv: "place_inv k s ps names fails unavail j (ix, clusters)"
    and j: "j < length names"
  shows "\<exists>ix' c. placeCluster k s fails ps unavail j (names ! j) (ix, clusters)
             = Inr (ix', clusters @ [bindingCluster c]) \<and>
           place_inv k s ps names fails unavail (Suc j) (ix', clusters @ [bindingCluster c])"
proof -
  let ?down = "\<lambda>c. \<not> up k s c" and ?n = "names ! j"
  have take: "take (Suc j) names = take j names @ [?n]" using j by (rule take_Suc_conv_app_nth)
  have dropc: "drop j names = ?n # drop (Suc j) names" using j by (rule Cons_nth_drop_Suc [symmetric])
  have fails: "fails = filter (\<lambda>i. \<not> up k s (names ! i)) [0..<length names]"
    using inv by (simp add: place_inv_def)
  have hit: "(fi_DoneIndex ix < length fails \<and> j = fails ! fi_DoneIndex ix) \<longleftrightarrow> ?down ?n"
    using failIndex_hit [OF j, of "up k s"] inv unfolding fails place_inv_def by simp
  show ?thesis
  proof (cases "up k s ?n")
    case True
    then have "placeCluster k s fails ps unavail j ?n (ix, clusters)
                 = Inr (ix, clusters @ [bindingCluster ?n])"
      using hit by (auto simp: placeCluster_def)
    moreover have "place_inv k s ps names fails unavail (Suc j) (ix, clusters @ [bindingCluster ?n])"
      using inv True dropc by (auto simp: place_inv_def take bindingCluster_def)
    ultimately show ?thesis by blast
  next
    case False
    then have ne: "fails \<noteq> []" using j by (auto simp: fails filter_empty_conv)
    then obtain seen where walk: "walk_inv k s ps unavail seen ix"
        and enough: "length (filter ?down (drop j names)) \<le> length (filter (up k s) (remaining k s ps ix))"
      using inv by (auto simp: place_inv_def)
    obtain c cs where c: "filter (up k s) (remaining k s ps ix) = c # cs"
      using enough False dropc by (cases "filter (up k s) (remaining k s ps ix)") auto
    then obtain downs rest where rem: "remaining k s ps ix = downs @ c # rest"
        "\<forall>d\<in>set downs. \<not> up k s d" "up k s c" "filter (up k s) rest = cs"
      by (rule first_up)
    obtain ix' seen' where F: "doFailoverPolicy k s ps unavail clusters ix =
             Some (Inr (ix', clusters @ [bindingCluster c]))"
        "walk_inv k s ps unavail seen' ix'" "remaining k s ps ix' = rest"
        "fi_DoneIndex ix' = Suc (fi_DoneIndex ix)"
      using doFailoverPolicy_next [OF wf rem(3) walk rem(1,2)] by blast
    have "placeCluster k s fails ps unavail j ?n (ix, clusters)
            = Inr (ix', clusters @ [bindingCluster c])"
      using hit False ne F(1) by (simp add: placeCluster_def)
    moreover have "place_inv k s ps names fails unavail (Suc j) (ix', clusters @ [bindingCluster c])"
      using inv False dropc c F(2,3,4) rem(4) enough
      by (auto simp: place_inv_def take bindingCluster_def)
    ultimately show ?thesis by blast
  qed
qed

lemma place_inv_names:
  "place_inv k s ps names fails unavail j (ix, clusters) \<Longrightarrow> map bc_Name clusters = map bc_Name clusters' \<Longrightarrow>
   place_inv k s ps names fails unavail j (ix, clusters')"
  by (auto simp: place_inv_def dest: map_eq_imp_length_eq)

lemma place_inv_end:
  "place_inv k s ps names fails unavail (length names) (ix, clusters) \<Longrightarrow>
   map bc_Name clusters = substitute (up k s) names (filter (up k s) (candidates k s ps))"
  by (simp add: place_inv_def)

end
