(* ===== verification/ReplicasCorrect.thy ===== *)
theory ReplicasCorrect
  imports Replicas
begin

text \<open>
  Correctness of the second split of a weighted policy. The overrides hold decimal strings; \<open>vals\<close>
  reads them as integers, and every step of the two loops is shown to act on these integers as
  intended: the counts stay between the bounds of their policies, what is not handed out yet plus
  what the clusters have is always the wanted total, and the loops return. At the end either the
  total is exact or every cluster is at its bound.
\<close>

section \<open>Reading and writing counts\<close>

definition okc :: "MultiClusterResourceBindingCluster \<Rightarrow> bool" where
  "okc c \<longleftrightarrow> bc_Override c \<noteq> [] \<and> strconvAtoi (jp_Value (hd (bc_Override c))) \<noteq> None"

definition val :: "MultiClusterResourceBindingCluster \<Rightarrow> int" where
  "val c = the (strconvAtoi (jp_Value (hd (bc_Override c))))"

abbreviation vals :: "MultiClusterResourceBindingCluster list \<Rightarrow> int list" where
  "vals cs \<equiv> map val cs"

text \<open>What no step changes: the clusters, the paths of their overrides, the later overrides.\<close>

definition shape ::
  "MultiClusterResourceBindingCluster list \<Rightarrow> (string \<times> (string \<times> string) list \<times> JSONPatch list) list"
where
  "shape cs = map (\<lambda>c. (bc_Name c, map (\<lambda>o1. (jp_Op o1, jp_Path o1)) (bc_Override c),
                        tl (bc_Override c))) cs"

lemma readReplicas_ok:
  assumes "list_all okc cs" and "j < length cs"
  shows "readReplicas cs j = Inr (vals cs ! j)"
proof -
  have "okc (cs ! j)" using assms by (simp add: list_all_length)
  then show ?thesis
    using assms(2) by (auto simp: okc_def readReplicas_def atoiOrErr_def val_def hd_conv_nth)
qed

lemma setReplicas_ok:
  assumes ok: "list_all okc cs" and j: "j < length cs" and v: "in_int64 v"
  shows "list_all okc (setReplicas cs j v)"
    and "vals (setReplicas cs j v) = (vals cs)[j := v]"
    and "shape (setReplicas cs j v) = shape cs"
    and "length (setReplicas cs j v) = length cs"
proof -
  define c where "c = cs ! j"
  define c' where "c' = c\<lparr>bc_Override := (bc_Override c)[0 := (bc_Override c ! 0)\<lparr>jp_Value := strconvItoa v\<rparr>]\<rparr>"
  have set: "setReplicas cs j v = cs[j := c']" by (simp add: setReplicas_def c_def c'_def)
  have "okc c" using ok j by (simp add: list_all_length c_def)
  then obtain o1 os where os: "bc_Override c = o1 # os" by (cases "bc_Override c") (auto simp: okc_def)
  have okc': "okc c'" and val': "val c' = v" using v os by (simp_all add: okc_def val_def c'_def)
  show "list_all okc (setReplicas cs j v)"
    using ok okc' set_update_subset_insert [of cs j c'] unfolding set by (auto simp: list_all_iff)
  show "vals (setReplicas cs j v) = (vals cs)[j := v]"
    using val' by (simp add: set map_update)
  have "(bc_Name c', map (\<lambda>o1. (jp_Op o1, jp_Path o1)) (bc_Override c'), tl (bc_Override c'))
      = (bc_Name c, map (\<lambda>o1. (jp_Op o1, jp_Path o1)) (bc_Override c), tl (bc_Override c))"
    using os by (simp add: c'_def)
  then show "shape (setReplicas cs j v) = shape cs"
    using j unfolding set shape_def by (simp add: map_update c_def list_update_same_conv)
  show "length (setReplicas cs j v) = length cs" by (simp add: setReplicas_def)
qed

section \<open>Bounds\<close>

text \<open>
  The counts of a policy as the CRD means them: \<open>0 \<le> min \<le> max\<close>, different names, and totals
  that fit a 64-bit integer with room to spare.
\<close>

definition counts_ok :: "SchedulePolicy list \<Rightarrow> int \<Rightarrow> bool" where
  "counts_ok ps R \<longleftrightarrow>
     ps \<noteq> [] \<and> length ps < 2 ^ 62 \<and> list_all (\<lambda>p. 0 \<le> sp_Min p \<and> sp_Min p \<le> sp_Max p) ps \<and>
     distinct (map sp_Name ps) \<and> sum_list (map sp_Max ps) < 2 ^ 62 \<and> 0 \<le> R \<and> R < 2 ^ 62"

definition inBounds :: "SchedulePolicy list \<Rightarrow> int list \<Rightarrow> bool" where
  "inBounds ps xs \<longleftrightarrow> list_all2 (\<lambda>p x. sp_Min p \<le> x \<and> x \<le> sp_Max p) ps xs"

definition limitOf :: "int \<Rightarrow> SchedulePolicy \<Rightarrow> int" where
  "limitOf d p = (if 0 < d then sp_Max p else sp_Min p)"

definition room :: "int \<Rightarrow> SchedulePolicy \<Rightarrow> int \<Rightarrow> int" where
  "room d p x = (if 0 < d then sp_Max p - x else x - sp_Min p)"

definition rooms :: "int \<Rightarrow> SchedulePolicy list \<Rightarrow> int list \<Rightarrow> int" where
  "rooms d ps xs = sum_list (map2 (room d) ps xs)"

lemma inBounds_nth:
  "inBounds ps xs \<Longrightarrow> j < length ps \<Longrightarrow> sp_Min (ps ! j) \<le> xs ! j \<and> xs ! j \<le> sp_Max (ps ! j)"
  by (auto simp: inBounds_def list_all2_conv_all_nth)

lemma inBounds_length [dest]: "inBounds ps xs \<Longrightarrow> length ps = length xs"
  by (simp add: inBounds_def list_all2_lengthD)

lemma inBounds_update:
  assumes "inBounds ps xs" and "sp_Min (ps ! j) \<le> v" and "v \<le> sp_Max (ps ! j)"
  shows "inBounds ps (xs[j := v])"
  unfolding inBounds_def list_all2_conv_all_nth
proof (intro conjI allI impI)
  show "length ps = length (xs[j := v])" using assms(1) by auto
  fix i assume "i < length ps"
  then show "sp_Min (ps ! i) \<le> xs[j := v] ! i" and "xs[j := v] ! i \<le> sp_Max (ps ! i)"
    using assms inBounds_nth [OF assms(1)] by (cases "i = j"; auto simp: nth_list_update)+
qed

lemma inBounds_sum:
  assumes "inBounds ps xs" and "list_all (\<lambda>p. 0 \<le> sp_Min p \<and> sp_Min p \<le> sp_Max p) ps"
  shows "0 \<le> sum_list xs \<and> sum_list xs \<le> sum_list (map sp_Max ps)"
  using assms unfolding inBounds_def
  by (induction ps xs rule: list_all2_induct) auto

lemma max_le_sum:
  assumes "list_all (\<lambda>p. 0 \<le> sp_Min p \<and> sp_Min p \<le> sp_Max p) ps" and "p \<in> set ps"
  shows "sp_Max p \<le> sum_list (map sp_Max ps)"
  using assms by (intro member_le_sum_list) (auto simp: list_all_iff)

lemma counts_bounds:
  assumes "counts_ok ps R" and "p \<in> set ps"
  shows "0 \<le> sp_Min p" and "sp_Min p \<le> sp_Max p" and "sp_Max p < 2 ^ 62"
  using assms max_le_sum [of ps p] by (auto simp: counts_ok_def list_all_iff)

lemma counts_sum:
  assumes "counts_ok ps R" and "inBounds ps xs"
  shows "0 \<le> sum_list xs" and "sum_list xs < 2 ^ 62"
  using assms inBounds_sum [of ps xs] by (auto simp: counts_ok_def)

lemma rooms_update:
  assumes "length ps = length xs" and "j < length ps"
  shows "rooms d ps (xs[j := v]) = rooms d ps xs - room d (ps ! j) (xs ! j) + room d (ps ! j) v"
proof -
  have "map2 (room d) ps (xs[j := v]) = (map2 (room d) ps xs)[j := room d (ps ! j) v]"
    using assms by (intro nth_equalityI) (auto simp: nth_list_update)
  then show ?thesis using assms by (simp add: rooms_def sum_list_update_int)
qed

lemma rooms_nonneg: "inBounds ps xs \<Longrightarrow> 0 \<le> rooms d ps xs"
  unfolding rooms_def inBounds_def
  by (induction ps xs rule: list_all2_induct) (auto simp: room_def)

section \<open>The first loop: everybody takes the same part\<close>

text \<open>
  \<open>sg d\<close> is the direction of the correction. The state after \<open>j\<close> clusters accounts for the whole
  difference: what the clusters have, what is set aside, and what the others will still take.
\<close>

definition sg :: "int \<Rightarrow> int" where "sg d = (if 0 < d then 1 else - 1)"

definition fill_inv ::
  "SchedulePolicy list \<Rightarrow> int \<Rightarrow> int \<Rightarrow> int \<Rightarrow> MultiClusterResourceBindingCluster list \<Rightarrow>
   nat \<Rightarrow> MultiClusterResourceBindingCluster list \<times> int \<Rightarrow> bool" where
  "fill_inv ps R d fill cs0 j st \<longleftrightarrow>
     list_all okc (fst st) \<and> inBounds ps (vals (fst st)) \<and> shape (fst st) = shape cs0 \<and>
     0 \<le> snd st \<and>
     sum_list (vals (fst st)) + sg d * (snd st + fill * int (length ps - j)) = R"

lemma fill_inv_bounds:
  assumes "counts_ok ps R" and "fill_inv ps R d fill cs0 j (cs, a)" and "0 \<le> fill"
  shows "0 \<le> a" and "a < 2 ^ 62" and "fill * int (length ps - j) < 2 ^ 62"
proof -
  have s: "0 \<le> sum_list (vals cs)" "sum_list (vals cs) < 2 ^ 62"
    using assms counts_sum by (auto simp: fill_inv_def)
  have R: "0 \<le> R" "R < 2 ^ 62" using assms(1) by (auto simp: counts_ok_def)
  have eq: "sum_list (vals cs) + sg d * (a + fill * int (length ps - j)) = R" and "0 \<le> a"
    using assms(2) by (auto simp: fill_inv_def)
  moreover have "0 \<le> fill * int (length ps - j)" using assms(3) by simp
  ultimately show "0 \<le> a" and "a < 2 ^ 62" and "fill * int (length ps - j) < 2 ^ 62"
    using s R by (auto simp: sg_def split: if_splits)
qed

lemma fillOne_ok:
  assumes cok: "counts_ok ps R" and d: "d \<noteq> 0" and fill: "0 \<le> fill" and j: "j < length ps"
    and inv: "fill_inv ps R d fill cs0 j (cs, a)"
  shows "\<exists>st'. fillOne d fill j (ps ! j) (cs, a) = Inr st' \<and> fill_inv ps R d fill cs0 (Suc j) st'"
proof -
  define p where "p = ps ! j"
  define x where "x = vals cs ! j"
  have ok: "list_all okc cs" and inb: "inBounds ps (vals cs)" and sh: "shape cs = shape cs0"
    and eq: "sum_list (vals cs) + sg d * (a + fill * int (length ps - j)) = R"
    using inv by (auto simp: fill_inv_def)
  have jc: "j < length cs" using j inb by (auto dest: inBounds_length)
  have p: "0 \<le> sp_Min p" "sp_Min p \<le> sp_Max p" "sp_Max p < 2 ^ 62"
    using counts_bounds [OF cok] j by (simp_all add: p_def)
  have x: "sp_Min p \<le> x" "x \<le> sp_Max p" using inBounds_nth [OF inb j] by (simp_all add: p_def x_def)
  have "int (length ps - j) = 1 + int (length ps - Suc j)" using j by simp
  then have split: "fill * int (length ps - j) = fill + fill * int (length ps - Suc j)"
    by (simp add: algebra_simps)
  have nn: "0 \<le> fill * int (length ps - Suc j)" using fill by simp
  note ab = fill_inv_bounds [OF cok inv fill]
  have fill62: "fill < 2 ^ 62" using ab(3) split nn by linarith
  have read: "readReplicas cs j = Inr x" using readReplicas_ok [OF ok jc] by (simp add: x_def)
  have room: "0 \<le> room d p x" "room d p x < 2 ^ 62" using p x by (auto simp: room_def)
  have toMax: "0 < d \<Longrightarrow> subI (sp_Max p) x = room d p x" "d < 0 \<Longrightarrow> subI x (sp_Min p) = room d p x"
    using p x by (auto simp: room_def in_int64_def)
  define v where "v = (if room d p x < fill then limitOf d p else x + sg d * fill)"
  define a' where "a' = (if room d p x < fill then a + (fill - room d p x) else a)"
  have v: "sp_Min p \<le> v" "v \<le> sp_Max p" using p x d fill by (auto simp: v_def limitOf_def room_def sg_def)
  have v64: "in_int64 v" using p v by (auto simp: in_int64_def)
  have step: "fillOne d fill j p (cs, a) = Inr (setReplicas cs j v, a')"
  proof -
    have "addI a (subI fill (room d p x)) = a + (fill - room d p x)"
      using ab fill62 room fill by (simp add: in_int64_def)
    moreover have "0 < d \<Longrightarrow> addI x fill = x + fill" and "d < 0 \<Longrightarrow> subI x fill = x - fill"
      using p x fill fill62 by (auto simp: in_int64_def)
    ultimately show ?thesis
      using d read toMax by (auto simp: fillOne_def v_def a'_def limitOf_def sg_def Let_def)
  qed
  have sum: "sum_list (vals (setReplicas cs j v)) = sum_list (vals cs) - x + v"
    using setReplicas_ok(2) [OF ok jc v64] sum_list_update_int [of j "vals cs" v] jc
    by (simp add: x_def)
  have "sum_list (vals (setReplicas cs j v)) + sg d * (a' + fill * int (length ps - Suc j)) = R"
    using eq d unfolding sum split
    by (auto simp: v_def a'_def sg_def room_def limitOf_def split: if_splits)
  moreover have "inBounds ps (vals (setReplicas cs j v))"
    using inBounds_update [OF inb, of j v] v setReplicas_ok(2) [OF ok jc v64] by (simp add: p_def)
  moreover have "0 \<le> a'" using ab fill by (auto simp: a'_def)
  ultimately have "fill_inv ps R d fill cs0 (Suc j) (setReplicas cs j v, a')"
    using setReplicas_ok [OF ok jc v64] sh by (simp add: fill_inv_def)
  with step show ?thesis by (auto simp: p_def)
qed

lemma fill_loop:
  assumes "counts_ok ps R" and "d \<noteq> 0" and "0 \<le> fill" and "fill_inv ps R d fill cs0 0 (cs, a)"
  shows "\<exists>cs' a'. forRange (fillOne d fill) 0 ps (cs, a) = Inr (cs', a') \<and>
           fill_inv ps R d fill cs0 (length ps) (cs', a')"
proof -
  have "\<exists>st. forRange (fillOne d fill) 0 ps (cs, a) = Inr st \<and>
          fill_inv ps R d fill cs0 (0 + length ps) st"
  proof (rule forRange_total [where I = "fill_inv ps R d fill cs0"])
    fix i st
    assume "i < 0 + length ps" and "fill_inv ps R d fill cs0 i st"
    then show "\<exists>b. fillOne d fill i (ps ! (i - 0)) st = Inr b \<and> fill_inv ps R d fill cs0 (Suc i) b"
      using fillOne_ok [OF assms(1-3), of i] by (cases st) simp
  qed (use assms in simp)
  then show ?thesis by auto
qed

section \<open>The second loop: one by one\<close>

text \<open>
  The invariant of the second loop: the clusters and \<open>addNum\<close> account for the total, the index
  points into the sorted list, whose entries belong to the policy, and a policy that has been
  removed from the list is at its bound.
\<close>

definition loop_inv ::
  "SchedulePolicy list \<Rightarrow> int \<Rightarrow> int \<Rightarrow> MultiClusterResourceBindingCluster list \<Rightarrow> pass_state \<Rightarrow> bool" where
  "loop_inv ps R d cs0 st \<longleftrightarrow>
     (case st of (cs, a, so) \<Rightarrow>
        list_all okc cs \<and> inBounds ps (vals cs) \<and> shape cs = shape cs0 \<and>
        sum_list (vals cs) + sg d * a = R \<and>
        0 \<le> so_Index so \<and> so_Index so < int (length (so_List so)) \<and>
        distinct (so_List so) \<and> set (so_List so) \<subseteq> set ps \<and>
        (\<forall>i<length ps. ps ! i \<notin> set (so_List so) \<longrightarrow> vals cs ! i = limitOf d (ps ! i)))"

definition loop_end ::
  "SchedulePolicy list \<Rightarrow> int \<Rightarrow> MultiClusterResourceBindingCluster list \<Rightarrow>
   MultiClusterResourceBindingCluster list \<Rightarrow> bool" where
  "loop_end ps d cs0 cs \<longleftrightarrow>
     list_all okc cs \<and> inBounds ps (vals cs) \<and> shape cs = shape cs0 \<and> vals cs = map (limitOf d) ps"

definition loop_measure :: "SchedulePolicy list \<Rightarrow> int \<Rightarrow> pass_state \<Rightarrow> nat" where
  "loop_measure ps d st =
     (case st of (cs, a, so) \<Rightarrow> nat (rooms d ps (vals cs)) + length (so_List so))"

lemma same_policy:
  assumes "distinct (map sp_Name ps)" and "p \<in> set ps" and "e \<in> set ps" and "sp_Name p = sp_Name e"
  shows "p = e"
  using assms by (auto simp: distinct_map inj_on_def)

lemma sortEntry_ok:
  assumes "loop_inv ps R d cs0 (cs, a, so)"
  shows "sortEntry so = Inr (so_List so ! nat (so_Index so))"
    and "so_List so ! nat (so_Index so) \<in> set ps"
proof -
  have "nat (so_Index so) < length (so_List so)" using assms by (auto simp: loop_inv_def)
  moreover have "set (so_List so) \<subseteq> set ps" and "0 \<le> so_Index so" using assms by (auto simp: loop_inv_def)
  ultimately show "sortEntry so = Inr (so_List so ! nat (so_Index so))"
    and "so_List so ! nat (so_Index so) \<in> set ps"
    by (auto simp: sortEntry_def)
qed

lemma weightStep_other:
  assumes "counts_ok ps R" and "loop_inv ps R d cs0 (cs, a, so)" and "j < length ps"
    and "so_List so ! nat (so_Index so) \<noteq> ps ! j"
  shows "weightStep d j (ps ! j) (cs, a, so) = Inr (False, cs, a, so)"
proof -
  have "sp_Name (ps ! j) \<noteq> sp_Name (so_List so ! nat (so_Index so))"
    using assms same_policy [of ps "ps ! j"] sortEntry_ok(2) [OF assms(2)]
    by (auto simp: counts_ok_def)
  then show ?thesis using sortEntry_ok(1) [OF assms(2)] by (auto simp: weightStep_def)
qed

text \<open>A step at the cluster the index points to: it takes one more, or it leaves the list.\<close>

lemma advanceIndex_ok:
  assumes "0 \<le> so_Index so" and "so_Index so < int (length (so_List so))"
  shows "so_List (advanceIndex so) = so_List so" and "0 \<le> so_Index (advanceIndex so)"
    and "so_Index (advanceIndex so) < int (length (so_List (advanceIndex so)))"
  using assms by (auto simp: advanceIndex_def)

lemma weightStep_more:
  assumes cok: "counts_ok ps R" and d: "d \<noteq> 0" and inv: "loop_inv ps R d cs0 (cs, a, so)"
    and j: "j < length ps" and hit: "so_List so ! nat (so_Index so) = ps ! j"
    and more: "room d (ps ! j) (vals cs ! j) > 0"
  shows "\<exists>st'. weightStep d j (ps ! j) (cs, a, so) = Inr (False, st') \<and> loop_inv ps R d cs0 st' \<and>
           loop_measure ps d st' < loop_measure ps d (cs, a, so)"
proof -
  define p where "p = ps ! j"
  define x where "x = vals cs ! j"
  have ok: "list_all okc cs" and inb: "inBounds ps (vals cs)" and sh: "shape cs = shape cs0"
    and eq: "sum_list (vals cs) + sg d * a = R"
    and ptr: "0 \<le> so_Index so" "so_Index so < int (length (so_List so))"
    using inv by (auto simp: loop_inv_def)
  have len: "length ps = length cs" using inb by (auto dest: inBounds_length)
  have jc: "j < length cs" using j len by simp
  have p: "0 \<le> sp_Min p" "sp_Min p \<le> sp_Max p" "sp_Max p < 2 ^ 62"
    using counts_bounds [OF cok] j by (simp_all add: p_def)
  have x: "sp_Min p \<le> x" "x \<le> sp_Max p" using inBounds_nth [OF inb j] by (simp_all add: p_def x_def)
  have s: "0 \<le> sum_list (vals cs)" "sum_list (vals cs) < 2 ^ 62" "0 \<le> R" "R < 2 ^ 62"
    using counts_sum [OF cok inb] cok by (auto simp: counts_ok_def)
  have a: "- (2 ^ 62) < a" "a < 2 ^ 62" using eq s by (auto simp: sg_def split: if_splits)
  define v where "v = x + sg d"
  have v: "sp_Min p \<le> v" "v \<le> sp_Max p"
    using more x by (auto simp: v_def sg_def room_def p_def x_def split: if_splits)
  have v64: "in_int64 v" using v p by (auto simp: in_int64_def)
  note S = setReplicas_ok [OF ok jc v64]
  have upd: "(if 0 < d then addI x 1 else subI x 1) = v"
    using p v by (auto simp: v_def sg_def in_int64_def)
  have dec: "subI a 1 = a - 1" using a by (simp add: in_int64_def)
  have cond: "(if 0 < d then x < sp_Max p else sp_Min p < x)"
    using more by (auto simp: room_def p_def x_def split: if_splits)
  define st' where "st' = (setReplicas cs j v, a - 1, advanceIndex so)"
  have step: "weightStep d j p (cs, a, so) = Inr (False, st')"
    using sortEntry_ok(1) [OF inv] hit readReplicas_ok [OF ok jc] cond [unfolded p_def x_def]
      upd [unfolded x_def] dec d
    by (auto simp: weightStep_def Let_def st'_def p_def split: if_splits)
  have sum: "sum_list (vals (setReplicas cs j v)) = sum_list (vals cs) + sg d"
    using S(2) sum_list_update_int [of j "vals cs" v] jc by (simp add: x_def v_def)
  have removed: "vals (setReplicas cs j v) ! i = limitOf d (ps ! i)"
    if "i < length ps" "ps ! i \<notin> set (so_List so)" for i
  proof -
    have "ps ! j \<in> set (so_List so)" using hit ptr by (metis nth_mem zless_nat_conj zero_less_imp_eq_int nat_int of_nat_less_iff int_nat_eq)
    with that have "i \<noteq> j" by auto
    with that inv S(2) show ?thesis by (auto simp: loop_inv_def)
  qed
  have "loop_inv ps R d cs0 st'"
    using inv S sh sum eq removed advanceIndex_ok [OF ptr] inBounds_update [OF inb, of j v] v
    by (auto simp: loop_inv_def st'_def p_def algebra_simps)
  moreover have "loop_measure ps d st' < loop_measure ps d (cs, a, so)"
  proof -
    have "rooms d ps (vals (setReplicas cs j v)) = rooms d ps (vals cs) - 1"
      using rooms_update [of ps "vals cs" j d v] len j S(2) d
      by (auto simp: x_def p_def v_def room_def sg_def)
    moreover have "0 \<le> rooms d ps (vals (setReplicas cs j v))"
      using inBounds_update [OF inb, of j v] v S(2) by (auto simp: p_def intro: rooms_nonneg)
    ultimately show ?thesis
      using advanceIndex_ok(1) [OF ptr] by (simp add: loop_measure_def st'_def)
  qed
  ultimately show ?thesis using step by (auto simp: p_def)
qed

lemma removeAtIndex_ok:
  assumes "0 \<le> so_Index so" and "so_Index so < int (length (so_List so))" and "distinct (so_List so)"
  shows "set (so_List (removeAtIndex so)) = set (so_List so) - {so_List so ! nat (so_Index so)}"
    and "distinct (so_List (removeAtIndex so))"
    and "length (so_List (removeAtIndex so)) = length (so_List so) - 1"
    and "so_Index (removeAtIndex so) = so_Index so"
proof -
  define xs where "xs = so_List so"
  define i where "i = nat (so_Index so)"
  have i: "i < length xs" using assms by (auto simp: xs_def i_def)
  have split: "xs = take i xs @ xs ! i # drop (Suc i) xs" using i by (rule id_take_nth_drop)
  have "distinct (take i xs @ xs ! i # drop (Suc i) xs)" using assms(3) split by (simp add: xs_def)
  then have d: "distinct (take i xs @ drop (Suc i) xs)" "xs ! i \<notin> set (take i xs @ drop (Suc i) xs)"
    by auto
  have "set xs = insert (xs ! i) (set (take i xs @ drop (Suc i) xs))" by (subst split) auto
  with d show "set (so_List (removeAtIndex so)) = set (so_List so) - {so_List so ! nat (so_Index so)}"
    by (auto simp: removeAtIndex_def xs_def i_def)
  show "distinct (so_List (removeAtIndex so))" using d by (simp add: removeAtIndex_def xs_def i_def)
  show "length (so_List (removeAtIndex so)) = length (so_List so) - 1"
    using i by (simp add: removeAtIndex_def xs_def i_def)
  show "so_Index (removeAtIndex so) = so_Index so" by (simp add: removeAtIndex_def)
qed

lemma weightStep_full:
  assumes cok: "counts_ok ps R" and d: "d \<noteq> 0" and inv: "loop_inv ps R d cs0 (cs, a, so)"
    and j: "j < length ps" and hit: "so_List so ! nat (so_Index so) = ps ! j"
    and full: "\<not> room d (ps ! j) (vals cs ! j) > 0"
  shows "\<exists>returns st'. weightStep d j (ps ! j) (cs, a, so) = Inr (returns, st') \<and>
           (if returns then loop_end ps d cs0 (fst st')
            else loop_inv ps R d cs0 st' \<and> loop_measure ps d st' < loop_measure ps d (cs, a, so))"
proof -
  let ?p = "ps ! j" and ?x = "vals cs ! j"
  have ok: "list_all okc cs" and inb: "inBounds ps (vals cs)" and sh: "shape cs = shape cs0"
    and ptr: "0 \<le> so_Index so" "so_Index so < int (length (so_List so))" and dist: "distinct (so_List so)"
    and sub: "set (so_List so) \<subseteq> set ps"
    and gone: "\<And>i. i < length ps \<Longrightarrow> ps ! i \<notin> set (so_List so) \<Longrightarrow> vals cs ! i = limitOf d (ps ! i)"
    using inv by (auto simp: loop_inv_def)
  have len: "length ps = length cs" using inb by (auto dest: inBounds_length)
  have jc: "j < length cs" using j len by simp
  have x: "sp_Min ?p \<le> ?x" "?x \<le> sp_Max ?p" using inBounds_nth [OF inb j] by simp_all
  have at: "?x = limitOf d ?p" using full x by (auto simp: room_def limitOf_def split: if_splits)
  have cond: "\<not> (if 0 < d then ?x < sp_Max ?p else sp_Min ?p < ?x)"
    using full by (auto simp: room_def split: if_splits)
  define so1 where "so1 = removeAtIndex so"
  define so2 where "so2 = (if so_Index so1 = int (length (so_List so1)) then so1\<lparr>so_Index := 0\<rparr> else so1)"
  have step: "weightStep d j ?p (cs, a, so) = Inr (length (so_List so2) = 0, cs, a, so2)"
    using sortEntry_ok(1) [OF inv] hit readReplicas_ok [OF ok jc] cond d
    by (simp add: weightStep_def Let_def so1_def so2_def)
  note R = removeAtIndex_ok [OF ptr dist, folded so1_def]
  have list2: "so_List so2 = so_List so1" by (simp add: so2_def)
  have gone2: "vals cs ! i = limitOf d (ps ! i)" if "i < length ps" "ps ! i \<notin> set (so_List so1)" for i
  proof (cases "ps ! i = ?p")
    case True
    have "distinct ps" using cok by (auto simp: counts_ok_def distinct_map)
    with True that j have "i = j" by (simp add: nth_eq_iff_index_eq)
    then show ?thesis using at by simp
  next
    case False
    with that R(1) hit have "ps ! i \<notin> set (so_List so)" by auto
    with gone that show ?thesis by blast
  qed
  show ?thesis
  proof (cases "so_List so1 = []")
    case True
    then have "vals cs = map (limitOf d) ps"
      using gone2 len by (intro nth_equalityI) auto
    then have "loop_end ps d cs0 cs" using ok inb sh by (simp add: loop_end_def)
    with step True list2 show ?thesis by (auto intro: exI [of _ True])
  next
    case False
    then have "0 < length (so_List so1)" by simp
    then have ptr2: "0 \<le> so_Index so2" "so_Index so2 < int (length (so_List so2))"
      using ptr R(3,4) by (auto simp: so2_def)
    have "loop_inv ps R d cs0 (cs, a, so2)"
      using inv R(1,2) ptr2 gone2 sub list2 by (auto simp: loop_inv_def)
    moreover have "loop_measure ps d (cs, a, so2) < loop_measure ps d (cs, a, so)"
      using R(3) ptr list2 False by (cases "so_List so1") (auto simp: loop_measure_def)
    ultimately show ?thesis using step False list2 by (auto intro: exI [of _ False])
  qed
qed

text \<open>One pass over the policy makes progress, because some cluster matches the index.\<close>

lemma weightPass_ok:
  assumes cok: "counts_ok ps R" and d: "d \<noteq> 0"
  shows "loop_inv ps R d cs0 st \<Longrightarrow> j \<le> length ps \<Longrightarrow>
    \<exists>returns st'. weightPass d j (drop j ps) st = Inr (returns, st') \<and>
      (if returns then loop_end ps d cs0 (fst st')
       else loop_inv ps R d cs0 st' \<and> loop_measure ps d st' \<le> loop_measure ps d st \<and>
         ((\<exists>i. j \<le> i \<and> i < length ps \<and> so_List (snd (snd st)) ! nat (so_Index (snd (snd st))) = ps ! i)
            \<longrightarrow> loop_measure ps d st' < loop_measure ps d st))"
proof (induction "length ps - j" arbitrary: j st)
  case 0
  then have "drop j ps = []" by simp
  then show ?case using 0 by auto
next
  case (Suc n)
  obtain cs a so where st: "st = (cs, a, so)" by (cases st) auto
  have j: "j < length ps" and n: "n = length ps - Suc j" using Suc by auto
  have drop: "drop j ps = ps ! j # drop (Suc j) ps" using j by (rule Cons_nth_drop_Suc [symmetric])
  have inv: "loop_inv ps R d cs0 (cs, a, so)" using Suc.prems(1) st by simp
  show ?case
  proof (cases "so_List so ! nat (so_Index so) = ps ! j")
    case False
    with weightStep_other [OF cok inv j False]
    have "weightPass d j (drop j ps) st = weightPass d (Suc j) (drop (Suc j) ps) st"
      by (simp add: drop st)
    moreover have "(\<exists>i. j \<le> i \<and> i < length ps \<and> so_List so ! nat (so_Index so) = ps ! i) \<longrightarrow>
        (\<exists>i. Suc j \<le> i \<and> i < length ps \<and> so_List so ! nat (so_Index so) = ps ! i)"
      using False by (metis le_antisym not_less_eq_eq)
    ultimately show ?thesis
      using Suc.hyps(1) [OF n Suc.prems(1)] j st by fastforce
  next
    case True
    obtain returns st1 where step: "weightStep d j (ps ! j) (cs, a, so) = Inr (returns, st1)"
        "if returns then loop_end ps d cs0 (fst st1)
         else loop_inv ps R d cs0 st1 \<and> loop_measure ps d st1 < loop_measure ps d (cs, a, so)"
      using weightStep_more [OF cok d inv j True] weightStep_full [OF cok d inv j True]
      by (cases "room d (ps ! j) (vals cs ! j) > 0") fastforce+
    show ?thesis
    proof (cases returns)
      case True
      then show ?thesis using step drop st by (auto intro: exI [of _ True])
    next
      case False
      then have inv1: "loop_inv ps R d cs0 st1" and less: "loop_measure ps d st1 < loop_measure ps d st"
        using step st by auto
      from Suc.hyps(1) [OF n inv1] j obtain r2 st2 where
        "weightPass d (Suc j) (drop (Suc j) ps) st1 = Inr (r2, st2)"
        "if r2 then loop_end ps d cs0 (fst st2)
         else loop_inv ps R d cs0 st2 \<and> loop_measure ps d st2 \<le> loop_measure ps d st1"
        by (metis Suc_leI)
      with step False drop st less show ?thesis by (auto split: if_splits)
    qed
  qed
qed

text \<open>The loop returns: exactly the wanted total, or every cluster at its bound.\<close>

lemma weightLoop_ok:
  assumes cok: "counts_ok ps R" and d: "d \<noteq> 0"
  shows "loop_inv ps R d cs0 st \<Longrightarrow>
    \<exists>cs'. weightLoop d ps st = Some (Inr cs') \<and>
      list_all okc cs' \<and> inBounds ps (vals cs') \<and> shape cs' = shape cs0 \<and>
      (sum_list (vals cs') = R \<or> vals cs' = map (limitOf d) ps)"
proof (induction "loop_measure ps d st" arbitrary: st rule: less_induct)
  case less
  obtain cs a so where st: "st = (cs, a, so)" by (cases st) auto
  have inv: "loop_inv ps R d cs0 (cs, a, so)" using less.prems st by simp
  show ?case
  proof (cases "a = 0")
    case True
    then have "weightLoop d ps st = Some (Inr cs)" unfolding st by (subst weightLoop.simps) simp
    with inv True show ?thesis by (auto simp: loop_inv_def)
  next
    case False
    have "\<exists>i. 0 \<le> i \<and> i < length ps \<and> so_List so ! nat (so_Index so) = ps ! i"
      using sortEntry_ok(2) [OF inv] by (auto simp: in_set_conv_nth eq_commute)
    with weightPass_ok [OF cok d less.prems, of 0] st
    obtain returns st' where pass: "weightPass d 0 ps st = Inr (returns, st')"
        "if returns then loop_end ps d cs0 (fst st')
         else loop_inv ps R d cs0 st' \<and> loop_measure ps d st' < loop_measure ps d st"
      by (auto split: if_splits)
    show ?thesis
    proof (cases returns)
      case True
      then show ?thesis
        using pass False st weightLoop.simps [of d ps st] by (auto simp: loop_end_def)
    next
      case ret: False
      then have "weightLoop d ps st = weightLoop d ps st'"
        using pass(1) False st weightLoop.simps [of d ps st] by simp
      with ret pass less.hyps [of st'] show ?thesis by simp
    qed
  qed
qed

end
