(* ===== verification/ScheduleCorrect.thy ===== *)
theory ScheduleCorrect
  imports Schedule Placement ReplicasCorrect
begin

text \<open>
  The generators as a whole. For a weighted policy whose counts are sensible, the binding lists, for
  every resource, the clusters of the policy with the unavailable ones substituted, and their
  replicas are within the bounds of the policy and add up to \<open>spec.replicas\<close>, unless every cluster
  is at its bound. This holds for all weights, also where the floating point shares are rounded, add up
  to another total or (with a total weight of zero) are no numbers at all: the difference that
  \<open>calculateWeight\<close> and \<open>firstReplaceReplicasByWeight\<close> carry is exact modulo \<open>2 ^ 64\<close>, and the
  bounds make it exact.
\<close>

section \<open>The second split as a whole\<close>

lemma fillAndRest_ok:
  assumes "d \<noteq> 0" and "- (2 ^ 63) < d" and "d < 2 ^ 63" and "0 < n" and "n < 2 ^ 62"
  shows "\<exists>q r. fillAndRest d n = Inr (q, r) \<and> 0 \<le> q \<and> 0 \<le> r \<and> d = sg d * (r + q * n)"
proof -
  define b where "b = \<bar>d\<bar>"
  have b: "0 < b" "b < 2 ^ 63" using assms by (auto simp: b_def)
  have q: "b div n * n + b mod n = b" "0 \<le> b div n" "0 \<le> b mod n" "b mod n \<le> b"
    using b assms(4) by (simp_all add: pos_imp_zdiv_nonneg_iff zmod_le_nonneg_dividend)
  have "b div n * 1 \<le> b div n * n" using q(2) assms(4) by (intro mult_left_mono) simp_all
  then have "b div n \<le> b" using q(1,3) by linarith
  then have fit: "in_int64 (b div n)" "in_int64 (b mod n)" "negI d = - d" "in_int64 d"
    using q b assms(2,3) by (auto simp: in_int64_def)
  have "quotI b n = Inr (b div n)" and "remI b n = Inr (b mod n)"
    using b assms(4) fit
    by (simp_all add: quotI_def remI_def signed_divide_int_def signed_modulo_int_def
        minus_div_mult_eq_mod)
  moreover have "b = (if 0 < d then d else negI d)" using assms(1) fit(3) by (auto simp: b_def)
  ultimately have "fillAndRest d n = Inr (b div n, b mod n)"
    using assms(1) by (cases "0 < d") (simp_all add: fillAndRest_def)
  moreover have "d = sg d * (b mod n + b div n * n)"
    using assms(1) q(1) by (auto simp: sg_def b_def)
  ultimately show ?thesis using q by blast
qed

theorem replaceReplicasByWeight_ok:
  fixes policy :: MultiClusterResourceSchedulePolicy
  defines "ps \<equiv> ps_Policy (po_Spec policy)"
  assumes cok: "counts_ok ps R" and d: "d \<noteq> 0"
    and ok: "list_all okc cs" and inb: "inBounds ps (vals cs)"
    and total: "sum_list (vals cs) + d = R"
    and so: "so_Index so = 0" "distinct (so_List so)" "set (so_List so) = set ps"
  shows "\<exists>cs'. replaceReplicasByWeight policy cs d so = Inr cs' \<and>
           list_all okc cs' \<and> inBounds ps (vals cs') \<and> shape cs' = shape cs \<and>
           (sum_list (vals cs') = R \<or> vals cs' = map (limitOf d) ps)"
proof -
  have s: "0 \<le> sum_list (vals cs)" "sum_list (vals cs) < 2 ^ 62" "0 \<le> R" "R < 2 ^ 62"
    using counts_sum [OF cok inb] cok by (auto simp: counts_ok_def)
  have ps: "ps \<noteq> []" "length ps < 2 ^ 62" using cok by (auto simp: counts_ok_def)
  then have n: "0 < int (length ps)" "int (length ps) < 2 ^ 62"
    using of_nat_less_iff [of "length ps" "2 ^ 62", where ?'a = int] by simp_all
  have d64: "- (2 ^ 63) < d" "d < 2 ^ 63" using s total by auto
  obtain q r where fr: "fillAndRest d (int (length ps)) = Inr (q, r)" "0 \<le> q" "0 \<le> r"
      "d = sg d * (r + q * int (length ps))"
    using fillAndRest_ok [OF d d64 n] by blast
  have "fill_inv ps R d q cs 0 (cs, r)"
    using ok inb fr total by (simp add: fill_inv_def)
  then obtain cs1 a1 where loop1: "forRange (fillOne d q) 0 ps (cs, r) = Inr (cs1, a1)"
      "fill_inv ps R d q cs (length ps) (cs1, a1)"
    using fill_loop [OF cok d fr(2)] by blast
  have "so_List so \<noteq> []" using so(3) ps(1) by auto
  with loop1(2) so have "loop_inv ps R d cs (cs1, a1, so)"
    by (auto simp: fill_inv_def loop_inv_def)
  from weightLoop_ok [OF cok d this] fr(1) loop1(1) show ?thesis
    by (auto simp: replaceReplicasByWeight_def ps_def)
qed

lemma doSortPolicyList_ok:
  assumes "distinct (ps_Policy (po_Spec policy))"
  shows "so_Index (doSortPolicyList policy) = 0"
    and "distinct (so_List (doSortPolicyList policy))"
    and "set (so_List (doSortPolicyList policy)) = set (ps_Policy (po_Spec policy))"
  using assms by (simp_all add: doSortPolicyList_def)

section \<open>The first split, modulo \<open>2 ^ 64\<close>\<close>

lemma wrap64_add_right: "wrap64 (a + wrap64 b) = wrap64 (a + b)"
  using wrap64_cong [of b a] by (simp add: add.commute)

lemma wrap64_diff_left: "wrap64 (wrap64 a - b) = wrap64 (a - b)"
  using wrap64_cong [of a "- b"] by simp

lemma wrap64_diff_right: "wrap64 (a - wrap64 b) = wrap64 (a - b)"
proof -
  have "(a - ((b + 2 ^ 63) mod 2 ^ 64 - 2 ^ 63) + 2 ^ 63) mod 2 ^ 64 = (a - b + 2 ^ 63) mod (2 ^ 64 :: int)"
    using mod_diff_right_eq [of "a + 2 ^ 64" "b + 2 ^ 63" "2 ^ 64"] by (simp add: algebra_simps)
  then show ?thesis by (simp add: wrap64_def)
qed

lemma foldl_addI: "in_int64 a \<Longrightarrow> foldl addI a xs = wrap64 (a + sum_list xs)"
proof (induction xs arbitrary: a)
  case (Cons x xs)
  have "foldl addI a (x # xs) = wrap64 (addI a x + sum_list xs)"
    using Cons.IH [of "addI a x"] by simp
  also have "\<dots> = wrap64 (a + sum_list (x # xs))"
    by (simp add: addI_def [of a x] wrap64_cong add.assoc)
  finally show ?case .
qed simp

lemma sumI_eq: "sumI xs = wrap64 (sum_list xs)"
  by (simp add: sumI_def foldl_addI in_int64_def)

definition clampOf :: "SchedulePolicy \<Rightarrow> int \<Rightarrow> int" where
  "clampOf p r = (if r < sp_Min p then sp_Min p else if sp_Max p < r then sp_Max p else r)"

lemma diff_of_total:
  assumes "in_int64 R"
  shows "(if sumI xs \<noteq> R then subI R (sumI xs) else 0) = wrap64 (R - sum_list xs)"
proof (cases "sumI xs = R")
  case True
  have "wrap64 (R - sum_list xs) = wrap64 (R - wrap64 (sum_list xs))" by (simp add: wrap64_diff_right)
  also have "\<dots> = 0" using True by (simp add: sumI_eq in_int64_def)
  finally show ?thesis using True by simp
qed (simp add: sumI_eq subI_def wrap64_diff_right)

lemma diff_after_clamp:
  assumes "in_int64 D"
  shows "(if r < sp_Min p then subI D (subI (sp_Min p) r)
          else if sp_Max p < r then addI D (subI r (sp_Max p)) else D) = wrap64 (D + r - clampOf p r)"
  using assms by (auto simp: clampOf_def subI_def addI_def wrap64_diff_right wrap64_add_right algebra_simps)

section \<open>One cluster\<close>

definition shareIn :: "MultiClusterResourceSchedulePolicy \<Rightarrow> SchedulePolicy \<Rightarrow> int" where
  "shareIn policy p =
     shareOf (ps_Replicas (po_Spec policy)) (fst (calculateWeight policy)) (sp_Weight p)"

text \<open>The clusters a binding needs of the server: the namespace and the resource.\<close>

definition readable :: "'s kube \<Rightarrow> 's \<Rightarrow> MultiClusterResourceSchedulePolicy \<Rightarrow> string \<Rightarrow> bool" where
  "readable k s policy resourceName \<longleftrightarrow>
     (case api_Get (kNamespace k) s [] (policyNamespace policy) of Inl e \<Rightarrow> False | Inr n \<Rightarrow> True) \<and>
     (case api_Get (kMultiClusterResource k) s (policyNamespace policy) resourceName of
        Inl e \<Rightarrow> False | Inr r \<Rightarrow> rs_ReplicasField (mr_Spec r) \<noteq> [])"

lemma checkNamespaceMapping_ok:
  assumes "readable k s policy resourceName"
  shows "\<exists>c'. checkNamespaceMapping k s policy n c = Inr c' \<and> bc_Name c' = bc_Name c \<and>
           (\<exists>more. bc_Override c' = bc_Override c @ more)"
  using assms
  by (auto simp: readable_def checkNamespaceMapping_def appendOverride_def Let_def
      split: sum.splits option.splits)

lemma weightOverrides_ok:
  assumes rd: "readable k s policy (fm_ResourceName model)"
    and tw: "fm_TotalWeight model = fst (calculateWeight policy)"
    and D: "in_int64 (fm_DiffReplicas model)" and x: "in_int64 (clampOf p (shareIn policy p))"
  shows "\<exists>c'. weightOverrides k s policy p model (bindingCluster n) =
             Inr (model\<lparr>fm_DiffReplicas :=
                          wrap64 (fm_DiffReplicas model + shareIn policy p - clampOf p (shareIn policy p))\<rparr>, c') \<and>
           bc_Name c' = n \<and> okc c' \<and> val c' = clampOf p (shareIn policy p)"
proof -
  define r where "r = shareIn policy p"
  obtain res where res: "api_Get (kMultiClusterResource k) s (policyNamespace policy) (fm_ResourceName model) = Inr res"
      "rs_ReplicasField (mr_Spec res) \<noteq> []"
    using rd by (auto simp: readable_def split: sum.splits)
  define c1 where
    "c1 = appendOverride (rs_ReplicasField (mr_Spec res)) (strconvItoa (clampOf p r)) (bindingCluster n)"
  define model1 where
    "model1 = model\<lparr>fm_DiffReplicas := wrap64 (fm_DiffReplicas model + r - clampOf p r)\<rparr>"
  have share: "shareOf (ps_Replicas (po_Spec policy)) (fm_TotalWeight model) (sp_Weight p) = r"
    by (simp add: r_def shareIn_def tw)
  have first: "firstReplaceReplicasByWeight k s policy p model (bindingCluster n) = Inr (model1, c1)"
    unfolding model1_def using res diff_after_clamp [OF D, of r p, symmetric]
    by (simp add: firstReplaceReplicasByWeight_def share c1_def clampOf_def Let_def)
  obtain c2 more where c2: "checkNamespaceMapping k s policy (sp_Name p) c1 = Inr c2"
      "bc_Name c2 = bc_Name c1" "bc_Override c2 = bc_Override c1 @ more"
    using checkNamespaceMapping_ok [OF rd] by blast
  have "weightOverrides k s policy p model (bindingCluster n) = Inr (model1, c2)"
    by (simp add: weightOverrides_def first withoutModel_def c2)
  moreover have "okc c2" and "val c2 = clampOf p r" and "bc_Name c2 = n"
    using c2 x by (simp_all add: okc_def val_def c1_def appendOverride_def bindingCluster_def r_def)
  ultimately show ?thesis unfolding model1_def r_def by blast
qed

section \<open>The loop over the clusters\<close>

lemma clustersLoop_ok:
  fixes policy :: MultiClusterResourceSchedulePolicy
  defines "fo \<equiv> ps_FailoverPolicy (po_Spec policy)"
  assumes wf: "failover_wf k s fo"
    and start: "place_inv k s fo (map nameOf ps) fails unavail 0 (zeroIndex, [])"
    and M0: "M 0 model"
    and step: "\<And>j m n. j < length ps \<Longrightarrow> M j m \<Longrightarrow>
        \<exists>m' c'. f (ps ! j) m (bindingCluster n) = Inr (m', c') \<and> bc_Name c' = n \<and> M (Suc j) m' \<and> C j c'"
  shows "\<exists>m' cs. clustersLoop k s policy fails unavail nameOf f ps model = Inr (m', cs) \<and>
           M (length ps) m' \<and> length cs = length ps \<and> (\<forall>j<length ps. C j (cs ! j)) \<and>
           map bc_Name cs = substitute (up k s) (map nameOf ps) (filter (up k s) (candidates k s fo))"
proof -
  define I where "I j st \<longleftrightarrow> (case st of (ix, m, cs) \<Rightarrow>
      place_inv k s fo (map nameOf ps) fails unavail j (ix, cs) \<and> M j m \<and> (\<forall>i<j. C i (cs ! i)))"
    for j and st
  have "\<exists>st'. forRange (clusterStep k s policy fails unavail nameOf f) 0 ps (zeroIndex, model, []) = Inr st' \<and>
      I (0 + length ps) st'"
  proof (rule forRange_total)
    show "I 0 (zeroIndex, model, [])" using start M0 by (simp add: I_def)
    fix j st assume j: "j < 0 + length ps" and inv: "I j st"
    obtain ix m cs where st: "st = (ix, m, cs)" by (cases st) auto
    have P: "place_inv k s fo (map nameOf ps) fails unavail j (ix, cs)" and m: "M j m"
      and cs: "\<forall>i<j. C i (cs ! i)"
      using inv by (simp_all add: I_def st)
    have len: "length cs = j" using P by (simp add: place_inv_def)
    obtain ix' n where place: "placeCluster k s fails fo unavail j (nameOf (ps ! j)) (ix, cs)
          = Inr (ix', cs @ [bindingCluster n])"
        "place_inv k s fo (map nameOf ps) fails unavail (Suc j) (ix', cs @ [bindingCluster n])"
      using placeCluster_next [OF wf P] j by auto
    obtain m' c' where f: "f (ps ! j) m (bindingCluster n) = Inr (m', c')" "bc_Name c' = n"
        "M (Suc j) m'" "C j c'"
      using step [of j m n] m j by auto
    have "clusterStep k s policy fails unavail nameOf f j (ps ! (j - 0)) st = Inr (ix', m', cs @ [c'])"
      using place(1) f(1) len by (simp add: clusterStep_def st fo_def nth_append list_update_append)
    moreover have "I (Suc j) (ix', m', cs @ [c'])"
      using place_inv_names [OF place(2), of "cs @ [c']"] f cs len
      by (auto simp: I_def bindingCluster_def nth_append less_Suc_eq)
    ultimately show "\<exists>b. clusterStep k s policy fails unavail nameOf f j (ps ! (j - 0)) st = Inr b \<and> I (Suc j) b"
      by blast
  qed
  then obtain ix' m' cs where run: "forRange (clusterStep k s policy fails unavail nameOf f) 0 ps (zeroIndex, model, [])
        = Inr (ix', m', cs)"
      and fin: "I (length ps) (ix', m', cs)"
    by auto
  have P: "place_inv k s fo (map nameOf ps) fails unavail (length (map nameOf ps)) (ix', cs)"
    using fin by (simp add: I_def)
  have "length cs = length ps" using P by (simp add: place_inv_def)
  with run fin place_inv_end [OF P] show ?thesis by (simp add: clustersLoop_def I_def)
qed

text \<open>
  The first split over any list \<open>qs\<close>: when a cluster gets \<open>x q\<close> where its share is \<open>r q\<close>, the
  difference that the loop carries is in the end what the counts lack of the total.
\<close>

lemma first_split:
  fixes policy :: MultiClusterResourceSchedulePolicy
  defines "fo \<equiv> ps_FailoverPolicy (po_Spec policy)"
  assumes wf: "failover_wf k s fo"
    and start: "place_inv k s fo (map nameOf qs) fails unavail 0 (zeroIndex, [])"
    and diff: "diff = wrap64 (R - sum_list (map r qs))"
    and step: "\<And>q m n. q \<in> set qs \<Longrightarrow> fm_ResourceName m = rn \<Longrightarrow> fm_TotalWeight m = tw \<Longrightarrow>
        in_int64 (fm_DiffReplicas m) \<Longrightarrow>
        \<exists>c'. f q m (bindingCluster n) =
               Inr (m\<lparr>fm_DiffReplicas := wrap64 (fm_DiffReplicas m + r q - x q)\<rparr>, c') \<and>
             bc_Name c' = n \<and> okc c' \<and> val c' = x q"
  shows "\<exists>m' cs. clustersLoop k s policy fails unavail nameOf f qs
             \<lparr>fm_ResourceName = rn, fm_TotalWeight = tw, fm_DiffReplicas = diff\<rparr> = Inr (m', cs) \<and>
           fm_DiffReplicas m' = wrap64 (R - sum_list (vals cs)) \<and> list_all okc cs \<and> vals cs = map x qs \<and>
           map bc_Name cs = substitute (up k s) (map nameOf qs) (filter (up k s) (candidates k s fo))"
proof -
  define model where "model = \<lparr>fm_ResourceName = rn, fm_TotalWeight = tw, fm_DiffReplicas = diff\<rparr>"
  define M where "M j m \<longleftrightarrow> fm_ResourceName m = rn \<and> fm_TotalWeight m = tw \<and>
      fm_DiffReplicas m = wrap64 (R - sum_list (map x (take j qs)) - sum_list (map r (drop j qs)))"
    for j and m :: FirstReplaceReplicasModel
  have M0: "M 0 model" by (simp add: M_def model_def diff)
  have next_M: "\<exists>m' c'. f (qs ! j) m (bindingCluster n) = Inr (m', c') \<and>
      bc_Name c' = n \<and> M (Suc j) m' \<and> (okc c' \<and> val c' = x (qs ! j))"
    if j: "j < length qs" and m: "M j m" for j m n
  proof -
    obtain c' where w: "f (qs ! j) m (bindingCluster n) =
        Inr (m\<lparr>fm_DiffReplicas := wrap64 (fm_DiffReplicas m + r (qs ! j) - x (qs ! j))\<rparr>, c')"
        "bc_Name c' = n" "okc c'" "val c' = x (qs ! j)"
      using step [of "qs ! j" m n] j m by (auto simp: M_def)
    have "drop j qs = qs ! j # drop (Suc j) qs" using j by (rule Cons_nth_drop_Suc [symmetric])
    moreover have "take (Suc j) qs = take j qs @ [qs ! j]" using j by (rule take_Suc_conv_app_nth)
    ultimately have "wrap64 (fm_DiffReplicas m + r (qs ! j) - x (qs ! j)) =
        wrap64 (R - sum_list (map x (take (Suc j) qs)) - sum_list (map r (drop (Suc j) qs)))"
      using m wrap64_cong [of "R - sum_list (map x (take j qs)) - sum_list (map r (drop j qs))"
          "r (qs ! j) - x (qs ! j)"]
      by (simp add: M_def algebra_simps)
    with w m show ?thesis by (auto simp: M_def)
  qed
  obtain m' cs where loop: "clustersLoop k s policy fails unavail nameOf f qs model = Inr (m', cs)"
      "M (length qs) m'" "length cs = length qs" "\<forall>j<length qs. okc (cs ! j) \<and> val (cs ! j) = x (qs ! j)"
      "map bc_Name cs = substitute (up k s) (map nameOf qs) (filter (up k s) (candidates k s fo))"
    using clustersLoop_ok [where f = f and M = M and C = "\<lambda>j c. okc c \<and> val c = x (qs ! j)", OF wf [unfolded fo_def]
        start [unfolded fo_def] M0 next_M] by (auto simp: fo_def)
  have "vals cs = map x qs" using loop(3,4) by (intro nth_equalityI) auto
  moreover have "list_all okc cs" using loop(3,4) by (simp add: list_all_length)
  ultimately show ?thesis using loop by (auto simp: M_def model_def)
qed

section \<open>The weighted clusters of one resource\<close>

definition balanced :: "SchedulePolicy list \<Rightarrow> int \<Rightarrow> MultiClusterResourceBindingCluster list \<Rightarrow> bool" where
  "balanced ps R cs \<longleftrightarrow>
     list_all okc cs \<and> inBounds ps (vals cs) \<and>
     (sum_list (vals cs) = R \<or> vals cs = map sp_Max ps \<or> vals cs = map sp_Min ps)"

lemma clamp_bounds:
  assumes "counts_ok ps R" and "p \<in> set ps"
  shows "sp_Min p \<le> clampOf p r" and "clampOf p r \<le> sp_Max p" and "in_int64 (clampOf p r)"
  using counts_bounds [OF assms] by (auto simp: clampOf_def in_int64_def)

lemma shape_names: "shape cs = shape cs' \<Longrightarrow> map bc_Name cs = map bc_Name cs'"
proof -
  have "map bc_Name cs = map fst (shape cs)" for cs by (simp add: shape_def o_def)
  then show "shape cs = shape cs' \<Longrightarrow> map bc_Name cs = map bc_Name cs'" by simp
qed

lemma weightedClusters_ok:
  fixes policy :: MultiClusterResourceSchedulePolicy
  defines "ps \<equiv> ps_Policy (po_Spec policy)" and "fo \<equiv> ps_FailoverPolicy (po_Spec policy)"
    and "R \<equiv> ps_Replicas (po_Spec policy)"
  assumes cok: "counts_ok ps R" and wf: "failover_wf k s fo"
    and start: "place_inv k s fo (map sp_Name ps) fails unavail 0 (zeroIndex, [])"
    and rd: "readable k s policy resourceName"
  shows "\<exists>cs. weightedClusters k s policy fails unavail resourceName = Inr cs \<and> balanced ps R cs \<and>
           map bc_Name cs = substitute (up k s) (map sp_Name ps) (filter (up k s) (candidates k s fo))"
proof -
  obtain tw diff where cw: "calculateWeight policy = (tw, diff)" by (cases "calculateWeight policy")
  define r where "r = shareIn policy"
  define x where "x p = clampOf p (r p)" for p
  have R64: "in_int64 R" using cok by (auto simp: counts_ok_def in_int64_def)
  have tw: "tw = sumI (map sp_Weight ps)"
    using cw by (auto simp: calculateWeight_def Let_def ps_def)
  then have r: "r = (\<lambda>p. shareOf R (sumI (map sp_Weight ps)) (sp_Weight p))"
    by (simp add: r_def shareIn_def cw R_def fun_eq_iff)
  have "diff = (if sumI (map r ps) \<noteq> R then subI R (sumI (map r ps)) else 0)"
    unfolding r using cw by (auto simp: calculateWeight_def Let_def ps_def R_def)
  then have diff: "diff = wrap64 (R - sum_list (map r ps))" using diff_of_total [OF R64] by metis
  have "\<exists>c'. weightOverrides k s policy q m (bindingCluster n) =
        Inr (m\<lparr>fm_DiffReplicas := wrap64 (fm_DiffReplicas m + r q - x q)\<rparr>, c') \<and>
      bc_Name c' = n \<and> okc c' \<and> val c' = x q"
    if "q \<in> set ps" "fm_ResourceName m = resourceName" "fm_TotalWeight m = tw" "in_int64 (fm_DiffReplicas m)" for q m n
    using weightOverrides_ok [of k s policy m q n] rd that clamp_bounds(3) [OF cok that(1)]
    by (simp add: cw x_def r_def)
  then obtain m' cs where loop: "clustersLoop k s policy fails unavail sp_Name (weightOverrides k s policy) ps
        \<lparr>fm_ResourceName = resourceName, fm_TotalWeight = tw, fm_DiffReplicas = diff\<rparr> = Inr (m', cs)"
      "fm_DiffReplicas m' = wrap64 (R - sum_list (vals cs))" "list_all okc cs" "vals cs = map x ps"
      "map bc_Name cs = substitute (up k s) (map sp_Name ps) (filter (up k s) (candidates k s fo))"
    using first_split [OF wf [unfolded fo_def] start [unfolded fo_def] diff, of resourceName tw]
    unfolding fo_def by blast
  have inb: "inBounds ps (vals cs)"
    unfolding loop(4) inBounds_def list_all2_conv_all_nth using clamp_bounds [OF cok] by (auto simp: x_def)
  define d where "d = fm_DiffReplicas m'"
  have "in_int64 (R - sum_list (vals cs))"
    using counts_sum [OF cok inb] cok by (auto simp: counts_ok_def in_int64_def)
  then have total: "sum_list (vals cs) + d = R" by (simp add: d_def loop(2))
  show ?thesis
  proof (cases "d = 0")
    case True
    then have "weightedClusters k s policy fails unavail resourceName = Inr cs"
      using loop(1) by (simp add: weightedClusters_def cw ps_def d_def)
    with True total inb loop(3,5) show ?thesis by (auto simp: balanced_def)
  next
    case False
    have "distinct ps" using cok by (auto simp: counts_ok_def distinct_map)
    then obtain cs' where "replaceReplicasByWeight policy cs d (doSortPolicyList policy) = Inr cs'"
        "list_all okc cs'" "inBounds ps (vals cs')" "shape cs' = shape cs"
        "sum_list (vals cs') = R \<or> vals cs' = map (limitOf d) ps"
      using replaceReplicasByWeight_ok [of policy R d cs "doSortPolicyList policy", folded ps_def]
        cok False loop(3) inb total doSortPolicyList_ok [of policy, folded ps_def] by blast
    moreover have "map (limitOf d) ps = map sp_Max ps \<or> map (limitOf d) ps = map sp_Min ps"
      by (cases "0 < d") (simp_all add: limitOf_def)
    ultimately show ?thesis
      using loop(1,5) False shape_names [of cs' cs]
      by (auto simp: weightedClusters_def cw ps_def d_def balanced_def)
  qed
qed

section \<open>Availability and substitution agree\<close>

text \<open>The clusters of a policy are those of its cluster set or those its entries name.\<close>

lemma checkClusters_names:
  fixes policy :: MultiClusterResourceSchedulePolicy
  defines "fo \<equiv> ps_FailoverPolicy (po_Spec policy)"
  assumes names: "(if ps_ClusterSource (po_Spec policy) = ClusterSourceTypeClusterset
        then bindR (liftApi (api_Get (kClusterSet k) s [] (ps_Clusterset (po_Spec policy))))
               (\<lambda>clusterSet. Inr (getClusterListByClusterSet k s clusterSet))
        else Inr (map sp_Name (ps_Policy (po_Spec policy)))) = Inr names"
    and wf: "failover_wf k s fo"
    and enough: "length (filter (\<lambda>c. \<not> up k s c) names) \<le> length (filter (up k s) (candidates k s fo))"
  shows "\<exists>fails unavail. checkClusters k s policy = Inr (fails, unavail) \<and>
           place_inv k s fo names fails unavail 0 (zeroIndex, [])"
proof -
  let ?down = "\<lambda>c. \<not> up k s c"
  have uf: "unavailableFrom k s 0 names =
      (filter ?down names, filter (\<lambda>j. ?down (names ! j)) [0..<length names])"
    using unavailableFrom_eq [of k s 0 names] by simp
  have count: "failoverPolicyCheck k s policy =
      (length (filter (up k s) (candidates k s fo)), filter ?down (candidates k s fo))"
    using failoverPolicyLoop_eq [OF wf, of 0 "[]"] by (simp add: failoverPolicyCheck_def fo_def)
  have start: "place_inv k s fo names (filter (\<lambda>j. ?down (names ! j)) [0..<length names])
      (filter ?down (candidates k s fo)) 0 (zeroIndex, [])"
    using walk_inv_start [OF wf] enough
    by (auto simp: place_inv_def) (auto simp: zeroIndex_def)
  show ?thesis
  proof (cases "filter ?down names = []")
    case True
    then have "filter (\<lambda>j. ?down (names ! j)) [0..<length names] = []" by (auto simp: filter_empty_conv)
    moreover from this have "place_inv k s fo names [] [] 0 (zeroIndex, [])"
      using start by (simp add: place_inv_def)
    ultimately show ?thesis
      using uf True unfolding checkClusters_def names by simp
  next
    case False
    then have "fo \<noteq> []" using enough by (auto simp: candidates_def)
    then have "checkClusters k s policy = Inr (filter (\<lambda>j. ?down (names ! j)) [0..<length names],
        filter ?down (candidates k s fo))"
      using uf False enough count unfolding checkClusters_def names by (simp add: fo_def [symmetric])
    with start show ?thesis by blast
  qed
qed

lemma checkClusters_ok:
  fixes policy :: MultiClusterResourceSchedulePolicy
  defines "fo \<equiv> ps_FailoverPolicy (po_Spec policy)" and "names \<equiv> map sp_Name (ps_Policy (po_Spec policy))"
  assumes "ps_ClusterSource (po_Spec policy) \<noteq> ClusterSourceTypeClusterset" and "failover_wf k s fo"
    and "length (filter (\<lambda>c. \<not> up k s c) names) \<le> length (filter (up k s) (candidates k s fo))"
  shows "\<exists>fails unavail. checkClusters k s policy = Inr (fails, unavail) \<and>
           place_inv k s fo names fails unavail 0 (zeroIndex, [])"
  using checkClusters_names [of policy k s names] assms by (simp add: fo_def names_def)

lemma forResources_ok:
  assumes "\<And>r. r \<in> set (ps_Resources (po_Spec policy)) \<Longrightarrow> \<exists>cs. f (pr_Name r) = Inr cs \<and> P cs"
  shows "\<exists>b. forResources k policy f = Inr b \<and> bd_Meta b = bd_Meta (addBindingMeta k policy) \<and>
           map br_Name (bd_Resources b) = map pr_Name (ps_Resources (po_Spec policy)) \<and>
           (\<forall>r\<in>set (bd_Resources b). P (br_Clusters r))"
proof -
  define rs where "rs = ps_Resources (po_Spec policy)"
  define g where "g = (\<lambda>(i::nat) (r::SchedulePolicyResource) rs. bindR (f (pr_Name r)) (\<lambda>clusters.
      Inr (rs @ [\<lparr>br_Name = pr_Name r, br_Namespace = [], br_Clusters = clusters\<rparr>])))"
  have "\<exists>out. forRange g j qs acc = Inr (acc @ out) \<and> map br_Name out = map pr_Name qs \<and>
      (\<forall>r\<in>set out. P (br_Clusters r))" if "set qs \<subseteq> set rs" for j qs acc
    using that
  proof (induction qs arbitrary: j acc)
    case (Cons q qs)
    then have "q \<in> set (ps_Resources (po_Spec policy))" by (simp add: rs_def)
    then obtain cs where cs: "f (pr_Name q) = Inr cs" "P cs" using assms by blast
    define b where "b = \<lparr>br_Name = pr_Name q, br_Namespace = [], br_Clusters = cs\<rparr>"
    obtain out where "forRange g (Suc j) qs (acc @ [b]) = Inr ((acc @ [b]) @ out)"
        "map br_Name out = map pr_Name qs" "\<forall>r\<in>set out. P (br_Clusters r)"
      using Cons.IH [of "Suc j" "acc @ [b]"] Cons.prems by auto
    then have "forRange g j (q # qs) acc = Inr (acc @ b # out) \<and>
        map br_Name (b # out) = map pr_Name (q # qs) \<and> (\<forall>r\<in>set (b # out). P (br_Clusters r))"
      using cs by (simp add: g_def b_def)
    then show ?case by blast
  qed simp
  from this [of rs 0 "[]"] show ?thesis
    by (auto simp: forResources_def g_def rs_def)
qed

end
