(* ===== verification/Server.thy ===== *)
theory Server
  imports KubeClient
begin

text \<open>
  A concrete API server, in memory. The model of the program never uses it: the program's server
  is a parameter (\<open>'s kube\<close>), and this is the instance at which the properties are evaluated. It
  follows the documented behaviour of the Kubernetes API: names are unique per kind and namespace,
  an update writes everything but the status and an update of the status subresource writes
  only the status, an object with finalizers is marked at its deletion and disappears
  when an update takes the last finalizer away.
\<close>

section \<open>Storage\<close>

record mem =
  mm_Clusters :: "Cluster list"
  mm_ClusterSets :: "ClusterSet list"
  mm_MultiClusterResources :: "MultiClusterResource list"
  mm_Bindings :: "MultiClusterResourceBinding list"
  mm_Overrides :: "MultiClusterResourceOverride list"
  mm_SchedulePolicies :: "MultiClusterResourceSchedulePolicy list"
  mm_ClusterResources :: "ClusterResource list"
  mm_NamespaceMappings :: "NamespaceMapping list"
  mm_Namespaces :: "Namespace list"
  mm_AggregatePolicies :: "MultiClusterResourceAggregatePolicy list"
  mm_AggregateRules :: "MultiClusterResourceAggregateRule list"
  mm_ConfigMaps :: "ConfigMap list"
  mm_Secrets :: "Secret list"
  mm_Objects :: "(GroupVersionKind, Unstructured list) gomap"

definition emptyMem :: mem where
  "emptyMem = \<lparr>mm_Clusters = [], mm_ClusterSets = [], mm_MultiClusterResources = [],
     mm_Bindings = [], mm_Overrides = [], mm_SchedulePolicies = [], mm_ClusterResources = [],
     mm_NamespaceMappings = [], mm_Namespaces = [], mm_AggregatePolicies = [],
     mm_AggregateRules = [], mm_ConfigMaps = [], mm_Secrets = [], mm_Objects = []\<rparr>"

definition objectsOf :: "GroupVersionKind \<Rightarrow> mem \<Rightarrow> Unstructured list" where
  "objectsOf gvk s = (case gomap_get (mm_Objects s) gvk of None \<Rightarrow> [] | Some xs \<Rightarrow> xs)"

definition keyOf :: "('o \<Rightarrow> ObjectMeta) \<Rightarrow> 'o \<Rightarrow> string \<times> string" where
  "keyOf meta obj = (om_Namespace (meta obj), om_Name (meta obj))"

definition findObj :: "('o \<Rightarrow> ObjectMeta) \<Rightarrow> string \<times> string \<Rightarrow> 'o list \<Rightarrow> 'o option" where
  "findObj meta key xs = find (\<lambda>x. keyOf meta x = key) xs"

definition replaceObj :: "('o \<Rightarrow> ObjectMeta) \<Rightarrow> 'o \<Rightarrow> 'o list \<Rightarrow> 'o list" where
  "replaceObj meta obj xs = map (\<lambda>x. if keyOf meta x = keyOf meta obj then obj else x) xs"

definition removeObj :: "('o \<Rightarrow> ObjectMeta) \<Rightarrow> string \<times> string \<Rightarrow> 'o list \<Rightarrow> 'o list" where
  "removeObj meta key xs = filter (\<lambda>x. keyOf meta x \<noteq> key) xs"

definition selects :: "list_opts \<Rightarrow> ObjectMeta \<Rightarrow> bool" where
  "selects opts m \<longleftrightarrow>
     (lo_Namespace opts = [] \<or> lo_Namespace opts = om_Namespace m) \<and>
     (case lo_Selector opts of
        None \<Rightarrow> True
      | Some sel \<Rightarrow> list_all (\<lambda>(l, v). gomap_get (mapOr (om_Labels m)) l = Some v) sel)"

section \<open>Requests\<close>

text \<open>
  \<open>objs\<close> and \<open>put\<close> read and write the objects of one kind, \<open>meta\<close> and \<open>upd\<close> their metadata, and
  \<open>status a b\<close> is \<open>b\<close> with the status of \<open>a\<close>.
\<close>

definition memGet where
  "memGet objs meta s ns name =
     (case findObj meta (ns, name) (objs s) of None \<Rightarrow> Inl NotFound | Some x \<Rightarrow> Inr x)"

definition memList where
  "memList objs meta s opts = Inr (filter (\<lambda>x. selects opts (meta x)) (objs s))"

definition memCreate where
  "memCreate objs put meta obj s =
     (case findObj meta (keyOf meta obj) (objs s) of
        Some x \<Rightarrow> (Inl AlreadyExists, s)
      | None \<Rightarrow> (Inr obj, put (objs s @ [obj]) s))"

definition memUpdate where
  "memUpdate objs put meta status obj s =
     (case findObj meta (keyOf meta obj) (objs s) of
        None \<Rightarrow> (Inl NotFound, s)
      | Some x \<Rightarrow>
          let obj' = status x obj in
          (Inr obj',
           if om_DeletionTimestamp (meta obj') \<noteq> None \<and> om_Finalizers (meta obj') = []
           then put (removeObj meta (keyOf meta obj) (objs s)) s
           else put (replaceObj meta obj' (objs s)) s))"

definition memUpdateStatus where
  "memUpdateStatus objs put meta status obj s =
     (case findObj meta (keyOf meta obj) (objs s) of
        None \<Rightarrow> (Inl NotFound, s)
      | Some x \<Rightarrow> (Inr (status obj x), put (replaceObj meta (status obj x) (objs s)) s))"

definition memDelete where
  "memDelete objs put meta upd obj s =
     (case findObj meta (keyOf meta obj) (objs s) of
        None \<Rightarrow> (Some NotFound, s)
      | Some x \<Rightarrow>
          (None,
           if om_Finalizers (meta x) = [] then put (removeObj meta (keyOf meta obj) (objs s)) s
           else put (replaceObj meta (upd (\<lambda>m. m\<lparr>om_DeletionTimestamp := Some 0\<rparr>) x) (objs s)) s))"

definition memApi ::
  "('s \<Rightarrow> 'o list) \<Rightarrow> ('o list \<Rightarrow> 's \<Rightarrow> 's) \<Rightarrow> ('o \<Rightarrow> ObjectMeta) \<Rightarrow>
   ((ObjectMeta \<Rightarrow> ObjectMeta) \<Rightarrow> 'o \<Rightarrow> 'o) \<Rightarrow> ('o \<Rightarrow> 'o \<Rightarrow> 'o) \<Rightarrow> ('s, 'o) api" where
  "memApi objs put meta upd status =
     \<lparr>api_Get = memGet objs meta,
      api_List = memList objs meta,
      api_Create = memCreate objs put meta,
      api_Update = memUpdate objs put meta status,
      api_UpdateStatus = memUpdateStatus objs put meta status,
      api_Delete = memDelete objs put meta upd\<rparr>"

section \<open>Selectors\<close>

text \<open>The equality-based part of the selector syntax: one \<open>key=value\<close>.\<close>

definition memParseSelector :: "string \<Rightarrow> go_error + selector" where
  "memParseSelector str =
     (if str = [] then Inr []
      else if CHR ''='' \<in> set str
      then Inr [(takeWhile (\<lambda>c. c \<noteq> CHR ''='') str, tl (dropWhile (\<lambda>c. c \<noteq> CHR ''='') str))]
      else Inl (ErrMsg ''unable to parse requirement''))"

definition memControllerRef :: "ObjectMeta \<Rightarrow> string \<Rightarrow> OwnerReference" where
  "memControllerRef m kind = \<lparr>or_Kind = kind, or_Name = om_Name m\<rparr>"

text \<open>
  A patch library for raw bytes without structure: an add appends its value, a replace puts its
  value in place of the whole, and every other operation is an error.
\<close>

fun memJsonPatch :: "JSONPatch list \<Rightarrow> raw \<Rightarrow> go_error + raw" where
  "memJsonPatch [] raw = Inr raw"
| "memJsonPatch (p # ps) raw =
     (if jp_Op p = ''add'' then memJsonPatch ps (raw @ jp_Value p)
      else if jp_Op p = ''replace'' then memJsonPatch ps (jp_Value p)
      else Inl (ErrMsg ''unknown patch operation''))"

section \<open>The server\<close>

abbreviation noStatus :: "'o \<Rightarrow> 'o \<Rightarrow> 'o" where "noStatus stored new \<equiv> new"

definition memKube :: "mem kube" where
  "memKube = \<lparr>
     kCluster = memApi mm_Clusters (\<lambda>xs. mm_Clusters_update (\<lambda>_. xs)) cl_Meta cl_Meta_update
       (\<lambda>a b. b\<lparr>cl_Status := cl_Status a\<rparr>),
     kClusterSet = memApi mm_ClusterSets (\<lambda>xs. mm_ClusterSets_update (\<lambda>_. xs)) cs_Meta cs_Meta_update
       (\<lambda>a b. b),
     kMultiClusterResource = memApi mm_MultiClusterResources (\<lambda>xs. mm_MultiClusterResources_update (\<lambda>_. xs))
       mr_Meta mr_Meta_update (\<lambda>a b. b\<lparr>mr_Status := mr_Status a\<rparr>),
     kBinding = memApi mm_Bindings (\<lambda>xs. mm_Bindings_update (\<lambda>_. xs)) bd_Meta bd_Meta_update
       (\<lambda>a b. b\<lparr>bd_Status := bd_Status a\<rparr>),
     kOverride = memApi mm_Overrides (\<lambda>xs. mm_Overrides_update (\<lambda>_. xs)) ro_Meta ro_Meta_update (\<lambda>a b. b),
     kSchedulePolicy = memApi mm_SchedulePolicies (\<lambda>xs. mm_SchedulePolicies_update (\<lambda>_. xs))
       po_Meta po_Meta_update (\<lambda>a b. b\<lparr>po_Status := po_Status a\<rparr>),
     kClusterResource = memApi mm_ClusterResources (\<lambda>xs. mm_ClusterResources_update (\<lambda>_. xs))
       cr_Meta cr_Meta_update (\<lambda>a b. b\<lparr>cr_Status := cr_Status a\<rparr>),
     kNamespaceMapping = memApi mm_NamespaceMappings (\<lambda>xs. mm_NamespaceMappings_update (\<lambda>_. xs))
       nm_Meta nm_Meta_update (\<lambda>a b. b),
     kNamespace = memApi mm_Namespaces (\<lambda>xs. mm_Namespaces_update (\<lambda>_. xs)) ns_Meta ns_Meta_update (\<lambda>a b. b),
     kAggregatePolicy = memApi mm_AggregatePolicies (\<lambda>xs. mm_AggregatePolicies_update (\<lambda>_. xs))
       ap_Meta ap_Meta_update (\<lambda>a b. b),
     kAggregateRule = memApi mm_AggregateRules (\<lambda>xs. mm_AggregateRules_update (\<lambda>_. xs))
       ar_Meta ar_Meta_update (\<lambda>a b. b),
     kConfigMap = memApi mm_ConfigMaps (\<lambda>xs. mm_ConfigMaps_update (\<lambda>_. xs)) cm_Meta cm_Meta_update (\<lambda>a b. b),
     kSecret = memApi mm_Secrets (\<lambda>xs. mm_Secrets_update (\<lambda>_. xs)) sc_Meta sc_Meta_update (\<lambda>a b. b),
     kObject = (\<lambda>gvk. memApi (objectsOf gvk)
       (\<lambda>xs. mm_Objects_update (\<lambda>m. gomap_put m gvk xs)) un_Meta un_Meta_update (\<lambda>a b. b)),
     kParseSelector = memParseSelector,
     kSelectorFromSet = (\<lambda>m. m),
     kControllerRef = memControllerRef,
     kJsonPatch = memJsonPatch\<rparr>"

section \<open>The store of one kind\<close>

text \<open>What a kind provides: reading back what was put, and a status apart from the metadata.\<close>

locale object_store =
  fixes objs :: "'s \<Rightarrow> 'o list" and put :: "'o list \<Rightarrow> 's \<Rightarrow> 's"
    and meta :: "'o \<Rightarrow> ObjectMeta" and status :: "'o \<Rightarrow> 'o \<Rightarrow> 'o" and spec :: "'o \<Rightarrow> 'c"
  assumes objs_put: "objs (put xs s) = xs"
    and meta_status: "meta (status a b) = meta b"
    and spec_status: "spec (status a b) = spec b"
begin

lemma find_append:
  "findObj meta key (xs @ ys) =
     (case findObj meta key xs of Some x \<Rightarrow> Some x | None \<Rightarrow> findObj meta key ys)"
  by (induction xs) (auto simp: findObj_def)

lemma find_single: "findObj meta key [x] = (if keyOf meta x = key then Some x else None)"
  by (simp add: findObj_def)

lemma find_key: "findObj meta key xs = Some x \<Longrightarrow> keyOf meta x = key"
  by (auto simp: findObj_def find_Some_iff)

lemma find_replace:
  "findObj meta key (replaceObj meta obj xs) =
     (if key = keyOf meta obj then (case findObj meta key xs of None \<Rightarrow> None | Some x \<Rightarrow> Some obj)
      else findObj meta key xs)"
  by (induction xs) (auto simp: findObj_def replaceObj_def)

lemma find_remove:
  "findObj meta key (removeObj meta key' xs) = (if key = key' then None else findObj meta key xs)"
  by (induction xs) (auto simp: findObj_def removeObj_def)

text \<open>A read after a create.\<close>

lemma get_create:
  assumes "memCreate objs put meta obj s = (Inr o2, s')"
  shows "o2 = obj"
    and "memGet objs meta s' ns n =
           (if (ns, n) = keyOf meta obj then Inr obj else memGet objs meta s ns n)"
  using assms
  by (auto simp: memCreate_def memGet_def objs_put find_append find_single split: option.splits if_splits)

text \<open>A read after an update of the status.\<close>

lemma get_update_status:
  assumes "memUpdateStatus objs put meta status obj s = (Inr o2, s')"
  shows "keyOf meta o2 = keyOf meta obj"
    and "memGet objs meta s' ns n =
           (if (ns, n) = keyOf meta obj then Inr o2 else memGet objs meta s ns n)"
proof -
  obtain x where x: "findObj meta (keyOf meta obj) (objs s) = Some x" "o2 = status obj x"
      "s' = put (replaceObj meta o2 (objs s)) s"
    using assms by (auto simp: memUpdateStatus_def split: option.splits)
  have "keyOf meta o2 = keyOf meta x" using x(2) by (simp add: keyOf_def meta_status)
  then show key: "keyOf meta o2 = keyOf meta obj" using find_key [OF x(1)] by simp
  show "memGet objs meta s' ns n =
          (if (ns, n) = keyOf meta obj then Inr o2 else memGet objs meta s ns n)"
    using x key by (auto simp: memGet_def objs_put find_replace split: option.splits)
qed

text \<open>A read after an update: the update of a dying object that drops its last finalizer
  removes it, any other update is seen by the next read.\<close>

lemma get_update:
  assumes "memUpdate objs put meta status obj s = (Inr o2, s')"
  shows "meta o2 = meta obj"
    and "om_DeletionTimestamp (meta obj) = None \<or> om_Finalizers (meta obj) \<noteq> [] \<Longrightarrow>
         memGet objs meta s' ns n =
           (if (ns, n) = keyOf meta obj then Inr o2 else memGet objs meta s ns n)"
    and "om_DeletionTimestamp (meta obj) \<noteq> None \<Longrightarrow> om_Finalizers (meta obj) = [] \<Longrightarrow>
         memGet objs meta s' ns n =
           (if (ns, n) = keyOf meta obj then Inl NotFound else memGet objs meta s ns n)"
  using assms
  by (auto simp: memUpdate_def memGet_def objs_put find_replace find_remove meta_status keyOf_def Let_def
      split: option.splits if_splits)

text \<open>A delete removes or marks the object of its name.\<close>

lemma delete_other:
  assumes upd: "\<And>f x. meta (upd f x) = f (meta x)"
  shows "delete_local (memApi objs put meta upd status) meta"
  unfolding delete_local_def
proof (intro allI impI)
  fix obj s r s' ns n
  assume run: "api_Delete (memApi objs put meta upd status) obj s = (r, s')"
    and ne: "(ns, n) \<noteq> (om_Namespace (meta obj), om_Name (meta obj))"
  show "api_Get (memApi objs put meta upd status) s' ns n = api_Get (memApi objs put meta upd status) s ns n"
  proof (cases "findObj meta (keyOf meta obj) (objs s)")
    case None
    then show ?thesis using run by (simp add: memApi_def memDelete_def)
  next
    case (Some x)
    let ?x = "upd (\<lambda>m. m\<lparr>om_DeletionTimestamp := Some 0\<rparr>) x"
    have "keyOf meta ?x = keyOf meta obj" using find_key [OF Some] by (simp add: keyOf_def upd)
    then show ?thesis using run Some ne
      by (auto simp: memApi_def memDelete_def memGet_def objs_put find_replace find_remove keyOf_def
          split: if_splits)
  qed
qed

end

text \<open>Such a store keeps the laws of the server.\<close>

sublocale object_store < served: api_kind "memApi objs put meta upd status" meta spec for upd
proof unfold_locales
  fix s ns n x
  assume "api_Get (memApi objs put meta upd status) s ns n = Inr x"
  then have "findObj meta (ns, n) (objs s) = Some x"
    by (simp add: memApi_def memGet_def split: option.splits)
  then show "om_Namespace (meta x) = ns \<and> om_Name (meta x) = n"
    using find_key by (force simp: keyOf_def)
next
  fix obj s o2 s' ns n
  assume "api_Create (memApi objs put meta upd status) obj s = (Inr o2, s')"
  then have "memCreate objs put meta obj s = (Inr o2, s')" by (simp add: memApi_def)
  from get_create [OF this] show "sameMeta (meta o2) (meta obj) \<and> spec o2 = spec obj \<and>
      api_Get (memApi objs put meta upd status) s' ns n =
        (if ns = om_Namespace (meta obj) \<and> n = om_Name (meta obj) then Inr o2
         else api_Get (memApi objs put meta upd status) s ns n)"
    by (simp add: memApi_def keyOf_def)
next
  fix obj s o2 s' x
  assume live: "om_DeletionTimestamp (meta obj) = None"
    and "api_Update (memApi objs put meta upd status) obj s = (Inr o2, s')"
  then have u: "memUpdate objs put meta status obj s = (Inr o2, s')" by (simp add: memApi_def)
  have "spec o2 = spec obj"
    using u by (auto simp: memUpdate_def Let_def spec_status split: option.splits)
  with get_update(1,2) [OF u] live show "sameMeta (meta o2) (meta obj) \<and> spec o2 = spec obj \<and>
      api_Get (memApi objs put meta upd status) s' (om_Namespace (meta obj)) (om_Name (meta obj)) = Inr o2"
    by (simp add: memApi_def keyOf_def)
next
  fix obj s o2 s' ns n
  assume "api_Update (memApi objs put meta upd status) obj s = (Inr o2, s')"
    and "(ns, n) \<noteq> (om_Namespace (meta obj), om_Name (meta obj))"
  then have "memUpdate objs put meta status obj s = (Inr o2, s')" and ne: "(ns, n) \<noteq> keyOf meta obj"
    by (simp_all add: memApi_def keyOf_def)
  from get_update(2,3) [OF this(1), of ns n] ne
  show "api_Get (memApi objs put meta upd status) s' ns n = api_Get (memApi objs put meta upd status) s ns n"
    by (cases "om_DeletionTimestamp (meta obj) = None \<or> om_Finalizers (meta obj) \<noteq> []") (auto simp: memApi_def)
qed (auto simp: memApi_def memCreate_def memUpdate_def Let_def split: option.splits)

text \<open>A store with a status subresource.\<close>

locale status_store = object_store objs put meta status spec
  for objs :: "'s \<Rightarrow> 'o list" and put :: "'o list \<Rightarrow> 's \<Rightarrow> 's" and meta :: "'o \<Rightarrow> ObjectMeta"
    and status :: "'o \<Rightarrow> 'o \<Rightarrow> 'o" and spec :: "'o \<Rightarrow> 'c" +
  fixes stat :: "'o \<Rightarrow> 'd"
  assumes stat_status: "stat (status x y) = stat x"
begin

lemma mem_status_kind: "api_status_kind (memApi objs put meta upd status) meta spec stat"
proof (intro_locales, unfold_locales)
  fix obj s o2 s' x
  assume "api_Update (memApi objs put meta upd status) obj s = (Inr o2, s')"
    and "api_Get (memApi objs put meta upd status) s (om_Namespace (meta obj)) (om_Name (meta obj)) = Inr x"
  then show "stat o2 = stat x"
    by (auto simp: memApi_def memUpdate_def memGet_def keyOf_def Let_def stat_status split: option.splits)
next
  fix obj s o2 s' ns n
  assume "api_UpdateStatus (memApi objs put meta upd status) obj s = (Inr o2, s')"
  then have u: "memUpdateStatus objs put meta status obj s = (Inr o2, s')" by (simp add: memApi_def)
  then obtain x where x: "findObj meta (keyOf meta obj) (objs s) = Some x" "o2 = status obj x"
    by (auto simp: memUpdateStatus_def split: option.splits)
  from get_update_status [OF u] show "\<exists>x.
      api_Get (memApi objs put meta upd status) s (om_Namespace (meta obj)) (om_Name (meta obj)) = Inr x \<and>
      sameMeta (meta o2) (meta x) \<and> spec o2 = spec x \<and> stat o2 = stat obj \<and>
      api_Get (memApi objs put meta upd status) s' ns n =
        (if ns = om_Namespace (meta obj) \<and> n = om_Name (meta obj) then Inr o2
         else api_Get (memApi objs put meta upd status) s ns n)"
    using x by (auto simp: memApi_def memGet_def keyOf_def meta_status spec_status stat_status)
qed

end

sublocale status_store < servedStatus: api_status_kind "memApi objs put meta upd status" meta spec stat for upd
  by (rule mem_status_kind)

text \<open>A store whose objects go as the server says.\<close>

locale finalized_store = status_store objs put meta status spec stat
  for objs :: "'s \<Rightarrow> 'o list" and put :: "'o list \<Rightarrow> 's \<Rightarrow> 's" and meta :: "'o \<Rightarrow> ObjectMeta"
    and status :: "'o \<Rightarrow> 'o \<Rightarrow> 'o" and spec :: "'o \<Rightarrow> 'c" and stat :: "'o \<Rightarrow> 'd" +
  fixes upd :: "(ObjectMeta \<Rightarrow> ObjectMeta) \<Rightarrow> 'o \<Rightarrow> 'o"
  assumes upd: "meta (upd f x) = f (meta x)" "spec (upd f x) = spec x" "stat (upd f x) = stat x"
begin

lemma delete_found:
  assumes "findObj meta (keyOf meta obj) (objs s) = Some x" and "memDelete objs put meta upd obj s = (None, s')"
  shows "memGet objs meta s' (om_Namespace (meta obj)) (om_Name (meta obj)) =
    (if om_Finalizers (meta x) = [] then Inl NotFound else Inr (upd (\<lambda>m. m\<lparr>om_DeletionTimestamp := Some 0\<rparr>) x))"
proof -
  have "keyOf meta (upd (\<lambda>m. m\<lparr>om_DeletionTimestamp := Some 0\<rparr>) x) = keyOf meta obj"
    using find_key [OF assms(1)] by (simp add: keyOf_def upd)
  then show ?thesis using assms
    by (auto simp: memDelete_def memGet_def objs_put find_replace find_remove keyOf_def split: if_splits)
qed

end

sublocale finalized_store < servedDelete: api_delete_kind "memApi objs put meta upd status" meta spec stat
proof unfold_locales
  fix obj s s' x
  assume d: "api_Delete (memApi objs put meta upd status) obj s = (None, s')"
    and g: "api_Get (memApi objs put meta upd status) s (om_Namespace (meta obj)) (om_Name (meta obj)) = Inr x"
  have f: "findObj meta (keyOf meta obj) (objs s) = Some x"
    using g by (simp add: memApi_def memGet_def keyOf_def split: option.splits)
  note found = delete_found [OF f, of s']
  show "\<exists>y. api_Get (memApi objs put meta upd status) s' (om_Namespace (meta obj)) (om_Name (meta obj)) = Inr y \<and>
      om_DeletionTimestamp (meta y) \<noteq> None \<and> om_Finalizers (meta y) = om_Finalizers (meta x) \<and>
      spec y = spec x \<and> stat y = stat x" if "om_Finalizers (meta x) \<noteq> []"
    using found d that by (simp add: memApi_def upd)
  show "api_Get (memApi objs put meta upd status) s' (om_Namespace (meta obj)) (om_Name (meta obj)) = Inl NotFound"
    if "om_Finalizers (meta x) = []"
    using found d that by (simp add: memApi_def)
next
  fix obj s o2 s'
  assume u: "api_Update (memApi objs put meta upd status) obj s = (Inr o2, s')"
    and "om_DeletionTimestamp (meta obj) \<noteq> None" "om_Finalizers (meta obj) = []"
  then show "api_Get (memApi objs put meta upd status) s' (om_Namespace (meta obj)) (om_Name (meta obj)) = Inl NotFound"
    using get_update(3) [of obj s o2 s'] by (simp add: memApi_def keyOf_def)
qed

interpretation clusterStore:
  object_store mm_Clusters "\<lambda>xs. mm_Clusters_update (\<lambda>_. xs)" cl_Meta "\<lambda>a b. b\<lparr>cl_Status := cl_Status a\<rparr>" cl_Spec
  by unfold_locales simp_all

interpretation bindingStore:
  object_store mm_Bindings "\<lambda>xs. mm_Bindings_update (\<lambda>_. xs)" bd_Meta "\<lambda>a b. b\<lparr>bd_Status := bd_Status a\<rparr>" bd_Resources
  by unfold_locales simp_all

interpretation policyStore:
  object_store mm_SchedulePolicies "\<lambda>xs. mm_SchedulePolicies_update (\<lambda>_. xs)" po_Meta
    "\<lambda>a b. b\<lparr>po_Status := po_Status a\<rparr>" po_Spec
  by unfold_locales simp_all

interpretation resourceStore:
  object_store mm_MultiClusterResources "\<lambda>xs. mm_MultiClusterResources_update (\<lambda>_. xs)" mr_Meta
    "\<lambda>a b. b\<lparr>mr_Status := mr_Status a\<rparr>" mr_Spec
  by unfold_locales simp_all

interpretation clusterResourceStore:
  object_store mm_ClusterResources "\<lambda>xs. mm_ClusterResources_update (\<lambda>_. xs)" cr_Meta
    "\<lambda>a b. b\<lparr>cr_Status := cr_Status a\<rparr>" cr_Resource
  by unfold_locales simp_all

interpretation namespaceStore:
  object_store mm_Namespaces "\<lambda>xs. mm_Namespaces_update (\<lambda>_. xs)" ns_Meta "\<lambda>a b. b" "\<lambda>_. ()"
  by unfold_locales simp_all

interpretation objectStore:
  object_store "objectsOf gvk"
    "\<lambda>xs. mm_Objects_update (\<lambda>m. gomap_put m gvk xs)" un_Meta "\<lambda>a b. b" un_Object for gvk
  by unfold_locales (simp_all add: objectsOf_def)

interpretation clusterStatus:
  status_store mm_Clusters "\<lambda>xs. mm_Clusters_update (\<lambda>_. xs)" cl_Meta "\<lambda>a b. b\<lparr>cl_Status := cl_Status a\<rparr>" cl_Spec
    cl_Status
  by unfold_locales simp_all

interpretation clusterResourceStatus:
  status_store mm_ClusterResources "\<lambda>xs. mm_ClusterResources_update (\<lambda>_. xs)" cr_Meta
    "\<lambda>a b. b\<lparr>cr_Status := cr_Status a\<rparr>" cr_Resource cr_Status
  by unfold_locales simp_all

interpretation clusterResourceFinalized:
  finalized_store mm_ClusterResources "\<lambda>xs. mm_ClusterResources_update (\<lambda>_. xs)" cr_Meta
    "\<lambda>a b. b\<lparr>cr_Status := cr_Status a\<rparr>" cr_Resource cr_Status cr_Meta_update
  by unfold_locales simp_all

interpretation objectFinalized:
  finalized_store "objectsOf gvk" "\<lambda>xs. mm_Objects_update (\<lambda>m. gomap_put m gvk xs)" un_Meta "\<lambda>a b. b" un_Object
    "\<lambda>_. ()" un_Meta_update for gvk
  by unfold_locales simp_all

section \<open>Admission\<close>

text \<open>
  A server that does not store objects as they are sent: it drops their status, fills their spec with a default
  and protects them with a finalizer, so that a deletion only marks them. It keeps the promises of any kind of objects.
\<close>

definition admitting :: "('o \<Rightarrow> 'o) \<Rightarrow> ('s, 'o) api \<Rightarrow> ('s, 'o) api" where
  "admitting f a = a\<lparr>api_Create := \<lambda>obj. api_Create a (f obj), api_Update := \<lambda>obj. api_Update a (f obj)\<rparr>"

definition defaulted :: "json \<Rightarrow> json" where
  "defaulted v = JObject [(''given'', v), (''revisionHistoryLimit'', JNumber ''10'')]"

definition admitted :: "Unstructured \<Rightarrow> Unstructured" where
  "admitted obj = obj\<lparr>
     un_Object := map (\<lambda>(k, v). (k, if k = ''spec'' then defaulted v else v)) (filter (\<lambda>(k, v). k \<noteq> ''status'') (un_Object obj)),
     un_Meta := (un_Meta obj)\<lparr>om_Finalizers := List.insert ''protection'' (om_Finalizers (un_Meta obj))\<rparr>\<rparr>"

definition admittingKube :: "mem kube" where
  "admittingKube = memKube\<lparr>kObject := \<lambda>gvk. admitting admitted (kObject memKube gvk)\<rparr>"

lemma admitted_meta [simp]:
  "om_Namespace (un_Meta (admitted obj)) = om_Namespace (un_Meta obj)" "om_Name (un_Meta (admitted obj)) = om_Name (un_Meta obj)"
  "om_Annotations (un_Meta (admitted obj)) = om_Annotations (un_Meta obj)"
  "om_DeletionTimestamp (un_Meta (admitted obj)) = om_DeletionTimestamp (un_Meta obj)"
  by (simp_all add: admitted_def)

lemma admitting_simps [simp]:
  "api_Get (admitting f a) = api_Get a" "api_Delete (admitting f a) = api_Delete a"
  "api_Create (admitting f a) obj = api_Create a (f obj)" "api_Update (admitting f a) obj = api_Update a (f obj)"
  "api_UpdateStatus (admitting f a) = api_UpdateStatus a"
  by (simp_all add: admitting_def)

lemma admitting_object_kind:
  assumes "api_delete_kind a un_Meta un_Object status"
  shows "object_kind (admitting admitted a)"
proof -
  have kind: "api_kind a un_Meta un_Object" using assms by (simp add: api_delete_kind_def api_status_kind_def)
  show ?thesis
  proof
    show "om_Namespace (un_Meta x) = ns \<and> om_Name (un_Meta x) = n" if "api_Get (admitting admitted a) s ns n = Inr x" for s ns n x
      using api_kind.get_key [OF kind] that by simp
    show "api_Get (admitting admitted a) s' (om_Namespace (un_Meta obj)) (om_Name (un_Meta obj)) = Inr o2 \<and> keeps_annotations obj o2"
      if "api_Create (admitting admitted a) obj s = (Inr o2, s')" for obj s o2 s'
      using api_kind.get_create [OF kind, of "admitted obj" s o2 s'] that
        sameMeta_fields(4) [of "un_Meta o2" "un_Meta (admitted obj)"] by (simp add: keeps_annotations_def)
    show "api_Get (admitting admitted a) s' (om_Namespace (un_Meta obj)) (om_Name (un_Meta obj)) = Inr o2 \<and> keeps_annotations obj o2"
      if "api_Get (admitting admitted a) s (om_Namespace (un_Meta obj)) (om_Name (un_Meta obj)) = Inr x"
        "om_DeletionTimestamp (un_Meta x) = None" "om_DeletionTimestamp (un_Meta obj) = None"
        "api_Update (admitting admitted a) obj s = (Inr o2, s')" for s obj x o2 s'
      using api_kind.get_update [OF kind, of s "admitted obj" x o2 s'] that
        sameMeta_fields(4) [of "un_Meta o2" "un_Meta (admitted obj)"] by (simp add: keeps_annotations_def)
    show "s' = s" if "api_Create (admitting admitted a) obj s = (Inl e, s')" for obj s e s'
      using api_kind.create_failed [OF kind] that by simp
    show "going (api_Get (admitting admitted a) s' (om_Namespace (un_Meta obj)) (om_Name (un_Meta obj)))"
      if "api_Delete (admitting admitted a) obj s = (None, s')"
        "api_Get (admitting admitted a) s (om_Namespace (un_Meta obj)) (om_Name (un_Meta obj)) = Inr x" for obj s s' x
      using api_delete_kind.delete_marks [OF assms, of obj s s' x] api_delete_kind.delete_removes [OF assms, of obj s s' x] that
      by (cases "om_Finalizers (un_Meta x) = []") (auto simp: going_def)
  qed
qed

interpretation admittedObjects: object_kind "kObject admittingKube gvk" for gvk
  using admitting_object_kind [OF objectFinalized.servedDelete.api_delete_kind_axioms [of gvk]]
  by (simp add: admittingKube_def memKube_def)

end
