(* ===== verification/Federation.thy ===== *)
theory Federation
  imports ScheduleCorrect Server
begin

text \<open>
  The small federation at which the properties of the scheduler are evaluated: the clusters a, b
  (offline) and c, a spare, one resource with a replicas field, and policies over them.
\<close>

section \<open>A federation\<close>

definition exMeta :: "string \<Rightarrow> string \<Rightarrow> ObjectMeta" where
  "exMeta ns n = zeroMeta\<lparr>om_Namespace := ns, om_Name := n\<rparr>"

definition exCluster :: "string \<Rightarrow> string \<Rightarrow> Cluster" where
  "exCluster n st = \<lparr>cl_Meta = exMeta [] n, cl_Spec = zeroClusterSpec,
     cl_Status = zeroClusterStatus\<lparr>ct_Status := st\<rparr>\<rparr>"

definition exResource :: MultiClusterResource where
  "exResource = \<lparr>mr_Meta = exMeta ''ns'' ''web'',
     mr_Spec = \<lparr>rs_Resource = Some ''web'', rs_ResourceRef = None,
                rs_ReplicasField = ''/spec/replicas'', rs_Workload = True\<rparr>, mr_Status = []\<rparr>"

definition exPolicies :: "SchedulePolicy list" where
  "exPolicies =
     [\<lparr>sp_Name = ''a'', sp_Role = ''r'', sp_Weight = 1, sp_Min = 0, sp_Max = 10\<rparr>,
      \<lparr>sp_Name = ''b'', sp_Role = ''r'', sp_Weight = 1, sp_Min = 1, sp_Max = 10\<rparr>,
      \<lparr>sp_Name = ''c'', sp_Role = ''q'', sp_Weight = 1, sp_Min = 0, sp_Max = 10\<rparr>]"

definition exPolicy :: "string \<Rightarrow> string \<Rightarrow> int \<Rightarrow> SchedulePolicy list \<Rightarrow> MultiClusterResourceSchedulePolicy" where
  "exPolicy source mode replicas policy =
     \<lparr>po_Meta = exMeta ''ns'' ''p'',
      po_Spec = \<lparr>ps_Resources = [\<lparr>pr_Name = ''web''\<rparr>], ps_ClusterSource = source,
        ps_Clusterset = ''set'', ps_Replicas = replicas, ps_ScheduleMode = mode, ps_Reschedule = True,
        ps_Policy = policy,
        ps_FailoverPolicy = [\<lparr>fo_Name = ''spare'', fo_Type = ClusterTypeClusters\<rparr>],
        ps_OutTreePolicy = \<lparr>op_Url = [], op_Properties = None\<rparr>\<rparr>,
      po_Status = \<lparr>ss_Status = False, ss_Message = [], ss_LastScheduleTime = None, ss_LastModifyTime = None\<rparr>\<rparr>"

definition exMem :: mem where
  "exMem = emptyMem\<lparr>
     mm_Clusters := [exCluster ''a'' OnlineStatus, exCluster ''b'' OfflineStatus,
                     exCluster ''c'' OnlineStatus, exCluster ''spare'' OnlineStatus],
     mm_MultiClusterResources := [exResource],
     mm_Namespaces := [\<lparr>ns_Meta = exMeta [] ''ns''\<rparr>]\<rparr>"

definition exFederation :: "int \<Rightarrow> MultiClusterResourceSchedulePolicy" where
  "exFederation replicas = exPolicy ''assign'' ''Weighted'' replicas exPolicies"

lemma ex_counts: "counts_ok exPolicies 20" by (simp add: counts_ok_def exPolicies_def)

lemma ex_up:
  "up memKube exMem ''a''" "\<not> up memKube exMem ''b''" "up memKube exMem ''c''" "up memKube exMem ''spare''"
  unfolding up_def by code_simp+

lemma ex_readable: "readable memKube exMem (exPolicy x y z ps) ''web''"
  unfolding readable_def by code_simp


definition exStored :: mem where
  "exStored = exMem\<lparr>mm_SchedulePolicies := [exFederation 20]\<rparr>"

definition exSpares :: mem where
  "exSpares = exMem\<lparr>mm_ClusterSets := [\<lparr>cs_Meta = exMeta [] ''set'',
     cs_Spec = \<lparr>se_Selector = [],
       se_Clusters = [\<lparr>tg_Name = ''a'', tg_Role = ''r''\<rparr>, \<lparr>tg_Name = ''b'', tg_Role = ''q''\<rparr>], se_Policy = []\<rparr>\<rparr>]\<rparr>"

end
