(* ===== verification/ScheduleProps.thy ===== *)
theory ScheduleProps
  imports Federation
begin

text \<open>
  The properties of the scheduler: what a binding contains, that a reconcile stores it, and the
  inputs at which the code panics, does not return, or hands out more replicas than it was asked to.
\<close>

section \<open>What a binding contains\<close>

text \<open>
  C4: a weighted policy over assigned clusters, with sensible counts and enough available failover clusters,
  gets a binding. For every resource the binding lists the clusters of the policy in order, each
  unavailable one replaced by the next available failover candidate, and gives every cluster a number of
  replicas within its bounds; the numbers add up to the replicas of the policy, or all clusters are at
  their maximum, or all at their minimum. All weights are covered, zero and overflowing totals included.
\<close>

theorem weighted_binding:
  fixes policy :: MultiClusterResourceSchedulePolicy
  defines "ps \<equiv> ps_Policy (po_Spec policy)" and "fo \<equiv> ps_FailoverPolicy (po_Spec policy)"
    and "R \<equiv> ps_Replicas (po_Spec policy)"
  assumes source: "ps_ClusterSource (po_Spec policy) = ClusterSourceTypeAssign"
    and cok: "counts_ok ps R" and wf: "failover_wf k s fo"
    and enough: "length (filter (\<lambda>c. \<not> up k s c) (map sp_Name ps))
                   \<le> length (filter (up k s) (candidates k s fo))"
    and rd: "\<And>r. r \<in> set (ps_Resources (po_Spec policy)) \<Longrightarrow> readable k s policy (pr_Name r)"
  shows "\<exists>b. doTypeWeighted k s policy = Inr b \<and>
           map br_Name (bd_Resources b) = map pr_Name (ps_Resources (po_Spec policy)) \<and>
           (\<forall>r\<in>set (bd_Resources b). balanced ps R (br_Clusters r) \<and>
              map bc_Name (br_Clusters r) =
                substitute (up k s) (map sp_Name ps) (filter (up k s) (candidates k s fo)))"
proof -
  obtain fails unavail where cc: "checkClusters k s policy = Inr (fails, unavail)"
      "place_inv k s fo (map sp_Name ps) fails unavail 0 (zeroIndex, [])"
    using checkClusters_ok [of policy k s] source wf enough by (auto simp: ps_def fo_def)
  have "\<exists>b. forResources k policy (weightedClusters k s policy fails unavail) = Inr b \<and>
      bd_Meta b = bd_Meta (addBindingMeta k policy) \<and>
      map br_Name (bd_Resources b) = map pr_Name (ps_Resources (po_Spec policy)) \<and>
      (\<forall>r\<in>set (bd_Resources b). balanced ps R (br_Clusters r) \<and> map bc_Name (br_Clusters r) =
         substitute (up k s) (map sp_Name ps) (filter (up k s) (candidates k s fo)))"
    by (rule forResources_ok)
       (use weightedClusters_ok [of policy k s fails unavail, folded ps_def fo_def R_def]
            cok wf cc(2) rd in blast)
  with cc(1) show ?thesis by (auto simp: doTypeWeighted_def generateBindingByWeighted_def)
qed

lemma weighted_binding_witness:
  "\<exists>b. doTypeWeighted memKube exMem (exFederation 20) = Inr b \<and>
     (\<forall>r\<in>set (bd_Resources b). balanced exPolicies 20 (br_Clusters r) \<and>
        map bc_Name (br_Clusters r) = [''a'', ''spare'', ''c''])"
proof -
  have "failover_wf memKube exMem (ps_FailoverPolicy (po_Spec (exFederation 20)))"
    by (simp add: failover_wf_def entry_wf_def exFederation_def exPolicy_def)
  then show ?thesis
    using weighted_binding [of "exFederation 20" memKube exMem] ex_counts ex_up ex_readable
    by (auto simp: exFederation_def exPolicy_def exPolicies_def candidates_def offers_def)
qed

lemma duplicateOverrides_ok:
  assumes rd: "readable k s policy r" and R: "in_int64 (ps_Replicas (po_Spec policy))"
  shows "\<exists>c'. duplicateOverrides k s policy r m (bindingCluster n) = Inr c' \<and> bc_Name c' = n \<and>
           okc c' \<and> val c' = ps_Replicas (po_Spec policy)"
proof -
  obtain res where res: "api_Get (kMultiClusterResource k) s (policyNamespace policy) r = Inr res"
      "rs_ReplicasField (mr_Spec res) \<noteq> []"
    using rd by (auto simp: readable_def split: sum.splits)
  define c1 where "c1 = appendOverride (rs_ReplicasField (mr_Spec res))
      (strconvItoa (ps_Replicas (po_Spec policy))) (bindingCluster n)"
  obtain c2 more where c2: "checkNamespaceMapping k s policy m c1 = Inr c2"
      "bc_Name c2 = bc_Name c1" "bc_Override c2 = bc_Override c1 @ more"
    using checkNamespaceMapping_ok [OF rd] by blast
  have "duplicateOverrides k s policy r m (bindingCluster n) = Inr c2"
    using res c2 by (simp add: duplicateOverrides_def replaceResourceReplicasField_def c1_def)
  with c2 R show ?thesis by (simp add: okc_def val_def c1_def appendOverride_def bindingCluster_def)
qed

lemma duplicated_clusters:
  fixes policy :: MultiClusterResourceSchedulePolicy
  defines "fo \<equiv> ps_FailoverPolicy (po_Spec policy)" and "R \<equiv> ps_Replicas (po_Spec policy)"
  assumes R: "in_int64 R" and wf: "failover_wf k s fo" and rd: "readable k s policy rn"
    and start: "place_inv k s fo (map nameOf qs) fails unavail 0 (zeroIndex, [])"
  shows "\<exists>cs. bindR (clustersLoop k s policy fails unavail nameOf
                  (\<lambda>q. withoutModel (duplicateOverrides k s policy rn (nameOf q))) qs ())
                (\<lambda>(_, clusters). Inr clusters) = Inr cs \<and>
           (\<forall>c\<in>set cs. okc c \<and> val c = R) \<and>
           map bc_Name cs = substitute (up k s) (map nameOf qs) (filter (up k s) (candidates k s fo))"
proof -
  let ?f = "\<lambda>q. withoutModel (duplicateOverrides k s policy rn (nameOf q))"
  have "\<exists>c'. ?f (qs ! j) () (bindingCluster n) = Inr ((), c') \<and> bc_Name c' = n \<and>
      okc c' \<and> val c' = R" for j n
    using duplicateOverrides_ok [OF rd R [unfolded R_def], of "nameOf (qs ! j)" n]
    by (auto simp: withoutModel_def R_def)
  then obtain cs where "clustersLoop k s policy fails unavail nameOf ?f qs () = Inr ((), cs)"
      "length cs = length qs" "\<forall>j<length qs. okc (cs ! j) \<and> val (cs ! j) = R"
      "map bc_Name cs = substitute (up k s) (map nameOf qs) (filter (up k s) (candidates k s fo))"
    using clustersLoop_ok [where f = ?f and M = "\<lambda>_ _. True" and C = "\<lambda>j c. okc c \<and> val c = R"
        and model = "()", OF wf [unfolded fo_def] start [unfolded fo_def]] by (auto simp: fo_def)
  then show ?thesis by (auto simp: in_set_conv_nth)
qed

text \<open>
  C11: a duplicated policy gets a binding in which every cluster, substituted in the same way, runs the full
  number of replicas of the policy.
\<close>

theorem duplicated_binding:
  fixes policy :: MultiClusterResourceSchedulePolicy
  defines "ps \<equiv> ps_Policy (po_Spec policy)" and "fo \<equiv> ps_FailoverPolicy (po_Spec policy)"
    and "R \<equiv> ps_Replicas (po_Spec policy)"
  assumes source: "ps_ClusterSource (po_Spec policy) = ClusterSourceTypeAssign"
    and R: "in_int64 R" and wf: "failover_wf k s fo"
    and enough: "length (filter (\<lambda>c. \<not> up k s c) (map sp_Name ps))
                   \<le> length (filter (up k s) (candidates k s fo))"
    and rd: "\<And>r. r \<in> set (ps_Resources (po_Spec policy)) \<Longrightarrow> readable k s policy (pr_Name r)"
  shows "\<exists>b. doTypeDuplicated k s policy = Inr b \<and>
           map br_Name (bd_Resources b) = map pr_Name (ps_Resources (po_Spec policy)) \<and>
           (\<forall>r\<in>set (bd_Resources b).
              (\<forall>c\<in>set (br_Clusters r). okc c \<and> val c = R) \<and>
              map bc_Name (br_Clusters r) =
                substitute (up k s) (map sp_Name ps) (filter (up k s) (candidates k s fo)))"
proof -
  obtain fails unavail where cc: "checkClusters k s policy = Inr (fails, unavail)"
      "place_inv k s fo (map sp_Name ps) fails unavail 0 (zeroIndex, [])"
    using checkClusters_ok [of policy k s] source wf enough by (auto simp: ps_def fo_def)
  have "\<exists>b. generateBindingByDuplicated k s policy fails unavail = Inr b \<and>
      bd_Meta b = bd_Meta (addBindingMeta k policy) \<and>
      map br_Name (bd_Resources b) = map pr_Name (ps_Resources (po_Spec policy)) \<and>
      (\<forall>r\<in>set (bd_Resources b). (\<forall>c\<in>set (br_Clusters r). okc c \<and> val c = R) \<and> map bc_Name (br_Clusters r) =
         substitute (up k s) (map sp_Name ps) (filter (up k s) (candidates k s fo)))"
    unfolding generateBindingByDuplicated_def
    by (rule forResources_ok)
       (use duplicated_clusters [of policy k s _ sp_Name ps fails unavail, folded fo_def R_def] R wf rd cc(2)
        in \<open>auto simp: ps_def\<close>)
  with cc(1) show ?thesis by (auto simp: doTypeDuplicated_def)
qed

lemma duplicated_binding_witness:
  "\<exists>b. doTypeDuplicated memKube exMem (exPolicy ''assign'' ''Duplicated'' 20 exPolicies) = Inr b \<and>
     (\<forall>r\<in>set (bd_Resources b). (\<forall>c\<in>set (br_Clusters r). okc c \<and> val c = 20) \<and>
        map bc_Name (br_Clusters r) = [''a'', ''spare'', ''c''])"
proof -
  let ?p = "exPolicy ''assign'' ''Duplicated'' 20 exPolicies"
  have "failover_wf memKube exMem (ps_FailoverPolicy (po_Spec ?p))" and "in_int64 20"
    by (simp_all add: failover_wf_def entry_wf_def exPolicy_def in_int64_def)
  then show ?thesis
    using duplicated_binding [of ?p memKube exMem] ex_up ex_readable
    by (auto simp: exPolicy_def exPolicies_def candidates_def offers_def)
qed

text \<open>
  The second split can hand out more than it was asked to: 20 replicas over three clusters with equal
  weights and room for 10 each end as 10, 10 and 10, since the inner loop does not look at
  \<open>addNum\<close> and, once it has stepped past zero, goes on to the bounds.
\<close>

theorem weighted_overshoot:
  "let policy = exPolicy ''assign'' ''Weighted'' 20 exPolicies in
   case doTypeWeighted memKube exMem policy of
     Inl e \<Rightarrow> False
   | Inr b \<Rightarrow> map (vals \<circ> br_Clusters) (bd_Resources b) = [[10, 10, 10]]"
  by code_simp

section \<open>Storing it\<close>

text \<open>The laws of the server this rests on: a write of a live binding is read back, the write of a policy
  status touches no binding.\<close>

definition binding_laws :: "'s kube \<Rightarrow> bool" where
  "binding_laws k \<longleftrightarrow>
     (\<forall>b s b2 s'. api_Create (kBinding k) b s = (Inr b2, s') \<longrightarrow>
        (\<exists>x. api_Get (kBinding k) s' (om_Namespace (bd_Meta b)) (om_Name (bd_Meta b)) = Inr x \<and>
             bd_Resources x = bd_Resources b)) \<and>
     (\<forall>b s b2 s'. om_DeletionTimestamp (bd_Meta b) = None \<longrightarrow>
        api_Update (kBinding k) b s = (Inr b2, s') \<longrightarrow>
        (\<exists>x. api_Get (kBinding k) s' (om_Namespace (bd_Meta b)) (om_Name (bd_Meta b)) = Inr x \<and>
             bd_Resources x = bd_Resources b)) \<and>
     (\<forall>p s r s'. api_UpdateStatus (kSchedulePolicy k) p s = (r, s') \<longrightarrow>
        api_Get (kBinding k) s' = api_Get (kBinding k) s) \<and>
     (\<forall>s ns n x. api_Get (kBinding k) s ns n = Inr x \<longrightarrow> om_Namespace (bd_Meta x) = ns \<and> om_Name (bd_Meta x) = n)"

lemma createOrUpdateBinding_stores:
  assumes laws: "binding_laws k" and run: "createOrUpdateBinding k b s = (Inr u, s')"
    and live: "\<And>x. api_Get (kBinding k) s (om_Namespace (bd_Meta b)) (om_Name (bd_Meta b)) = Inr x \<Longrightarrow>
                 om_DeletionTimestamp (bd_Meta x) = None"
  shows "\<exists>x. api_Get (kBinding k) s' (om_Namespace (bd_Meta b)) (om_Name (bd_Meta b)) = Inr x \<and>
           bd_Resources x = bd_Resources b"
proof (cases "api_Get (kBinding k) s (om_Namespace (bd_Meta b)) (om_Name (bd_Meta b))")
  case (Inl e)
  then obtain b2 where "api_Create (kBinding k) b s = (Inr b2, s')"
    using run by (cases e) (auto simp: createOrUpdateBinding_def split: prod.splits sum.splits)
  with laws show ?thesis by (auto simp: binding_laws_def)
next
  case (Inr i)
  define i' where "i' = i\<lparr>bd_Resources := bd_Resources b\<rparr>"
  show ?thesis
  proof (cases "bd_Resources i = bd_Resources b")
    case True
    then show ?thesis using run Inr by (auto simp: createOrUpdateBinding_def)
  next
    case False
    then obtain b2 where "api_Update (kBinding k) i' s = (Inr b2, s')"
      using run Inr by (auto simp: createOrUpdateBinding_def i'_def split: prod.splits sum.splits)
    moreover have "om_DeletionTimestamp (bd_Meta i') = None" using live [OF Inr] by (simp add: i'_def)
    ultimately have "\<exists>x. api_Get (kBinding k) s' (om_Namespace (bd_Meta i')) (om_Name (bd_Meta i')) = Inr x \<and>
        bd_Resources x = bd_Resources i'"
      using laws unfolding binding_laws_def by blast
    moreover have "om_Namespace (bd_Meta i') = om_Namespace (bd_Meta b)" "om_Name (bd_Meta i') = om_Name (bd_Meta b)"
      using laws Inr by (auto simp: binding_laws_def i'_def)
    ultimately show ?thesis by (simp add: i'_def)
  qed
qed

lemma stampSchedule_keeps:
  "binding_laws k \<Longrightarrow> stampSchedule k now policy s = (r, s') \<Longrightarrow> api_Get (kBinding k) s' = api_Get (kBinding k) s"
  by (auto simp: stampSchedule_def updateLastScheduleTime_def binding_laws_def split: prod.splits)

lemma doSchedule_unchanged:
  assumes "chooseBinding k s policy = Inr (Some b)"
    and "api_Get (kBinding k) s (om_Namespace (bd_Meta b)) (om_Name (bd_Meta b)) = Inr x"
    and "bd_Resources x = bd_Resources b"
  shows "doSchedule k now policy s = stampSchedule k now policy s"
  using assms by (simp add: doSchedule_def compareBinding_def)

lemma mem_binding_laws: "binding_laws memKube"
  unfolding binding_laws_def
proof (intro conjI allI impI)
  fix b b2 s s'
  assume "api_Create (kBinding memKube) b s = (Inr b2, s')"
  from bindingStore.get_create(2) [OF this [unfolded memKube_def memApi_def, simplified]]
  show "\<exists>x. api_Get (kBinding memKube) s' (om_Namespace (bd_Meta b)) (om_Name (bd_Meta b)) = Inr x \<and>
             bd_Resources x = bd_Resources b"
    by (simp add: memKube_def memApi_def keyOf_def)
next
  fix b b2 s s'
  assume live: "om_DeletionTimestamp (bd_Meta b) = None" and u: "api_Update (kBinding memKube) b s = (Inr b2, s')"
  have "bd_Resources b2 = bd_Resources b"
    using u by (auto simp: memKube_def memApi_def memUpdate_def Let_def split: option.splits)
  with bindingStore.get_update(2) [OF u [unfolded memKube_def memApi_def, simplified]] live
  show "\<exists>x. api_Get (kBinding memKube) s' (om_Namespace (bd_Meta b)) (om_Name (bd_Meta b)) = Inr x \<and>
             bd_Resources x = bd_Resources b"
    by (simp add: memKube_def memApi_def keyOf_def)
next
  fix p s r s'
  assume "api_UpdateStatus (kSchedulePolicy memKube) p s = (r, s')"
  then show "api_Get (kBinding memKube) s' = api_Get (kBinding memKube) s"
    by (auto simp: memKube_def memApi_def memUpdateStatus_def memGet_def fun_eq_iff split: option.splits)
next
  fix s ns n x
  assume "api_Get (kBinding memKube) s ns n = Inr x"
  then have "findObj bd_Meta (ns, n) (mm_Bindings s) = Some x"
    by (simp add: memKube_def memApi_def memGet_def split: option.splits)
  from bindingStore.find_key [OF this] show "om_Namespace (bd_Meta x) = ns" "om_Name (bd_Meta x) = n"
    by (simp_all add: keyOf_def)
qed

lemma doSchedule_writes:
  assumes laws: "binding_laws k" and choose: "chooseBinding k s policy = Inr (Some b)"
    and live: "\<And>x. api_Get (kBinding k) s (om_Namespace (bd_Meta b)) (om_Name (bd_Meta b)) = Inr x \<Longrightarrow>
                 om_DeletionTimestamp (bd_Meta x) = None"
    and run: "doSchedule k now policy s = (Inr (doneResult, None), s')"
  shows "\<exists>x. api_Get (kBinding k) s' (om_Namespace (bd_Meta b)) (om_Name (bd_Meta b)) = Inr x \<and>
           bd_Resources x = bd_Resources b"
proof -
  obtain same where same: "compareBinding k s (Some b) = Inr same" and
    sameD: "same \<Longrightarrow> \<exists>x. api_Get (kBinding k) s (om_Namespace (bd_Meta b)) (om_Name (bd_Meta b)) = Inr x \<and>
           bd_Resources x = bd_Resources b"
    by (cases "api_Get (kBinding k) s (om_Namespace (bd_Meta b)) (om_Name (bd_Meta b))")
       (auto simp: compareBinding_def)
  show ?thesis
  proof (cases same)
    case True
    then have "stampSchedule k now policy s = (Inr (doneResult, None), s')"
      using run choose same by (simp add: doSchedule_def)
    then show ?thesis using stampSchedule_keeps [OF laws] sameD [OF True] by metis
  next
    case False
    then obtain u s1 where w: "createOrUpdateBinding k b s = (Inr u, s1)"
        "stampSchedule k now policy s1 = (Inr (doneResult, None), s')"
      using run choose same
      by (auto simp: doSchedule_def reQueueResult_def doneResult_def requeueAfter_def
          split: prod.splits sum.splits fail.splits)
    then show ?thesis
      using createOrUpdateBinding_stores [OF laws w(1) live] stampSchedule_keeps [OF laws w(2)] by metis
  qed
qed

text \<open>
  C13: a schedule that ends without an error and without a retry has stored the generated binding: a read of
  its name answers with the generated resources, whether the binding was created, updated or left alone.
\<close>

theorem doSchedule_stores:
  assumes laws: "binding_laws k" and choose: "chooseBinding k s policy = Inr (Some b)"
    and live: "\<And>x. api_Get (kBinding k) s (om_Namespace (bd_Meta b)) (om_Name (bd_Meta b)) = Inr x \<Longrightarrow>
                 om_DeletionTimestamp (bd_Meta x) = None"
    and run: "doSchedule k now policy s = (Inr (doneResult, None), s')"
  shows "\<exists>x. api_Get (kBinding k) s' (om_Namespace (bd_Meta b)) (om_Name (bd_Meta b)) = Inr x \<and>
           bd_Resources x = bd_Resources b"
  by (rule doSchedule_writes [OF laws choose live run])

lemma doSchedule_stores_witness:
  "\<exists>b. chooseBinding memKube exStored (exFederation 20) = Inr (Some b) \<and>
     (\<exists>x. api_Get (kBinding memKube) (snd (doSchedule memKube 7 (exFederation 20) exStored))
            (om_Namespace (bd_Meta b)) (om_Name (bd_Meta b)) = Inr x \<and>
          bd_Resources x = bd_Resources b)"
proof -
  have "case chooseBinding memKube exStored (exFederation 20) of Inl e \<Rightarrow> False | Inr b \<Rightarrow> b \<noteq> None"
    by code_simp
  then obtain b where b: "chooseBinding memKube exStored (exFederation 20) = Inr (Some b)"
    by (auto split: sum.splits)
  have "fst (doSchedule memKube 7 (exFederation 20) exStored) = Inr (doneResult, None)" by code_simp
  then have run: "doSchedule memKube 7 (exFederation 20) exStored =
      (Inr (doneResult, None), snd (doSchedule memKube 7 (exFederation 20) exStored))"
    by (metis prod.collapse)
  have "om_DeletionTimestamp (bd_Meta x) = None"
    if "api_Get (kBinding memKube) exStored (om_Namespace (bd_Meta b)) (om_Name (bd_Meta b)) = Inr x" for x
    using that by (simp add: memKube_def memApi_def memGet_def findObj_def exStored_def exMem_def emptyMem_def)
  from doSchedule_stores [OF mem_binding_laws b this run] b show ?thesis by blast
qed

section \<open>Where the code fails\<close>

text \<open>
  A policy with an unknown cluster source, or with an assigned source and an unknown mode, makes the
  reconcile panic: no binding is generated, and \<open>compareBinding\<close> dereferences the nil binding.
\<close>

theorem schedule_unknown_source:
  assumes "api_Get (kSchedulePolicy k) s ns n = Inr policy"
    and "updateLastModifyTime k t policy s = (Inr policy', s')"
    and "ps_Reschedule (po_Spec policy')"
    and "ps_ClusterSource (po_Spec policy') \<notin> {ClusterSourceTypeAssign, ClusterSourceTypeClusterset} \<or>
         (ps_ClusterSource (po_Spec policy') = ClusterSourceTypeAssign \<and>
          ps_ScheduleMode (po_Spec policy') \<notin> {ScheduleModeTypeWeighted, ScheduleModeTypeDuplicated})"
  shows "reconcileSchedulePolicy k t t' ns n s = (Crash NilDereference, s')"
  using assms
  by (auto simp: reconcileSchedulePolicy_def doSchedule_def chooseBinding_def scheduleByAssign_def compareBinding_def)

lemma schedule_unknown_source_witness:
  "fst (reconcileSchedulePolicy memKube 5 7 ''ns'' ''p''
     (exMem\<lparr>mm_SchedulePolicies := [exPolicy ''assign'' ''Spread'' 20 exPolicies]\<rparr>)) = Crash NilDereference"
proof -
  let ?s = "exMem\<lparr>mm_SchedulePolicies := [exPolicy ''assign'' ''Spread'' 20 exPolicies]\<rparr>"
  let ?p = "exPolicy ''assign'' ''Spread'' 20 exPolicies"
  let ?p' = "?p\<lparr>po_Status := (po_Status ?p)\<lparr>ss_LastModifyTime := Some 5\<rparr>\<rparr>"
  have 1: "api_Get (kSchedulePolicy memKube) ?s ''ns'' ''p'' = Inr ?p" by code_simp
  have 2: "updateLastModifyTime memKube 5 ?p ?s = (Inr ?p', snd (updateLastModifyTime memKube 5 ?p ?s))"
    by code_simp
  have 3: "ps_Reschedule (po_Spec ?p')" by code_simp
  have 4: "ps_ClusterSource (po_Spec ?p') = ClusterSourceTypeAssign \<and>
      ps_ScheduleMode (po_Spec ?p') \<notin> {ScheduleModeTypeWeighted, ScheduleModeTypeDuplicated}"
    by (simp add: exPolicy_def)
  show ?thesis using schedule_unknown_source [OF 1 2 3, of 7] 4 by simp
qed

lemma failoverStep_unknown:
  assumes "fi_FailoverIndex ix < length policy"
    and "fo_Type (policy ! fi_FailoverIndex ix) \<noteq> ClusterTypeClusters"
    and "fo_Type (policy ! fi_FailoverIndex ix) \<noteq> ClusterTypeClusterSet"
  shows "failoverStep k s policy unavail clusters ix = Inr ix"
  using assms by (simp add: failoverStep_def)

text \<open>
  The failover choice does not return when the entry it stands at is neither a cluster nor a cluster set.
\<close>

theorem failover_unknown_type:
  assumes i: "fi_FailoverIndex ix < length policy"
    and t: "fo_Type (policy ! fi_FailoverIndex ix) \<notin> {ClusterTypeClusters, ClusterTypeClusterSet}"
  shows "doFailoverPolicy k s policy unavail clusters ix = None"
proof (cases "doFailoverPolicy k s policy unavail clusters ix")
  case (Some r)
  then have "\<not> (fi_FailoverIndex ix < length policy \<and>
      fo_Type (policy ! fi_FailoverIndex ix) \<notin> {ClusterTypeClusters, ClusterTypeClusterSet})"
  proof (induction k s policy unavail clusters ix r
      rule: doFailoverPolicy.raw_induct [rotated, consumes 1, case_names step])
    case (step rec k s policy unavail clusters ix r)
    show ?case
    proof
      assume bad: "fi_FailoverIndex ix < length policy \<and>
        fo_Type (policy ! fi_FailoverIndex ix) \<notin> {ClusterTypeClusters, ClusterTypeClusterSet}"
      then have "failoverStep k s policy unavail clusters ix = Inr ix"
        by (intro failoverStep_unknown) auto
      with step(2) have "rec k s policy unavail clusters ix = Some r" by simp
      from step(1) [OF this] bad show False by blast
    qed
  qed
  with i t show ?thesis by blast
qed simp

lemma failover_unknown_type_witness:
  "doFailoverPolicy memKube exMem [\<lparr>fo_Name = ''x'', fo_Type = ''zone''\<rparr>] [] [] zeroIndex = None"
  by (rule failover_unknown_type) (simp_all add: zeroIndex_def)

text \<open>
  The failover choice runs past the end of a cluster set whose last member is unavailable, and panics,
  though later entries of the failover policy may be available.
\<close>

theorem failover_last_member_down:
  assumes "fi_FailoverIndex ix < length policy"
    and "policy ! fi_FailoverIndex ix = p" and "fo_Type p = ClusterTypeClusterSet"
    and "api_Get (kClusterSet k) s [] (fo_Name p) = Inr clusterSet"
    and "getClusterListByClusterSet k s clusterSet = xs @ [c]"
    and "fi_ClusterSetIndex ix = length xs"
    and "fi_UnavailableFailoverClusterIndex ix < length unavail"
    and "unavail ! fi_UnavailableFailoverClusterIndex ix = c"
  shows "doFailoverPolicy k s policy unavail clusters ix = Some (Crash IndexOutOfRange)"
proof -
  define ix' where "ix' = nextUnavailable unavail (ix\<lparr>fi_ClusterSetIndex := fi_ClusterSetIndex ix + 1\<rparr>)"
  have ix': "fi_FailoverIndex ix' = fi_FailoverIndex ix" "fi_ClusterSetIndex ix' = length (xs @ [c])"
    using assms(6) by (simp_all add: ix'_def nextUnavailable_def)
  have ne: "length unavail \<noteq> 0" using assms(7) by auto
  have "failoverStep k s policy unavail clusters ix = Inr ix'"
    using assms ne by (simp add: failoverStep_def candidateFree_def ix'_def Let_def)
  moreover have "failoverStep k s policy unavail clusters ix' = Inl (Crash IndexOutOfRange)"
    using assms ix' ne by (simp add: failoverStep_def candidateFree_def Let_def)
  ultimately show ?thesis by (simp add: doFailoverPolicy.simps)
qed

lemma failover_last_member_down_witness:
  "doFailoverPolicy memKube exSpares
     [\<lparr>fo_Name = ''set'', fo_Type = ClusterTypeClusterSet\<rparr>, \<lparr>fo_Name = ''spare'', fo_Type = ClusterTypeClusters\<rparr>]
     [''b''] [bindingCluster ''a''] (zeroIndex\<lparr>fi_DoneIndex := 1, fi_ClusterSetIndex := 1\<rparr>)
   = Some (Crash IndexOutOfRange)"
  by (rule failover_last_member_down [where xs = "[''a'']" and c = "''b''"
        and clusterSet = "hd (mm_ClusterSets exSpares)"
        and p = "\<lparr>fo_Name = ''set'', fo_Type = ClusterTypeClusterSet\<rparr>"])
     (simp_all add: zeroIndex_def exSpares_def memKube_def memApi_def memGet_def findObj_def keyOf_def exMeta_def
        zeroMeta_def getClusterListByClusterSet_def)

text \<open>A sorted list none of whose entries has a cluster: no cluster can take what is left.\<close>

definition stuck :: "SchedulePolicy list \<Rightarrow> ClusterSetTarget list \<Rightarrow> SortPolicy \<Rightarrow> bool" where
  "stuck policy targets so \<longleftrightarrow>
     so_List so \<noteq> [] \<and> - 1 \<le> so_Index so \<and> so_Index so < int (length (so_List so)) \<and>
     list_all (\<lambda>e. list_all (\<lambda>c. sp_Role (orZero (instanceOfRole policy (tg_Role c))) \<noteq> sp_Role e) targets)
       (so_List so)"

lemma roleStep_stuck:
  assumes "stuck policy targets so" and "0 \<le> so_Index so" and "c \<in> set targets"
  shows "roleStep d policy j c (cs, a, so) = Inr (False, cs, a, so)"
proof -
  have i: "nat (so_Index so) < length (so_List so)" using assms by (auto simp: stuck_def)
  then have "so_List so ! nat (so_Index so) \<in> set (so_List so)" by simp
  then have "sp_Role (orZero (instanceOfRole policy (tg_Role c))) \<noteq> sp_Role (so_List so ! nat (so_Index so))"
    using assms(1,3) by (auto simp: stuck_def list_all_iff)
  then show ?thesis using assms(2) i by (auto simp: roleStep_def sortEntry_def Let_def)
qed

lemma rolePass_stuck:
  assumes "stuck policy targets so" and "0 \<le> so_Index so"
  shows "set ts \<subseteq> set targets \<Longrightarrow> rolePass d policy j ts (cs, a, so) = Inr (False, cs, a, so)"
  by (induction ts arbitrary: j) (auto simp: roleStep_stuck [OF assms])

lemma nextIndex_stuck:
  assumes "stuck policy targets so"
  shows "stuck policy targets (nextIndex so)" and "0 \<le> so_Index (nextIndex so)"
  using assms by (auto simp: stuck_def nextIndex_def)

text \<open>
  C30: the second split by role does not return when replicas are left over and no entry of the sorted list has
  the role of a cluster.
\<close>

theorem role_split_diverges:
  assumes "a \<noteq> 0" and "stuck policy targets so"
  shows "roleLoop d policy targets (cs, a, so) = None"
proof -
  have "roleLoop d policy targets st = Some r \<Longrightarrow>
      \<not> (fst (snd st) \<noteq> 0 \<and> stuck policy targets (snd (snd st)))" for st r
  proof (induction d policy targets st r rule: roleLoop.raw_induct [rotated, consumes 1, case_names step])
    case (step rec d policy targets st r)
    obtain cs a so where st: "st = (cs, a, so)" by (cases st) auto
    show ?case
    proof
      assume bad: "fst (snd st) \<noteq> 0 \<and> stuck policy targets (snd (snd st))"
      then have so: "stuck policy targets so" and a: "a \<noteq> 0" by (simp_all add: st)
      have "rolePass d policy 0 targets (cs, a, nextIndex so) = Inr (False, cs, a, nextIndex so)"
        by (rule rolePass_stuck [OF nextIndex_stuck [OF so]]) simp
      with step(2) a have "rec d policy targets (cs, a, nextIndex so) = Some r" by (simp add: st)
      from step(1) [OF this] nextIndex_stuck(1) [OF so] a show False by simp
    qed
  qed
  from this [of "(cs, a, so)"] assms show ?thesis
    by (cases "roleLoop d policy targets (cs, a, so)") auto
qed

lemma role_split_diverges_witness:
  "roleLoop 4 [\<lparr>sp_Name = [], sp_Role = ''r'', sp_Weight = 1, sp_Min = 0, sp_Max = 1\<rparr>,
               \<lparr>sp_Name = [], sp_Role = ''q'', sp_Weight = 1, sp_Min = 0, sp_Max = 9\<rparr>]
     [\<lparr>tg_Name = ''a'', tg_Role = ''r''\<rparr>]
     ([\<lparr>bc_Name = ''a'', bc_Override = []\<rparr>], 3,
      \<lparr>so_List = [\<lparr>sp_Name = [], sp_Role = ''q'', sp_Weight = 1, sp_Min = 0, sp_Max = 9\<rparr>], so_Index = 0\<rparr>) = None"
  by (rule role_split_diverges) (simp_all add: stuck_def orZero_def)

end
