(* ===== verification/RoleCorrect.thy ===== *)
theory RoleCorrect
  imports ScheduleCorrect
begin

text \<open>
  The division of the replicas for a policy over a cluster set. When every cluster has a role that the policy
  speaks about, and the clusters of the roles that the second split reaches have room for what it has to hand
  out there, both splits by role return and the counts add up to \<open>spec.replicas\<close>.
\<close>

section \<open>One entry per cluster\<close>

text \<open>The entry of the role of every cluster, under the name of the cluster.\<close>

definition roleEntries :: "SchedulePolicy list \<Rightarrow> ClusterSetTarget list \<Rightarrow> SchedulePolicy list" where
  "roleEntries entries targets =
     map (\<lambda>c. (orZero (instanceOfRole entries (tg_Role c)))\<lparr>sp_Name := tg_Name c\<rparr>) targets"

definition roles_ok :: "SchedulePolicy list \<Rightarrow> ClusterSetTarget list \<Rightarrow> bool" where
  "roles_ok entries targets \<longleftrightarrow>
     distinct (map sp_Role entries) \<and> list_all (\<lambda>c. tg_Role c \<in> set (map sp_Role entries)) targets"

lemma instanceOfRole_some:
  "role \<in> set (map sp_Role entries) \<Longrightarrow> \<exists>i. instanceOfRole entries role = Some i \<and> i \<in> set entries \<and> sp_Role i = role"
  by (induction entries) auto

lemma instanceOfRole_distinct:
  "distinct (map sp_Role entries) \<Longrightarrow> i \<in> set entries \<Longrightarrow> instanceOfRole entries (sp_Role i) = Some i"
proof (induction entries)
  case (Cons e es)
  then show ?case by (cases "i = e") (auto simp: image_iff)
qed simp

lemma instanceOfCluster_nth:
  "distinct (map tg_Name targets) \<Longrightarrow> c \<in> set targets \<Longrightarrow>
     instanceOfCluster targets entries (tg_Name c) = instanceOfRole entries (tg_Role c)"
proof (induction targets)
  case (Cons t ts)
  then show ?case by (cases "c = t") (auto simp: image_iff)
qed simp

text \<open>The weights over roles and clusters have the sum of the weights of the clusters.\<close>

lemma sum_one_role:
  fixes h :: "SchedulePolicy \<Rightarrow> int"
  assumes "distinct (map sp_Role entries)" and "instanceOfRole entries role = Some e"
  shows "sum_list (map (\<lambda>i. if role = sp_Role i then h i else 0) entries) = h e"
  using assms
proof (induction entries)
  case (Cons i es)
  show ?case
  proof (cases "sp_Role i = role")
    case True
    then have "\<forall>j\<in>set es. role \<noteq> sp_Role j" using Cons.prems(1) by auto
    then have "sum_list (map (\<lambda>i. if role = sp_Role i then h i else 0) es) = 0"
      by (simp cong: map_cong)
    with True Cons.prems(2) show ?thesis by simp
  next
    case False
    with Cons show ?thesis by auto
  qed
qed simp

lemma sum_over_roles:
  fixes h :: "SchedulePolicy \<Rightarrow> int"
  assumes "roles_ok entries targets"
  shows "sum_list (concat (map (\<lambda>i. map (\<lambda>c. h i) (filter (\<lambda>c. tg_Role c = sp_Role i) targets)) entries))
       = sum_list (map (\<lambda>c. h (orZero (instanceOfRole entries (tg_Role c)))) targets)"
  using assms
proof (induction targets)
  case Nil
  have "sum_list (concat (map (\<lambda>i. []) es)) = (0::int)" for es :: "SchedulePolicy list" by (induction es) simp_all
  then show ?case by simp
next
  case (Cons c cs)
  then have ok: "roles_ok entries cs" "distinct (map sp_Role entries)" "tg_Role c \<in> set (map sp_Role entries)"
    by (auto simp: roles_ok_def)
  from instanceOfRole_some [OF ok(3)] obtain e where e: "instanceOfRole entries (tg_Role c) = Some e" by blast
  have "sum_list (concat (map (\<lambda>i. map (\<lambda>c. h i) (filter (\<lambda>c. tg_Role c = sp_Role i) (c # cs))) es)) =
      sum_list (map (\<lambda>i. if tg_Role c = sp_Role i then h i else 0) es) +
      sum_list (concat (map (\<lambda>i. map (\<lambda>c. h i) (filter (\<lambda>c. tg_Role c = sp_Role i) cs)) es))" for es
    by (induction es) simp_all
  with sum_one_role [OF ok(2) e, of h] Cons.IH [OF ok(1)] e show ?case by (simp add: orZero_def)
qed

section \<open>The second split\<close>

text \<open>
  What the second split keeps: the clusters and what is left make up the total, and every cluster of one of the
  roles \<open>S\<close> has room for all that is left.
\<close>

definition role_inv ::
  "SchedulePolicy list \<Rightarrow> string list \<Rightarrow> int \<Rightarrow> int \<Rightarrow> MultiClusterResourceBindingCluster list \<Rightarrow>
   MultiClusterResourceBindingCluster list \<times> int \<Rightarrow> bool" where
  "role_inv ps S R d cs0 st \<longleftrightarrow>
     (case st of (cs, a) \<Rightarrow>
        list_all okc cs \<and> inBounds ps (vals cs) \<and> shape cs = shape cs0 \<and>
        sum_list (vals cs) + sg d * a = R \<and> 0 \<le> a \<and>
        (\<forall>j<length ps. sp_Role (ps ! j) \<in> set S \<longrightarrow> a \<le> room d (ps ! j) (vals cs ! j)))"

lemma role_inv_nth:
  assumes "counts_ok ps R" and "role_inv ps S R d cs0 (cs, a)" and "j < length ps"
  shows "j < length cs" and "sp_Min (ps ! j) \<le> vals cs ! j" and "vals cs ! j \<le> sp_Max (ps ! j)"
    and "sp_Role (ps ! j) \<in> set S \<Longrightarrow> a \<le> room d (ps ! j) (vals cs ! j)" and "0 \<le> sp_Min (ps ! j)"
    and "sp_Max (ps ! j) < 2 ^ 62" and "a < 2 ^ 62"
proof -
  have r: "inBounds ps (vals cs)" "sum_list (vals cs) + sg d * a = R" using assms(2) by (auto simp: role_inv_def)
  then show "j < length cs" using assms(3) by (auto dest: inBounds_length)
  show "sp_Min (ps ! j) \<le> vals cs ! j" "vals cs ! j \<le> sp_Max (ps ! j)"
    using inBounds_nth [OF r(1) assms(3)] by simp_all
  show "sp_Role (ps ! j) \<in> set S \<Longrightarrow> a \<le> room d (ps ! j) (vals cs ! j)" using assms(2,3) by (simp add: role_inv_def)
  show "0 \<le> sp_Min (ps ! j)" "sp_Max (ps ! j) < 2 ^ 62"
    using counts_bounds [OF assms(1), of "ps ! j"] assms(3) by simp_all
  show "a < 2 ^ 62" using counts_sum [OF assms(1) r(1)] r(2) assms(1) by (auto simp: counts_ok_def sg_def split: if_splits)
qed

lemma role_give:
  assumes cok: "counts_ok ps R" and inv: "role_inv ps S R d cs0 (cs, a)" and j: "j < length ps" "sp_Role (ps ! j) \<in> set S"
    and f: "0 \<le> f" "f \<le> a"
  shows "role_inv ps S R d cs0 (setReplicas cs j (vals cs ! j + sg d * f), a - f)"
proof -
  note n = role_inv_nth [OF cok inv j(1)]
  let ?v = "vals cs ! j + sg d * f"
  have i: "list_all okc cs" "inBounds ps (vals cs)" "shape cs = shape cs0" "sum_list (vals cs) + sg d * a = R"
      "\<And>m. m < length ps \<Longrightarrow> sp_Role (ps ! m) \<in> set S \<Longrightarrow> a \<le> room d (ps ! m) (vals cs ! m)"
    using inv by (auto simp: role_inv_def)
  have v: "sp_Min (ps ! j) \<le> ?v" "?v \<le> sp_Max (ps ! j)" "a - f \<le> room d (ps ! j) ?v"
    using n(2,3) n(4) [OF j(2)] f by (auto simp: sg_def room_def split: if_splits)
  then have "in_int64 ?v" using n(5,6) by (simp add: in_int64_def)
  note s = setReplicas_ok [OF i(1) n(1) this]
  have "a - f \<le> room d (ps ! m) ((vals cs)[j := ?v] ! m)" if "m < length ps" "sp_Role (ps ! m) \<in> set S" for m
    using i(5) [OF that] v(3) f n(1) by (cases "m = j") auto
  moreover have "sum_list ((vals cs)[j := ?v]) + sg d * (a - f) = R"
    using sum_list_update_int [of j "vals cs" ?v] n(1) i(4) by (simp add: algebra_simps)
  ultimately show ?thesis
    using s i f inBounds_update [OF i(2) v(1,2)] by (simp add: role_inv_def)
qed

lemma role_step_ok:
  fixes entries :: "SchedulePolicy list" and targets :: "ClusterSetTarget list"
  defines "ps \<equiv> roleEntries entries targets"
  assumes cok: "counts_ok ps R" and ok: "roles_ok entries targets" and d: "d \<noteq> 0"
    and inv: "role_inv ps S R d cs0 (cs, a)" and j: "j < length targets"
    and e: "sortEntry so = Inr e" and S: "sp_Role e \<in> set S"
  shows "\<exists>cs' a'. roleStep d entries j (targets ! j) (cs, a, so) = Inr (False, cs', a', so) \<and>
           role_inv ps S R d cs0 (cs', a') \<and> a' = (if 0 < a \<and> tg_Role (targets ! j) = sp_Role e then a - 1 else a)"
proof -
  have jp: "j < length ps" using j by (simp add: ps_def roleEntries_def)
  note n = role_inv_nth [OF cok inv jp]
  obtain i where i: "instanceOfRole entries (tg_Role (targets ! j)) = Some i" "sp_Role i = tg_Role (targets ! j)"
    using instanceOfRole_some [of "tg_Role (targets ! j)" entries] ok j by (auto simp: roles_ok_def list_all_length)
  have p: "sp_Min (ps ! j) = sp_Min i" "sp_Max (ps ! j) = sp_Max i" "sp_Role (ps ! j) = sp_Role i"
    using j i by (simp_all add: ps_def roleEntries_def orZero_def)
  have a0: "0 \<le> a" and okcs: "list_all okc cs" using inv by (auto simp: role_inv_def)
  show ?thesis
  proof (cases "a = 0 \<or> sp_Role i \<noteq> sp_Role e")
    case True
    then have "roleStep d entries j (targets ! j) (cs, a, so) = Inr (False, cs, a, so)"
      using i e by (auto simp: roleStep_def orZero_def Let_def)
    with True inv i a0 show ?thesis by auto
  next
    case False
    then have a: "1 \<le> a" and Sj: "sp_Role (ps ! j) \<in> set S" using a0 S p(3) by simp_all
    have more: "(if 0 < d then vals cs ! j < sp_Max i else sp_Min i < vals cs ! j)"
      using n(4) [OF Sj] a p by (auto simp: room_def split: if_splits)
    have arith: "addI (vals cs ! j) 1 = vals cs ! j + 1" "subI (vals cs ! j) 1 = vals cs ! j - 1" "subI a 1 = a - 1"
      using n(2,3,5-7) a by (simp_all add: in_int64_def)
    have "(if 0 < d then addI (vals cs ! j) 1 else subI (vals cs ! j) 1) = vals cs ! j + sg d * 1"
      using arith by (simp add: sg_def)
    then have "roleStep d entries j (targets ! j) (cs, a, so) =
        Inr (False, setReplicas cs j (vals cs ! j + sg d * 1), a - 1, so)"
      using False i e d more arith(3) readReplicas_ok [OF okcs n(1)]
      by (simp add: roleStep_def orZero_def Let_def del: mult_1_right)
    with role_give [OF cok inv jp Sj, of 1] a False i show ?thesis by auto
  qed
qed

lemma role_pass_ok:
  fixes entries :: "SchedulePolicy list" and targets :: "ClusterSetTarget list"
  defines "ps \<equiv> roleEntries entries targets"
  assumes cok: "counts_ok ps R" and ok: "roles_ok entries targets" and d: "d \<noteq> 0" and e: "sortEntry so = Inr e"
    and S: "sp_Role e \<in> set S" and "targets = us @ ts" and "role_inv ps S R d cs0 (cs, a)"
  shows "\<exists>cs' a'. rolePass d entries (length us) ts (cs, a, so) = Inr (False, cs', a', so) \<and>
           role_inv ps S R d cs0 (cs', a') \<and> a' = max 0 (a - int (length (filter (\<lambda>c. tg_Role c = sp_Role e) ts)))"
  using assms(7,8)
proof (induction ts arbitrary: us cs a)
  case (Cons t ts)
  have t: "targets ! length us = t" "length us < length targets" using Cons.prems(1) by simp_all
  obtain cs1 a1 where s1: "roleStep d entries (length us) t (cs, a, so) = Inr (False, cs1, a1, so)"
      "role_inv ps S R d cs0 (cs1, a1)" "a1 = (if 0 < a \<and> tg_Role t = sp_Role e then a - 1 else a)"
    using role_step_ok [OF cok [unfolded ps_def] ok d Cons.prems(2) [unfolded ps_def] t(2) e S] t(1)
    by (auto simp: ps_def)
  obtain cs2 a2 where s2: "rolePass d entries (length (us @ [t])) ts (cs1, a1, so) = Inr (False, cs2, a2, so)"
      "role_inv ps S R d cs0 (cs2, a2)" "a2 = max 0 (a1 - int (length (filter (\<lambda>c. tg_Role c = sp_Role e) ts)))"
    using Cons.IH [of "us @ [t]" cs1 a1] Cons.prems(1) s1(2) by auto
  have "0 \<le> a" using Cons.prems(2) by (simp add: role_inv_def)
  with s1 s2 show ?case by auto
qed (auto simp: role_inv_def)

text \<open>
  The roles that the loop comes to before nothing is left: those before which, in the sorted list, there are fewer clusters
  than there is to hand out.
\<close>

definition clustersBefore :: "SchedulePolicy list \<Rightarrow> ClusterSetTarget list \<Rightarrow> nat \<Rightarrow> int" where
  "clustersBefore srt targets k = int (length (filter (\<lambda>c. tg_Role c \<in> set (map sp_Role (take k srt))) targets))"

definition reachedRoles :: "SchedulePolicy list \<Rightarrow> ClusterSetTarget list \<Rightarrow> int \<Rightarrow> string list" where
  "reachedRoles srt targets a =
     map (\<lambda>k. sp_Role (srt ! k)) (filter (\<lambda>k. clustersBefore srt targets k < a) [0..<length srt])"

lemma reached_role: "k < length srt \<Longrightarrow> clustersBefore srt targets k < a \<Longrightarrow> sp_Role (srt ! k) \<in> set (reachedRoles srt targets a)"
  by (auto simp: reachedRoles_def)

lemma clustersBefore_mono: "k \<le> l \<Longrightarrow> clustersBefore srt targets k \<le> clustersBefore srt targets l"
proof -
  assume "k \<le> l"
  then have "set (take k srt) \<subseteq> set (take l srt)" by (rule set_take_subset_set_take)
  then have "length (filter (\<lambda>c. tg_Role c \<in> set (map sp_Role (take k srt))) ts) \<le>
      length (filter (\<lambda>c. tg_Role c \<in> set (map sp_Role (take l srt))) ts)" for ts :: "ClusterSetTarget list"
    by (induction ts) auto
  then show ?thesis by (simp add: clustersBefore_def)
qed

lemma clustersBefore_Suc:
  assumes "k < length srt"
  shows "clustersBefore srt targets (Suc k) \<le>
    clustersBefore srt targets k + int (length (filter (\<lambda>c. tg_Role c = sp_Role (srt ! k)) targets))"
proof -
  have "length (filter (\<lambda>c. tg_Role c \<in> set (map sp_Role (take (Suc k) srt))) ts) \<le>
      length (filter (\<lambda>c. tg_Role c \<in> set (map sp_Role (take k srt))) ts) + length (filter (\<lambda>c. tg_Role c = sp_Role (srt ! k)) ts)"
    for ts :: "ClusterSetTarget list"
    using assms by (induction ts) (auto simp: take_Suc_conv_app_nth)
  then show ?thesis by (simp add: clustersBefore_def) (metis of_nat_add of_nat_mono)
qed

text \<open>
  Where the loop is: it still has to come to roles that are reached, as often as there is something to hand out.
\<close>

definition on_the_way :: "SchedulePolicy list \<Rightarrow> ClusterSetTarget list \<Rightarrow> string list \<Rightarrow> int \<Rightarrow> int \<Rightarrow> SortPolicy \<Rightarrow> bool" where
  "on_the_way srt targets S a0 a so \<longleftrightarrow>
     a = 0 \<or> set (map sp_Role srt) \<subseteq> set S \<or> a + clustersBefore srt targets (nat (so_Index so + 1)) \<le> a0"

text \<open>
  The loop ends: every pass hands something out or brings the index nearer to an entry that has a cluster.
\<close>

definition passesTo :: "nat \<Rightarrow> SortPolicy \<Rightarrow> int" where
  "passesTo i0 so = (int i0 - so_Index so - 1) mod int (length (so_List so))"

lemma nextIndex_ok:
  assumes "i0 < length (so_List so)" and "- 1 \<le> so_Index so" and "so_Index so < int (length (so_List so))"
  shows "so_List (nextIndex so) = so_List so" and "0 \<le> so_Index (nextIndex so)"
    and "so_Index (nextIndex so) < int (length (so_List so))"
    and "passesTo i0 so = 0 \<Longrightarrow> so_Index (nextIndex so) = int i0"
    and "passesTo i0 so \<noteq> 0 \<Longrightarrow> passesTo i0 (nextIndex so) = passesTo i0 so - 1"
    and "0 \<le> passesTo i0 so" and "passesTo i0 so < int (length (so_List so))"
proof -
  let ?n = "int (length (so_List so))" and ?i = "so_Index so"
  have n: "0 < ?n" "int i0 < ?n" using assms(1) by auto
  show list: "so_List (nextIndex so) = so_List so" by (simp add: nextIndex_def)
  have i': "so_Index (nextIndex so) = (?i + 1) mod ?n" using assms(2,3) n by (auto simp: nextIndex_def)
  with n show b: "0 \<le> so_Index (nextIndex so)" "so_Index (nextIndex so) < ?n" by simp_all
  show r: "0 \<le> passesTo i0 so" "passesTo i0 so < ?n" using n by (simp_all add: passesTo_def)
  show "so_Index (nextIndex so) = int i0" if "passesTo i0 so = 0"
  proof -
    have "?n dvd int i0 - (?i + 1)" using that by (simp add: passesTo_def dvd_eq_mod_eq_0 algebra_simps)
    then have "int i0 mod ?n = (?i + 1) mod ?n" by (simp add: mod_eq_dvd_iff)
    with i' n show ?thesis by simp
  qed
  have "passesTo i0 (nextIndex so) = (int i0 - 1 - (?i + 1) mod ?n) mod ?n"
    by (simp add: passesTo_def list i' algebra_simps)
  also have "\<dots> = (int i0 - 1 - (?i + 1)) mod ?n" by (rule mod_diff_right_eq)
  also have "\<dots> = (int i0 - ?i - 1 - 1) mod ?n" by (simp add: algebra_simps)
  also have "\<dots> = (passesTo i0 so - 1) mod ?n" by (simp only: passesTo_def mod_diff_left_eq)
  finally show "passesTo i0 (nextIndex so) = passesTo i0 so - 1" if "passesTo i0 so \<noteq> 0"
    using that r by simp
qed

lemma on_the_way_next:
  assumes way: "on_the_way srt targets (reachedRoles srt targets a0) a0 a so" and a: "0 < a"
    and so: "so_List so = srt" "srt \<noteq> []" "- 1 \<le> so_Index so" "so_Index so < int (length srt)"
    and e: "e = srt ! nat (so_Index (nextIndex so))"
    and a': "a' = max 0 (a - int (length (filter (\<lambda>c. tg_Role c = sp_Role e) targets)))"
  shows "sp_Role e \<in> set (reachedRoles srt targets a0)"
    and "on_the_way srt targets (reachedRoles srt targets a0) a0 a' (nextIndex so)"
proof -
  let ?i = "nat (so_Index so + 1)" and ?S = "reachedRoles srt targets a0"
  have all: "sp_Role e \<in> set ?S \<and> on_the_way srt targets ?S a0 a' (nextIndex so)" if "set (map sp_Role srt) \<subseteq> set ?S"
  proof -
    have "nat (so_Index (nextIndex so)) < length srt" using so by (auto simp: nextIndex_def)
    then have "sp_Role e \<in> set (map sp_Role srt)" by (simp add: e)
    with that show ?thesis by (auto simp: on_the_way_def)
  qed
  have "sp_Role e \<in> set ?S \<and> on_the_way srt targets ?S a0 a' (nextIndex so)"
  proof (cases "set (map sp_Role srt) \<subseteq> set ?S")
    case False
    then have before: "a + clustersBefore srt targets ?i \<le> a0" using way a by (simp add: on_the_way_def)
    show ?thesis
    proof (cases "?i < length srt")
      case True
      then have nxt: "so_Index (nextIndex so) = int ?i" using so by (auto simp: nextIndex_def)
      have "sp_Role e \<in> set ?S" unfolding e nxt using before a True by (auto intro: reached_role)
      moreover have "a' = 0 \<or> a' + clustersBefore srt targets (Suc ?i) \<le> a0"
        using clustersBefore_Suc [OF True, of targets] before unfolding a' e nxt by auto
      moreover have "nat (int m + 1) = Suc m" for m by simp
      then have "nat (so_Index (nextIndex so) + 1) = Suc ?i" by (simp only: nxt)
      ultimately show ?thesis by (auto simp: on_the_way_def)
    next
      case False
      have "clustersBefore srt targets k < a0" if "k < length srt" for k
        using clustersBefore_mono [of k ?i srt targets] that False before a by simp
      then have "sp_Role x \<in> set ?S" if "x \<in> set srt" for x
        using that by (metis in_set_conv_nth reached_role)
      then have "set (map sp_Role srt) \<subseteq> set ?S" by auto
      then show ?thesis by (rule all)
    qed
  qed (rule all)
  then show "sp_Role e \<in> set ?S" "on_the_way srt targets ?S a0 a' (nextIndex so)" by simp_all
qed

lemma role_loop_ok:
  fixes entries :: "SchedulePolicy list" and targets :: "ClusterSetTarget list"
  defines "ps \<equiv> roleEntries entries targets"
  assumes cok: "counts_ok ps R" and ok: "roles_ok entries targets" and d: "d \<noteq> 0"
    and i0: "i0 < length srt" "sp_Role (srt ! i0) \<in> tg_Role ` set targets"
    and "role_inv ps (reachedRoles srt targets a0) R d cs0 (cs, a)" and "so_List so = srt" and "- 1 \<le> so_Index so"
    and "so_Index so < int (length srt)" and "on_the_way srt targets (reachedRoles srt targets a0) a0 a so"
  shows "\<exists>cs'. roleLoop d entries targets (cs, a, so) = Some (Inr cs') \<and>
           role_inv ps (reachedRoles srt targets a0) R d cs0 (cs', 0)"
  using assms(7-11)
proof (induction "nat (a * int (length srt) + passesTo i0 so)" arbitrary: cs a so rule: less_induct)
  case less
  note so = less.prems(2-4)
  show ?case
  proof (cases "a = 0")
    case True
    then show ?thesis using less.prems by (simp add: roleLoop.simps)
  next
    case False
    then have a: "1 \<le> a" using less.prems(1) by (auto simp: role_inv_def)
    have ne: "srt \<noteq> []" using i0(1) by auto
    note nx = nextIndex_ok [of i0 so, unfolded so(1), OF i0(1) so(2,3)]
    define e where "e = srt ! nat (so_Index (nextIndex so))"
    have e: "sortEntry (nextIndex so) = Inr e"
      using nx(1-3) so(1) by (simp add: sortEntry_def e_def)
    have "0 < a" using a by simp
    note way = on_the_way_next [OF less.prems(5) this so(1) ne so(2,3) e_def refl]
    obtain cs' a' where p: "rolePass d entries 0 targets (cs, a, nextIndex so) = Inr (False, cs', a', nextIndex so)"
        "role_inv ps (reachedRoles srt targets a0) R d cs0 (cs', a')"
        "a' = max 0 (a - int (length (filter (\<lambda>c. tg_Role c = sp_Role e) targets)))"
      using role_pass_ok [OF cok [unfolded ps_def] ok d e way(1), of "[]" targets cs0 cs a] less.prems(1)
      by (auto simp: ps_def)
    have less: "a' < a" if "sp_Role e \<in> tg_Role ` set targets"
    proof -
      have "filter (\<lambda>c. tg_Role c = sp_Role e) targets \<noteq> []" using that by (auto simp: filter_empty_conv)
      then have "0 < length (filter (\<lambda>c. tg_Role c = sp_Role e) targets)" by simp
      then show ?thesis using a unfolding p(3) by linarith
    qed
    have step: "roleLoop d entries targets (cs, a, so) = roleLoop d entries targets (cs', a', nextIndex so)"
      using False p(1) by (simp add: roleLoop.simps [of d entries targets "(cs, a, so)"])
    have a'0: "0 \<le> a'" "a' \<le> a" using p(3) a by auto
    have n': "passesTo i0 (nextIndex so) < int (length srt)" "0 \<le> passesTo i0 (nextIndex so)"
      using nextIndex_ok(6,7) [of i0 "nextIndex so"] nx(1-3) i0(1) so(1) by simp_all
    have "a' * int (length srt) + passesTo i0 (nextIndex so) < a * int (length srt) + passesTo i0 so"
    proof (cases "a' < a")
      case True
      then have "(a' + 1) * int (length srt) \<le> a * int (length srt)" by (intro mult_right_mono) simp_all
      with n' nx(6) show ?thesis by (simp add: algebra_simps)
    next
      case False
      with less i0(2) nx(4) have "passesTo i0 so \<noteq> 0" by (auto simp: e_def)
      with nx(5) a'0(2) False show ?thesis by simp
    qed
    then have "nat (a' * int (length srt) + passesTo i0 (nextIndex so)) < nat (a * int (length srt) + passesTo i0 so)"
      using n'(2) mult_nonneg_nonneg [OF a'0(1), of "int (length srt)"] by linarith
    from less.hyps [OF this p(2)] nx(1-3) so(1) step way(2) p(3) show ?thesis by simp
  qed
qed

text \<open>
  The first loop gives every cluster the same, or as much of it as there is room for, and sets the others aside.
\<close>

definition fillOf :: "int \<Rightarrow> nat \<Rightarrow> SchedulePolicy \<Rightarrow> int \<Rightarrow> int" where
  "fillOf d n p x = min (\<bar>d\<bar> div int n) (room d p x)"

definition leftOver :: "int \<Rightarrow> SchedulePolicy list \<Rightarrow> int list \<Rightarrow> int" where
  "leftOver d ps xs = \<bar>d\<bar> - sum_list (map2 (fillOf d (length ps)) ps xs)"

lemma fillOne_exact:
  assumes d: "d \<noteq> 0" and f: "0 \<le> f" "f < 2 ^ 62" and a: "0 \<le> a" "a < 2 ^ 62"
    and p: "0 \<le> sp_Min p" "sp_Min p \<le> x" "x \<le> sp_Max p" "sp_Max p < 2 ^ 62" and x: "readReplicas cs j = Inr x"
  shows "fillOne d f j p (cs, a) =
    Inr (setReplicas cs j (x + sg d * min f (room d p x)), a + (f - min f (room d p x)))"
proof -
  have "addI a (subI f (room d p x)) = a + (f - room d p x)" if "room d p x < f"
    using that f a p d by (auto simp: room_def in_int64_def split: if_splits)
  moreover have "0 < d \<Longrightarrow> subI (sp_Max p) x = room d p x" "d < 0 \<Longrightarrow> subI x (sp_Min p) = room d p x"
      "0 < d \<Longrightarrow> addI x f = x + f" "d < 0 \<Longrightarrow> subI x f = x - f"
    using p f by (auto simp: room_def in_int64_def)
  ultimately show ?thesis using d x
    by (auto simp: fillOne_def Let_def sg_def min_def) (auto simp: room_def)
qed

lemma sum_fillOf_le:
  assumes "inBounds ps xs" and "0 \<le> f"
  shows "0 \<le> sum_list (map2 (\<lambda>p x. f - min f (room d p x)) ps xs) \<and>
    sum_list (map2 (\<lambda>p x. f - min f (room d p x)) ps xs) \<le> f * int (length ps)"
  using assms(1) unfolding inBounds_def
proof (induction ps xs rule: list_all2_induct)
  case (Cons p ps x xs)
  have "0 \<le> f - min f (room d p x)" "f - min f (room d p x) \<le> f"
    using Cons.hyps assms(2) by (auto simp: room_def)
  moreover have "f * int (length (p # ps)) = f + f * int (length ps)" by (simp add: algebra_simps)
  ultimately show ?case using Cons.IH by (simp add: zip_Cons_Cons) linarith
qed simp

lemma role_fill:
  fixes xs :: "int list"
  defines "g \<equiv> \<lambda>d f p x. x + sg d * min f (room d p x)" and "h \<equiv> \<lambda>d f p x. f - min f (room d p x)"
  assumes cok: "counts_ok ps R" and d: "d \<noteq> 0" and len: "length names = length ps"
    and same: "\<And>j. j < length ps \<Longrightarrow> sp_Min (entry (names ! j)) = sp_Min (ps ! j) \<and> sp_Max (entry (names ! j)) = sp_Max (ps ! j)"
    and f: "0 \<le> f" "0 \<le> r" "r + f * int (length ps) < 2 ^ 62" and cs: "list_all okc cs" "vals cs = xs" "inBounds ps xs"
  shows "\<exists>cs'. forRange (\<lambda>j name. fillOne d f j (entry name)) 0 names (cs, r) = Inr (cs', r + sum_list (map2 (h d f) ps xs)) \<and>
           list_all okc cs' \<and> shape cs' = shape cs \<and> vals cs' = map2 (g d f) ps xs"
proof -
  let ?h = "\<lambda>j. sum_list (map2 (h d f) (take j ps) (take j xs))"
  define I where "I j st \<longleftrightarrow> snd st = r + ?h j \<and> list_all okc (fst st) \<and> shape (fst st) = shape cs \<and>
      vals (fst st) = map2 (g d f) (take j ps) (take j xs) @ drop j xs"
    for j and st :: "MultiClusterResourceBindingCluster list \<times> int"
  have lx: "length xs = length ps" using cs(3) by (auto dest: inBounds_length)
  have "\<exists>st. forRange (\<lambda>j name. fillOne d f j (entry name)) 0 names (cs, r) = Inr st \<and> I (0 + length names) st"
  proof (rule forRange_total)
    show "I 0 (cs, r)" using cs by (simp add: I_def)
    fix j st assume j: "j < 0 + length names" and i: "I j st"
    obtain c where st: "st = (c, r + ?h j)" and c: "list_all okc c" "shape c = shape cs"
        "vals c = map2 (g d f) (take j ps) (take j xs) @ drop j xs"
      using i by (cases st) (auto simp: I_def)
    have jp: "j < length ps" using j len by simp
    let ?p = "ps ! j" and ?x = "xs ! j"
    have lc: "length c = length ps" using c(3) lx jp by (metis length_map length_append length_zip length_take length_drop
        append_take_drop_id min.idem)
    have xj: "vals c ! j = ?x" "j < length c" using c(3) lx jp lc by (simp_all add: nth_append)
    have b: "sp_Min ?p \<le> ?x" "?x \<le> sp_Max ?p" using inBounds_nth [OF cs(3) jp] by simp_all
    have m: "0 \<le> sp_Min ?p" "sp_Max ?p < 2 ^ 62" using counts_bounds [OF cok, of ?p] jp by simp_all
    have inb: "inBounds (take j ps) (take j xs)" using cs(3) unfolding inBounds_def by (rule list_all2_takeI)
    note hj = sum_fillOf_le [OF inb f(1), of d, folded h_def]
    have "f * int (length (take j ps)) \<le> f * int (length ps)" "f * 1 \<le> f * int (length ps)"
      by (rule mult_left_mono; use f(1) jp in simp)+
    then have a: "0 \<le> r + ?h j" "r + ?h j < 2 ^ 62" "f < 2 ^ 62" using hj f by (simp_all add: h_def)
    have e: "sp_Min (entry (names ! j)) = sp_Min ?p" "sp_Max (entry (names ! j)) = sp_Max ?p" using same [OF jp] by simp_all
    have room: "room d (entry (names ! j)) ?x = room d ?p ?x" by (simp add: room_def e)
    have step: "fillOne d f j (entry (names ! j)) (c, r + ?h j) =
        Inr (setReplicas c j (g d f ?p ?x), r + ?h j + h d f ?p ?x)"
      using fillOne_exact [OF d f(1) a(3,1,2), of "entry (names ! j)" ?x c j] b m e readReplicas_ok [OF c(1) xj(2)] xj(1)
      by (simp add: room g_def h_def)
    have "sp_Min ?p \<le> g d f ?p ?x" "g d f ?p ?x \<le> sp_Max ?p" using b f(1) by (auto simp: g_def sg_def room_def min_def)
    then have "in_int64 (g d f ?p ?x)" using m by (simp add: in_int64_def)
    note s = setReplicas_ok [OF c(1) xj(2) this]
    have "vals (setReplicas c j (g d f ?p ?x)) = map2 (g d f) (take (Suc j) ps) (take (Suc j) xs) @ drop (Suc j) xs"
      using s(2) c(3) jp lx by (simp add: take_Suc_conv_app_nth list_update_append Cons_nth_drop_Suc [symmetric])
    moreover have "?h (Suc j) = ?h j + h d f ?p ?x" using jp lx by (simp add: take_Suc_conv_app_nth)
    ultimately have "I (Suc j) (setReplicas c j (g d f ?p ?x), r + ?h j + h d f ?p ?x)"
      using s c(2) by (simp add: I_def)
    with step show "\<exists>b. fillOne d f j (entry (names ! (j - 0))) st = Inr b \<and> I (Suc j) b" by (simp add: st)
  qed
  then obtain st where st: "forRange (\<lambda>j name. fillOne d f j (entry name)) 0 names (cs, r) = Inr st" "I (length ps) st"
    using len by auto
  obtain c a where "st = (c, a)" by (cases st)
  with st lx show ?thesis by (auto simp: I_def)
qed

lemma fillAndRestByRole_exact:
  assumes "d \<noteq> 0" and "- (2 ^ 63) < d" and "d < 2 ^ 63" and "0 < n"
  shows "fillAndRestByRole d n = Inr (\<bar>d\<bar> div n, \<bar>d\<bar> mod n)"
proof -
  let ?e = "\<bar>d\<bar>"
  have b: "0 \<le> ?e div n" "0 \<le> ?e mod n" "?e mod n \<le> ?e" "?e < 2 ^ 63"
    using assms by (simp_all add: pos_imp_zdiv_nonneg_iff zmod_le_nonneg_dividend)
  have "?e div n * 1 \<le> ?e div n * n" using b(1) assms(4) by (intro mult_left_mono) simp_all
  moreover have "?e div n * n + ?e mod n = ?e" by simp
  ultimately have "?e div n \<le> ?e" using b(2) by linarith
  then have fit: "in_int64 (?e div n)" "in_int64 (?e mod n)" "in_int64 (- (?e div n))" "in_int64 (- (?e mod n))"
    using b by (auto simp: in_int64_def)
  show ?thesis
  proof (cases "0 < d")
    case True
    then show ?thesis using assms(4) fit
      by (simp add: fillAndRestByRole_def quotI_def remI_def signed_divide_int_def signed_modulo_int_def minus_div_mult_eq_mod)
  next
    case False
    then have "d < 0" using assms(1) by simp
    then show ?thesis using assms(4) fit
      by (simp add: fillAndRestByRole_def quotI_def remI_def signed_divide_int_def signed_modulo_int_def minus_div_mult_eq_mod)
  qed
qed

text \<open>
  Both loops together: what the first one leaves over goes one by one to the clusters of the roles in the order of the
  weights. Enough for it is that each cluster of a role that the loop reaches has room for all that is left over.
\<close>

lemma replaceReplicasByClusterRole_ok:
  fixes policy :: MultiClusterResourceSchedulePolicy and clusterSet :: ClusterSet
  defines "entries \<equiv> ps_Policy (po_Spec policy)" and "targets \<equiv> se_Clusters (cs_Spec clusterSet)"
  defines "ps \<equiv> roleEntries entries targets"
  assumes cok: "counts_ok ps R" and ok: "roles_ok entries targets" and d: "d \<noteq> 0"
    and inv: "list_all okc cs" "inBounds ps (vals cs)" "sum_list (vals cs) + d = R"
    and enough: "\<And>j. j < length ps \<Longrightarrow> sp_Role (ps ! j) \<in> set (reachedRoles (so_List so) targets (leftOver d ps (vals cs))) \<Longrightarrow>
        leftOver d ps (vals cs) \<le> room d (ps ! j) (vals cs ! j) - fillOf d (length ps) (ps ! j) (vals cs ! j)"
    and so: "set (so_List so) = set entries"
  shows "\<exists>cs'. replaceReplicasByClusterRole k s policy cs d so clusterSet = Inr cs' \<and>
           list_all okc cs' \<and> inBounds ps (vals cs') \<and> shape cs' = shape cs \<and> sum_list (vals cs') = R"
proof -
  have s: "0 \<le> sum_list (vals cs)" "sum_list (vals cs) < 2 ^ 62" "0 \<le> R" "R < 2 ^ 62"
    using counts_sum [OF cok inv(2)] cok by (auto simp: counts_ok_def)
  have ps: "ps \<noteq> []" "length ps < 2 ^ 62" "distinct (map sp_Name ps)" using cok by (auto simp: counts_ok_def)
  have len: "length targets = length ps" by (simp add: ps_def roleEntries_def)
  have n: "0 < int (length ps)" using ps by simp
  have d64: "- (2 ^ 63) < d" "d < 2 ^ 63" "\<bar>d\<bar> < 2 ^ 62" using s inv(3) by auto
  define f where "f = \<bar>d\<bar> div int (length ps)"
  define r where "r = \<bar>d\<bar> mod int (length ps)"
  have fr: "fillAndRestByRole d (int (length ps)) = Inr (f, r)" "0 \<le> f" "0 \<le> r" "r + f * int (length ps) = \<bar>d\<bar>"
    using fillAndRestByRole_exact [OF d d64(1,2) n] n by (simp_all add: f_def r_def pos_imp_zdiv_nonneg_iff)
  let ?h = "map2 (\<lambda>p x. f - min f (room d p x)) ps (vals cs)" and ?g = "map2 (\<lambda>p x. x + sg d * min f (room d p x)) ps (vals cs)"
  let ?left = "leftOver d ps (vals cs)"
  have list: "getClusterListByClusterSet k s clusterSet = map tg_Name targets"
    using ps(1) len by (auto simp: getClusterListByClusterSet_def targets_def)
  have names: "map sp_Name ps = map tg_Name targets" by (simp add: ps_def roleEntries_def o_def)
  have entry: "sp_Min (orZero (instanceOfCluster targets entries (map tg_Name targets ! j))) = sp_Min (ps ! j) \<and>
      sp_Max (orZero (instanceOfCluster targets entries (map tg_Name targets ! j))) = sp_Max (ps ! j)"
    if j: "j < length ps" for j
  proof -
    have jt: "j < length targets" using j len by simp
    then have p: "ps ! j = (orZero (instanceOfRole entries (tg_Role (targets ! j))))\<lparr>sp_Name := tg_Name (targets ! j)\<rparr>"
      by (simp add: ps_def roleEntries_def)
    have "distinct (map tg_Name targets)" using ps(3) unfolding names .
    from instanceOfCluster_nth [OF this, of "targets ! j" entries] jt show ?thesis by (simp add: p)
  qed
  have fill62: "r + f * int (length ps) < 2 ^ 62" using fr(4) d64(3) by simp
  obtain cs1 where fill: "forRange (\<lambda>j name. fillOne d f j (orZero (instanceOfCluster targets entries name))) 0
        (map tg_Name targets) (cs, r) = Inr (cs1, r + sum_list ?h)" "list_all okc cs1" "shape cs1 = shape cs" "vals cs1 = ?g"
    using role_fill [where names = "map tg_Name targets" and entry = "\<lambda>name. orZero (instanceOfCluster targets entries name)",
        OF cok d _ entry fr(2,3) fill62 inv(1) refl inv(2)] len by auto
  have lv: "length (vals cs) = length ps" using inv(2) by (auto dest: inBounds_length)
  have sums: "sum_list (map2 (\<lambda>p x. f - min f (room d p x)) qs xs) = f * int (length qs) - sum_list (map2 (\<lambda>p x. min f (room d p x)) qs xs)"
      "sum_list (map2 (\<lambda>p x. x + sg d * min f (room d p x)) qs xs) = sum_list xs + sg d * sum_list (map2 (\<lambda>p x. min f (room d p x)) qs xs)"
    if "length xs = length qs" for qs :: "SchedulePolicy list" and xs
    using that by (induction xs qs rule: list_induct2) (simp_all add: algebra_simps)
  have fillOf: "fillOf d (length ps) = (\<lambda>p x. min f (room d p x))" by (simp add: fillOf_def f_def fun_eq_iff)
  have left: "r + sum_list ?h = ?left" using fr(4) by (simp add: leftOver_def fillOf sums [OF lv])
  have start: "role_inv ps (reachedRoles (so_List so) targets ?left) R d cs (cs1, ?left)"
  proof -
    have b: "sp_Min (ps ! j) \<le> ?g ! j \<and> ?g ! j \<le> sp_Max (ps ! j) \<and>
        room d (ps ! j) (?g ! j) = room d (ps ! j) (vals cs ! j) - fillOf d (length ps) (ps ! j) (vals cs ! j)"
      if "j < length ps" for j
      using inBounds_nth [OF inv(2) that] that lv fr(2) by (auto simp: fillOf sg_def room_def min_def)
    then have "inBounds ps ?g" using lv by (simp add: inBounds_def list_all2_conv_all_nth)
    moreover have "sg d * \<bar>d\<bar> = d" by (simp add: sg_def)
    then have "sum_list ?g + sg d * ?left = R" using inv(3) sums(2) [OF lv] by (simp add: leftOver_def fillOf algebra_simps)
    moreover have "0 \<le> ?left" unfolding left [symmetric] using sum_fillOf_le [OF inv(2) fr(2), of d] fr(3) by simp
    ultimately show ?thesis using fill(2-4) enough b by (simp add: role_inv_def)
  qed
  obtain c0 where c0: "c0 \<in> set targets" using ps(1) len by (cases targets) auto
  then obtain i where "i \<in> set entries" "sp_Role i = tg_Role c0"
    using ok by (auto simp: roles_ok_def list_all_iff image_iff dest!: bspec)
  then obtain i0 where i0: "i0 < length (so_List so)" "sp_Role (so_List so ! i0) \<in> tg_Role ` set targets"
    using so c0 by (metis (no_types, lifting) image_eqI in_set_conv_nth)
  have way: "on_the_way (so_List so) targets (reachedRoles (so_List so) targets ?left) ?left ?left (so\<lparr>so_Index := - 1\<rparr>)"
    by (simp add: on_the_way_def clustersBefore_def)
  obtain cs2 where "roleLoop d entries targets (cs1, ?left, so\<lparr>so_Index := - 1\<rparr>) = Some (Inr cs2)"
      "role_inv ps (reachedRoles (so_List so) targets ?left) R d cs (cs2, 0)"
    using role_loop_ok [OF cok [unfolded ps_def] ok d i0, folded ps_def, where ?a0.0 = ?left and ?cs0.0 = cs and cs = cs1 and a = ?left and so = "so\<lparr>so_Index := - 1\<rparr>"] start i0(1) way
    by auto
  with fr(1) fill(1) list len show ?thesis
    by (auto simp: replaceReplicasByClusterRole_def Let_def entries_def [symmetric] targets_def [symmetric] role_inv_def left)
qed

section \<open>The first split\<close>

definition roleShare :: "MultiClusterResourceSchedulePolicy \<Rightarrow> ClusterSet \<Rightarrow> SchedulePolicy \<Rightarrow> int" where
  "roleShare policy clusterSet i =
     shareOf (ps_Replicas (po_Spec policy)) (fst (calculateWeightByRole policy clusterSet)) (sp_Weight i)"

lemma calculateWeightByRole_diff:
  fixes policy :: MultiClusterResourceSchedulePolicy and clusterSet :: ClusterSet
  defines "entries \<equiv> ps_Policy (po_Spec policy)" and "targets \<equiv> se_Clusters (cs_Spec clusterSet)"
    and "R \<equiv> ps_Replicas (po_Spec policy)"
  assumes ok: "roles_ok entries targets" and R: "in_int64 R"
  shows "snd (calculateWeightByRole policy clusterSet) =
           wrap64 (R - sum_list (map (roleShare policy clusterSet) (roleEntries entries targets)))"
proof -
  let ?w = "roleWeights policy clusterSet"
  have share: "shareOf R (sumI ?w) \<circ> sp_Weight = roleShare policy clusterSet"
    by (simp add: roleShare_def calculateWeightByRole_def Let_def R_def fun_eq_iff)
  have "snd (calculateWeightByRole policy clusterSet) = wrap64 (R - sum_list (map (shareOf R (sumI ?w)) ?w))"
    unfolding diff_of_total [OF R, symmetric] by (simp add: calculateWeightByRole_def Let_def R_def)
  also have "map (shareOf R (sumI ?w)) ?w = concat (map (\<lambda>i. map (\<lambda>c. roleShare policy clusterSet i)
      (filter (\<lambda>c. tg_Role c = sp_Role i) targets)) entries)"
    by (simp add: roleWeights_def map_concat o_def share [symmetric] entries_def targets_def)
  also have "sum_list \<dots> = sum_list (map (roleShare policy clusterSet) (roleEntries entries targets))"
    by (simp add: sum_over_roles [OF ok] roleEntries_def o_def roleShare_def)
  finally show ?thesis .
qed

lemma roleOverrides_ok:
  fixes policy :: MultiClusterResourceSchedulePolicy and clusterSet :: ClusterSet
  defines "entries \<equiv> ps_Policy (po_Spec policy)" and "targets \<equiv> se_Clusters (cs_Spec clusterSet)"
  assumes rd: "readable k s policy (fm_ResourceName model)"
    and tw: "fm_TotalWeight model = fst (calculateWeightByRole policy clusterSet)"
    and D: "in_int64 (fm_DiffReplicas model)"
    and i: "instanceOfCluster targets entries clusterName = Some i" "sp_Min i \<le> sp_Max i"
    and x: "in_int64 (clampOf i (roleShare policy clusterSet i))"
  shows "\<exists>c'. roleOverrides k s policy clusterSet clusterName model (bindingCluster n) =
             Inr (model\<lparr>fm_DiffReplicas := wrap64 (fm_DiffReplicas model + roleShare policy clusterSet i
                          - clampOf i (roleShare policy clusterSet i))\<rparr>, c') \<and>
           bc_Name c' = n \<and> okc c' \<and> val c' = clampOf i (roleShare policy clusterSet i)"
proof -
  define r where "r = roleShare policy clusterSet i"
  obtain res where res: "api_Get (kMultiClusterResource k) s (policyNamespace policy) (fm_ResourceName model) = Inr res"
      "rs_ReplicasField (mr_Spec res) \<noteq> []"
    using rd by (auto simp: readable_def split: sum.splits)
  define c1 where
    "c1 = appendOverride (rs_ReplicasField (mr_Spec res)) (strconvItoa (clampOf i r)) (bindingCluster n)"
  define model1 where
    "model1 = model\<lparr>fm_DiffReplicas := wrap64 (fm_DiffReplicas model + r - clampOf i r)\<rparr>"
  have share: "shareOf (ps_Replicas (po_Spec policy)) (fm_TotalWeight model) (sp_Weight i) = r"
    by (simp add: r_def roleShare_def tw)
  have first: "firstReplaceReplicasByClusterRole k s policy clusterSet clusterName model (bindingCluster n) = Inr (model1, c1)"
    unfolding model1_def using res i diff_after_clamp [OF D, of r i, symmetric]
    by (simp add: firstReplaceReplicasByClusterRole_def share c1_def clampOf_def Let_def orZero_def
        entries_def [symmetric] targets_def [symmetric])
  obtain c2 more where c2: "checkNamespaceMapping k s policy clusterName c1 = Inr c2"
      "bc_Name c2 = bc_Name c1" "bc_Override c2 = bc_Override c1 @ more"
    using checkNamespaceMapping_ok [OF rd] by blast
  have "roleOverrides k s policy clusterSet clusterName model (bindingCluster n) = Inr (model1, c2)"
    by (simp add: roleOverrides_def first withoutModel_def c2)
  moreover have "okc c2" and "val c2 = clampOf i r" and "bc_Name c2 = n"
    using c2 x by (simp_all add: okc_def val_def c1_def appendOverride_def bindingCluster_def r_def)
  ultimately show ?thesis unfolding model1_def r_def by blast
qed

section \<open>Both splits\<close>

lemma entry_of_target:
  assumes "distinct (map tg_Name targets)" and "roles_ok entries targets" and "c \<in> set targets"
  shows "\<exists>i. instanceOfCluster targets entries (tg_Name c) = Some i \<and>
           i\<lparr>sp_Name := tg_Name c\<rparr> \<in> set (roleEntries entries targets) \<and>
           orZero (instanceOfRole entries (tg_Role c)) = i"
proof -
  obtain i where "instanceOfRole entries (tg_Role c) = Some i"
    using instanceOfRole_some [of "tg_Role c" entries] assms(2,3) by (auto simp: roles_ok_def list_all_iff)
  then have "instanceOfCluster targets entries (tg_Name c) = Some i \<and> orZero (instanceOfRole entries (tg_Role c)) = i"
    using instanceOfCluster_nth [OF assms(1,3), of entries] by (simp add: orZero_def)
  moreover from this have "i\<lparr>sp_Name := tg_Name c\<rparr> \<in> set (roleEntries entries targets)"
    using assms(3) unfolding roleEntries_def by (auto simp: image_iff)
  ultimately show ?thesis by blast
qed

lemma roleClusters_ok:
  fixes policy :: MultiClusterResourceSchedulePolicy and clusterSet :: ClusterSet
  defines "entries \<equiv> ps_Policy (po_Spec policy)" and "targets \<equiv> se_Clusters (cs_Spec clusterSet)"
    and "fo \<equiv> ps_FailoverPolicy (po_Spec policy)" and "R \<equiv> ps_Replicas (po_Spec policy)"
  defines "ps \<equiv> roleEntries entries targets"
  defines "share \<equiv> \<lambda>p. clampOf p (roleShare policy clusterSet p)"
  defines "rest \<equiv> R - sum_list (map share ps)"
  defines "left \<equiv> leftOver rest ps (map share ps)"
  assumes cok: "counts_ok ps R" and ok: "roles_ok entries targets" and wf: "failover_wf k s fo"
    and start: "place_inv k s fo (map tg_Name targets) fails unavail 0 (zeroIndex, [])"
    and rd: "readable k s policy rn"
    and room: "\<And>p. p \<in> set ps \<Longrightarrow> sp_Role p \<in> set (reachedRoles (so_List (doSortPolicyList policy)) targets left) \<Longrightarrow>
        left \<le> room rest p (share p) - fillOf rest (length ps) p (share p)"
  shows "\<exists>cs. bindR (clustersLoop k s policy fails unavail (\<lambda>c. c) (roleOverrides k s policy clusterSet)
             (getClusterListByClusterSet k s clusterSet)
             \<lparr>fm_ResourceName = rn, fm_TotalWeight = fst (calculateWeightByRole policy clusterSet),
              fm_DiffReplicas = snd (calculateWeightByRole policy clusterSet)\<rparr>)
           (\<lambda>(model, clusters).
              if fm_DiffReplicas model \<noteq> 0
              then replaceReplicasByClusterRole k s policy clusters (fm_DiffReplicas model)
                     (doSortPolicyList policy) clusterSet
              else Inr clusters) = Inr cs \<and>
         list_all okc cs \<and> inBounds ps (vals cs) \<and> sum_list (vals cs) = R \<and>
         map bc_Name cs = substitute (up k s) (map tg_Name targets) (filter (up k s) (candidates k s fo))"
proof -
  define e where "e name = orZero (instanceOfCluster targets entries name)" for name
  let ?names = "map tg_Name targets"
  have names: "map sp_Name ps = ?names" by (simp add: ps_def roleEntries_def o_def)
  have "distinct (map sp_Name ps)" and "ps \<noteq> []" using cok by (simp_all add: counts_ok_def)
  then have dist: "distinct ?names" and ne: "targets \<noteq> []" by (simp_all only: names) (auto simp: ps_def roleEntries_def)
  have list: "getClusterListByClusterSet k s clusterSet = ?names"
    using ne by (simp add: getClusterListByClusterSet_def targets_def)
  have R64: "in_int64 R" using cok by (auto simp: counts_ok_def in_int64_def)
  have e: "e (tg_Name c) = orZero (instanceOfRole entries (tg_Role c))" if "c \<in> set targets" for c
    using entry_of_target [OF dist ok that] by (auto simp: e_def orZero_def)
  have same: "map (\<lambda>n. h (e n)) ?names = map h ps"
    if "\<And>p n. h (p\<lparr>sp_Name := n\<rparr>) = h p" for h :: "SchedulePolicy \<Rightarrow> int"
    using that e by (simp add: ps_def roleEntries_def)
  have plain: "roleShare policy clusterSet (p\<lparr>sp_Name := n\<rparr>) = roleShare policy clusterSet p"
    "share (p\<lparr>sp_Name := n\<rparr>) = share p" for p n
    by (simp_all add: roleShare_def share_def clampOf_def)
  have diff: "snd (calculateWeightByRole policy clusterSet) =
      wrap64 (R - sum_list (map (\<lambda>n. roleShare policy clusterSet (e n)) ?names))"
    unfolding same [OF plain(1)]
    using calculateWeightByRole_diff [of policy clusterSet, folded entries_def targets_def R_def, folded ps_def] ok R64
    by blast
  have start': "place_inv k s (ps_FailoverPolicy (po_Spec policy)) (map (\<lambda>c. c) ?names) fails unavail 0 (zeroIndex, [])"
    using start by (simp add: fo_def)
  have step: "\<exists>c'. roleOverrides k s policy clusterSet q m (bindingCluster n) =
        Inr (m\<lparr>fm_DiffReplicas := wrap64 (fm_DiffReplicas m + roleShare policy clusterSet (e q) - share (e q))\<rparr>, c') \<and>
      bc_Name c' = n \<and> okc c' \<and> val c' = share (e q)"
    if q: "q \<in> set ?names" and m: "fm_ResourceName m = rn" "fm_TotalWeight m = fst (calculateWeightByRole policy clusterSet)"
      "in_int64 (fm_DiffReplicas m)" for q m n
  proof -
    obtain c where c: "c \<in> set targets" "q = tg_Name c" using q by auto
    from entry_of_target [OF dist ok c(1)] obtain i where i: "instanceOfCluster targets entries q = Some i"
        "i\<lparr>sp_Name := tg_Name c\<rparr> \<in> set ps" by (auto simp: c(2) ps_def)
    have "sp_Min i \<le> sp_Max i" using counts_bounds(2) [OF cok i(2)] by simp
    moreover have "in_int64 (share i)" using clamp_bounds(3) [OF cok i(2), of "roleShare policy clusterSet i"]
      unfolding share_def by (simp add: clampOf_def split: if_splits)
    ultimately show ?thesis
      using roleOverrides_ok [of k s policy m clusterSet q i n] rd m i(1)
      by (simp add: e_def orZero_def share_def entries_def targets_def)
  qed
  obtain m' cs where loop: "clustersLoop k s policy fails unavail (\<lambda>c. c) (roleOverrides k s policy clusterSet) ?names
        \<lparr>fm_ResourceName = rn, fm_TotalWeight = fst (calculateWeightByRole policy clusterSet),
         fm_DiffReplicas = snd (calculateWeightByRole policy clusterSet)\<rparr> = Inr (m', cs)"
      "fm_DiffReplicas m' = wrap64 (R - sum_list (vals cs))" "list_all okc cs" "vals cs = map (\<lambda>n. share (e n)) ?names"
      "map bc_Name cs = substitute (up k s) ?names (filter (up k s) (candidates k s fo))"
    using first_split [OF wf [unfolded fo_def] start' diff step] unfolding fo_def map_ident by blast
  have vals: "vals cs = map share ps" using loop(4) by (simp only: same [OF plain(2)])
  have inb: "inBounds ps (vals cs)"
    unfolding vals inBounds_def list_all2_conv_all_nth using clamp_bounds [OF cok] by (auto simp: share_def)
  have "in_int64 (R - sum_list (vals cs))"
    using counts_sum [OF cok inb] cok by (auto simp: counts_ok_def in_int64_def)
  then have d: "fm_DiffReplicas m' = rest" using loop(2) vals by (simp add: rest_def)
  have total: "sum_list (vals cs) + rest = R" by (simp add: rest_def vals)
  show ?thesis
  proof (cases "rest = 0")
    case True
    with loop(1,3,5) inb total d list show ?thesis by auto
  next
    case False
    obtain cs' where "replaceReplicasByClusterRole k s policy cs rest (doSortPolicyList policy) clusterSet = Inr cs'"
        "list_all okc cs'" "inBounds ps (vals cs')" "shape cs' = shape cs" "sum_list (vals cs') = R"
      using replaceReplicasByClusterRole_ok [of policy clusterSet R rest cs "doSortPolicyList policy" k s]
        cok ok False loop(3) inb total room
      by (auto simp: entries_def targets_def ps_def doSortPolicyList_def vals left_def)
    with loop(1,5) d list False shape_names [of cs' cs] show ?thesis by auto
  qed
qed

end
