(* ===== verification/SetProps.thy ===== *)
theory SetProps
  imports ScheduleProps RoleCorrect
begin

text \<open>
  The bindings of policies over a cluster set: with roles, where the replicas are divided by the weights of
  the roles, and with a selector, where every selected cluster runs all of them.
\<close>

section \<open>Clusters with roles\<close>

text \<open>
  C5: a policy over a cluster set whose clusters have roles, each role with one entry of the policy, gets a binding that
  lists the clusters of the set, unavailable ones substituted, with replicas within the bounds of the
  entry of each role that add up exactly to the replicas of the policy, provided that there is room where the
  code looks for it. The shares by weight, rounded and held to the bounds, leave a rest, which may be negative; of this
  every cluster takes the same part, or as much of it as its bounds allow, and what is then left over goes one by one
  to the clusters of the roles, in the order of the weights. Each cluster of a role that is reached before nothing is left
  must have room for all that is left over. With this, all weights are covered; the counts are in the
  range of 62 bits, the cluster sets of the failover policy resolve and end in available clusters, and there are enough
  of them. (Without room the loop may fail, and it does not end when no role that is left has a cluster, C30.)
\<close>

theorem role_binding:
  fixes policy :: MultiClusterResourceSchedulePolicy and clusterSet :: ClusterSet
  defines "targets \<equiv> se_Clusters (cs_Spec clusterSet)" and "fo \<equiv> ps_FailoverPolicy (po_Spec policy)"
    and "R \<equiv> ps_Replicas (po_Spec policy)"
  defines "ps \<equiv> roleEntries (ps_Policy (po_Spec policy)) targets"
  defines "share \<equiv> \<lambda>p. clampOf p (roleShare policy clusterSet p)"
  defines "rest \<equiv> R - sum_list (map share ps)"
  defines "left \<equiv> leftOver rest ps (map share ps)"
  assumes source: "ps_ClusterSource (po_Spec policy) = ClusterSourceTypeClusterset"
    and set: "api_Get (kClusterSet k) s [] (ps_Clusterset (po_Spec policy)) = Inr clusterSet"
    and cok: "counts_ok ps R" and ok: "roles_ok (ps_Policy (po_Spec policy)) targets" and wf: "failover_wf k s fo"
    and room: "\<And>p. p \<in> set ps \<Longrightarrow> sp_Role p \<in> set (reachedRoles (so_List (doSortPolicyList policy)) targets left) \<Longrightarrow>
        left \<le> room rest p (share p) - fillOf rest (length ps) p (share p)"
    and enough: "length (filter (\<lambda>c. \<not> up k s c) (map tg_Name targets)) \<le> length (filter (up k s) (candidates k s fo))"
    and rd: "\<And>r. r \<in> set (ps_Resources (po_Spec policy)) \<Longrightarrow> readable k s policy (pr_Name r)"
  shows "\<exists>b. chooseBinding k s policy = Inr (Some b) \<and>
           map br_Name (bd_Resources b) = map pr_Name (ps_Resources (po_Spec policy)) \<and>
           (\<forall>r\<in>set (bd_Resources b).
              list_all okc (br_Clusters r) \<and> inBounds ps (vals (br_Clusters r)) \<and> sum_list (vals (br_Clusters r)) = R \<and>
              map bc_Name (br_Clusters r) =
                substitute (up k s) (map tg_Name targets) (filter (up k s) (candidates k s fo)))"
proof -
  have ne: "targets \<noteq> []" using cok by (auto simp: counts_ok_def ps_def roleEntries_def)
  then have list: "getClusterListByClusterSet k s clusterSet = map tg_Name targets"
    by (simp add: getClusterListByClusterSet_def targets_def)
  obtain fails unavail where cc: "checkClusters k s policy = Inr (fails, unavail)"
      "place_inv k s fo (map tg_Name targets) fails unavail 0 (zeroIndex, [])"
    using checkClusters_names [of policy k s "map tg_Name targets", folded fo_def] source set list wf enough by auto
  obtain tw diff where cw: "calculateWeightByRole policy clusterSet = (tw, diff)"
    by (cases "calculateWeightByRole policy clusterSet")
  have "\<exists>b. generateBindingByClusterRole k s policy clusterSet fails unavail = Inr b \<and>
      bd_Meta b = bd_Meta (addBindingMeta k policy) \<and>
      map br_Name (bd_Resources b) = map pr_Name (ps_Resources (po_Spec policy)) \<and>
      (\<forall>r\<in>set (bd_Resources b).
         list_all okc (br_Clusters r) \<and> inBounds ps (vals (br_Clusters r)) \<and> sum_list (vals (br_Clusters r)) = R \<and>
         map bc_Name (br_Clusters r) =
           substitute (up k s) (map tg_Name targets) (filter (up k s) (candidates k s fo)))"
    unfolding generateBindingByClusterRole_def cw prod.case
  proof (rule forResources_ok, goal_cases)
    case (1 r)
    note d = left_def rest_def share_def ps_def targets_def fo_def R_def
    show ?case unfolding d
      by (rule roleClusters_ok [of policy clusterSet k s fails unavail "pr_Name r", unfolded cw fst_conv snd_conv,
            OF cok [unfolded d] ok [unfolded d] wf [unfolded d] cc(2) [unfolded d] rd [OF 1] room [unfolded d]])
  qed
  then show ?thesis
    using source set ne cc(1)
    by (auto simp: chooseBinding_def scheduleByClusterSet_def doTypeClusterRole_def targets_def [symmetric])
qed

section \<open>Selected clusters\<close>

text \<open>
  C12: a policy over a cluster set that selects clusters by labels gets a binding in which every selected cluster,
  in the order of the listing and substituted in the same way, runs the full number of replicas; with no
  cluster selected the binding has resources without clusters.
\<close>

theorem selector_binding:
  fixes policy :: MultiClusterResourceSchedulePolicy and clusterSet :: ClusterSet
  defines "fo \<equiv> ps_FailoverPolicy (po_Spec policy)" and "R \<equiv> ps_Replicas (po_Spec policy)"
  assumes source: "ps_ClusterSource (po_Spec policy) = ClusterSourceTypeClusterset"
    and set: "api_Get (kClusterSet k) s [] (ps_Clusterset (po_Spec policy)) = Inr clusterSet"
      "se_Clusters (cs_Spec clusterSet) = []" "se_Selector (cs_Spec clusterSet) \<noteq> []"
    and items: "api_List (kCluster k) s \<lparr>lo_Namespace = [],
        lo_Selector = Some (kSelectorFromSet k (se_Selector (cs_Spec clusterSet)))\<rparr> = Inr items"
    and R: "in_int64 R" and wf: "failover_wf k s fo"
    and enough: "length (filter (\<lambda>c. \<not> up k s c) (map (\<lambda>c. om_Name (cl_Meta c)) items))
                   \<le> length (filter (up k s) (candidates k s fo))"
    and rd: "\<And>r. r \<in> set (ps_Resources (po_Spec policy)) \<Longrightarrow> readable k s policy (pr_Name r)"
  shows "\<exists>b. chooseBinding k s policy = Inr (Some b) \<and>
           map br_Name (bd_Resources b) = map pr_Name (ps_Resources (po_Spec policy)) \<and>
           (\<forall>r\<in>set (bd_Resources b).
              (\<forall>c\<in>set (br_Clusters r). okc c \<and> val c = R) \<and>
              map bc_Name (br_Clusters r) = substitute (up k s) (map (\<lambda>c. om_Name (cl_Meta c)) items)
                (filter (up k s) (candidates k s fo)))"
proof -
  let ?names = "map (\<lambda>c. om_Name (cl_Meta c)) items"
  have list: "getClusterListByClusterSet k s clusterSet = ?names"
    using set items by (simp add: getClusterListByClusterSet_def)
  obtain fails unavail where cc: "checkClusters k s policy = Inr (fails, unavail)"
      "place_inv k s fo ?names fails unavail 0 (zeroIndex, [])"
    using checkClusters_names [of policy k s ?names, folded fo_def] source set list wf enough by auto
  have "\<exists>b. generateBindingByClusterSelector k s policy clusterSet fails unavail = Inr b \<and>
      bd_Meta b = bd_Meta (addBindingMeta k policy) \<and>
      map br_Name (bd_Resources b) = map pr_Name (ps_Resources (po_Spec policy)) \<and>
      (\<forall>r\<in>set (bd_Resources b). (\<forall>c\<in>set (br_Clusters r). okc c \<and> val c = R) \<and> map bc_Name (br_Clusters r) =
         substitute (up k s) ?names (filter (up k s) (candidates k s fo)))"
    unfolding generateBindingByClusterSelector_def list
    by (rule forResources_ok)
       (use duplicated_clusters [of policy k s _ "\<lambda>c. c" ?names fails unavail, folded fo_def R_def, unfolded map_ident]
            R wf rd cc(2) in blast)
  then show ?thesis
    using source set cc(1)
    by (auto simp: chooseBinding_def scheduleByClusterSet_def doTypeClusterSelector_def)
qed

section \<open>Witnesses\<close>

text \<open>
  The policy of the test of the repository: 20 replicas, a master with weight 1 and two slaves with weight 5, each between
  5 and 10. The shares 1, 9 and 9 are held to 5, 9 and 9, which is three too many; each slave gives one, the
  master none, and the first slave the one that is left over. The first slave is b, which is not available.
\<close>

definition exRoles :: MultiClusterResourceSchedulePolicy where
  "exRoles = exPolicy ''clusterset'' [] 20
     [\<lparr>sp_Name = [], sp_Role = ''master'', sp_Weight = 1, sp_Min = 5, sp_Max = 10\<rparr>,
      \<lparr>sp_Name = [], sp_Role = ''slave'', sp_Weight = 5, sp_Min = 5, sp_Max = 10\<rparr>]"

definition exRoleSet :: mem where
  "exRoleSet = exMem\<lparr>mm_ClusterSets := [\<lparr>cs_Meta = exMeta [] ''set'',
     cs_Spec = \<lparr>se_Selector = [],
       se_Clusters = [\<lparr>tg_Name = ''a'', tg_Role = ''master''\<rparr>, \<lparr>tg_Name = ''b'', tg_Role = ''slave''\<rparr>,
         \<lparr>tg_Name = ''c'', tg_Role = ''slave''\<rparr>], se_Policy = []\<rparr>\<rparr>]\<rparr>"

lemma exRoles_counts:
  "map_sum id (map_option (map (vals \<circ> br_Clusters) \<circ> bd_Resources)) (chooseBinding memKube exRoleSet exRoles) = Inr (Some [[5, 7, 8]])"
  by code_simp

lemma role_binding_witness:
  "\<exists>b. chooseBinding memKube exRoleSet exRoles = Inr (Some b) \<and>
     (\<forall>r\<in>set (bd_Resources b). sum_list (vals (br_Clusters r)) = 20 \<and> map bc_Name (br_Clusters r) = [''a'', ''spare'', ''c''])"
proof -
  let ?set = "hd (mm_ClusterSets exRoleSet)"
  have set: "api_Get (kClusterSet memKube) exRoleSet [] (ps_Clusterset (po_Spec exRoles)) = Inr ?set" by code_simp
  let ?ps = "roleEntries (ps_Policy (po_Spec exRoles)) (se_Clusters (cs_Spec ?set))"
  let ?share = "\<lambda>p. clampOf p (roleShare exRoles ?set p)"
  have up: "up memKube exRoleSet ''a''" "\<not> up memKube exRoleSet ''b''" "up memKube exRoleSet ''c''" "up memKube exRoleSet ''spare''"
    unfolding up_def by code_simp+
  have rd: "readable memKube exRoleSet exRoles ''web''" unfolding readable_def by code_simp
  have wf: "failover_wf memKube exRoleSet (ps_FailoverPolicy (po_Spec exRoles))"
    by (simp add: failover_wf_def entry_wf_def exRoles_def exPolicy_def)
  have cands: "candidates memKube exRoleSet (ps_FailoverPolicy (po_Spec exRoles)) = [''spare'']"
    by (simp add: candidates_def offers_def exRoles_def exPolicy_def)
  have names: "map tg_Name (se_Clusters (cs_Spec ?set)) = [''a'', ''b'', ''c'']" by code_simp
  have ok: "roles_ok (ps_Policy (po_Spec exRoles)) (se_Clusters (cs_Spec ?set))" by code_simp
  have R: "ps_Replicas (po_Spec exRoles) = 20" "ps_ClusterSource (po_Spec exRoles) = ClusterSourceTypeClusterset"
      "map pr_Name (ps_Resources (po_Spec exRoles)) = [''web'']"
    by (simp_all add: exRoles_def exPolicy_def)
  have cok: "counts_ok ?ps (ps_Replicas (po_Spec exRoles))"
    by (simp add: counts_ok_def R roleEntries_def exRoles_def exPolicy_def exRoleSet_def orZero_def)
  have rd': "r \<in> set (ps_Resources (po_Spec exRoles)) \<Longrightarrow> readable memKube exRoleSet exRoles (pr_Name r)" for r
    using rd R(3) by auto
  have "list_all (\<lambda>p. sp_Role p \<in> set (reachedRoles (so_List (doSortPolicyList exRoles)) (se_Clusters (cs_Spec ?set))
            (leftOver (ps_Replicas (po_Spec exRoles) - sum_list (map ?share ?ps)) ?ps (map ?share ?ps))) \<longrightarrow>
          leftOver (ps_Replicas (po_Spec exRoles) - sum_list (map ?share ?ps)) ?ps (map ?share ?ps) \<le>
            room (ps_Replicas (po_Spec exRoles) - sum_list (map ?share ?ps)) p (?share p) -
            fillOf (ps_Replicas (po_Spec exRoles) - sum_list (map ?share ?ps)) (length ?ps) p (?share p)) ?ps"
    by code_simp
  then show ?thesis
    using role_binding [OF R(2) set cok ok wf _ _ rd'] up unfolding list_all_iff names cands R(1) by auto
qed

definition exSelect :: MultiClusterResourceSchedulePolicy where
  "exSelect = exPolicy ''clusterset'' [] 3 []"

definition exLabelled :: mem where
  "exLabelled = exMem\<lparr>mm_ClusterSets := [\<lparr>cs_Meta = exMeta [] ''set'',
     cs_Spec = \<lparr>se_Selector = [(''zone'', ''east'')], se_Clusters = [], se_Policy = []\<rparr>\<rparr>],
     mm_Clusters := map (\<lambda>c. cl_Meta_update (\<lambda>m. m\<lparr>om_Labels := Some [(''zone'', ''east'')]\<rparr>) c) (take 2 (mm_Clusters exMem))
       @ drop 2 (mm_Clusters exMem)\<rparr>"

lemma selector_binding_witness:
  "\<exists>b. chooseBinding memKube exLabelled exSelect = Inr (Some b) \<and>
     (\<forall>r\<in>set (bd_Resources b). (\<forall>c\<in>set (br_Clusters r). val c = 3) \<and> map bc_Name (br_Clusters r) = [''a'', ''spare''])"
proof -
  let ?set = "hd (mm_ClusterSets exLabelled)"
  have set: "api_Get (kClusterSet memKube) exLabelled [] (ps_Clusterset (po_Spec exSelect)) = Inr ?set"
      "se_Clusters (cs_Spec ?set) = []" "se_Selector (cs_Spec ?set) \<noteq> []" by code_simp+
  have items: "api_List (kCluster memKube) exLabelled \<lparr>lo_Namespace = [],
      lo_Selector = Some (kSelectorFromSet memKube (se_Selector (cs_Spec ?set)))\<rparr> = Inr (take 2 (mm_Clusters exLabelled))"
    by code_simp
  have names: "map (\<lambda>c. om_Name (cl_Meta c)) (take 2 (mm_Clusters exLabelled)) = [''a'', ''b'']" by code_simp
  have up: "up memKube exLabelled ''a''" "\<not> up memKube exLabelled ''b''" "up memKube exLabelled ''spare''"
    unfolding up_def by code_simp+
  have rd: "readable memKube exLabelled exSelect ''web''" unfolding readable_def by code_simp
  have wf: "failover_wf memKube exLabelled (ps_FailoverPolicy (po_Spec exSelect))"
    by (simp add: failover_wf_def entry_wf_def exSelect_def exPolicy_def)
  have cands: "candidates memKube exLabelled (ps_FailoverPolicy (po_Spec exSelect)) = [''spare'']"
    by (simp add: candidates_def offers_def exSelect_def exPolicy_def)
  have R: "ps_Replicas (po_Spec exSelect) = 3" "ps_ClusterSource (po_Spec exSelect) = ClusterSourceTypeClusterset"
      "map pr_Name (ps_Resources (po_Spec exSelect)) = [''web'']" "in_int64 3"
    by (simp_all add: exSelect_def exPolicy_def in_int64_def)
  have rd': "r \<in> set (ps_Resources (po_Spec exSelect)) \<Longrightarrow> readable memKube exLabelled exSelect (pr_Name r)" for r
    using rd R(3) by auto
  show ?thesis
    using selector_binding [OF R(2) set items _ wf _ rd', unfolded names cands R(1)] up R(4) by auto
qed

end
