(* ===== verification/SliceUtil.thy ===== *)
theory SliceUtil
  imports Prelude GoLib
begin

text \<open>
  \<open>pkg/utils/slice/slice_util.go\<close>: the string and object slices. \<open>RemoveObjectWithIndex\<close> has a
  branch per position, one of which moves the first element to the end; the lemmas say what all
  branches have in common.
\<close>

section \<open>Strings\<close>

fun ContainsString :: "string list \<Rightarrow> string \<Rightarrow> bool" where
  "ContainsString [] s = False"
| "ContainsString (item # slice) s = (if item = s then True else ContainsString slice s)"

fun RemoveString :: "string list \<Rightarrow> string \<Rightarrow> string list" where
  "RemoveString [] s = []"
| "RemoveString (item # slice) s =
     (if item = s then RemoveString slice s else item # RemoveString slice s)"

lemma ContainsString_iff [simp]: "ContainsString xs s \<longleftrightarrow> s \<in> set xs"
  by (induction xs) auto

lemma RemoveString_eq [simp]: "RemoveString xs s = filter (\<lambda>x. x \<noteq> s) xs"
  by (induction xs) auto

section \<open>Objects\<close>

text \<open>The index of the first element equal to \<open>obj\<close>, or -1.\<close>

fun indexFrom :: "int \<Rightarrow> 'a list \<Rightarrow> 'a \<Rightarrow> int" where
  "indexFrom i [] obj = - 1"
| "indexFrom i (x # xs) obj = (if obj = x then i else indexFrom (i + 1) xs obj)"

definition GetIndexWithObject :: "'a list \<Rightarrow> 'a \<Rightarrow> int" where
  "GetIndexWithObject slice obj = indexFrom 0 slice obj"

text \<open>
  The branches in the source's order. Slicing beyond the length of the array panics; an index of
  -1 reaches a slice expression with a negative bound on every path.
\<close>

definition RemoveObjectWithIndex :: "'a list \<Rightarrow> int \<Rightarrow> 'a list res" where
  "RemoveObjectWithIndex array index =
     (let n = int (length array); i = nat index in
      if index = 0 then (if n = 0 then Crash IndexOutOfRange else Inr (tl array))
      else if index = 1 then
        (if n < 2 then Crash IndexOutOfRange else Inr (drop 2 array @ [hd array]))
      else if n \<le> index then Inr array
      else if index < 0 then Crash IndexOutOfRange
      else if index = n - 1 then Inr (take i array)
      else if index = n - 2 then Inr (take i array @ [array ! (i + 1)])
      else Inr (take i array @ drop (i + 1) array))"

text \<open>
  \<open>removeResource\<close> and \<open>removeItemForClusterStatusList\<close> share one body: copy the slice, find
  the object, remove it by its index.
\<close>

definition removeObject :: "'a list \<Rightarrow> 'a \<Rightarrow> 'a list res" where
  "removeObject xs x =
     (if xs = [] then Inr xs else RemoveObjectWithIndex xs (GetIndexWithObject xs x))"

lemma indexFrom_bounds:
  "x \<in> set xs \<Longrightarrow> i \<le> indexFrom i xs x \<and> indexFrom i xs x < i + int (length xs)"
proof (induction xs arbitrary: i)
  case (Cons y ys)
  show ?case
  proof (cases "x = y")
    case False
    with Cons.prems Cons.IH [of "i + 1"] show ?thesis by simp
  qed simp
qed simp

lemma indexFrom_nth: "x \<in> set xs \<Longrightarrow> xs ! nat (indexFrom i xs x - i) = x"
proof (induction xs arbitrary: i)
  case (Cons y ys)
  show ?case
  proof (cases "x = y")
    case False
    with Cons.prems have mem: "x \<in> set ys" by simp
    have "i + 1 \<le> indexFrom (i + 1) ys x" using indexFrom_bounds [OF mem] by blast
    then have "nat (indexFrom (i + 1) ys x - i) = Suc (nat (indexFrom (i + 1) ys x - (i + 1)))"
      by linarith
    with False Cons.IH [OF mem, of "i + 1"] show ?thesis by simp
  qed simp
qed simp

lemma indexFrom_absent: "x \<notin> set xs \<Longrightarrow> indexFrom i xs x = - 1"
  by (induction xs arbitrary: i) auto

lemma mset_remove_nth:
  "i < length xs \<Longrightarrow> mset (take i xs @ drop (Suc i) xs) = mset xs - {#xs ! i#}"
  by (metis add_mset_remove_trivial append_assoc id_take_nth_drop mset.simps(2) mset_append
      union_mset_add_mset_right)

text \<open>Every branch removes exactly the element at the index, up to a reordering.\<close>

lemma mset_RemoveObjectWithIndex:
  assumes "0 \<le> index" and "index < int (length xs)"
  shows "\<exists>ys. RemoveObjectWithIndex xs index = Inr ys \<and> mset ys = mset xs - {#xs ! nat index#}"
proof -
  define i where "i = nat index"
  have i: "i < length xs" and index: "index = int i" using assms by (simp_all add: i_def)
  have base: "mset (take i xs @ drop (Suc i) xs) = mset xs - {#xs ! i#}"
    using i by (rule mset_remove_nth)
  have last: "drop (Suc i) xs = [xs ! Suc i]" if "Suc (Suc i) = length xs"
    using that by (metis Cons_nth_drop_Suc drop_eq_Nil2 lessI order_refl)
  consider "i = 0" | "i = 1" | "2 \<le> i" by linarith
  then show ?thesis
  proof cases
    case 1
    with i base show ?thesis by (cases xs) (simp_all add: RemoveObjectWithIndex_def index)
  next
    case 2
    with i obtain a b r where "xs = a # b # r" by (metis One_nat_def length_Suc_conv less_Suc_eq_0_disj less_nat_zero_code list.exhaust list.size(3) Suc_less_eq)
    with 2 show ?thesis by (simp add: RemoveObjectWithIndex_def index)
  next
    case 3
    have "RemoveObjectWithIndex xs index = Inr (take i xs @ drop (Suc i) xs)"
      using 3 i last by (auto simp: RemoveObjectWithIndex_def index Let_def)
    with base show ?thesis using index by simp
  qed
qed

lemma removeObject_mem:
  assumes "x \<in> set xs"
  shows "\<exists>ys. removeObject xs x = Inr ys \<and> mset ys = mset xs - {#x#}"
proof -
  have ne: "xs \<noteq> []" using assms by auto
  let ?i = "indexFrom 0 xs x"
  have "0 \<le> ?i" and "?i < int (length xs)" using indexFrom_bounds [OF assms, of 0] by simp_all
  then obtain ys where "RemoveObjectWithIndex xs ?i = Inr ys"
      and "mset ys = mset xs - {#xs ! nat ?i#}"
    using mset_RemoveObjectWithIndex by blast
  moreover have "xs ! nat ?i = x" using indexFrom_nth [OF assms, of 0] by simp
  ultimately show ?thesis using ne by (simp add: removeObject_def GetIndexWithObject_def)
qed

text \<open>Removing an object that is not there panics unless the slice is empty.\<close>

lemma removeObject_absent:
  "x \<notin> set xs \<Longrightarrow> xs \<noteq> [] \<Longrightarrow> removeObject xs x = Crash IndexOutOfRange"
  by (simp add: removeObject_def GetIndexWithObject_def indexFrom_absent
      RemoveObjectWithIndex_def)

end
