(* ===== verification/Override.thy ===== *)
theory Override
  imports KubeClient SliceUtil
begin

text \<open>
  \<open>MultiClusterResourceOverride\<close> (\<open>resource-binding/resource_override.go\<close>,
  \<open>controller/common/json_patch_util.go\<close>): a cluster's copy of a resource is the resource with the
  patches of all overrides that name both. A patch that fails leaves a nil resource
  behind and no error. The second half is the mapping from a changed override to the bindings
  to reconcile again.
\<close>

section \<open>Applying patches\<close>

definition ApplyJsonPatch :: "'s kube \<Rightarrow> raw option \<Rightarrow> JSONPatch list option \<Rightarrow> go_error + raw" where
  "ApplyJsonPatch k resource override =
     (case resource of
        None \<Rightarrow> Inl (ErrMsg ''resource is empty'')
      | Some raw \<Rightarrow> (case override of None \<Rightarrow> Inr raw | Some ps \<Rightarrow> kJsonPatch k ps raw))"

definition IsExistCluster :: "string \<Rightarrow> MultiClusterResourceOverrideClusters \<Rightarrow> bool" where
  "IsExistCluster clusterName clusters = ContainsString (oc_Names clusters) clusterName"

text \<open>The argument is \<open>override.Spec.Resources\<close>: both pointers may be nil.\<close>

definition specOf :: "MultiClusterResourceOverride \<Rightarrow> MultiClusterResourceOverrideSpec res" where
  "specOf override = (case ro_Spec override of None \<Rightarrow> Crash NilDereference | Some sp \<Rightarrow> Inr sp)"

definition IsExistResource :: "string \<Rightarrow> MultiClusterResourceOverrideSpec \<Rightarrow> bool res" where
  "IsExistResource resourceName sp =
     (case ov_Resources sp of
        None \<Rightarrow> Crash NilDereference
      | Some names \<Rightarrow> Inr (ContainsString names resourceName))"

fun applyClusters ::
  "'s kube \<Rightarrow> string \<Rightarrow> MultiClusterResourceOverrideClusters list \<Rightarrow> raw option \<Rightarrow> raw option" where
  "applyClusters k clusterName [] resource = resource"
| "applyClusters k clusterName (c # cs) resource =
     (if \<not> IsExistCluster clusterName c then applyClusters k clusterName cs resource
      else applyClusters k clusterName cs
             (case ApplyJsonPatch k resource (oc_Overrides c) of Inl e \<Rightarrow> None | Inr r \<Rightarrow> Some r))"

fun applyOverrides ::
  "'s kube \<Rightarrow> string \<Rightarrow> string \<Rightarrow> MultiClusterResourceOverride list \<Rightarrow> raw option \<Rightarrow> raw option res" where
  "applyOverrides k resourceName clusterName [] resource = Inr resource"
| "applyOverrides k resourceName clusterName (i # is) resource =
     bindR (specOf i) (\<lambda>sp.
     bindR (IsExistResource resourceName sp) (\<lambda>ok.
       applyOverrides k resourceName clusterName is
         (if ok then applyClusters k clusterName (ov_Clusters sp) resource else resource)))"

definition ApplyResourceOverride ::
  "'s kube \<Rightarrow> 's \<Rightarrow> string \<Rightarrow> string \<Rightarrow> string \<Rightarrow> raw option \<Rightarrow> raw option res" where
  "ApplyResourceOverride k s namespace clusterName resourceName resource =
     bindR (liftApi (api_List (kOverride k) s \<lparr>lo_Namespace = namespace, lo_Selector = None\<rparr>)) (\<lambda>items.
       if length items = 0 then Inr resource
       else applyOverrides k resourceName clusterName items resource)"

section \<open>Who is affected by a changed override\<close>

definition clusterHit :: "MultiClusterResourceOverrideSpec \<Rightarrow> MultiClusterResourceBindingResource \<Rightarrow> bool" where
  "clusterHit sp r =
     list_ex (\<lambda>c. list_ex (\<lambda>o1. IsExistCluster (bc_Name c) o1) (ov_Clusters sp)) (br_Clusters r)"

text \<open>
  The loops over a binding's resources and over the bindings. The flag is declared before the
  outer loop: it is carried from binding to binding.
\<close>

fun matchResources ::
  "MultiClusterResourceOverrideSpec res \<Rightarrow> MultiClusterResourceBindingResource list \<Rightarrow> bool \<Rightarrow>
   (bool \<times> bool) res" where
  "matchResources spec [] flag = Inr (flag, False)"
| "matchResources spec (r # rs) flag =
     bindR spec (\<lambda>sp.
     bindR (IsExistResource (br_Name r) sp) (\<lambda>ok.
       if \<not> ok then matchResources spec rs flag
       else if flag \<or> clusterHit sp r then Inr (True, True)
       else matchResources spec rs flag))"

fun matchBindings ::
  "MultiClusterResourceOverrideSpec res \<Rightarrow> MultiClusterResourceBinding list \<Rightarrow> bool \<Rightarrow>
   (string \<times> string) list res" where
  "matchBindings spec [] flag = Inr []"
| "matchBindings spec (b # bs) flag =
     bindR (matchResources spec (bd_Resources b) flag) (\<lambda>(flag, found).
     bindR (matchBindings spec bs flag) (\<lambda>queue.
       Inr (if found then (om_Namespace (bd_Meta b), om_Name (bd_Meta b)) # queue else queue)))"

definition NewOverridePolicyFunc ::
  "'s kube \<Rightarrow> 's \<Rightarrow> MultiClusterResourceOverride \<Rightarrow> (string \<times> string) list res" where
  "NewOverridePolicyFunc k s resourceOverride =
     (case api_List (kBinding k) s
             \<lparr>lo_Namespace = om_Namespace (ro_Meta resourceOverride), lo_Selector = None\<rparr> of
        Inl e \<Rightarrow> Inr []
      | Inr items \<Rightarrow>
          if length items = 0 then Inr [] else matchBindings (specOf resourceOverride) items False)"

section \<open>Properties of the loops\<close>

definition affects :: "MultiClusterResourceOverrideSpec \<Rightarrow> MultiClusterResourceBinding \<Rightarrow> bool" where
  "affects sp b =
     list_ex (\<lambda>r. (case ov_Resources sp of None \<Rightarrow> False | Some names \<Rightarrow> br_Name r \<in> set names) \<and> clusterHit sp r)
       (bd_Resources b)"

lemma matchResources_cases:
  assumes "ov_Resources sp = Some names"
  shows "\<exists>flag' found. matchResources (Inr sp) rs flag = Inr (flag', found) \<and>
           (list_ex (\<lambda>r. br_Name r \<in> set names \<and> clusterHit sp r) rs \<longrightarrow> found) \<and>
           (\<not> flag \<longrightarrow> found = list_ex (\<lambda>r. br_Name r \<in> set names \<and> clusterHit sp r) rs \<and> flag' = found)"
  using assms
  by (induction rs) (auto simp: IsExistResource_def)

lemma matchBindings_complete:
  assumes "ov_Resources sp = Some names"
  shows "\<exists>queue. matchBindings (Inr sp) bs flag = Inr queue \<and>
           (\<forall>b\<in>set bs. affects sp b \<longrightarrow> (om_Namespace (bd_Meta b), om_Name (bd_Meta b)) \<in> set queue)"
proof (induction bs arbitrary: flag)
  case (Cons b bs)
  obtain flag' found where m: "matchResources (Inr sp) (bd_Resources b) flag = Inr (flag', found)"
      "affects sp b \<longrightarrow> found"
    using matchResources_cases [OF assms, of "bd_Resources b" flag] assms by (auto simp: affects_def)
  obtain queue where "matchBindings (Inr sp) bs flag' = Inr queue"
      "\<forall>b\<in>set bs. affects sp b \<longrightarrow> (om_Namespace (bd_Meta b), om_Name (bd_Meta b)) \<in> set queue"
    using Cons.IH by blast
  with m show ?case by auto
qed simp

text \<open>As long as all patches apply, the result is the resource patched by the matching ones in order.\<close>

definition patchesFor ::
  "string \<Rightarrow> string \<Rightarrow> MultiClusterResourceOverride list \<Rightarrow> JSONPatch list option list" where
  "patchesFor resourceName clusterName items =
     concat (map (\<lambda>i. case ro_Spec i of
                        None \<Rightarrow> []
                      | Some sp \<Rightarrow>
                          if (case ov_Resources sp of None \<Rightarrow> False | Some names \<Rightarrow> resourceName \<in> set names)
                          then map oc_Overrides (filter (IsExistCluster clusterName) (ov_Clusters sp))
                          else []) items)"

fun patchAll :: "'s kube \<Rightarrow> JSONPatch list option list \<Rightarrow> raw option \<Rightarrow> raw option" where
  "patchAll k [] resource = resource"
| "patchAll k (p # ps) resource =
     patchAll k ps (case ApplyJsonPatch k resource p of Inl e \<Rightarrow> None | Inr r \<Rightarrow> Some r)"

lemma patchAll_append: "patchAll k (ps @ qs) r = patchAll k qs (patchAll k ps r)"
  by (induction ps arbitrary: r) simp_all

lemma applyClusters_eq:
  "applyClusters k c cs r = patchAll k (map oc_Overrides (filter (IsExistCluster c) cs)) r"
  by (induction cs arbitrary: r) simp_all

definition spec_wf :: "MultiClusterResourceOverride \<Rightarrow> bool" where
  "spec_wf i \<longleftrightarrow> (case ro_Spec i of None \<Rightarrow> False | Some sp \<Rightarrow> ov_Resources sp \<noteq> None)"

lemma applyOverrides_eq:
  "list_all spec_wf items \<Longrightarrow>
   applyOverrides k n c items r = Inr (patchAll k (patchesFor n c items) r)"
proof (induction items arbitrary: r)
  case (Cons i items)
  then obtain sp names where "ro_Spec i = Some sp" "ov_Resources sp = Some names"
    by (auto simp: spec_wf_def split: option.splits)
  with Cons show ?case
    by (auto simp: specOf_def IsExistResource_def patchesFor_def patchAll_append applyClusters_eq)
qed (simp add: patchesFor_def)

lemma patchAll_None: "patchAll k ps None = None"
  by (induction ps) (simp_all add: ApplyJsonPatch_def)

end
