(* ===== verification/Naming.thy ===== *)
theory Naming
  imports KubeTypes
begin

text \<open>
  The names and labels the components agree on (\<open>pkg/common/config.go\<close>). A cluster's objects live
  in a namespace of the control plane made from its name; a resource's kind goes into its name
  and its labels.
\<close>

section \<open>Constants\<close>

definition ManagerNamespace :: string where "ManagerNamespace = ''stellaris-system''"
definition ResourceBindingLabelName :: string where
  "ResourceBindingLabelName = ''stellaris.ResourceBinding''"
definition ResourceGvkLabelName :: string where "ResourceGvkLabelName = ''stellaris.ResourceGvk''"
definition MultiClusterResourceLabelName :: string where
  "MultiClusterResourceLabelName = ''stellaris.MultiClusterResource''"
definition ClusterNamespaceInControlPlanePrefix :: string where
  "ClusterNamespaceInControlPlanePrefix = ''stellaris-harmonycloud-cn-''"
definition ResourceAnnotationKey :: string where "ResourceAnnotationKey = ''stellaris-annotation''"

section \<open>Operations\<close>

definition ClusterNamespace :: "string \<Rightarrow> string" where
  "ClusterNamespace clusterName = ClusterNamespaceInControlPlanePrefix @ clusterName"

definition ClusterName :: "string \<Rightarrow> string" where
  "ClusterName clusterNamespace =
     (if strContains clusterNamespace ClusterNamespaceInControlPlanePrefix
      then strReplaceAll clusterNamespace ClusterNamespaceInControlPlanePrefix []
      else [])"

text \<open>The argument is a pointer: nil panics at the first field access.\<close>

definition GvkLabelString :: "GroupVersionKind option \<Rightarrow> string res" where
  "GvkLabelString gvk =
     (case gvk of
        None \<Rightarrow> Crash NilDereference
      | Some g \<Rightarrow>
          if length (gvk_Group g) = 0 then Inr (gvk_Version g @ ''.'' @ strToLower (gvk_Kind g))
          else Inr (gvk_Group g @ ''.'' @ gvk_Version g @ ''.'' @ strToLower (gvk_Kind g)))"

definition GetMultiClusterResourceSelectorForMultiClusterResourceName ::
  "(string \<Rightarrow> go_error + 'sel) \<Rightarrow> string \<Rightarrow> go_error + 'sel" where
  "GetMultiClusterResourceSelectorForMultiClusterResourceName parse multiClusterResourceName =
     (if length multiClusterResourceName = 0 then Inl (ErrMsg ''multiClusterResourceName is empty'')
      else parse (MultiClusterResourceLabelName @ ''.'' @ multiClusterResourceName @ ''=1''))"

section \<open>Clusters and namespaces\<close>

lemma strHasPrefix_ClusterNamespace [simp]:
  "strHasPrefix (ClusterNamespace c) ClusterNamespaceInControlPlanePrefix"
  by (simp add: ClusterNamespace_def)

lemma ClusterName_ClusterNamespace:
  assumes "\<not> strContains c ClusterNamespaceInControlPlanePrefix"
  shows "ClusterName (ClusterNamespace c) = c"
proof -
  have "ClusterNamespaceInControlPlanePrefix \<noteq> []"
    by (simp add: ClusterNamespaceInControlPlanePrefix_def)
  from strReplaceAll_prefix [OF this, of c "[]"] strReplaceAll_absent [OF assms]
  show ?thesis by (simp add: ClusterName_def ClusterNamespace_def)
qed

lemma ClusterNamespace_inj: "ClusterNamespace c = ClusterNamespace d \<longleftrightarrow> c = d"
  by (simp add: ClusterNamespace_def)

end
