(* ===== verification/Finalizer.thy ===== *)
theory Finalizer
  imports KubeClient SliceUtil
begin

text \<open>
  \<open>pkg/controller/common/helper.go\<close>: the finalizer protocol all controllers share. The source
  writes it once over the interface \<open>client.Object\<close>; here the operations take the accessors of
  an object's metadata as arguments, the interface is the locale \<open>client_object\<close>, and every
  resource kind that goes through the protocol interprets it.
\<close>

definition FinalizerName :: string where "FinalizerName = ''stellaris.Finalizer''"

type_synonym 'o meta_upd = "(ObjectMeta \<Rightarrow> ObjectMeta) \<Rightarrow> 'o \<Rightarrow> 'o"

section \<open>Operations\<close>

definition ShouldAddFinalizer :: "('o \<Rightarrow> ObjectMeta) \<Rightarrow> 'o \<Rightarrow> bool" where
  "ShouldAddFinalizer meta obj =
     (\<not> ContainsString (om_Finalizers (meta obj)) FinalizerName
      \<and> om_DeletionTimestamp (meta obj) = None)"

definition setFinalizers :: "'o meta_upd \<Rightarrow> string list \<Rightarrow> 'o \<Rightarrow> 'o" where
  "setFinalizers upd fs obj = upd (\<lambda>m. m\<lparr>om_Finalizers := fs\<rparr>) obj"

text \<open>Both answer with the object as the server stored it (\<open>Update\<close> overwrites its argument).\<close>

definition AddFinalizer ::
  "('o \<Rightarrow> ObjectMeta) \<Rightarrow> 'o meta_upd \<Rightarrow> ('s, 'o) api \<Rightarrow> 'o \<Rightarrow> 's \<Rightarrow> 'o res \<times> 's" where
  "AddFinalizer meta upd client obj s =
     (if ContainsString (om_Finalizers (meta obj)) FinalizerName then (Inr obj, s)
      else case api_Update client
                 (setFinalizers upd (om_Finalizers (meta obj) @ [FinalizerName]) obj) s of
             (r, s') \<Rightarrow> (liftApi r, s'))"

definition RemoveFinalizer ::
  "('o \<Rightarrow> ObjectMeta) \<Rightarrow> 'o meta_upd \<Rightarrow> ('s, 'o) api \<Rightarrow> 'o \<Rightarrow> 's \<Rightarrow> 'o res \<times> 's" where
  "RemoveFinalizer meta upd client obj s =
     (if \<not> ContainsString (om_Finalizers (meta obj)) FinalizerName then (Inr obj, s)
      else case api_Update client
                 (setFinalizers upd (RemoveString (om_Finalizers (meta obj)) FinalizerName) obj) s of
             (r, s') \<Rightarrow> (liftApi r, s'))"

section \<open>The interface\<close>

text \<open>What the protocol needs of \<open>client.Object\<close>: writing the metadata and reading it back agree.\<close>

locale client_object =
  fixes meta :: "'o \<Rightarrow> ObjectMeta"
    and upd :: "(ObjectMeta \<Rightarrow> ObjectMeta) \<Rightarrow> 'o \<Rightarrow> 'o"
  assumes meta_upd: "meta (upd f obj) = f (meta obj)"
    and upd_upd: "upd f (upd g obj) = upd (\<lambda>m. f (g m)) obj"
    and upd_same: "f (meta obj) = meta obj \<Longrightarrow> upd f obj = obj"
begin

lemma finalizers_set: "om_Finalizers (meta (setFinalizers upd fs obj)) = fs"
  by (simp add: setFinalizers_def meta_upd)

lemma deletion_set:
  "om_DeletionTimestamp (meta (setFinalizers upd fs obj)) = om_DeletionTimestamp (meta obj)"
  by (simp add: setFinalizers_def meta_upd)

lemma set_set: "setFinalizers upd fs (setFinalizers upd gs obj) = setFinalizers upd fs obj"
  by (simp add: setFinalizers_def upd_upd)

lemma set_same: "setFinalizers upd (om_Finalizers (meta obj)) obj = obj"
  by (simp add: setFinalizers_def upd_same)

text \<open>
  One step of the protocol: a live object without the finalizer gets it at the end of its list
  and is then left alone, and removing the finalizer restores the list.
\<close>

lemma add_then_quiet:
  "\<not> ShouldAddFinalizer meta (setFinalizers upd (fs @ [FinalizerName]) obj)"
  by (simp add: ShouldAddFinalizer_def finalizers_set)

lemma add_remove_restores:
  assumes "FinalizerName \<notin> set (om_Finalizers (meta obj))"
  shows "setFinalizers upd
           (RemoveString (om_Finalizers (meta obj) @ [FinalizerName]) FinalizerName)
           (setFinalizers upd (om_Finalizers (meta obj) @ [FinalizerName]) obj) = obj"
proof -
  have "filter (\<lambda>x. x \<noteq> FinalizerName) (om_Finalizers (meta obj)) = om_Finalizers (meta obj)"
    using assms by (auto simp: filter_id_conv)
  then show ?thesis by (simp add: set_set set_same)
qed

lemma AddFinalizer_idem:
  assumes "FinalizerName \<in> set (om_Finalizers (meta obj))"
  shows "AddFinalizer meta upd client obj s = (Inr obj, s)"
  using assms by (simp add: AddFinalizer_def)

lemma RemoveFinalizer_idem:
  assumes "FinalizerName \<notin> set (om_Finalizers (meta obj))"
  shows "RemoveFinalizer meta upd client obj s = (Inr obj, s)"
  using assms by (simp add: RemoveFinalizer_def)

end

text \<open>
  With a server that keeps its laws about deletion, the finalizer of a live object is stored when the
  protocol adds it, and a marked object whose only finalizer is taken away is gone.
\<close>

locale finalized_object = client_object meta upd + api_delete_kind a meta spec status
  for meta :: "'o \<Rightarrow> ObjectMeta" and upd :: "(ObjectMeta \<Rightarrow> ObjectMeta) \<Rightarrow> 'o \<Rightarrow> 'o"
    and a :: "('s, 'o) api" and spec :: "'o \<Rightarrow> 'c" and status :: "'o \<Rightarrow> 'd" +
  assumes spec_upd: "spec (upd f obj) = spec obj"
begin

lemma key_set:
  "om_Namespace (meta (setFinalizers upd fs obj)) = om_Namespace (meta obj)"
  "om_Name (meta (setFinalizers upd fs obj)) = om_Name (meta obj)"
  by (simp_all add: setFinalizers_def meta_upd)

lemma added:
  assumes g: "api_Get a s ns n = Inr x" and new: "ShouldAddFinalizer meta x" and w: "writable a meta"
  shows "\<exists>y s'. AddFinalizer meta upd a x s = (Inr y, s') \<and> api_Get a s' ns n = Inr y \<and> spec y = spec x \<and>
           om_Finalizers (meta y) = om_Finalizers (meta x) @ [FinalizerName] \<and> om_DeletionTimestamp (meta y) = None"
proof -
  let ?x = "setFinalizers upd (om_Finalizers (meta x) @ [FinalizerName]) x"
  have k: "om_Namespace (meta x) = ns" "om_Name (meta x) = n" using get_key [OF g] by auto
  have live: "om_DeletionTimestamp (meta x) = None" using new by (simp add: ShouldAddFinalizer_def)
  from g k have g': "api_Get a s (om_Namespace (meta ?x)) (om_Name (meta ?x)) = Inr x" by (simp add: key_set)
  with w obtain y s' where u: "api_Update a ?x s = (Inr y, s')" unfolding writable_def by blast
  have "sameMeta (meta y) (meta ?x)" "spec y = spec ?x" "api_Get a s' ns n = Inr y"
    using get_update [OF g' live _ u] live k by (simp_all add: deletion_set key_set)
  moreover have "AddFinalizer meta upd a x s = (Inr y, s')"
    using new u by (simp add: AddFinalizer_def ShouldAddFinalizer_def)
  ultimately show ?thesis using live
    by (simp add: sameMeta_fields finalizers_set deletion_set setFinalizers_def meta_upd spec_upd)
qed

lemma removed:
  assumes g: "api_Get a s ns n = Inr x" and dying: "om_DeletionTimestamp (meta x) \<noteq> None"
    and fs: "om_Finalizers (meta x) = [FinalizerName]" and w: "writable a meta"
  shows "\<exists>y s'. RemoveFinalizer meta upd a x s = (Inr y, s') \<and> api_Get a s' ns n = Inl NotFound"
proof -
  let ?x = "setFinalizers upd [] x"
  have k: "om_Namespace (meta x) = ns" "om_Name (meta x) = n" using get_key [OF g] by auto
  from g k w obtain y s' where u: "api_Update a ?x s = (Inr y, s')" unfolding writable_def by (metis key_set)
  with release [OF u] dying k fs show ?thesis
    by (simp add: RemoveFinalizer_def deletion_set finalizers_set key_set)
qed

end

end
