(* ===== verification/Binding.thy ===== *)
theory Binding
  imports Override Naming Finalizer
begin

text \<open>
  The reconciler of \<open>MultiClusterResourceBinding\<close> (\<open>resource-binding/common.go\<close> and
  \<open>resource_binding_controller.go\<close>): it keeps one \<open>ClusterResource\<close> per resource and cluster of
  the binding, in the namespace of the cluster, collects their status and maintains the labels.
  Two functions build a map from the address of their loop variable. With the language version of
  the module (1.16) that variable is one for all iterations, so that every entry of the map points
  to the same object, which holds the last element of the list: such a map is modelled as its keys
  and the one shared cell.
\<close>

section \<open>Names and labels\<close>

definition getClusterResourceName :: "string \<Rightarrow> GroupVersionKind option \<Rightarrow> string res" where
  "getClusterResourceName bindingName gvk =
     bindR (GvkLabelString gvk) (\<lambda>g. Inr (bindingName @ ''.'' @ g))"

definition mapKey :: "string \<Rightarrow> string \<Rightarrow> string" where
  "mapKey resourceNamespace resourceName = resourceNamespace @ ''.'' @ resourceName"

definition clusterResourceLabels ::
  "string \<Rightarrow> string \<Rightarrow> GroupVersionKind option \<Rightarrow> (string, string) gomap res" where
  "clusterResourceLabels bindingName multiClusterResourceName gvk =
     bindR (GvkLabelString gvk) (\<lambda>g.
       Inr (gomap_put (gomap_put (gomap_put [] ResourceBindingLabelName bindingName)
              ResourceGvkLabelName g) MultiClusterResourceLabelName multiClusterResourceName))"

definition newClusterResource ::
  "string \<Rightarrow> MultiClusterResourceBindingCluster \<Rightarrow> OwnerReference \<Rightarrow> MultiClusterResource \<Rightarrow>
   ClusterResource res" where
  "newClusterResource bindingName cluster owner mcr =
     bindR (getClusterResourceName bindingName (rs_ResourceRef (mr_Spec mcr))) (\<lambda>name.
     bindR (clusterResourceLabels bindingName (om_Name (mr_Meta mcr)) (rs_ResourceRef (mr_Spec mcr)))
       (\<lambda>newLabels.
       Inr \<lparr>cr_Meta = zeroMeta\<lparr>om_Name := name, om_Namespace := ClusterNamespace (bc_Name cluster),
              om_Labels := Some newLabels, om_OwnerReferences := [owner]\<rparr>,
            cr_Resource = None, cr_Status = zeroClusterResourceStatus\<rparr>))"

section \<open>The map of the existing cluster resources\<close>

type_synonym 'o shared_map = "string list \<times> 'o option"

fun listToMap :: "ClusterResource list \<Rightarrow> ClusterResource shared_map \<Rightarrow> ClusterResource shared_map" where
  "listToMap [] m = m"
| "listToMap (resource # rs) (keys, cell) =
     (if \<not> strHasPrefix (om_Namespace (cr_Meta resource)) ClusterNamespaceInControlPlanePrefix
      then listToMap rs (keys, Some resource)
      else listToMap rs
             (List.insert (mapKey (om_Namespace (cr_Meta resource)) (om_Name (cr_Meta resource))) keys,
              Some resource))"

definition changeClusterResourceListToMap :: "ClusterResource list \<Rightarrow> ClusterResource shared_map" where
  "changeClusterResourceListToMap items = listToMap items ([], None)"

definition getClusterResourceListForBinding ::
  "'s kube \<Rightarrow> 's \<Rightarrow> MultiClusterResourceBinding \<Rightarrow> api_error + ClusterResource list" where
  "getClusterResourceListForBinding k s binding =
     api_List (kClusterResource k) s
       \<lparr>lo_Namespace = [],
        lo_Selector =
          (case kParseSelector k (ResourceBindingLabelName @ ''='' @ om_Name (bd_Meta binding)) of
             Inl e \<Rightarrow> None
           | Inr sel \<Rightarrow> Some sel)\<rparr>"

definition getMultiClusterResourceForName ::
  "'s kube \<Rightarrow> 's \<Rightarrow> string \<Rightarrow> string \<Rightarrow> api_error + MultiClusterResource" where
  "getMultiClusterResourceForName k s name namespace =
     api_Get (kMultiClusterResource k) s
       (if length namespace = 0 then ManagerNamespace else namespace) name"

section \<open>Keeping the cluster resources\<close>

definition createOne ::
  "'s kube \<Rightarrow> MultiClusterResourceBinding \<Rightarrow> MultiClusterResourceBindingResource \<Rightarrow>
   MultiClusterResourceBindingCluster \<Rightarrow> MultiClusterResource \<Rightarrow> ('s, unit) step" where
  "createOne k binding resource cluster mcr =
     bindS (liftS (newClusterResource (om_Name (bd_Meta binding)) cluster
              (kControllerRef k (bd_Meta binding) ''MultiClusterResourceBinding'') mcr)) (\<lambda>cr.
     bindS (readS (\<lambda>s. case ApplyResourceOverride k s (om_Namespace (bd_Meta binding)) (bc_Name cluster)
                              (br_Name resource) (rs_Resource (mr_Spec mcr)) of
                         Inl (Err e) \<Rightarrow> Inr cr
                       | Inl f \<Rightarrow> Inl f
                       | Inr info \<Rightarrow> Inr (cr\<lparr>cr_Resource := info\<rparr>))) (\<lambda>cr.
     bindS (writeS (api_Create (kClusterResource k) cr)) (\<lambda>_. retS ())))"

definition updateOne ::
  "'s kube \<Rightarrow> MultiClusterResourceBinding \<Rightarrow> MultiClusterResourceBindingResource \<Rightarrow>
   MultiClusterResourceBindingCluster \<Rightarrow> MultiClusterResource \<Rightarrow> ClusterResource \<Rightarrow>
   ('s, ClusterResource) step" where
  "updateOne k binding resource cluster mcr cr =
     bindS (readS (\<lambda>s. case ApplyResourceOverride k s (om_Namespace (bd_Meta binding)) (bc_Name cluster)
                              (br_Name resource) (rs_Resource (mr_Spec mcr)) of
                         Inl (Err e) \<Rightarrow> Inr (rs_Resource (mr_Spec mcr))
                       | Inl f \<Rightarrow> Inl f
                       | Inr info \<Rightarrow> Inr info)) (\<lambda>info.
       if cr_Resource cr = None \<or> info = None then liftS (Crash NilDereference)
       else if cr_Resource cr = info then retS cr
       else writeS (api_Update (kClusterResource k) (cr\<lparr>cr_Resource := info\<rparr>)))"

definition syncOne ::
  "'s kube \<Rightarrow> MultiClusterResourceBinding \<Rightarrow> MultiClusterResourceBindingResource \<Rightarrow>
   MultiClusterResourceBindingCluster \<Rightarrow> ClusterResource shared_map \<Rightarrow>
   ('s, ClusterResource shared_map) step" where
  "syncOne k binding resource cluster m s =
     (case getMultiClusterResourceForName k s (br_Name resource) (br_Namespace resource) of
        Inl e \<Rightarrow> retS m s
      | Inr mcr \<Rightarrow>
          bindS (liftS (getClusterResourceName (om_Name (bd_Meta binding)) (rs_ResourceRef (mr_Spec mcr))))
            (\<lambda>name.
             let key = mapKey (ClusterNamespace (bc_Name cluster)) name in
             case m of (keys, cell) \<Rightarrow>
               if key \<notin> set keys
               then bindS (createOne k binding resource cluster mcr) (\<lambda>_. retS m)
               else bindS (updateOne k binding resource cluster mcr (the cell)) (\<lambda>cr.
                      retS (removeAll key keys, Some cr))) s)"

definition syncClusterResource ::
  "'s kube \<Rightarrow> ClusterResource list \<Rightarrow> MultiClusterResourceBinding \<Rightarrow> ('s, unit) step" where
  "syncClusterResource k items binding =
     (if length (bd_Resources binding) = 0 then retS ()
      else bindS (forS (\<lambda>resource. forS (syncOne k binding resource) (br_Clusters resource))
                    (bd_Resources binding) (changeClusterResourceListToMap items)) (\<lambda>(keys, cell).
             forS (\<lambda>_ _. deleteS (api_Delete (kClusterResource k) (the cell))) keys ()))"

definition SyncClusterResourceWithBinding ::
  "'s kube \<Rightarrow> MultiClusterResourceBinding \<Rightarrow> ('s, unit) step" where
  "SyncClusterResourceWithBinding k binding =
     bindS (readS (\<lambda>s. liftApi (getClusterResourceListForBinding k s binding))) (\<lambda>items.
       syncClusterResource k items binding)"

section \<open>The status of the binding\<close>

abbreviation bindingClusterStatusMapKey :: "string \<Rightarrow> string \<Rightarrow> string" where
  "bindingClusterStatusMapKey clusterName resourceName \<equiv> mapKey clusterName resourceName"

definition bindingClusterStatusMap ::
  "MultiClusterResourceClusterStatus list \<Rightarrow> MultiClusterResourceClusterStatus shared_map" where
  "bindingClusterStatusMap xs =
     (remdups (map (\<lambda>i. bindingClusterStatusMapKey (ms_Name i) (ms_Resource i)) xs),
      if xs = [] then None else Some (last xs))"

definition statusEqual :: "ClusterResourceStatus \<Rightarrow> MultiClusterResourceClusterStatus \<Rightarrow> bool" where
  "statusEqual st b \<longleftrightarrow>
     rt_Phase st = ms_Phase b \<and> rt_Message st = ms_Message b \<and>
     rt_ObservedReceiveGeneration st = ms_ObservedReceiveGeneration b"

definition statusOf :: "string \<Rightarrow> ClusterResource \<Rightarrow> MultiClusterResourceClusterStatus" where
  "statusOf bindingName cr =
     \<lparr>ms_Name = ClusterName (om_Namespace (cr_Meta cr)), ms_Resource = om_Name (cr_Meta cr),
      ms_ObservedReceiveGeneration = rt_ObservedReceiveGeneration (cr_Status cr),
      ms_Phase = rt_Phase (cr_Status cr), ms_Message = rt_Message (cr_Status cr),
      ms_Binding = bindingName\<rparr>"

fun statusLoop ::
  "string \<Rightarrow> ClusterResource list \<Rightarrow> bool \<times> MultiClusterResourceClusterStatus list \<Rightarrow>
   (bool \<times> MultiClusterResourceClusterStatus list) res" where
  "statusLoop bindingName [] st = Inr st"
| "statusLoop bindingName (cr # crs) (update, xs) =
     (if length (rt_Phase (cr_Status cr)) = 0 then statusLoop bindingName crs (update, xs)
      else (let key = bindingClusterStatusMapKey (ClusterName (om_Namespace (cr_Meta cr))) (om_Name (cr_Meta cr)) in
        case bindingClusterStatusMap xs of (keys, cell) \<Rightarrow>
          if key \<in> set keys then
            (if statusEqual (cr_Status cr) (the cell) then statusLoop bindingName crs (update, xs)
             else bindR (removeObject xs (the cell)) (\<lambda>ys.
                    statusLoop bindingName crs (True, ys @ [statusOf bindingName cr])))
          else statusLoop bindingName crs (True, xs @ [statusOf bindingName cr])))"

definition updateBindingStatus ::
  "'s kube \<Rightarrow> MultiClusterResourceBinding \<Rightarrow> ClusterResource list \<Rightarrow> ('s, unit) step" where
  "updateBindingStatus k binding items =
     bindS (liftS (statusLoop (om_Name (bd_Meta binding)) items (False, bd_Status binding))) (\<lambda>(update, xs).
       if update
       then bindS (writeS (api_UpdateStatus (kBinding k) (binding\<lparr>bd_Status := xs\<rparr>))) (\<lambda>_. retS ())
       else retS ())"

section \<open>The labels of the binding\<close>

definition getMultiClusterResourceLabels :: "MultiClusterResourceBinding \<Rightarrow> (string, string) gomap" where
  "getMultiClusterResourceLabels binding =
     filter (\<lambda>(key, v). strHasPrefix key MultiClusterResourceLabelName) (mapOr (om_Labels (bd_Meta binding)))"

definition labelFor :: "MultiClusterResourceBindingResource \<Rightarrow> string" where
  "labelFor r = MultiClusterResourceLabelName @ ''.'' @ br_Name r"

definition shouldExistLabels :: "MultiClusterResourceBinding \<Rightarrow> (string, string) gomap" where
  "shouldExistLabels binding = fold (\<lambda>r m. gomap_put m (labelFor r) ''1'') (bd_Resources binding) []"

definition shouldChangeBindingLabels :: "MultiClusterResourceBinding \<Rightarrow> bool" where
  "shouldChangeBindingLabels binding =
     (if length (bd_Resources binding) \<le> 0 then False
      else if length (getMultiClusterResourceLabels binding) \<le> 0 then True
      else \<not> gomap_eq (shouldExistLabels binding) (getMultiClusterResourceLabels binding))"

definition replaceLabels ::
  "(string, string) gomap \<Rightarrow> (string, string) gomap \<Rightarrow> (string, string) gomap \<Rightarrow> (string, string) gomap" where
  "replaceLabels bindingLabels removeLabels addLabels =
     (if length bindingLabels \<le> 0 \<or> length removeLabels \<le> 0 then addLabels
      else if gomap_eq bindingLabels removeLabels then addLabels
      else fold (\<lambda>(key, v) m. gomap_put m key v) addLabels
             (fold (\<lambda>(key, v) m. gomap_del m key) removeLabels bindingLabels))"

definition withBindingLabels :: "MultiClusterResourceBinding \<Rightarrow> MultiClusterResourceBinding" where
  "withBindingLabels binding =
     bd_Meta_update (\<lambda>m. m\<lparr>om_Labels := Some (replaceLabels (mapOr (om_Labels m))
       (getMultiClusterResourceLabels binding) (shouldExistLabels binding))\<rparr>) binding"

definition addBindingLabels ::
  "'s kube \<Rightarrow> MultiClusterResourceBinding \<Rightarrow> ('s, reconciled) step" where
  "addBindingLabels k binding =
     requeueS (writeS (api_Update (kBinding k) (withBindingLabels binding))) (\<lambda>_. doneS)"

section \<open>The reconcile\<close>

definition updateStatusAndSyncClusterResource ::
  "'s kube \<Rightarrow> MultiClusterResourceBinding \<Rightarrow> ('s, reconciled) step" where
  "updateStatusAndSyncClusterResource k binding =
     requeueS (readS (\<lambda>s. case getClusterResourceListForBinding k s binding of
                            Inl NotFound \<Rightarrow> Inr []
                          | Inl e \<Rightarrow> Raise (ErrApi e)
                          | Inr items \<Rightarrow> Inr items)) (\<lambda>items.
     requeueS (syncClusterResource k items binding) (\<lambda>_.
     requeueS (updateBindingStatus k binding items) (\<lambda>_. doneS)))"

text \<open>\<open>addFinalizer\<close> and \<open>removeFinalizer\<close> of this controller.\<close>

abbreviation addBindingFinalizer :: "'s kube \<Rightarrow> MultiClusterResourceBinding \<Rightarrow> ('s, reconciled) step" where
  "addBindingFinalizer k inst \<equiv>
     requeueS (AddFinalizer bd_Meta bd_Meta_update (kBinding k) inst) (\<lambda>_. doneS)"

abbreviation removeBindingFinalizer :: "'s kube \<Rightarrow> MultiClusterResourceBinding \<Rightarrow> ('s, reconciled) step" where
  "removeBindingFinalizer k inst \<equiv>
     requeueS (RemoveFinalizer bd_Meta bd_Meta_update (kBinding k) inst) (\<lambda>_. doneS)"

definition reconcileBinding ::
  "'s kube \<Rightarrow> string \<Rightarrow> string \<Rightarrow> ('s, reconciled) step" where
  "reconcileBinding k namespace name s =
     (case api_Get (kBinding k) s namespace name of
        Inl e \<Rightarrow> (Inr (doneResult, ignoreNotFound e), s)
      | Inr binding \<Rightarrow>
          if ShouldAddFinalizer bd_Meta binding
          then addBindingFinalizer k binding s
          else if om_DeletionTimestamp (bd_Meta binding) \<noteq> None
          then removeBindingFinalizer k binding s
          else if shouldChangeBindingLabels binding then addBindingLabels k binding s
          else updateStatusAndSyncClusterResource k binding s)"

interpretation bindingObject: client_object bd_Meta bd_Meta_update
  by unfold_locales simp_all

end
