(* ===== verification/BindingCorrect.thy ===== *)
theory BindingCorrect
  imports Binding
begin

text \<open>
  Lemmas about the binding controller: its labels converge in one step, what it creates is found by
  its own listing, a fresh binding creates every cluster resource and collects every status, and the
  shared cell of its maps makes it blind for all existing objects but the last.
\<close>

section \<open>Labels\<close>

lemma shouldExist_get:
  "gomap_get (fold (\<lambda>r m. gomap_put m (labelFor r) ''1'') rs m) k =
     (if k \<in> labelFor ` set rs then Some ''1'' else gomap_get m k)"
  by (induction rs arbitrary: m) auto

lemma shouldExist_wf: "gomap_wf (shouldExistLabels b)"
proof -
  have "gomap_wf m \<Longrightarrow> gomap_wf (fold (\<lambda>r m. gomap_put m (labelFor r) ''1'') rs m)" for m rs
    by (induction rs arbitrary: m) auto
  then show ?thesis by (simp add: shouldExistLabels_def)
qed

lemma shouldExist_prefix:
  "gomap_get (shouldExistLabels b) k = Some v \<Longrightarrow> strHasPrefix k MultiClusterResourceLabelName"
proof -
  assume "gomap_get (shouldExistLabels b) k = Some v"
  then have "k \<in> labelFor ` set (bd_Resources b)"
    unfolding shouldExistLabels_def shouldExist_get by (simp split: if_splits)
  then show ?thesis by (auto simp: labelFor_def)
qed

lemma replaceLabels_get:
  assumes "strHasPrefix k MultiClusterResourceLabelName"
  shows "gomap_get (replaceLabels labels
             (filter (\<lambda>(key, v). strHasPrefix key MultiClusterResourceLabelName) labels) (shouldExistLabels b)) k
         = gomap_get (shouldExistLabels b) k"
proof -
  let ?cur = "filter (\<lambda>(key, v). strHasPrefix key MultiClusterResourceLabelName) labels"
  have "k \<in> fst ` set ?cur \<longleftrightarrow> gomap_get labels k \<noteq> None"
    using assms by (force simp: gomap_get_None_iff)
  then show ?thesis
    by (auto simp: replaceLabels_def gomap_get_fold_put [OF shouldExist_wf] gomap_get_fold_del
        split: option.splits)
qed

section \<open>What is created is found again\<close>

lemma newClusterResource_keys:
  assumes "newClusterResource bn c owner mcr = Inr cr"
    and "getClusterResourceName bn (rs_ResourceRef (mr_Spec mcr)) = Inr name"
  shows "om_Name (cr_Meta cr) = name" and "om_Namespace (cr_Meta cr) = ClusterNamespace (bc_Name c)"
    and "gomap_get (mapOr (om_Labels (cr_Meta cr))) ResourceBindingLabelName = Some bn"
    and "om_Finalizers (cr_Meta cr) = []" and "om_DeletionTimestamp (cr_Meta cr) = None"
  using assms
  by (auto simp: newClusterResource_def clusterResourceLabels_def bindR_Inr_iff zeroMeta_def
      ResourceBindingLabelName_def ResourceGvkLabelName_def MultiClusterResourceLabelName_def)

lemma listToMap_snd: "snd (listToMap rs m) = (if rs = [] then snd m else Some (last rs))"
  by (induction rs m rule: listToMap.induct) auto

lemma listToMap_fst:
  "set (fst (listToMap rs m)) = set (fst m) \<union>
     (\<lambda>r. mapKey (om_Namespace (cr_Meta r)) (om_Name (cr_Meta r))) `
       {r \<in> set rs. strHasPrefix (om_Namespace (cr_Meta r)) ClusterNamespaceInControlPlanePrefix}"
  by (induction rs m rule: listToMap.induct) auto

lemma changeClusterResourceListToMap_cell:
  "snd (changeClusterResourceListToMap items) = (if items = [] then None else Some (last items))"
  by (simp add: changeClusterResourceListToMap_def listToMap_snd)

section \<open>The clusters of a binding\<close>

type_synonym pair = "MultiClusterResourceBindingResource \<times> MultiClusterResourceBindingCluster"

definition pairs :: "MultiClusterResourceBinding \<Rightarrow> pair list" where
  "pairs b = concat (map (\<lambda>r. map (Pair r) (br_Clusters r)) (bd_Resources b))"

lemma forS_append: "forS f (xs @ ys) = (\<lambda>acc. bindS (forS f xs acc) (forS f ys))"
proof (induction xs)
  case (Cons x xs)
  show ?case by (rule ext) (simp add: Cons.IH bindS_assoc)
qed simp

lemma forS_map: "forS f (map g xs) = forS (\<lambda>x. f (g x)) xs"
proof (induction xs)
  case (Cons x xs)
  show ?case by (rule ext) (simp add: Cons.IH)
qed (simp add: fun_eq_iff)

lemma forS_pairs:
  "forS (\<lambda>r. forS (f r) (br_Clusters r)) rs =
   forS (\<lambda>(r, c). f r c) (concat (map (\<lambda>r. map (Pair r) (br_Clusters r)) rs))"
proof (induction rs)
  case (Cons r rs)
  show ?case by (rule ext) (simp add: Cons.IH forS_append forS_map)
qed (simp add: fun_eq_iff)

text \<open>Where the cluster resource of a pair lives, and what it should hold.\<close>

definition targetOf ::
  "'s kube \<Rightarrow> 's \<Rightarrow> MultiClusterResourceBinding \<Rightarrow> pair \<Rightarrow> ((string \<times> string) \<times> raw option) res" where
  "targetOf k s b p =
     (case p of (r, c) \<Rightarrow>
        bindR (liftApi (getMultiClusterResourceForName k s (br_Name r) (br_Namespace r))) (\<lambda>mcr.
        bindR (getClusterResourceName (om_Name (bd_Meta b)) (rs_ResourceRef (mr_Spec mcr))) (\<lambda>name.
        bindR (ApplyResourceOverride k s (om_Namespace (bd_Meta b)) (bc_Name c) (br_Name r)
                 (rs_Resource (mr_Spec mcr))) (\<lambda>info.
          Inr ((ClusterNamespace (bc_Name c), name), info)))))"

abbreviation keyAt :: "string \<times> string \<Rightarrow> string" where "keyAt loc \<equiv> mapKey (fst loc) (snd loc)"

lemma syncOne_settled:
  assumes "targetOf k s b (r, c) = Inr (loc, Some raw)" and "keyAt loc \<in> set keys"
    and "cr_Resource cell = Some raw"
  shows "syncOne k b r c (keys, Some cell) s = (Inr (removeAll (keyAt loc) keys, Some cell), s)"
  using assms
  by (auto simp: targetOf_def bindR_Inr_iff syncOne_def updateOne_def Let_def bindS_def)

lemma forS_settled:
  assumes "\<And>p. p \<in> set ps \<Longrightarrow> targetOf k s b p = Inr (loc p, Some raw)"
    and "distinct (map (\<lambda>p. keyAt (loc p)) ps)" and "\<And>p. p \<in> set ps \<Longrightarrow> keyAt (loc p) \<in> set keys"
    and "cr_Resource cell = Some raw"
  shows "forS (\<lambda>(r, c). syncOne k b r c) ps (keys, Some cell) s =
           (Inr (filter (\<lambda>x. x \<notin> (\<lambda>p. keyAt (loc p)) ` set ps) keys, Some cell), s)"
  using assms
proof (induction ps arbitrary: keys)
  case (Cons p ps)
  obtain r c where p: "p = (r, c)" by (cases p)
  have step: "syncOne k b r c (keys, Some cell) s = (Inr (removeAll (keyAt (loc p)) keys, Some cell), s)"
    using syncOne_settled [of k s b r c "loc p" raw keys cell] Cons.prems by (simp add: p)
  have "forS (\<lambda>(r, c). syncOne k b r c) ps (removeAll (keyAt (loc p)) keys, Some cell) s =
      (Inr (filter (\<lambda>x. x \<notin> (\<lambda>p. keyAt (loc p)) ` set ps) (removeAll (keyAt (loc p)) keys), Some cell), s)"
  proof (rule Cons.IH)
    fix q assume q: "q \<in> set ps"
    then show "targetOf k s b q = Inr (loc q, Some raw)" by (simp add: Cons.prems(1))
    have "keyAt (loc q) \<noteq> keyAt (loc p)" using Cons.prems(2) q by (auto simp: image_iff)
    then show "keyAt (loc q) \<in> set (removeAll (keyAt (loc p)) keys)" using Cons.prems(3) [of q] q by simp
  qed (use Cons.prems(2,4) in simp_all)
  moreover have "filter (\<lambda>x. x \<notin> (\<lambda>p. keyAt (loc p)) ` set ps) (removeAll (keyAt (loc p)) keys) =
      filter (\<lambda>x. x \<notin> (\<lambda>p. keyAt (loc p)) ` set (p # ps)) keys"
    by (auto simp: removeAll_filter_not_eq intro: filter_cong)
  ultimately show ?case using step by (simp add: p)
qed simp

section \<open>A fresh binding\<close>

text \<open>
  What the server promises about creating a cluster resource: the write of a name that does not
  exist succeeds and is read back, other names, the resources and the overrides are not touched.
\<close>

definition creation_laws :: "'s kube \<Rightarrow> bool" where
  "creation_laws k \<longleftrightarrow>
     (\<forall>cr s. api_Get (kClusterResource k) s (om_Namespace (cr_Meta cr)) (om_Name (cr_Meta cr)) = Inl NotFound \<longrightarrow>
        (\<exists>cr2 x s'. api_Create (kClusterResource k) cr s = (Inr cr2, s') \<and> cr_Resource x = cr_Resource cr \<and>
           sameMeta (cr_Meta x) (cr_Meta cr) \<and>
           (\<forall>ns n. api_Get (kClusterResource k) s' ns n =
              (if ns = om_Namespace (cr_Meta cr) \<and> n = om_Name (cr_Meta cr) then Inr x
               else api_Get (kClusterResource k) s ns n)) \<and>
           api_Get (kMultiClusterResource k) s' = api_Get (kMultiClusterResource k) s \<and>
           api_List (kOverride k) s' = api_List (kOverride k) s))"

text \<open>A cluster resource as the controller creates it: live, without finalizers.\<close>

definition freshWith :: "raw option \<Rightarrow> ClusterResource \<Rightarrow> bool" where
  "freshWith info x \<longleftrightarrow>
     cr_Resource x = info \<and> om_Finalizers (cr_Meta x) = [] \<and> om_DeletionTimestamp (cr_Meta x) = None"

lemma syncOne_fresh:
  assumes laws: "creation_laws k" and target: "targetOf k s b (r, c) = Inr (loc, info)"
    and free: "api_Get (kClusterResource k) s (fst loc) (snd loc) = Inl NotFound"
  shows "\<exists>s' x. syncOne k b r c ([], None) s = (Inr ([], None), s') \<and> freshWith info x \<and>
           (\<forall>ns n. api_Get (kClusterResource k) s' ns n =
              (if (ns, n) = loc then Inr x else api_Get (kClusterResource k) s ns n)) \<and>
           (\<forall>p. targetOf k s' b p = targetOf k s b p)"
proof -
  obtain mcr name where mcr: "getMultiClusterResourceForName k s (br_Name r) (br_Namespace r) = Inr mcr"
      "getClusterResourceName (om_Name (bd_Meta b)) (rs_ResourceRef (mr_Spec mcr)) = Inr name"
      "ApplyResourceOverride k s (om_Namespace (bd_Meta b)) (bc_Name c) (br_Name r)
         (rs_Resource (mr_Spec mcr)) = Inr info"
      "loc = (ClusterNamespace (bc_Name c), name)"
    using target by (auto simp: targetOf_def bindR_Inr_iff)
  obtain g where g: "GvkLabelString (rs_ResourceRef (mr_Spec mcr)) = Inr g"
    using mcr(2) by (auto simp: getClusterResourceName_def bindR_Inr_iff)
  obtain cr where cr: "newClusterResource (om_Name (bd_Meta b)) c
      (kControllerRef k (bd_Meta b) ''MultiClusterResourceBinding'') mcr = Inr cr"
    by (simp add: newClusterResource_def clusterResourceLabels_def mcr(2) g)
  note keys = newClusterResource_keys [OF cr mcr(2)]
  define cr' where "cr' = cr\<lparr>cr_Resource := info\<rparr>"
  have "api_Get (kClusterResource k) s (om_Namespace (cr_Meta cr')) (om_Name (cr_Meta cr')) = Inl NotFound"
    using free keys mcr(4) by (simp add: cr'_def)
  with laws obtain cr2 x s' where w: "api_Create (kClusterResource k) cr' s = (Inr cr2, s')"
      "cr_Resource x = cr_Resource cr'" "sameMeta (cr_Meta x) (cr_Meta cr')"
      "\<forall>ns n. api_Get (kClusterResource k) s' ns n =
              (if ns = om_Namespace (cr_Meta cr') \<and> n = om_Name (cr_Meta cr') then Inr x
               else api_Get (kClusterResource k) s ns n)"
      "api_Get (kMultiClusterResource k) s' = api_Get (kMultiClusterResource k) s"
      "api_List (kOverride k) s' = api_List (kOverride k) s"
    unfolding creation_laws_def by blast
  have "createOne k b r c mcr s = (Inr (), s')"
    using w(1) by (simp add: createOne_def cr mcr(3) writeS_def bindS_def cr'_def)
  then have "syncOne k b r c ([], None) s = (Inr ([], None), s')"
    by (simp add: syncOne_def mcr(1,2) bindS_def)
  moreover have "targetOf k s' b p = targetOf k s b p" for p
    by (simp add: targetOf_def getMultiClusterResourceForName_def ApplyResourceOverride_def w(5,6))
  moreover have "om_Finalizers (cr_Meta cr) = []" "om_DeletionTimestamp (cr_Meta cr) = None"
    using cr by (auto simp: newClusterResource_def bindR_Inr_iff zeroMeta_def)
  then have "freshWith info x" using w(2) sameMeta_fields [OF w(3)] by (simp add: freshWith_def cr'_def)
  ultimately show ?thesis using w(4) keys mcr(4) by (auto simp: cr'_def)
qed

lemma forS_fresh:
  assumes laws: "creation_laws k"
  shows "(\<And>p. p \<in> set ps \<Longrightarrow> targetOf k s b p = Inr (loc p, info p)) \<Longrightarrow> distinct (map loc ps) \<Longrightarrow>
    (\<And>p. p \<in> set ps \<Longrightarrow> api_Get (kClusterResource k) s (fst (loc p)) (snd (loc p)) = Inl NotFound) \<Longrightarrow>
    \<exists>s'. forS (\<lambda>(r, c). syncOne k b r c) ps ([], None) s = (Inr ([], None), s') \<and>
      (\<forall>p\<in>set ps. \<exists>x. api_Get (kClusterResource k) s' (fst (loc p)) (snd (loc p)) = Inr x \<and>
                       freshWith (info p) x) \<and>
      (\<forall>ns n. (ns, n) \<notin> loc ` set ps \<longrightarrow>
         api_Get (kClusterResource k) s' ns n = api_Get (kClusterResource k) s ns n)"
proof (induction ps arbitrary: s)
  case (Cons p ps)
  obtain r c where p: "p = (r, c)" by (cases p)
  obtain s1 x where one: "syncOne k b r c ([], None) s = (Inr ([], None), s1)" "freshWith (info p) x"
      "\<forall>ns n. api_Get (kClusterResource k) s1 ns n =
              (if (ns, n) = loc p then Inr x else api_Get (kClusterResource k) s ns n)"
      "\<forall>q. targetOf k s1 b q = targetOf k s b q"
    using syncOne_fresh [OF laws, of s b r c "loc p" "info p"] Cons.prems by (auto simp: p)
  have "\<exists>s'. forS (\<lambda>(r, c). syncOne k b r c) ps ([], None) s1 = (Inr ([], None), s') \<and>
      (\<forall>p\<in>set ps. \<exists>x. api_Get (kClusterResource k) s' (fst (loc p)) (snd (loc p)) = Inr x \<and>
                       freshWith (info p) x) \<and>
      (\<forall>ns n. (ns, n) \<notin> loc ` set ps \<longrightarrow>
         api_Get (kClusterResource k) s' ns n = api_Get (kClusterResource k) s1 ns n)"
  proof (rule Cons.IH)
    fix q assume q: "q \<in> set ps"
    then show "targetOf k s1 b q = Inr (loc q, info q)"
      using spec [OF one(4), of q] Cons.prems(1) [of q] by (simp del: split_paired_All)
    have "loc q \<in> loc ` set ps" using q by (rule imageI)
    then have "loc q \<noteq> loc p" using Cons.prems(2) by auto
    then show "api_Get (kClusterResource k) s1 (fst (loc q)) (snd (loc q)) = Inl NotFound"
      using one(3) Cons.prems(3) q by auto
  qed (use Cons.prems(2) in simp)
  then obtain s' where rest: "forS (\<lambda>(r, c). syncOne k b r c) ps ([], None) s1 = (Inr ([], None), s')"
      "\<forall>p\<in>set ps. \<exists>x. api_Get (kClusterResource k) s' (fst (loc p)) (snd (loc p)) = Inr x \<and> freshWith (info p) x"
      "\<forall>ns n. (ns, n) \<notin> loc ` set ps \<longrightarrow>
         api_Get (kClusterResource k) s' ns n = api_Get (kClusterResource k) s1 ns n"
    by blast
  have run: "forS (\<lambda>(r, c). syncOne k b r c) (p # ps) ([], None) s = (Inr ([], None), s')"
    using one(1) rest(1) by (simp add: p)
  have "(fst (loc p), snd (loc p)) \<notin> loc ` set ps" using Cons.prems(2) by auto
  then have "api_Get (kClusterResource k) s' (fst (loc p)) (snd (loc p)) = Inr x"
    using rest(3) one(3) by simp
  then have all: "\<forall>q\<in>set (p # ps). \<exists>x. api_Get (kClusterResource k) s' (fst (loc q)) (snd (loc q)) = Inr x \<and>
      freshWith (info q) x"
    using rest(2) one(2) by simp
  have "\<forall>ns n. (ns, n) \<notin> loc ` set (p # ps) \<longrightarrow>
      api_Get (kClusterResource k) s' ns n = api_Get (kClusterResource k) s ns n"
    using rest(3) one(3) by simp
  with all run show ?case by blast
qed simp

section \<open>The first collection of the status\<close>

definition statusKey :: "ClusterResource \<Rightarrow> string" where
  "statusKey cr =
     bindingClusterStatusMapKey (ClusterName (om_Namespace (cr_Meta cr))) (om_Name (cr_Meta cr))"

lemma statusLoop_fresh:
  assumes "distinct (map statusKey (filter (\<lambda>cr. rt_Phase (cr_Status cr) \<noteq> []) items))"
    and "\<forall>x\<in>set xs. \<forall>cr\<in>set items. rt_Phase (cr_Status cr) \<noteq> [] \<longrightarrow>
           mapKey (ms_Name x) (ms_Resource x) \<noteq> statusKey cr"
  shows "statusLoop bn items (u, xs) =
           Inr (u \<or> filter (\<lambda>cr. rt_Phase (cr_Status cr) \<noteq> []) items \<noteq> [],
                xs @ map (statusOf bn) (filter (\<lambda>cr. rt_Phase (cr_Status cr) \<noteq> []) items))"
  using assms
proof (induction items arbitrary: u xs)
  case (Cons cr crs)
  show ?case
  proof (cases "rt_Phase (cr_Status cr) = []")
    case True
    then show ?thesis using Cons by simp
  next
    case False
    have "mapKey (ClusterName (om_Namespace (cr_Meta cr))) (om_Name (cr_Meta cr)) \<notin>
        set (fst (bindingClusterStatusMap xs))"
      using Cons.prems(2) False by (auto simp: bindingClusterStatusMap_def statusKey_def)
    then have step: "statusLoop bn (cr # crs) (u, xs) = statusLoop bn crs (True, xs @ [statusOf bn cr])"
      using False by (simp add: bindingClusterStatusMap_def)
    have dist: "distinct (map statusKey (filter (\<lambda>cr. rt_Phase (cr_Status cr) \<noteq> []) crs))"
      using Cons.prems(1) False by simp
    have "\<forall>x\<in>set (xs @ [statusOf bn cr]). \<forall>cr'\<in>set crs. rt_Phase (cr_Status cr') \<noteq> [] \<longrightarrow>
        mapKey (ms_Name x) (ms_Resource x) \<noteq> statusKey cr'"
      using Cons.prems False by (auto simp: statusOf_def statusKey_def)
    from Cons.IH [OF dist this] step False show ?thesis by simp
  qed
qed simp

end
