(* ===== verification/BindingProps.thy ===== *)
theory BindingProps
  imports BindingCorrect Server
begin

text \<open>
  The properties of the binding controller and of the overrides: what a fresh binding creates and
  collects, that the labels settle, which bindings a changed override wakes, and the consequences
  of the shared loop variable, of a failed patch and of names that do not tell two resources apart.
\<close>

section \<open>A small control plane\<close>

definition bxMeta :: "string \<Rightarrow> string \<Rightarrow> ObjectMeta" where
  "bxMeta ns n = zeroMeta\<lparr>om_Namespace := ns, om_Name := n\<rparr>"

definition bxResource :: "string \<Rightarrow> raw \<Rightarrow> MultiClusterResource" where
  "bxResource n raw = \<lparr>mr_Meta = bxMeta ''ns'' n,
     mr_Spec = \<lparr>rs_Resource = Some raw,
       rs_ResourceRef = Some \<lparr>gvk_Group = ''apps'', gvk_Version = ''v1'', gvk_Kind = ''Deployment''\<rparr>,
       rs_ReplicasField = [], rs_Workload = True\<rparr>, mr_Status = []\<rparr>"

definition bxBindingResource :: "string \<Rightarrow> string list \<Rightarrow> MultiClusterResourceBindingResource" where
  "bxBindingResource n cs = \<lparr>br_Name = n, br_Namespace = ''ns'',
     br_Clusters = map (\<lambda>c. \<lparr>bc_Name = c, bc_Override = []\<rparr>) cs\<rparr>"

definition bxBinding :: "MultiClusterResourceBindingResource list \<Rightarrow> MultiClusterResourceBinding" where
  "bxBinding rs = \<lparr>bd_Meta = bxMeta ''ns'' ''b'', bd_Resources = rs, bd_Status = []\<rparr>"

definition bxClusterResource :: "string \<Rightarrow> raw \<Rightarrow> ClusterResource" where
  "bxClusterResource c raw = \<lparr>cr_Meta = bxMeta (ClusterNamespace c) ''b.apps.v1.deployment'',
     cr_Resource = Some raw, cr_Status = zeroClusterResourceStatus\<rparr>"

definition bxMem :: "ClusterResource list \<Rightarrow> mem" where
  "bxMem crs = emptyMem\<lparr>mm_MultiClusterResources := [bxResource ''web'' ''v2'', bxResource ''db'' ''v2''],
     mm_ClusterResources := crs\<rparr>"

definition bxLoc :: "pair \<Rightarrow> string \<times> string" where
  "bxLoc p = (ClusterNamespace (bc_Name (snd p)), ''b.apps.v1.deployment'')"

lemma bx_target:
  "\<forall>p\<in>set (pairs (bxBinding [bxBindingResource ''web'' [''c1'', ''c2'']])).
     targetOf memKube (bxMem crs) (bxBinding [bxBindingResource ''web'' [''c1'', ''c2'']]) p
       = Inr (bxLoc p, Some ''v2'')"
  by (simp add: pairs_def bxBinding_def bxBindingResource_def targetOf_def getMultiClusterResourceForName_def
      memKube_def memApi_def memGet_def memList_def findObj_def keyOf_def bxMem_def emptyMem_def bxResource_def
      bxMeta_def zeroMeta_def getClusterResourceName_def GvkLabelString_def strToLower_def chrToLower_def
      ApplyResourceOverride_def bxLoc_def) code_simp

lemma mem_creation_laws: "creation_laws memKube"
  unfolding creation_laws_def
proof (intro allI impI)
  fix cr :: ClusterResource and s :: mem
  assume free: "api_Get (kClusterResource memKube) s (om_Namespace (cr_Meta cr)) (om_Name (cr_Meta cr)) = Inl NotFound"
  let ?put = "\<lambda>xs. mm_ClusterResources_update (\<lambda>_. xs)"
  let ?s' = "?put (mm_ClusterResources s @ [cr]) s"
  have "findObj cr_Meta (keyOf cr_Meta cr) (mm_ClusterResources s) = None"
    using free by (simp add: memKube_def memApi_def memGet_def keyOf_def split: option.splits)
  then have w: "memCreate mm_ClusterResources ?put cr_Meta cr s = (Inr cr, ?s')"
    by (simp add: memCreate_def)
  have "api_Create (kClusterResource memKube) cr s = (Inr cr, ?s')"
    using w by (simp add: memKube_def memApi_def)
  moreover have "\<forall>ns n. api_Get (kClusterResource memKube) ?s' ns n =
      (if ns = om_Namespace (cr_Meta cr) \<and> n = om_Name (cr_Meta cr) then Inr cr
       else api_Get (kClusterResource memKube) s ns n)"
    using clusterResourceStore.get_create(2) [OF w] by (simp add: memKube_def memApi_def keyOf_def)
  moreover have "api_Get (kMultiClusterResource memKube) ?s' = api_Get (kMultiClusterResource memKube) s"
    and "api_List (kOverride memKube) ?s' = api_List (kOverride memKube) s"
    by (simp_all add: memKube_def memApi_def memGet_def memList_def fun_eq_iff)
  ultimately show "\<exists>cr2 x s'. api_Create (kClusterResource memKube) cr s = (Inr cr2, s') \<and>
      cr_Resource x = cr_Resource cr \<and> sameMeta (cr_Meta x) (cr_Meta cr) \<and>
      (\<forall>ns n. api_Get (kClusterResource memKube) s' ns n =
         (if ns = om_Namespace (cr_Meta cr) \<and> n = om_Name (cr_Meta cr) then Inr x
          else api_Get (kClusterResource memKube) s ns n)) \<and>
      api_Get (kMultiClusterResource memKube) s' = api_Get (kMultiClusterResource memKube) s \<and>
      api_List (kOverride memKube) s' = api_List (kOverride memKube) s"
    by blast
qed

section \<open>Creating\<close>



text \<open>
  The name of a cluster resource is made from the binding and the kind only: a binding with two
  deployments for one cluster creates the first and then fails on the second, which has the same name.
\<close>

theorem same_kind_collides:
  "fst (syncClusterResource memKube []
          (bxBinding [bxBindingResource ''web'' [''c1''], bxBindingResource ''db'' [''c1'']]) (bxMem []))
   = Raise (ErrApi AlreadyExists)"
  by code_simp

section \<open>Updating\<close>

text \<open>
  C31: the synchronisation sees only the last cluster resource of its listing. When that one holds the wanted
  bytes and the listing has the keys of the binding, nothing is written, whatever the other cluster resources
  hold.
\<close>

theorem sync_sees_only_the_last:
  assumes items: "items \<noteq> []" "cr_Resource (last items) = Some raw"
    and target: "\<And>p. p \<in> set (pairs b) \<Longrightarrow> targetOf k s b p = Inr (loc p, Some raw)"
    and dist: "distinct (map (\<lambda>p. keyAt (loc p)) (pairs b))"
    and keys: "set (fst (changeClusterResourceListToMap items)) = (\<lambda>p. keyAt (loc p)) ` set (pairs b)"
  shows "syncClusterResource k items b s = (Inr (), s)"
proof (cases "bd_Resources b = []")
  case False
  define keys0 where "keys0 = fst (changeClusterResourceListToMap items)"
  have m: "changeClusterResourceListToMap items = (keys0, Some (last items))"
    using items(1) changeClusterResourceListToMap_cell [of items]
    by (simp add: keys0_def prod_eq_iff)
  have "forS (\<lambda>(r, c). syncOne k b r c) (pairs b) (keys0, Some (last items)) s = (Inr ([], Some (last items)), s)"
    using forS_settled [OF target dist, of keys0 "last items"] keys items(2)
    by (auto simp: keys0_def filter_empty_conv)
  then show ?thesis
    using False by (simp add: syncClusterResource_def m forS_pairs pairs_def [symmetric])
qed (simp add: syncClusterResource_def)

lemma sync_sees_only_the_last_witness:
  "syncClusterResource memKube [bxClusterResource ''c1'' ''v1'', bxClusterResource ''c2'' ''v2'']
     (bxBinding [bxBindingResource ''web'' [''c1'', ''c2'']])
     (bxMem [bxClusterResource ''c1'' ''v1'', bxClusterResource ''c2'' ''v2''])
   = (Inr (), bxMem [bxClusterResource ''c1'' ''v1'', bxClusterResource ''c2'' ''v2''])"
proof (rule sync_sees_only_the_last [where loc = bxLoc and raw = "''v2''"])
  show "distinct (map (\<lambda>p. keyAt (bxLoc p)) (pairs (bxBinding [bxBindingResource ''web'' [''c1'', ''c2'']])))"
    by (simp add: pairs_def bxBinding_def bxBindingResource_def bxLoc_def ClusterNamespace_def mapKey_def)
  show "set (fst (changeClusterResourceListToMap [bxClusterResource ''c1'' ''v1'', bxClusterResource ''c2'' ''v2'']))
      = (\<lambda>p. keyAt (bxLoc p)) ` set (pairs (bxBinding [bxBindingResource ''web'' [''c1'', ''c2'']]))"
    by (auto simp: pairs_def bxBinding_def bxBindingResource_def bxLoc_def changeClusterResourceListToMap_def
        bxClusterResource_def bxMeta_def zeroMeta_def)
qed (use bx_target in \<open>simp_all add: bxClusterResource_def\<close>)

text \<open>
  After a change of the resource, one synchronisation over two clusters updates the cluster resource of
  the last cluster only, and the ones of the other clusters keep the old bytes.
\<close>

theorem sync_updates_one:
  "map cr_Resource (mm_ClusterResources (snd
     (syncClusterResource memKube [bxClusterResource ''c1'' ''v1'', bxClusterResource ''c2'' ''v1'']
        (bxBinding [bxBindingResource ''web'' [''c1'', ''c2'']])
        (bxMem [bxClusterResource ''c1'' ''v1'', bxClusterResource ''c2'' ''v1'']))))
   = [Some ''v1'', Some ''v2'']"
  by code_simp

section \<open>Status\<close>

text \<open>
  A binding without status collects the status of every cluster resource that reports one, in the order
  of the listing, and is written exactly when there is one.
\<close>

theorem first_status:
  assumes "distinct (map statusKey (filter (\<lambda>cr. rt_Phase (cr_Status cr) \<noteq> []) items))"
    and "bd_Status b = []"
  defines "ready \<equiv> filter (\<lambda>cr. rt_Phase (cr_Status cr) \<noteq> []) items"
  shows "updateBindingStatus k b items s =
           (if ready = [] then (Inr (), s)
            else bindS (writeS (api_UpdateStatus (kBinding k)
                          (b\<lparr>bd_Status := map (statusOf (om_Name (bd_Meta b))) ready\<rparr>))) (\<lambda>_. retS ()) s)"
  using statusLoop_fresh [OF assms(1), of "[]" "om_Name (bd_Meta b)" False] assms(2)
  by (simp add: updateBindingStatus_def ready_def)

definition bxReady :: "string \<Rightarrow> string \<Rightarrow> ClusterResource" where
  "bxReady c phase = (bxClusterResource c ''v1'')
     \<lparr>cr_Status := \<lparr>rt_ObservedReceiveGeneration = 1, rt_Phase = phase, rt_Message = []\<rparr>\<rparr>"

lemma first_status_witness:
  "updateBindingStatus memKube (bxBinding []) [bxReady ''c1'' phComplete, bxReady ''c2'' [], bxReady ''c3'' phCreating]
     (emptyMem\<lparr>mm_Bindings := [bxBinding []]\<rparr>)
   = (Inr (), emptyMem\<lparr>mm_Bindings := [(bxBinding [])\<lparr>bd_Status :=
        [statusOf ''b'' (bxReady ''c1'' phComplete), statusOf ''b'' (bxReady ''c3'' phCreating)]\<rparr>]\<rparr>)"
proof -
  let ?items = "[bxReady ''c1'' phComplete, bxReady ''c2'' [], bxReady ''c3'' phCreating]"
  have "distinct (map statusKey (filter (\<lambda>cr. rt_Phase (cr_Status cr) \<noteq> []) ?items))" by code_simp
  from first_status [OF this, of "bxBinding []" memKube "emptyMem\<lparr>mm_Bindings := [bxBinding []]\<rparr>"]
  show ?thesis
    by (simp add: bxReady_def bxBinding_def bxMeta_def zeroMeta_def memKube_def memApi_def memUpdateStatus_def
        findObj_def keyOf_def replaceObj_def emptyMem_def writeS_def bindS_def)
qed

text \<open>
  A later change of a cluster resource's status is compared with the last entry of the binding's
  status instead of its own: when it equals that one, the binding keeps the outdated entry.
\<close>

theorem status_compares_with_the_last:
  assumes "rt_Phase (cr_Status cr) \<noteq> []" and "xs \<noteq> []" and "x \<in> set xs"
    and "mapKey (ms_Name x) (ms_Resource x) = statusKey cr"
    and "statusEqual (cr_Status cr) (last xs)"
  shows "updateBindingStatus k (b\<lparr>bd_Status := xs\<rparr>) [cr] s = (Inr (), s)"
proof -
  have "statusKey cr \<in> set (fst (bindingClusterStatusMap xs))"
    using assms(3,4) by (force simp: bindingClusterStatusMap_def)
  then show ?thesis
    using assms(1,2,5) by (simp add: updateBindingStatus_def bindingClusterStatusMap_def statusKey_def)
qed

lemma status_compares_with_the_last_witness:
  "updateBindingStatus memKube ((bxBinding [])\<lparr>bd_Status :=
       [statusOf ''b'' (bxReady ''c1'' phCreating), statusOf ''b'' (bxReady ''c2'' phComplete)]\<rparr>)
     [bxReady ''c1'' phComplete] emptyMem = (Inr (), emptyMem)"
proof (rule status_compares_with_the_last [where x = "statusOf ''b'' (bxReady ''c1'' phCreating)"])
  show "mapKey (ms_Name (statusOf ''b'' (bxReady ''c1'' phCreating)))
          (ms_Resource (statusOf ''b'' (bxReady ''c1'' phCreating))) = statusKey (bxReady ''c1'' phComplete)"
    by code_simp
qed (simp_all add: bxReady_def statusEqual_def statusOf_def)

section \<open>Labels\<close>

text \<open>
  One round of the label protocol is enough: a binding whose labels were just replaced needs no other
  change of its labels, whatever labels it had before.
\<close>

theorem binding_labels_settle: "\<not> shouldChangeBindingLabels (withBindingLabels b)"
proof (cases "bd_Resources b = []")
  case True
  then show ?thesis by (simp add: shouldChangeBindingLabels_def withBindingLabels_def)
next
  case False
  let ?b = "withBindingLabels b"
  have same: "shouldExistLabels ?b = shouldExistLabels b"
    by (simp add: shouldExistLabels_def withBindingLabels_def)
  have eq: "gomap_get (getMultiClusterResourceLabels ?b) k = gomap_get (shouldExistLabels b) k" for k
  proof (cases "strHasPrefix k MultiClusterResourceLabelName")
    case True
    then show ?thesis
      using replaceLabels_get [OF True, of "mapOr (om_Labels (bd_Meta b))" b]
      by (simp add: getMultiClusterResourceLabels_def withBindingLabels_def gomap_get_filter)
  next
    case False
    then show ?thesis
      using shouldExist_prefix [of b k]
      by (cases "gomap_get (shouldExistLabels b) k")
         (auto simp: getMultiClusterResourceLabels_def gomap_get_filter)
  qed
  obtain r where "r \<in> set (bd_Resources b)" using False by (cases "bd_Resources b") auto
  then have "gomap_get (getMultiClusterResourceLabels ?b) (labelFor r) = Some ''1''"
    by (simp add: eq shouldExistLabels_def shouldExist_get)
  then have "getMultiClusterResourceLabels ?b \<noteq> []" by (rule gomap_get_ne)
  then show ?thesis
    using eq by (simp add: shouldChangeBindingLabels_def same gomap_eq_iff fun_eq_iff)
qed

section \<open>Overrides\<close>

text \<open>
  C19: as long as all patches apply, a cluster's resource is the resource with the patches of all overrides
  that name both the resource and the cluster, applied in the order of the listing; an override for
  other resources or clusters changes nothing.
\<close>

theorem override_applies_in_order:
  assumes "api_List (kOverride k) s \<lparr>lo_Namespace = ns, lo_Selector = None\<rparr> = Inr items"
    and "list_all spec_wf items"
  shows "ApplyResourceOverride k s ns c r raw = Inr (patchAll k (patchesFor r c items) raw)"
proof (cases "items = []")
  case True
  then show ?thesis using assms(1) by (simp add: ApplyResourceOverride_def patchesFor_def)
next
  case False
  then show ?thesis using assms(1) applyOverrides_eq [OF assms(2)] by (simp add: ApplyResourceOverride_def)
qed

definition bxOverride :: "string list \<Rightarrow> string list \<Rightarrow> JSONPatch list \<Rightarrow> MultiClusterResourceOverride" where
  "bxOverride rs cs ps = \<lparr>ro_Meta = bxMeta ''ns'' ''o'',
     ro_Spec = Some \<lparr>ov_Resources = Some rs, ov_Clusters = [\<lparr>oc_Names = cs, oc_Overrides = Some ps\<rparr>]\<rparr>\<rparr>"

definition bxPatch :: "string \<Rightarrow> string \<Rightarrow> JSONPatch" where
  "bxPatch op v = \<lparr>jp_Op = op, jp_Value = v, jp_Path = ''/''\<rparr>"

definition bxOverrides :: "MultiClusterResourceOverride list" where
  "bxOverrides = [bxOverride [''web''] [''c1''] [bxPatch ''add'' ''1''],
                  bxOverride [''db''] [''c1''] [bxPatch ''add'' ''2''],
                  bxOverride [''web'', ''db''] [''c2'', ''c1''] [bxPatch ''add'' ''3'']]"

lemma override_applies_in_order_witness:
  "ApplyResourceOverride memKube (emptyMem\<lparr>mm_Overrides := bxOverrides\<rparr>) ''ns'' ''c1'' ''web'' (Some ''x'')
   = Inr (Some ''x13'')"
proof -
  have l: "api_List (kOverride memKube) (emptyMem\<lparr>mm_Overrides := bxOverrides\<rparr>)
      \<lparr>lo_Namespace = ''ns'', lo_Selector = None\<rparr> = Inr bxOverrides" by code_simp
  have w: "list_all spec_wf bxOverrides" by code_simp
  have "patchAll memKube (patchesFor ''web'' ''c1'' bxOverrides) (Some ''x'') = Some ''x13''" by code_simp
  with override_applies_in_order [OF l w, of "''c1''" "''web''" "Some ''x''"] show ?thesis by simp
qed

text \<open>
  An override whose patch fails for an existing cluster resource makes the synchronisation panic: the
  failed patch leaves a nil resource and no error, and the comparison dereferences it.
\<close>

theorem failed_patch_panics:
  assumes "ApplyResourceOverride k s (om_Namespace (bd_Meta b)) (bc_Name c) (br_Name r)
             (rs_Resource (mr_Spec mcr)) = Inr None"
  shows "updateOne k b r c mcr cr s = (Crash NilDereference, s)"
  using assms by (simp add: updateOne_def bindS_def)

lemma failed_patch_panics_witness:
  "updateOne memKube (bxBinding []) (bxBindingResource ''web'' []) \<lparr>bc_Name = ''c1'', bc_Override = []\<rparr>
     (bxResource ''web'' ''v1'') (bxClusterResource ''c1'' ''v1'')
     (emptyMem\<lparr>mm_Overrides := [bxOverride [''web''] [''c1''] [bxPatch ''move'' ''1'']]\<rparr>)
   = (Crash NilDereference,
      emptyMem\<lparr>mm_Overrides := [bxOverride [''web''] [''c1''] [bxPatch ''move'' ''1'']]\<rparr>)"
  by (rule failed_patch_panics) code_simp

text \<open>
  A changed override wakes every binding of its namespace that has a resource and a cluster the
  override names.
\<close>

theorem override_wakes_affected:
  assumes "api_List (kBinding k) s \<lparr>lo_Namespace = om_Namespace (ro_Meta o1), lo_Selector = None\<rparr> = Inr bs"
    and "ro_Spec o1 = Some sp" and "ov_Resources sp = Some names"
    and "b \<in> set bs" and "affects sp b"
  shows "\<exists>queue. NewOverridePolicyFunc k s o1 = Inr queue \<and>
           (om_Namespace (bd_Meta b), om_Name (bd_Meta b)) \<in> set queue"
proof -
  have "bs \<noteq> []" using assms(4) by auto
  then show ?thesis
    using matchBindings_complete [OF assms(3), of bs False] assms
    by (auto simp: NewOverridePolicyFunc_def specOf_def)
qed

lemma override_wakes_affected_witness:
  "\<exists>queue. NewOverridePolicyFunc memKube
       (emptyMem\<lparr>mm_Bindings := [bxBinding [bxBindingResource ''web'' [''c2'', ''c1'']]]\<rparr>)
       (bxOverride [''web''] [''c1''] []) = Inr queue \<and> (''ns'', ''b'') \<in> set queue"
proof -
  let ?b = "bxBinding [bxBindingResource ''web'' [''c2'', ''c1'']]"
  let ?o = "bxOverride [''web''] [''c1''] []"
  have "api_List (kBinding memKube) (emptyMem\<lparr>mm_Bindings := [?b]\<rparr>)
      \<lparr>lo_Namespace = om_Namespace (ro_Meta ?o), lo_Selector = None\<rparr> = Inr [?b]" by code_simp
  moreover have "affects (the (ro_Spec ?o)) ?b" by code_simp
  ultimately have "\<exists>queue. NewOverridePolicyFunc memKube (emptyMem\<lparr>mm_Bindings := [?b]\<rparr>) ?o = Inr queue \<and>
      (om_Namespace (bd_Meta ?b), om_Name (bd_Meta ?b)) \<in> set queue"
    by (intro override_wakes_affected [where names = "[''web'']" and bs = "[?b]"]) (simp_all add: bxOverride_def)
  then show ?thesis by (simp add: bxBinding_def bxMeta_def)
qed

text \<open>
  The flag of the mapping is never reset: after an affected binding, a binding that uses the same
  resource on other clusters only is woken too.
\<close>

theorem override_wakes_unaffected:
  "let o1 = bxOverride [''web''] [''c1''] [];
       b1 = bxBinding [bxBindingResource ''web'' [''c1'']];
       b2 = (bxBinding [bxBindingResource ''web'' [''c9'']])\<lparr>bd_Meta := bxMeta ''ns'' ''b2''\<rparr>
   in \<not> affects (the (ro_Spec o1)) b2 \<and>
      NewOverridePolicyFunc memKube (emptyMem\<lparr>mm_Bindings := [b1, b2]\<rparr>) o1
        = Inr [(''ns'', ''b''), (''ns'', ''b2'')]"
  by code_simp

end
