(* ===== verification/BindingType.thy ===== *)
theory BindingType
  imports ScheduleProps
begin

text \<open>
  The shape of the bindings that the scheduler produces, as a type system: a judgement for the overrides of a
  cluster, one preservation lemma for every operation that writes them, and their composition. Nothing
  is assumed of the policy but that its numbers are Go integers: no bounds, no well-formed failover policy,
  no termination. Whatever binding comes out has the shape.
\<close>

section \<open>The judgements\<close>

definition typed_entry :: "SchedulePolicy \<Rightarrow> bool" where
  "typed_entry p \<longleftrightarrow> in_int64 (sp_Min p) \<and> in_int64 (sp_Max p)"

definition typed_policy :: "MultiClusterResourceSchedulePolicy \<Rightarrow> bool" where
  "typed_policy policy \<longleftrightarrow>
     in_int64 (ps_Replicas (po_Spec policy)) \<and> list_all typed_entry (ps_Policy (po_Spec policy))"

text \<open>A replacement of the replicas field by a 64-bit number, and one of the namespace.\<close>

definition count_patch :: "string \<Rightarrow> JSONPatch list \<Rightarrow> bool" where
  "count_patch field os \<longleftrightarrow>
     (if field = [] then os = []
      else (\<exists>v. in_int64 v \<and> os = [\<lparr>jp_Op = BindingOpReplace, jp_Value = strconvItoa v, jp_Path = field\<rparr>]))"

definition mapping_patch :: "JSONPatch list \<Rightarrow> bool" where
  "mapping_patch os \<longleftrightarrow>
     os = [] \<or> (\<exists>v. os = [\<lparr>jp_Op = BindingOpReplace, jp_Value = v, jp_Path = BindingPathNamespace\<rparr>])"

definition typed_cluster :: "string \<Rightarrow> MultiClusterResourceBindingCluster \<Rightarrow> bool" where
  "typed_cluster field c \<longleftrightarrow> (\<exists>xs ys. bc_Override c = xs @ ys \<and> count_patch field xs \<and> mapping_patch ys)"

text \<open>The replicas field of a resource, empty where there is no such resource.\<close>

definition fieldOf :: "'s kube \<Rightarrow> 's \<Rightarrow> MultiClusterResourceSchedulePolicy \<Rightarrow> string \<Rightarrow> string" where
  "fieldOf k s policy rn =
     (case api_Get (kMultiClusterResource k) s (policyNamespace policy) rn of
        Inl e \<Rightarrow> [] | Inr r \<Rightarrow> rs_ReplicasField (mr_Spec r))"

definition sourceClusters :: "'s kube \<Rightarrow> 's \<Rightarrow> MultiClusterResourceSchedulePolicy \<Rightarrow> string list" where
  "sourceClusters k s policy =
     (if ps_ClusterSource (po_Spec policy) = ClusterSourceTypeClusterset
      then (case api_Get (kClusterSet k) s [] (ps_Clusterset (po_Spec policy)) of
              Inl e \<Rightarrow> [] | Inr clusterSet \<Rightarrow> getClusterListByClusterSet k s clusterSet)
      else map sp_Name (ps_Policy (po_Spec policy)))"

text \<open>
  The clusters of a resource against those of the source, position by position: an available cluster is taken
  over, an unavailable one is replaced by a cluster that the failover policy offers.
\<close>

definition placed ::
  "'s kube \<Rightarrow> 's \<Rightarrow> ScheduleFailoverPolicy list \<Rightarrow> string list \<Rightarrow> string list \<Rightarrow> bool" where
  "placed k s fo names names' \<longleftrightarrow>
     list_all2 (\<lambda>n n'. if up k s n then n' = n else n' \<in> set (candidates k s fo)) names names'"

definition typed_binding ::
  "'s kube \<Rightarrow> 's \<Rightarrow> MultiClusterResourceSchedulePolicy \<Rightarrow> MultiClusterResourceBinding \<Rightarrow> bool" where
  "typed_binding k s policy b \<longleftrightarrow>
     b = (addBindingMeta k policy)\<lparr>bd_Resources := bd_Resources b\<rparr> \<and>
     map br_Name (bd_Resources b) = map pr_Name (ps_Resources (po_Spec policy)) \<and>
     list_all (\<lambda>r. br_Namespace r = [] \<and> placed k s (ps_FailoverPolicy (po_Spec policy)) (sourceClusters k s policy) (map bc_Name (br_Clusters r)) \<and>
                   list_all (typed_cluster (fieldOf k s policy (br_Name r))) (br_Clusters r))
       (bd_Resources b)"

section \<open>Counts\<close>

text \<open>Clusters whose overrides have the shape and whose names have a property.\<close>

definition typed_clusters :: "string \<Rightarrow> (string list \<Rightarrow> bool) \<Rightarrow> MultiClusterResourceBindingCluster list \<Rightarrow> bool" where
  "typed_clusters field n cs \<longleftrightarrow> list_all (typed_cluster field) cs \<and> n (map bc_Name cs)"

lemma setReplicas_names: "map bc_Name (setReplicas cs j v) = map bc_Name cs"
  by (cases "j < length cs") (auto simp: setReplicas_def nth_list_update intro: nth_equalityI)

lemma setReplicas_typed:
  assumes "typed_clusters field n cs" and "readReplicas cs j = Inr x" and v: "in_int64 v"
  shows "typed_clusters field n (setReplicas cs j v)"
proof -
  let ?c = "cs ! j"
  have j: "j < length cs" and ne: "bc_Override ?c \<noteq> []"
    using assms(2) by (auto simp: readReplicas_def idx_def bindR_Inr_iff split: if_splits)
  then have "typed_cluster field ?c" using assms(1) by (simp add: typed_clusters_def list_all_length)
  then obtain xs ys where o1: "bc_Override ?c = xs @ ys" "count_patch field xs" "mapping_patch ys"
    by (auto simp: typed_cluster_def)
  have "typed_cluster field (?c\<lparr>bc_Override := (bc_Override ?c)[0 := (bc_Override ?c ! 0)\<lparr>jp_Value := strconvItoa v\<rparr>]\<rparr>)"
  proof (cases "field = []")
    case True
    then obtain w where "ys = [\<lparr>jp_Op = BindingOpReplace, jp_Value = w, jp_Path = BindingPathNamespace\<rparr>]" "xs = []"
      using o1 ne by (auto simp: count_patch_def mapping_patch_def)
    with o1 True show ?thesis by (simp add: typed_cluster_def count_patch_def mapping_patch_def)
  next
    case False
    then obtain w where xs: "xs = [\<lparr>jp_Op = BindingOpReplace, jp_Value = strconvItoa w, jp_Path = field\<rparr>]"
      using o1 by (auto simp: count_patch_def)
    show ?thesis unfolding typed_cluster_def
    proof (intro exI conjI)
      show "count_patch field [\<lparr>jp_Op = BindingOpReplace, jp_Value = strconvItoa v, jp_Path = field\<rparr>]"
        using False v by (auto simp: count_patch_def)
      show "mapping_patch ys" by fact
    qed (simp add: o1 xs)
  qed
  with assms(1) show ?thesis
    using set_update_subset_insert [of cs j] setReplicas_names [of cs j v]
    by (fastforce simp: typed_clusters_def setReplicas_def list_all_iff)
qed

lemma in_int64_zero: "in_int64 0" by (simp add: in_int64_def)

lemma fillOne_typed:
  assumes "fillOne d f j p (cs, a) = Inr (cs', a')" and "typed_entry p" and "typed_clusters field n cs"
  shows "typed_clusters field n cs'"
proof -
  obtain x where x: "readReplicas cs j = Inr x" using assms(1) by (auto simp: fillOne_def bindR_Inr_iff)
  have tv: "in_int64 v \<Longrightarrow> typed_clusters field n (setReplicas cs j v)" for v
    by (rule setReplicas_typed [OF assms(3) x])
  show ?thesis
    using assms x
    by (auto simp: fillOne_def typed_entry_def addI_def subI_def Let_def in_int64_zero tv split: if_splits)
qed

lemma weightStep_typed:
  assumes "weightStep d j p (cs, a, so) = Inr (ret, cs', a', so')" and "typed_clusters field n cs"
  shows "typed_clusters field n cs'"
  using assms setReplicas_typed [OF assms(2)]
  by (auto simp: weightStep_def bindR_Inr_iff addI_def subI_def Let_def split: if_splits)

lemma weightPass_typed:
  "weightPass d j ps (cs, a, so) = Inr (ret, cs', a', so') \<Longrightarrow> typed_clusters field n cs \<Longrightarrow> typed_clusters field n cs'"
proof (induction ps arbitrary: j cs a so)
  case (Cons p ps)
  obtain r1 cs1 a1 so1 where s1: "weightStep d j p (cs, a, so) = Inr (r1, cs1, a1, so1)"
      "(if r1 then Inr (True, cs1, a1, so1) else weightPass d (Suc j) ps (cs1, a1, so1)) = Inr (ret, cs', a', so')"
    using Cons.prems(1) by (auto simp: bindR_Inr_iff)
  from weightStep_typed [OF s1(1) Cons.prems(2)] s1(2) Cons.IH [of "Suc j" cs1 a1 so1] show ?case
    by (auto split: if_splits)
qed simp

lemma weightLoop_typed:
  "weightLoop d ps st = Some r \<Longrightarrow> r = Inr cs' \<Longrightarrow> typed_clusters field n (fst st) \<Longrightarrow> typed_clusters field n cs'"
proof (induction d ps st r rule: weightLoop.raw_induct [rotated, consumes 1, case_names step])
  case (step rec d ps st r)
  obtain cs a so where st: "st = (cs, a, so)" by (cases st)
  show ?case
  proof (cases "a = 0")
    case True
    then show ?thesis using step by (simp add: st)
  next
    case False
    with step(2) step(3) obtain q where p: "weightPass d 0 ps (cs, a, so) = Inr q"
         "(if fst q then Some (Inr (fst (snd q))) else rec d ps (snd q)) = Some (Inr cs')"
      by (cases "weightPass d 0 ps (cs, a, so)") (simp_all add: st)
    have t: "typed_clusters field n (fst (snd q))"
      using weightPass_typed [of d 0 ps cs a so "fst q" "fst (snd q)" "fst (snd (snd q))" "snd (snd (snd q))" field n] p(1) step(4)
      by (simp add: st)
    show ?thesis
    proof (cases "fst q")
      case True
      with p(2) t show ?thesis by simp
    next
      case False
      with p(2) step(1) [of d ps "snd q" "Inr cs'"] t show ?thesis by simp
    qed
  qed
qed


lemma roleStep_typed:
  assumes "roleStep d ps j c (cs, a, so) = Inr (ret, cs', a', so')" and "typed_clusters field n cs"
  shows "typed_clusters field n cs'"
  using assms setReplicas_typed [OF assms(2)]
  by (auto simp: roleStep_def bindR_Inr_iff addI_def subI_def Let_def split: if_splits)

lemma rolePass_typed:
  "rolePass d ps j ts (cs, a, so) = Inr (ret, cs', a', so') \<Longrightarrow> typed_clusters field n cs \<Longrightarrow> typed_clusters field n cs'"
proof (induction ts arbitrary: j cs a so)
  case (Cons t ts)
  obtain r1 cs1 a1 so1 where s1: "roleStep d ps j t (cs, a, so) = Inr (r1, cs1, a1, so1)"
      "(if r1 then Inr (True, cs1, a1, so1) else rolePass d ps (Suc j) ts (cs1, a1, so1)) = Inr (ret, cs', a', so')"
    using Cons.prems(1) by (auto simp: bindR_Inr_iff)
  from roleStep_typed [OF s1(1) Cons.prems(2)] s1(2) Cons.IH [of "Suc j" cs1 a1 so1] show ?case
    by (auto split: if_splits)
qed simp

lemma roleLoop_typed:
  "roleLoop d ps targets st = Some r \<Longrightarrow> r = Inr cs' \<Longrightarrow> typed_clusters field n (fst st) \<Longrightarrow> typed_clusters field n cs'"
proof (induction d ps targets st r rule: roleLoop.raw_induct [rotated, consumes 1, case_names step])
  case (step rec d ps targets st r)
  obtain cs a so where st: "st = (cs, a, so)" by (cases st)
  show ?case
  proof (cases "a = 0")
    case True
    then show ?thesis using step by (simp add: st)
  next
    case False
    with step(2) step(3) obtain q where p: "rolePass d ps 0 targets (cs, a, nextIndex so) = Inr q"
         "(if fst q then Some (Inr (fst (snd q))) else rec d ps targets (snd q)) = Some (Inr cs')"
      by (cases "rolePass d ps 0 targets (cs, a, nextIndex so)") (simp_all add: st)
    have t: "typed_clusters field n (fst (snd q))"
      using rolePass_typed [of d ps 0 targets cs a "nextIndex so" "fst q" "fst (snd q)" "fst (snd (snd q))" "snd (snd (snd q))" field n] p(1) step(4)
      by (simp add: st)
    show ?thesis
    proof (cases "fst q")
      case True
      with p(2) t show ?thesis by simp
    next
      case False
      with p(2) step(1) [of d ps targets "snd q" "Inr cs'"] t show ?thesis by simp
    qed
  qed
qed

text \<open>Both second splits: a loop that fills, and the loop that hands out the rest.\<close>

lemma fill_typed:
  assumes "forRange (\<lambda>j q. fillOne d f j (entry q)) 0 qs (cs, a) = Inr (cs', a')"
    and "\<And>q. q \<in> set qs \<Longrightarrow> typed_entry (entry q)" and "typed_clusters field n cs"
  shows "typed_clusters field n cs'"
proof -
  have "typed_clusters field n (fst (cs', a'))"
  proof (rule forRange_inv [OF assms(1), where I = "\<lambda>_ st. typed_clusters field n (fst st)"])
    fix i st st' assume i: "i < 0 + length qs" "typed_clusters field n (fst st)"
      and s: "fillOne d f i (entry (qs ! (i - 0))) st = Inr st'"
    obtain c b where st: "st = (c, b)" by (cases st)
    obtain c' b' where st': "st' = (c', b')" by (cases st')
    have "typed_entry (entry (qs ! i))" using assms(2) i(1) by simp
    with fillOne_typed [of d f i "entry (qs ! i)" c b c' b' field n] s i(2) show "typed_clusters field n (fst st')"
      by (simp add: st st')
  qed (use assms(3) in simp)
  then show ?thesis by simp
qed

lemma replaceReplicasByWeight_typed:
  assumes "replaceReplicasByWeight policy cs d so = Inr cs'" and "typed_policy policy" and "typed_clusters field n cs"
  shows "typed_clusters field n cs'"
proof -
  obtain f a cs1 a1 where r: "forRange (fillOne d f) 0 (ps_Policy (po_Spec policy)) (cs, a) = Inr (cs1, a1)"
      "returned (weightLoop d (ps_Policy (po_Spec policy)) (cs1, a1, so)) = Inr cs'"
    using assms(1) by (auto simp: replaceReplicasByWeight_def bindR_Inr_iff)
  have "typed_clusters field n cs1"
    using fill_typed [of d f "\<lambda>q. q"] r(1) assms(2,3) by (auto simp: typed_policy_def list_all_iff)
  moreover have "weightLoop d (ps_Policy (po_Spec policy)) (cs1, a1, so) = Some (Inr cs')"
    using r(2) by (auto simp: returned_def split: option.splits)
  ultimately show ?thesis using weightLoop_typed [of _ _ "(cs1, a1, so)" "Inr cs'"] by simp
qed

lemma typed_orZero:
  assumes "list_all typed_entry entries"
  shows "typed_entry (orZero (instanceOfCluster targets entries name))"
proof -
  have "typed_entry (orZero (instanceOfRole es role))" if "list_all typed_entry es" for es role
    using that by (induction es) (auto simp: orZero_def typed_entry_def zeroSchedulePolicy_def in_int64_zero)
  with assms show ?thesis
    by (induction targets) (auto simp: orZero_def typed_entry_def zeroSchedulePolicy_def in_int64_zero)
qed

lemma replaceReplicasByClusterRole_typed:
  assumes "replaceReplicasByClusterRole k s policy cs d so clusterSet = Inr cs'" and "typed_policy policy"
    and "typed_clusters field n cs"
  shows "typed_clusters field n cs'"
proof -
  let ?e = "ps_Policy (po_Spec policy)" and ?t = "se_Clusters (cs_Spec clusterSet)"
  obtain f a cs1 a1 where r:
      "forRange (\<lambda>j name. fillOne d f j (orZero (instanceOfCluster ?t ?e name))) 0
         (getClusterListByClusterSet k s clusterSet) (cs, a) = Inr (cs1, a1)"
      "returned (roleLoop d ?e ?t (cs1, a1, so\<lparr>so_Index := - 1\<rparr>)) = Inr cs'"
    using assms(1) by (auto simp: replaceReplicasByClusterRole_def bindR_Inr_iff Let_def)
  have "typed_clusters field n cs1"
    by (rule fill_typed [OF r(1) _ assms(3)]) (use typed_orZero assms(2) in \<open>auto simp: typed_policy_def\<close>)
  moreover have "roleLoop d ?e ?t (cs1, a1, so\<lparr>so_Index := - 1\<rparr>) = Some (Inr cs')"
    using r(2) by (auto simp: returned_def split: option.splits)
  ultimately show ?thesis using roleLoop_typed [of _ _ _ "(cs1, a1, so\<lparr>so_Index := - 1\<rparr>)" "Inr cs'"] by simp
qed

section \<open>The clusters of a resource\<close>

lemma failoverStep_offers:
  assumes "failoverStep k s fo unavail cs ix = Inl (Inr (ix', cs'))"
  shows "\<exists>name\<in>set (candidates k s fo). cs' = cs @ [bindingCluster name] \<and> fi_DoneIndex ix' = Suc (fi_DoneIndex ix)"
proof -
  obtain p where p: "idx fo (fi_FailoverIndex ix) = Inr p"
    using assms by (auto simp: failoverStep_def split: sum.splits)
  have "\<exists>name. cs' = cs @ [bindingCluster name] \<and> name \<in> set (offers k s p) \<and> fi_DoneIndex ix' = Suc (fi_DoneIndex ix)"
  proof (cases "fo_Type p = ClusterTypeClusters")
    case True
    then show ?thesis using assms by (auto simp: failoverStep_def p offers_def split: sum.splits if_splits)
  next
    case False
    then obtain clusterSet c where cs: "fo_Type p = ClusterTypeClusterSet" "api_Get (kClusterSet k) s [] (fo_Name p) = Inr clusterSet"
        "idx (getClusterListByClusterSet k s clusterSet) (fi_ClusterSetIndex ix) = Inr c"
      using assms by (auto simp: failoverStep_def p bindR_Inr_iff Let_def split: sum.splits if_splits)
    then have "c \<in> set (getClusterListByClusterSet k s clusterSet)" by (auto simp: idx_def split: if_splits)
    then show ?thesis
      using assms False cs by (auto simp: failoverStep_def p Let_def offers_def split: sum.splits if_splits)
  qed
  moreover have "p \<in> set fo" using p by (auto simp: idx_def split: if_splits)
  ultimately show ?thesis by (auto simp: candidates_def)
qed

lemma failoverStep_again:
  "failoverStep k s fo unavail cs ix = Inr ix' \<Longrightarrow> fi_DoneIndex ix' = fi_DoneIndex ix"
  by (auto simp: failoverStep_def nextUnavailable_def Let_def split: sum.splits if_splits)

lemma doFailoverPolicy_appends:
  assumes "doFailoverPolicy k s fo unavail cs ix = Some (Inr (ix', cs'))"
  shows "\<exists>name\<in>set (candidates k s fo). cs' = cs @ [bindingCluster name] \<and> fi_DoneIndex ix' = Suc (fi_DoneIndex ix)"
proof -
  have "r = Inr (ix', cs') \<Longrightarrow> ?thesis" if "doFailoverPolicy k s fo unavail cs ix = Some r" for r
    using that
  proof (induction k s fo unavail cs ix r rule: doFailoverPolicy.raw_induct [rotated, consumes 1, case_names step])
    case (step rec k s fo unavail cs ix r)
    show ?case
    proof (cases "failoverStep k s fo unavail cs ix")
      case (Inl x)
      with step(2,3) failoverStep_offers [of k s fo unavail cs ix] show ?thesis by simp
    next
      case (Inr ix1)
      with step failoverStep_again [OF Inr] show ?thesis by simp
    qed
  qed
  with assms show ?thesis by blast
qed

text \<open>What one position gets, when as many failures are done as there are before it.\<close>

lemma placeCluster_places:
  assumes run: "placeCluster k s fails fo unavail j (names ! j) (ix, cs) = Inr (ix', cs')" and j: "j < length names"
    and fails: "fails = filter (\<lambda>i. \<not> up k s (names ! i)) [0..<length names]"
    and at: "fi_DoneIndex ix = length (filter (\<lambda>c. \<not> up k s c) (take j names))"
  shows "\<exists>n. cs' = cs @ [bindingCluster n] \<and> (if up k s (names ! j) then n = names ! j else n \<in> set (candidates k s fo)) \<and>
           fi_DoneIndex ix' = length (filter (\<lambda>c. \<not> up k s c) (take (Suc j) names))"
proof -
  have hit: "(fi_DoneIndex ix < length fails \<and> j = fails ! fi_DoneIndex ix) \<longleftrightarrow> \<not> up k s (names ! j)"
    using failIndex_hit [OF j, of "up k s"] unfolding fails at .
  have take: "take (Suc j) names = take j names @ [names ! j]" using j by (rule take_Suc_conv_app_nth)
  show ?thesis
  proof (cases "up k s (names ! j)")
    case True
    then have "placeCluster k s fails fo unavail j (names ! j) (ix, cs) = Inr (ix, cs @ [bindingCluster (names ! j)])"
      using hit by (auto simp: placeCluster_def)
    with run True at take show ?thesis by simp
  next
    case False
    with hit have at': "fi_DoneIndex ix < length fails" "j = fails ! fi_DoneIndex ix" by simp_all
    then have "fails \<noteq> []" by auto
    with at' run have "returned (doFailoverPolicy k s fo unavail cs ix) = Inr (ix', cs')" by (simp add: placeCluster_def)
    then have "doFailoverPolicy k s fo unavail cs ix = Some (Inr (ix', cs'))" by (auto simp: returned_def split: option.splits)
    from doFailoverPolicy_appends [OF this] False at take show ?thesis by auto
  qed
qed

lemma clustersLoop_typed:
  fixes f :: "'p \<Rightarrow> 'm \<Rightarrow> MultiClusterResourceBindingCluster \<Rightarrow> ('m \<times> MultiClusterResourceBindingCluster) res"
  assumes run: "clustersLoop k s policy fails unavail nameOf f qs model = Inr (model', cs)"
    and f: "\<And>q m n m' c. q \<in> set qs \<Longrightarrow> f q m (bindingCluster n) = Inr (m', c) \<Longrightarrow> M m \<Longrightarrow>
              typed_cluster field c \<and> bc_Name c = n \<and> M m'"
    and M: "M model" and fails: "fails = filter (\<lambda>i. \<not> up k s (map nameOf qs ! i)) [0..<length (map nameOf qs)]"
  shows "typed_clusters field (placed k s (ps_FailoverPolicy (po_Spec policy)) (map nameOf qs)) cs"
proof -
  let ?names = "map nameOf qs" and ?fo = "ps_FailoverPolicy (po_Spec policy)"
  define I where "I j st \<longleftrightarrow> (case st of (ix, m, cs) \<Rightarrow> M m \<and> typed_clusters field (placed k s ?fo (take j ?names)) cs \<and>
      fi_DoneIndex ix = length (filter (\<lambda>c. \<not> up k s c) (take j ?names)))"
    for j and st :: "FailoverPolicyIndex \<times> 'm \<times> MultiClusterResourceBindingCluster list"
  obtain st where st: "forRange (clusterStep k s policy fails unavail nameOf f) 0 qs (zeroIndex, model, []) = Inr st"
      "snd (snd st) = cs"
    using run by (auto simp: clustersLoop_def bindR_Inr_iff)
  have "I (0 + length qs) st"
  proof (rule forRange_inv [OF st(1)])
    show "I 0 (zeroIndex, model, [])" using M by (simp add: I_def typed_clusters_def placed_def zeroIndex_def)
    fix j a b assume j: "j < 0 + length qs" and inv: "I j a" and s: "clusterStep k s policy fails unavail nameOf f j (qs ! (j - 0)) a = Inr b"
    obtain ix m cs where a: "a = (ix, m, cs)" by (cases a)
    obtain ix' cs1 m' c where p: "placeCluster k s fails (ps_FailoverPolicy (po_Spec policy)) unavail j (nameOf (qs ! j)) (ix, cs)
          = Inr (ix', cs1)" "j < length cs1" "f (qs ! j) m (cs1 ! j) = Inr (m', c)" "b = (ix', m', cs1[j := c])"
      using s by (auto simp: clusterStep_def a bindR_Inr_iff idx_def split: if_splits)
    have at: "fi_DoneIndex ix = length (filter (\<lambda>c. \<not> up k s c) (take j ?names))" and M1: "M m"
      and old: "list_all (typed_cluster field) cs" "placed k s ?fo (take j ?names) (map bc_Name cs)"
      using inv by (simp_all add: I_def a typed_clusters_def)
    have jn: "j < length ?names" "?names ! j = nameOf (qs ! j)" using j by simp_all
    from placeCluster_places [OF p(1) [folded jn(2)] jn(1) fails at] obtain n where cs1: "cs1 = cs @ [bindingCluster n]"
      and n: "if up k s (?names ! j) then n = ?names ! j else n \<in> set (candidates k s ?fo)"
        "fi_DoneIndex ix' = length (filter (\<lambda>c. \<not> up k s c) (take (Suc j) ?names))" by blast
    have len: "length cs = j" using old(2) jn(1) by (auto simp: placed_def dest!: list_all2_lengthD)
    have c: "typed_cluster field c" "bc_Name c = n" "M m'"
      using f [of "qs ! j" m n m' c] p(3) j M1 by (simp_all add: cs1 len [symmetric])
    have "placed k s ?fo (take (Suc j) ?names) (map bc_Name (cs @ [c]))"
      using old(2) n(1) c(2) jn(1) by (simp add: placed_def take_Suc_conv_app_nth list_all2_appendI)
    with c old(1) n(2) len show "I (Suc j) b"
      by (simp add: I_def p(4) cs1 typed_clusters_def list_update_append)
  qed
  with st(2) show ?thesis by (auto simp: I_def split: prod.splits)
qed


section \<open>What is written into a cluster\<close>

lemma count_patch_simps [simp]:
  "count_patch [] os \<longleftrightarrow> os = []"
  "field \<noteq> [] \<Longrightarrow> in_int64 v \<Longrightarrow>
     count_patch field [\<lparr>jp_Op = BindingOpReplace, jp_Value = strconvItoa v, jp_Path = field\<rparr>]"
  by (auto simp: count_patch_def)

lemma mapping_typed:
  assumes "checkNamespaceMapping k s policy name c = Inr c'" and "count_patch field (bc_Override c)"
  shows "typed_cluster field c' \<and> bc_Name c' = bc_Name c"
proof -
  have "bc_Name c' = bc_Name c \<and> (\<exists>ys. bc_Override c' = bc_Override c @ ys \<and> mapping_patch ys)"
    using assms(1)
    by (auto simp: checkNamespaceMapping_def bindR_Inr_iff appendOverride_def mapping_patch_def Let_def split: option.splits)
  with assms(2) show ?thesis unfolding typed_cluster_def by metis
qed

lemma duplicateOverrides_typed:
  assumes "duplicateOverrides k s policy rn name (bindingCluster n) = Inr c" and "typed_policy policy"
  shows "typed_cluster (fieldOf k s policy rn) c \<and> bc_Name c = n"
proof -
  obtain c1 where c1: "replaceResourceReplicasField k s policy rn (bindingCluster n) = Inr c1"
      "checkNamespaceMapping k s policy name c1 = Inr c"
    using assms(1) by (auto simp: duplicateOverrides_def bindR_Inr_iff)
  have "count_patch (fieldOf k s policy rn) (bc_Override c1) \<and> bc_Name c1 = n"
    using c1(1) assms(2)
    by (auto simp: replaceResourceReplicasField_def bindR_Inr_iff fieldOf_def appendOverride_def
        bindingCluster_def typed_policy_def split: if_splits)
  with mapping_typed [OF c1(2)] show ?thesis by auto
qed

lemma shareOf_int64 [simp]: "in_int64 (shareOf a b c)" by (simp add: shareOf_def)

lemma weightOverrides_typed:
  assumes "weightOverrides k s policy p m (bindingCluster n) = Inr (m', c)" and "typed_entry p"
    and "fm_ResourceName m = rn"
  shows "typed_cluster (fieldOf k s policy rn) c \<and> bc_Name c = n \<and> fm_ResourceName m' = rn"
proof -
  obtain m1 c1 where c1: "firstReplaceReplicasByWeight k s policy p m (bindingCluster n) = Inr (m1, c1)"
      "checkNamespaceMapping k s policy (sp_Name p) c1 = Inr c" "m' = m1"
    using assms(1) by (auto simp: weightOverrides_def withoutModel_def bindR_Inr_iff)
  have "count_patch (fieldOf k s policy rn) (bc_Override c1) \<and> bc_Name c1 = n \<and> fm_ResourceName m1 = rn"
    using c1(1) assms(2,3)
    by (auto simp: firstReplaceReplicasByWeight_def bindR_Inr_iff fieldOf_def appendOverride_def
        bindingCluster_def typed_entry_def Let_def split: if_splits)
  with mapping_typed [OF c1(2)] c1(3) show ?thesis by auto
qed

text \<open>With roles an unreadable resource leaves the cluster without a count, and has no field here.\<close>

lemma roleOverrides_typed:
  assumes "roleOverrides k s policy clusterSet name m (bindingCluster n) = Inr (m', c)" and "typed_policy policy"
    and "fm_ResourceName m = rn"
  shows "typed_cluster (fieldOf k s policy rn) c \<and> bc_Name c = n \<and> fm_ResourceName m' = rn"
proof -
  let ?r = "case firstReplaceReplicasByClusterRole k s policy clusterSet name m (bindingCluster n) of
      Inl e \<Rightarrow> (m, bindingCluster n) | Inr r \<Rightarrow> r"
  have c: "checkNamespaceMapping k s policy name (snd ?r) = Inr c" "m' = fst ?r"
    using assms(1) by (auto simp: roleOverrides_def withoutModel_def bindR_Inr_iff split: prod.splits)
  have e: "typed_entry (orZero (instanceOfCluster (se_Clusters (cs_Spec clusterSet)) (ps_Policy (po_Spec policy)) name))"
    using typed_orZero assms(2) by (simp add: typed_policy_def)
  have "count_patch (fieldOf k s policy rn) (bc_Override (snd ?r)) \<and> bc_Name (snd ?r) = n \<and> fm_ResourceName (fst ?r) = rn"
    using e assms(3)
    by (auto simp: firstReplaceReplicasByClusterRole_def fieldOf_def appendOverride_def
        bindingCluster_def typed_entry_def Let_def in_int64_zero split: if_splits sum.splits option.splits)
  with mapping_typed [OF c(1)] c(2) show ?thesis by auto
qed


section \<open>The generators\<close>

lemma forResources_typed:
  assumes run: "forResources k policy f = Inr b"
    and f: "\<And>rn cs. f rn = Inr cs \<Longrightarrow> typed_clusters (fieldOf k s policy rn) (placed k s (ps_FailoverPolicy (po_Spec policy)) (sourceClusters k s policy)) cs"
  shows "typed_binding k s policy b"
proof -
  let ?ok = "\<lambda>r. br_Namespace r = [] \<and>
      placed k s (ps_FailoverPolicy (po_Spec policy)) (sourceClusters k s policy) (map bc_Name (br_Clusters r)) \<and>
      list_all (typed_cluster (fieldOf k s policy (br_Name r))) (br_Clusters r)"
  let ?qs = "ps_Resources (po_Spec policy)"
  define I where "I j rs \<longleftrightarrow> map br_Name rs = map pr_Name (take j ?qs) \<and> list_all ?ok rs"
    for j and rs :: "MultiClusterResourceBindingResource list"
  obtain rs where rs: "forRange (\<lambda>i r rs. bindR (f (pr_Name r)) (\<lambda>clusters.
        Inr (rs @ [\<lparr>br_Name = pr_Name r, br_Namespace = [], br_Clusters = clusters\<rparr>]))) 0 ?qs [] = Inr rs"
      "b = (addBindingMeta k policy)\<lparr>bd_Resources := rs\<rparr>"
    using run by (auto simp: forResources_def bindR_Inr_iff)
  have "I (0 + length ?qs) rs"
  proof (rule forRange_inv [OF rs(1)])
    show "I 0 []" by (simp add: I_def)
    fix j a c assume j: "j < 0 + length ?qs" and inv: "I j a" and s: "bindR (f (pr_Name (?qs ! (j - 0)))) (\<lambda>clusters.
        Inr (a @ [\<lparr>br_Name = pr_Name (?qs ! (j - 0)), br_Namespace = [], br_Clusters = clusters\<rparr>])) = Inr c"
    obtain cs where cs: "f (pr_Name (?qs ! j)) = Inr cs"
        "c = a @ [\<lparr>br_Name = pr_Name (?qs ! j), br_Namespace = [], br_Clusters = cs\<rparr>]"
      using s by (auto simp: bindR_Inr_iff)
    from f [OF cs(1)] inv j show "I (Suc j) c"
      by (simp add: I_def cs(2) typed_clusters_def take_Suc_conv_app_nth)
  qed
  then show ?thesis by (simp add: typed_binding_def rs(2) I_def)
qed

lemma duplicated_typed:
  assumes "forResources k policy (\<lambda>rn. bindR (clustersLoop k s policy fails unavail nameOf
             (\<lambda>q. withoutModel (duplicateOverrides k s policy rn (nameOf q))) qs ()) (\<lambda>(_, cs). Inr cs)) = Inr b"
    and p: "typed_policy policy" and src: "sourceClusters k s policy = map nameOf qs"
    and fails: "fails = filter (\<lambda>i. \<not> up k s (sourceClusters k s policy ! i)) [0..<length (sourceClusters k s policy)]"
  shows "typed_binding k s policy b"
proof (rule forResources_typed [OF assms(1)])
  fix rn cs
  assume "bindR (clustersLoop k s policy fails unavail nameOf
             (\<lambda>q. withoutModel (duplicateOverrides k s policy rn (nameOf q))) qs ()) (\<lambda>(_, cs). Inr cs) = Inr cs"
  then obtain u where u: "clustersLoop k s policy fails unavail nameOf
      (\<lambda>q. withoutModel (duplicateOverrides k s policy rn (nameOf q))) qs () = Inr (u, cs)"
    by (auto simp: bindR_Inr_iff)
  show "typed_clusters (fieldOf k s policy rn) (placed k s (ps_FailoverPolicy (po_Spec policy)) (sourceClusters k s policy)) cs"
    unfolding src
    by (rule clustersLoop_typed [OF u, where M = "\<lambda>_. True"])
       (use fails src in \<open>auto simp: withoutModel_def bindR_Inr_iff dest: duplicateOverrides_typed [OF _ p]\<close>)
qed

lemma weighted_typed:
  assumes "generateBindingByWeighted k s policy fails unavail = Inr b" and p: "typed_policy policy"
    and src: "sourceClusters k s policy = map sp_Name (ps_Policy (po_Spec policy))"
    and fails: "fails = filter (\<lambda>i. \<not> up k s (sourceClusters k s policy ! i)) [0..<length (sourceClusters k s policy)]"
  shows "typed_binding k s policy b"
proof (rule forResources_typed [OF assms(1) [unfolded generateBindingByWeighted_def]])
  fix rn cs assume run: "weightedClusters k s policy fails unavail rn = Inr cs"
  obtain tw diff where cw: "calculateWeight policy = (tw, diff)" by (cases "calculateWeight policy")
  let ?ps = "ps_Policy (po_Spec policy)"
  obtain m cs1 where loop: "clustersLoop k s policy fails unavail sp_Name (weightOverrides k s policy) ?ps
        \<lparr>fm_ResourceName = rn, fm_TotalWeight = tw, fm_DiffReplicas = diff\<rparr> = Inr (m, cs1)"
      "(if fm_DiffReplicas m \<noteq> 0 then replaceReplicasByWeight policy cs1 (fm_DiffReplicas m) (doSortPolicyList policy)
        else Inr cs1) = Inr cs"
    using run by (auto simp: weightedClusters_def cw bindR_Inr_iff)
  have "typed_clusters (fieldOf k s policy rn) (placed k s (ps_FailoverPolicy (po_Spec policy)) (sourceClusters k s policy)) cs1"
    unfolding src
    by (rule clustersLoop_typed [OF loop(1), where M = "\<lambda>m. fm_ResourceName m = rn"])
       (use p fails src in \<open>auto simp: typed_policy_def list_all_iff dest: weightOverrides_typed\<close>)
  with loop(2) replaceReplicasByWeight_typed [OF _ p]
  show "typed_clusters (fieldOf k s policy rn) (placed k s (ps_FailoverPolicy (po_Spec policy)) (sourceClusters k s policy)) cs"
    by (auto split: if_splits)
qed

lemma role_typed:
  assumes "generateBindingByClusterRole k s policy clusterSet fails unavail = Inr b" and p: "typed_policy policy"
    and src: "sourceClusters k s policy = getClusterListByClusterSet k s clusterSet"
    and fails: "fails = filter (\<lambda>i. \<not> up k s (sourceClusters k s policy ! i)) [0..<length (sourceClusters k s policy)]"
  shows "typed_binding k s policy b"
proof -
  obtain tw diff where cw: "calculateWeightByRole policy clusterSet = (tw, diff)"
    by (cases "calculateWeightByRole policy clusterSet")
  let ?qs = "getClusterListByClusterSet k s clusterSet"
  show ?thesis
  proof (rule forResources_typed [OF assms(1) [unfolded generateBindingByClusterRole_def cw prod.case]])
    fix rn cs
    assume "bindR (clustersLoop k s policy fails unavail (\<lambda>c. c) (roleOverrides k s policy clusterSet) ?qs
        \<lparr>fm_ResourceName = rn, fm_TotalWeight = tw, fm_DiffReplicas = diff\<rparr>)
      (\<lambda>(model, clusters).
         if fm_DiffReplicas model \<noteq> 0
         then replaceReplicasByClusterRole k s policy clusters (fm_DiffReplicas model) (doSortPolicyList policy) clusterSet
         else Inr clusters) = Inr cs"
    then obtain m cs1 where loop: "clustersLoop k s policy fails unavail (\<lambda>c. c) (roleOverrides k s policy clusterSet) ?qs
          \<lparr>fm_ResourceName = rn, fm_TotalWeight = tw, fm_DiffReplicas = diff\<rparr> = Inr (m, cs1)"
        "(if fm_DiffReplicas m \<noteq> 0 then replaceReplicasByClusterRole k s policy cs1 (fm_DiffReplicas m)
            (doSortPolicyList policy) clusterSet else Inr cs1) = Inr cs"
      by (auto simp: bindR_Inr_iff)
    have "typed_clusters (fieldOf k s policy rn) (placed k s (ps_FailoverPolicy (po_Spec policy)) (sourceClusters k s policy)) cs1"
      by (rule clustersLoop_typed [OF loop(1), where M = "\<lambda>m. fm_ResourceName m = rn", unfolded map_ident, folded src])
         (use fails in \<open>auto dest: roleOverrides_typed [OF _ p]\<close>)
    with loop(2) replaceReplicasByClusterRole_typed [OF _ p]
    show "typed_clusters (fieldOf k s policy rn) (placed k s (ps_FailoverPolicy (po_Spec policy)) (sourceClusters k s policy)) cs"
      by (auto split: if_splits)
  qed
qed

text \<open>The positions that the check of the clusters reports are those of the unavailable ones.\<close>

lemma checkClusters_fails:
  assumes "checkClusters k s policy = Inr (fails, unavail)"
  shows "fails = filter (\<lambda>i. \<not> up k s (sourceClusters k s policy ! i)) [0..<length (sourceClusters k s policy)]"
  using assms unavailableFrom_eq [of k s 0]
  by (auto simp: checkClusters_def sourceClusters_def bindR_Inr_iff split: if_splits prod.splits sum.splits)

lemma chooseBinding_typed:
  assumes p: "typed_policy policy" and choose: "chooseBinding k s policy = Inr (Some b)"
  shows "typed_binding k s policy b"
proof (cases "ps_ClusterSource (po_Spec policy) = ClusterSourceTypeAssign")
  case True
  then have src: "sourceClusters k s policy = map sp_Name (ps_Policy (po_Spec policy))" by (simp add: sourceClusters_def)
  have "scheduleByAssign k s policy = Inr (Some b)" using choose True by (simp add: chooseBinding_def)
  then obtain fails unavail where cc: "checkClusters k s policy = Inr (fails, unavail)" and
    "generateBindingByDuplicated k s policy fails unavail = Inr b \<or> generateBindingByWeighted k s policy fails unavail = Inr b"
    by (auto simp: scheduleByAssign_def doTypeDuplicated_def doTypeWeighted_def bindR_Inr_iff split: if_splits)
  then show ?thesis
    using weighted_typed [OF _ p src] duplicated_typed [OF _ p src] checkClusters_fails [OF cc]
    by (auto simp: generateBindingByDuplicated_def)
next
  case False
  then have cs: "ps_ClusterSource (po_Spec policy) = ClusterSourceTypeClusterset" and "scheduleByClusterSet k s policy = Inr (Some b)"
    using choose by (auto simp: chooseBinding_def split: if_splits)
  then obtain clusterSet fails unavail where set: "api_Get (kClusterSet k) s [] (ps_Clusterset (po_Spec policy)) = Inr clusterSet"
      "checkClusters k s policy = Inr (fails, unavail)"
    "generateBindingByClusterRole k s policy clusterSet fails unavail = Inr b \<or>
     generateBindingByClusterSelector k s policy clusterSet fails unavail = Inr b"
    by (auto simp: scheduleByClusterSet_def doTypeClusterRole_def doTypeClusterSelector_def bindR_Inr_iff split: if_splits)
  then have src: "sourceClusters k s policy = getClusterListByClusterSet k s clusterSet"
    using cs by (simp add: sourceClusters_def)
  from set(3) show ?thesis
    using role_typed [OF _ p src] duplicated_typed [OF _ p, of k s fails unavail "\<lambda>c. c" "getClusterListByClusterSet k s clusterSet"]
      checkClusters_fails [OF set(2)]
    by (auto simp: generateBindingByClusterSelector_def src)
qed

text \<open>
  C9: a binding that comes out of the scheduler is well formed, whatever the policy, its source and its mode: it
  has the name, namespace and owner of the policy, one entry per resource of the policy, in order, with
  the clusters of the source at their positions, each unavailable one replaced by a cluster that the failover policy
  offers, and on each cluster a replacement of the replicas field of the resource by a 64-bit number, where the
  resource has such a field, and then at most one replacement of the namespace, and nothing else. The numbers of
  the policy are Go integers.
\<close>

theorem binding_well_formed:
  assumes "typed_policy policy" and "chooseBinding k s policy = Inr (Some b)"
  shows "typed_binding k s policy b"
  using assms by (rule chooseBinding_typed)

lemma binding_well_formed_witness:
  "\<exists>b. chooseBinding memKube exMem (exFederation 20) = Inr (Some b) \<and> typed_binding memKube exMem (exFederation 20) b"
proof -
  have t: "typed_policy (exFederation 20)"
    by (simp add: typed_policy_def typed_entry_def exFederation_def exPolicy_def exPolicies_def in_int64_def)
  have "case chooseBinding memKube exMem (exFederation 20) of Inl e \<Rightarrow> False | Inr b \<Rightarrow> b \<noteq> None" by code_simp
  then obtain b where "chooseBinding memKube exMem (exFederation 20) = Inr (Some b)" by (auto split: sum.splits)
  with binding_well_formed [OF t this] show ?thesis by blast
qed

end
