(* ===== verification/Resource.thy ===== *)
theory Resource
  imports Binding Server
begin

text \<open>
  The reconciler of \<open>MultiClusterResource\<close>
  (\<open>multi-cluster-resource/multi_cluster_resource_controller.go\<close>): a resource that changes
  synchronises the bindings that name it, a resource that is deleted is taken out of them first.
  The reconciler is followed by what the edit of a binding leaves behind.
\<close>

section \<open>Operations\<close>

definition getMultiClusterResourceBindingListForMultiClusterResource ::
  "'s kube \<Rightarrow> MultiClusterResource \<Rightarrow> 's \<Rightarrow> MultiClusterResourceBinding list res" where
  "getMultiClusterResourceBindingListForMultiClusterResource k mcr s =
     (case GetMultiClusterResourceSelectorForMultiClusterResourceName (kParseSelector k) (om_Name (mr_Meta mcr)) of
        Inl e \<Rightarrow> Raise e
      | Inr sel \<Rightarrow> liftApi (api_List (kBinding k) s \<lparr>lo_Namespace = [], lo_Selector = Some sel\<rparr>))"

definition removeResource ::
  "MultiClusterResourceBindingResource list \<Rightarrow> MultiClusterResourceBindingResource \<Rightarrow>
   MultiClusterResourceBindingResource list res" where
  "removeResource resources resource = removeObject resources resource"

text \<open>
  The loop ranges over the resources the binding was read with, and removes from the list
  it has got so far.
\<close>

fun editResources ::
  "string \<Rightarrow> MultiClusterResourceBindingResource list \<Rightarrow> MultiClusterResourceBindingResource list \<Rightarrow>
   MultiClusterResourceBindingResource list res" where
  "editResources name [] acc = Inr acc"
| "editResources name (resource # rs) acc =
     (if br_Name resource = name then bindR (removeResource acc resource) (editResources name rs)
      else editResources name rs acc)"

definition editBinding ::
  "'s kube \<Rightarrow> MultiClusterResource \<Rightarrow> MultiClusterResourceBinding \<Rightarrow> ('s, unit) step" where
  "editBinding k mcr binding =
     bindS (liftS (editResources (om_Name (mr_Meta mcr)) (bd_Resources binding) (bd_Resources binding)))
       (\<lambda>rs. if length rs = 0 then deleteS (api_Delete (kBinding k) (binding\<lparr>bd_Resources := rs\<rparr>))
             else bindS (writeS (api_Update (kBinding k) (binding\<lparr>bd_Resources := rs\<rparr>))) (\<lambda>_. retS ()))"

definition updateBinding :: "'s kube \<Rightarrow> MultiClusterResource \<Rightarrow> ('s, unit) step" where
  "updateBinding k mcr =
     bindS (readS (getMultiClusterResourceBindingListForMultiClusterResource k mcr)) (\<lambda>items.
       forS (\<lambda>binding _. editBinding k mcr binding) items ())"

definition syncBindingAndClusterResource ::
  "'s kube \<Rightarrow> MultiClusterResource \<Rightarrow> ('s, reconciled) step" where
  "syncBindingAndClusterResource k mcr =
     requeueS (readS (getMultiClusterResourceBindingListForMultiClusterResource k mcr)) (\<lambda>items.
     requeueS (forS (\<lambda>binding _. SyncClusterResourceWithBinding k binding) items ()) (\<lambda>_. doneS))"

text \<open>\<open>addFinalizer\<close> and \<open>removeFinalizer\<close> of this controller.\<close>

abbreviation addResourceFinalizer :: "'s kube \<Rightarrow> MultiClusterResource \<Rightarrow> ('s, reconciled) step" where
  "addResourceFinalizer k inst \<equiv>
     requeueS (AddFinalizer mr_Meta mr_Meta_update (kMultiClusterResource k) inst) (\<lambda>_. doneS)"

abbreviation removeResourceFinalizer :: "'s kube \<Rightarrow> MultiClusterResource \<Rightarrow> ('s, reconciled) step" where
  "removeResourceFinalizer k inst \<equiv>
     requeueS (RemoveFinalizer mr_Meta mr_Meta_update (kMultiClusterResource k) inst) (\<lambda>_. doneS)"

definition removeMultiClusterResource ::
  "'s kube \<Rightarrow> MultiClusterResource \<Rightarrow> ('s, reconciled) step" where
  "removeMultiClusterResource k instance =
     requeueS (updateBinding k instance) (\<lambda>_.
       removeResourceFinalizer k instance)"

definition reconcileMultiClusterResource ::
  "'s kube \<Rightarrow> string \<Rightarrow> string \<Rightarrow> ('s, reconciled) step" where
  "reconcileMultiClusterResource k namespace name s =
     (case api_Get (kMultiClusterResource k) s namespace name of
        Inl e \<Rightarrow> (Inr (doneResult, ignoreNotFound e), s)
      | Inr inst \<Rightarrow>
          if ShouldAddFinalizer mr_Meta inst
          then addResourceFinalizer k inst s
          else if om_DeletionTimestamp (mr_Meta inst) \<noteq> None then removeMultiClusterResource k inst s
          else syncBindingAndClusterResource k inst s)"

interpretation resourceObject: client_object mr_Meta mr_Meta_update
  by unfold_locales simp_all

section \<open>The edit\<close>

text \<open>Removing by name: no index is out of range, and what is left are the other resources.\<close>

lemma editResources_mset:
  assumes "mset acc = mset (filter (\<lambda>r. br_Name r \<noteq> name) done) + mset rs"
  shows "\<exists>acc'. editResources name rs acc = Inr acc' \<and>
           mset acc' = mset (filter (\<lambda>r. br_Name r \<noteq> name) (done @ rs))"
  using assms
proof (induction rs arbitrary: acc "done")
  case (Cons r rs)
  show ?case
  proof (cases "br_Name r = name")
    case True
    have "r \<in># mset acc" using Cons.prems by simp
    then obtain ys where ys: "removeObject acc r = Inr ys" "mset ys = mset acc - {#r#}"
      using removeObject_mem [of r acc] by auto
    have "mset ys = mset (filter (\<lambda>r. br_Name r \<noteq> name) (done @ [r])) + mset rs"
      using ys(2) Cons.prems True by simp
    from Cons.IH [OF this] ys(1) True show ?thesis by (simp add: removeResource_def)
  next
    case False
    have "mset acc = mset (filter (\<lambda>r. br_Name r \<noteq> name) (done @ [r])) + mset rs"
      using Cons.prems False by simp
    from Cons.IH [OF this] False show ?thesis by simp
  qed
qed simp

lemma editResources_ok:
  "\<exists>rs'. editResources name rs rs = Inr rs' \<and> mset rs' = mset (filter (\<lambda>r. br_Name r \<noteq> name) rs)"
  using editResources_mset [of rs name "[]" rs] by simp

lemma editResources_Inr:
  assumes "editResources name rs rs = Inr rs'"
  shows "mset rs' = mset (filter (\<lambda>r. br_Name r \<noteq> name) rs)"
  using editResources_ok [of name rs] assms by auto

text \<open>A binding that named the resource, on a server that keeps its laws.\<close>

definition bindingKey :: "MultiClusterResourceBinding \<Rightarrow> string \<times> string" where
  "bindingKey b = (om_Namespace (bd_Meta b), om_Name (bd_Meta b))"

lemma editBinding_other:
  assumes laws: "api_kind (kBinding k) bd_Meta bd_Resources" "delete_local (kBinding k) bd_Meta"
    and run: "editBinding k mcr b s = (Inr u, s')" and ne: "(ns, n) \<noteq> bindingKey b"
  shows "api_Get (kBinding k) s' ns n = api_Get (kBinding k) s ns n"
proof -
  obtain rs where rs: "editResources (om_Name (mr_Meta mcr)) (bd_Resources b) (bd_Resources b) = Inr rs"
    using editResources_ok by blast
  show ?thesis
  proof (cases "rs = []")
    case True
    then obtain r where "api_Delete (kBinding k) (b\<lparr>bd_Resources := rs\<rparr>) s = (r, s')"
      using run rs by (auto simp: editBinding_def deleteS_def split: prod.splits option.splits)
    from laws(2) [unfolded delete_local_def, rule_format, OF this, of ns n] ne
    show ?thesis by (auto simp: bindingKey_def)
  next
    case False
    then obtain b2 where "api_Update (kBinding k) (b\<lparr>bd_Resources := rs\<rparr>) s = (Inr b2, s')"
      using run rs by (auto simp: editBinding_def bindS_Inr_iff writeS_def split: prod.splits)
    from api_kind.update_other [OF laws(1) this, of ns n] ne
    show ?thesis by (auto simp: bindingKey_def)
  qed
qed

lemma editBinding_kept:
  assumes laws: "api_kind (kBinding k) bd_Meta bd_Resources"
    and stored: "api_Get (kBinding k) s (fst (bindingKey b)) (snd (bindingKey b)) = Inr b"
    and live: "om_DeletionTimestamp (bd_Meta b) = None"
    and run: "editBinding k mcr b s = (Inr u, s')"
    and left: "r \<in> set (bd_Resources b)" "br_Name r \<noteq> om_Name (mr_Meta mcr)"
  shows "\<exists>b'. api_Get (kBinding k) s' (fst (bindingKey b)) (snd (bindingKey b)) = Inr b' \<and>
           mset (bd_Resources b') =
             mset (filter (\<lambda>r. br_Name r \<noteq> om_Name (mr_Meta mcr)) (bd_Resources b))"
proof -
  obtain rs where rs: "editResources (om_Name (mr_Meta mcr)) (bd_Resources b) (bd_Resources b) = Inr rs"
    using editResources_ok by blast
  note m = editResources_Inr [OF rs]
  have "r \<in># mset rs" unfolding m using left by simp
  then have "rs \<noteq> []" by auto
  then obtain b2 where "api_Update (kBinding k) (b\<lparr>bd_Resources := rs\<rparr>) s = (Inr b2, s')"
    using run rs by (auto simp: editBinding_def bindS_Inr_iff writeS_def split: prod.splits)
  from api_kind.get_update [OF laws _ live _ this] live stored m
  show ?thesis by (auto simp: bindingKey_def)
qed

lemma edits_keep:
  assumes laws: "api_kind (kBinding k) bd_Meta bd_Resources" "delete_local (kBinding k) bd_Meta"
  shows "forS (\<lambda>b _. editBinding k mcr b) bs u s = (Inr v, s') \<Longrightarrow>
    \<forall>b\<in>set bs. om_DeletionTimestamp (bd_Meta b) = None \<and>
      api_Get (kBinding k) s (fst (bindingKey b)) (snd (bindingKey b)) = Inr b \<Longrightarrow>
    distinct (map bindingKey bs) \<Longrightarrow>
    (\<forall>ns n. (ns, n) \<notin> bindingKey ` set bs \<longrightarrow> api_Get (kBinding k) s' ns n = api_Get (kBinding k) s ns n) \<and>
    (\<forall>b\<in>set bs. (\<exists>r\<in>set (bd_Resources b). br_Name r \<noteq> om_Name (mr_Meta mcr)) \<longrightarrow>
       (\<exists>b'. api_Get (kBinding k) s' (fst (bindingKey b)) (snd (bindingKey b)) = Inr b' \<and>
          mset (bd_Resources b') =
            mset (filter (\<lambda>r. br_Name r \<noteq> om_Name (mr_Meta mcr)) (bd_Resources b))))"
proof (induction bs arbitrary: u s)
  case (Cons b bs)
  from Cons.prems(1) obtain w s1 where e: "editBinding k mcr b s = (Inr w, s1)"
      "forS (\<lambda>b _. editBinding k mcr b) bs w s1 = (Inr v, s')"
    by (auto simp: bindS_Inr_iff)
  have b: "om_DeletionTimestamp (bd_Meta b) = None"
      "api_Get (kBinding k) s (fst (bindingKey b)) (snd (bindingKey b)) = Inr b" using Cons.prems(2) by simp_all
  have "\<forall>b\<in>set bs. om_DeletionTimestamp (bd_Meta b) = None \<and>
      api_Get (kBinding k) s1 (fst (bindingKey b)) (snd (bindingKey b)) = Inr b"
    using Cons.prems(2,3) editBinding_other [OF laws e(1)] by (metis distinct.simps(2) image_eqI list.set_intros(2)
        list.simps(9) prod.collapse set_map)
  note IH = Cons.IH [OF e(2) this]
  have other: "api_Get (kBinding k) s' ns n = api_Get (kBinding k) s ns n"
    if "(ns, n) \<notin> bindingKey ` set (b # bs)" for ns n
    using IH Cons.prems editBinding_other [OF laws e(1), of ns n] that by auto
  moreover have "api_Get (kBinding k) s' (fst (bindingKey b)) (snd (bindingKey b))
      = api_Get (kBinding k) s1 (fst (bindingKey b)) (snd (bindingKey b))"
    using IH Cons.prems by auto
  ultimately show ?case
    using IH Cons.prems editBinding_kept [OF laws(1) b(2,1) e(1)] by auto
qed simp

section \<open>Properties\<close>

text \<open>
  Taking a deleted resource out of a binding never panics and leaves exactly the other resources,
  whatever their number and order, and however often the binding names the resource.
\<close>

theorem edit_keeps_the_others:
  "\<exists>rs'. editResources name (bd_Resources b) (bd_Resources b) = Inr rs' \<and>
     mset rs' = {#r \<in># mset (bd_Resources b). br_Name r \<noteq> name#}"
  using editResources_ok [of name "bd_Resources b"] by simp

text \<open>
  C21: when the edit of the bindings of a deleted resource ends without an error, every listed binding
  that names another resource is stored without the deleted one and with all the others.
\<close>

theorem deleted_resource_leaves_bindings:
  assumes laws: "api_kind (kBinding k) bd_Meta bd_Resources" "delete_local (kBinding k) bd_Meta"
    and listed: "getMultiClusterResourceBindingListForMultiClusterResource k mcr s = Inr bs"
    and stored: "\<forall>b\<in>set bs. om_DeletionTimestamp (bd_Meta b) = None \<and>
          api_Get (kBinding k) s (fst (bindingKey b)) (snd (bindingKey b)) = Inr b"
    and dist: "distinct (map bindingKey bs)"
    and run: "updateBinding k mcr s = (Inr u, s')"
    and b: "b \<in> set bs" "r \<in> set (bd_Resources b)" "br_Name r \<noteq> om_Name (mr_Meta mcr)"
  shows "\<exists>b'. api_Get (kBinding k) s' (fst (bindingKey b)) (snd (bindingKey b)) = Inr b' \<and>
           mset (bd_Resources b') =
             mset (filter (\<lambda>r. br_Name r \<noteq> om_Name (mr_Meta mcr)) (bd_Resources b))"
proof -
  have "forS (\<lambda>b _. editBinding k mcr b) bs () s = (Inr u, s')"
    using run listed by (simp add: updateBinding_def bindS_def)
  from edits_keep [OF laws this stored dist] b show ?thesis by blast
qed

section \<open>Witness\<close>

lemma mem_delete_local: "delete_local (kBinding memKube) bd_Meta"
  by (simp add: memKube_def bindingStore.delete_other)

lemma mem_binding_kind: "api_kind (kBinding memKube) bd_Meta bd_Resources"
  using bindingStore.served.api_kind_axioms by (simp add: memKube_def)

definition mxBindings :: "MultiClusterResourceBinding list" where
  "mxBindings = map (\<lambda>(n, rs).
     \<lparr>bd_Meta = zeroMeta\<lparr>om_Namespace := ''ns'', om_Name := n,
        om_Labels := Some [(MultiClusterResourceLabelName @ ''.web'', ''1'')]\<rparr>,
      bd_Resources = map (\<lambda>r. \<lparr>br_Name = r, br_Namespace = ''ns'', br_Clusters = []\<rparr>) rs, bd_Status = []\<rparr>)
     [(''a'', [''db'', ''web'', ''web'', ''mq'']), (''b'', [''web'', ''db''])]"

definition mxMem :: mem where "mxMem = emptyMem\<lparr>mm_Bindings := mxBindings\<rparr>"

definition mxResource :: MultiClusterResource where
  "mxResource = \<lparr>mr_Meta = zeroMeta\<lparr>om_Namespace := ''ns'', om_Name := ''web''\<rparr>,
     mr_Spec = \<lparr>rs_Resource = None, rs_ResourceRef = None, rs_ReplicasField = [], rs_Workload = False\<rparr>,
     mr_Status = []\<rparr>"

lemma mx_run: "fst (updateBinding memKube mxResource mxMem) = Inr ()"
  "getMultiClusterResourceBindingListForMultiClusterResource memKube mxResource mxMem = Inr mxBindings"
  by code_simp+

lemma mx_stored:
  "\<forall>b\<in>set mxBindings. om_DeletionTimestamp (bd_Meta b) = None \<and>
     api_Get (kBinding memKube) mxMem (fst (bindingKey b)) (snd (bindingKey b)) = Inr b"
  by (simp add: mxMem_def mxBindings_def bindingKey_def zeroMeta_def memKube_def memApi_def memGet_def findObj_def
      keyOf_def)

lemma deleted_resource_leaves_bindings_witness:
  "\<exists>b'. api_Get (kBinding memKube) (snd (updateBinding memKube mxResource mxMem)) ''ns'' ''a'' = Inr b' \<and>
     mset (bd_Resources b') = mset [\<lparr>br_Name = ''db'', br_Namespace = ''ns'', br_Clusters = []\<rparr>,
       \<lparr>br_Name = ''mq'', br_Namespace = ''ns'', br_Clusters = []\<rparr>]"
proof -
  have run: "updateBinding memKube mxResource mxMem = (Inr (), snd (updateBinding memKube mxResource mxMem))"
    by (simp add: mx_run(1) [symmetric])
  show ?thesis
    using deleted_resource_leaves_bindings [OF mem_binding_kind mem_delete_local mx_run(2) mx_stored _ run,
        of "hd mxBindings" "\<lparr>br_Name = ''db'', br_Namespace = ''ns'', br_Clusters = []\<rparr>"]
    by (simp add: mxBindings_def mxResource_def bindingKey_def zeroMeta_def)
qed

end
