(* ===== verification/NsMapping.thy ===== *)
theory NsMapping
  imports Replicas Finalizer Server
begin

text \<open>
  The reconciler of \<open>NamespaceMapping\<close> (\<open>namespace-mapping/namespace_mapping_controller.go\<close>): a
  mapping says into which namespace of each cluster the objects of a workspace go. The controller
  writes it into labels of the workspace's namespace, where the scheduler reads it
  (\<open>checkNamespaceMapping\<close>). Reads and writes of the namespace ignore their errors, as the code does.
\<close>

section \<open>Operations\<close>

datatype mapping_option = createOrUpdateMapping | removeMapping

definition updateLabel :: "(string, string) gomap \<Rightarrow> string \<Rightarrow> string \<Rightarrow> (string, string) gomap" where
  "updateLabel labels cluster ruleV =
     filter (\<lambda>(key, v). \<not> (v = ruleV \<and> strContains key (NamespaceMappingLabel @ cluster @ ''_''))) labels"

text \<open>The namespace an unanswered read leaves behind is the empty object.\<close>

definition readWorkspace :: "'s kube \<Rightarrow> string \<Rightarrow> 's \<Rightarrow> Namespace" where
  "readWorkspace k namespace s =
     (case api_Get (kNamespace k) s [] namespace of
        Inl e \<Rightarrow> \<lparr>ns_Meta = zeroMeta\<rparr>
      | Inr workspace \<Rightarrow> workspace)"

definition setLabels :: "Namespace \<Rightarrow> (string, string) gomap \<Rightarrow> Namespace" where
  "setLabels workspace labels = ns_Meta_update (\<lambda>m. m\<lparr>om_Labels := Some labels\<rparr>) workspace"

definition createLabels ::
  "string \<Rightarrow> string \<Rightarrow> string \<Rightarrow> (string, string) gomap option \<Rightarrow> (string, string) gomap" where
  "createLabels namespace ruleK ruleV labels =
     gomap_put (case labels of None \<Rightarrow> [] | Some l \<Rightarrow> updateLabel l ruleK ruleV)
       (GenerateLabelKey ruleK namespace) ruleV"

definition mappingRule ::
  "'s kube \<Rightarrow> string \<Rightarrow> mapping_option \<Rightarrow> string \<times> string \<Rightarrow> 's \<Rightarrow> 's" where
  "mappingRule k namespace option rule s =
     (case rule of (ruleK, ruleV) \<Rightarrow>
       let workspace = readWorkspace k namespace s; labels = om_Labels (ns_Meta workspace) in
       case option of
         createOrUpdateMapping \<Rightarrow>
           snd (api_Update (kNamespace k)
                  (setLabels workspace (createLabels namespace ruleK ruleV labels)) s)
       | removeMapping \<Rightarrow>
           (case labels of
              None \<Rightarrow> s
            | Some l \<Rightarrow> snd (api_Update (kNamespace k)
                        (setLabels workspace (gomap_del l (GenerateLabelKey ruleK namespace))) s)))"

definition mappingOperator ::
  "'s kube \<Rightarrow> NamespaceMapping \<Rightarrow> mapping_option \<Rightarrow> 's \<Rightarrow> 's" where
  "mappingOperator k namespaceMapping option s =
     fold (mappingRule k (om_Namespace (nm_Meta namespaceMapping)) option) (nm_Mapping namespaceMapping) s"

text \<open>\<open>createMapping\<close> and \<open>removeMapping\<close>, which only forward an error that there never is.\<close>

abbreviation createMapping :: "'s kube \<Rightarrow> NamespaceMapping \<Rightarrow> 's \<Rightarrow> 's" where
  "createMapping k namespaceMapping \<equiv>
     mappingOperator k namespaceMapping createOrUpdateMapping"

abbreviation dropMapping :: "'s kube \<Rightarrow> NamespaceMapping \<Rightarrow> 's \<Rightarrow> 's" where
  "dropMapping k namespaceMapping \<equiv>
     mappingOperator k namespaceMapping removeMapping"

abbreviation addMappingFinalizer :: "'s kube \<Rightarrow> NamespaceMapping \<Rightarrow> ('s, reconciled) step" where
  "addMappingFinalizer k inst \<equiv>
     requeueS (AddFinalizer nm_Meta nm_Meta_update (kNamespaceMapping k) inst) (\<lambda>_. doneS)"

abbreviation removeMappingFinalizer :: "'s kube \<Rightarrow> NamespaceMapping \<Rightarrow> ('s, reconciled) step" where
  "removeMappingFinalizer k inst \<equiv>
     requeueS (RemoveFinalizer nm_Meta nm_Meta_update (kNamespaceMapping k) inst) (\<lambda>_. doneS)"

definition syncNamespaceMapping :: "'s kube \<Rightarrow> NamespaceMapping \<Rightarrow> ('s, reconciled) step" where
  "syncNamespaceMapping k namespaceMapping s =
     doneS (createMapping k namespaceMapping s)"

definition removeNamespaceMapping :: "'s kube \<Rightarrow> NamespaceMapping \<Rightarrow> ('s, reconciled) step" where
  "removeNamespaceMapping k namespaceMapping s =
     removeMappingFinalizer k namespaceMapping (dropMapping k namespaceMapping s)"

definition reconcileNamespaceMapping :: "'s kube \<Rightarrow> string \<Rightarrow> string \<Rightarrow> ('s, reconciled) step" where
  "reconcileNamespaceMapping k namespace name s =
     (case api_Get (kNamespaceMapping k) s namespace name of
        Inl e \<Rightarrow> (Inr (doneResult, ignoreNotFound e), s)
      | Inr inst \<Rightarrow>
          if ShouldAddFinalizer nm_Meta inst
          then addMappingFinalizer k inst s
          else if om_DeletionTimestamp (nm_Meta inst) \<noteq> None then removeNamespaceMapping k inst s
          else syncNamespaceMapping k inst s)"

interpretation mappingObject: client_object nm_Meta nm_Meta_update
  by unfold_locales simp_all

section \<open>The keys\<close>

text \<open>A name that can stand in a key: no underscore, which separates the cluster from the workspace, and
  no slash, which ends the prefix.\<close>

definition plainName :: "string \<Rightarrow> bool" where
  "plainName n \<longleftrightarrow> CHR ''_'' \<notin> set n \<and> CHR ''/'' \<notin> set n"

lemma GenerateLabelKey_inj:
  "GenerateLabelKey c n = GenerateLabelKey d n \<longleftrightarrow> c = d"
  by (simp add: GenerateLabelKey_def)

lemma slash_split:
  assumes "u @ [x] @ v = u' @ [x] @ v'" and "x \<notin> set u" and "x \<notin> set u'"
  shows "u = u'" and "v = v'"
  using assms by (auto simp: append_eq_append_conv2 append_eq_Cons_conv Cons_eq_append_conv)

lemma label_prefix:
  obtains p where "NamespaceMappingLabel = p @ ''/''" and "CHR ''/'' \<notin> set p"
proof
  show "NamespaceMappingLabel = ''stellaris.harmonycloud.cn.namespacemapping'' @ ''/''"
    by (simp add: NamespaceMappingLabel_def)
qed simp

lemma key_contains_iff:
  assumes c: "plainName c" and d: "plainName d" and n: "CHR ''/'' \<notin> set n"
  shows "strContains (GenerateLabelKey c n) (NamespaceMappingLabel @ d @ ''_'') \<longleftrightarrow> c = d"
proof
  assume "strContains (GenerateLabelKey c n) (NamespaceMappingLabel @ d @ ''_'')"
  then obtain a b where ab: "GenerateLabelKey c n = a @ (NamespaceMappingLabel @ d @ ''_'') @ b"
    by (auto simp: strContains_iff)
  obtain p where p: "NamespaceMappingLabel = p @ ''/''" "CHR ''/'' \<notin> set p" by (rule label_prefix)
  have key: "p @ [CHR ''/''] @ (c @ ''_'' @ n) = (a @ p) @ [CHR ''/''] @ (d @ ''_'' @ b)"
    using ab by (simp add: GenerateLabelKey_def p(1))
  have "CHR ''/'' \<notin> set a"
  proof
    assume "CHR ''/'' \<in> set a"
    have "count_list (p @ [CHR ''/''] @ (c @ ''_'' @ n)) (CHR ''/'') = 1"
      using p(2) c n by (simp add: plainName_def)
    moreover have "count_list a (CHR ''/'') \<noteq> 0"
      using \<open>CHR ''/'' \<in> set a\<close> by (simp add: count_list_0_iff)
    then have "1 < count_list ((a @ p) @ [CHR ''/''] @ (d @ ''_'' @ b)) (CHR ''/'')" by simp
    ultimately show False unfolding key by simp
  qed
  with p(2) slash_split [OF key] have "a = []" and t: "c @ [CHR ''_''] @ n = d @ [CHR ''_''] @ b"
    by auto
  from slash_split(1) [OF t] c d show "c = d" by (simp add: plainName_def)
qed (simp add: GenerateLabelKey_def strContains_iff, metis append_Cons append_Nil append_assoc)

section \<open>What one rule does to the labels\<close>

lemma gomap_get_filter_keep:
  "(\<And>v. P (k, v)) \<Longrightarrow> gomap_get (filter P m) k = gomap_get m k"
  by (induction m) (auto simp: gomap_get_def)

lemma get_createLabels:
  assumes "plainName K" and "plainName K'" and "CHR ''/'' \<notin> set ns"
  shows "gomap_get (createLabels ns K V l) (GenerateLabelKey K' ns) =
           (if K' = K then Some V else gomap_get (mapOr l) (GenerateLabelKey K' ns))"
  using key_contains_iff [OF assms(2,1,3)]
  by (cases l) (auto simp: createLabels_def GenerateLabelKey_inj updateLabel_def gomap_get_filter_keep)

lemma get_createLabels_foreign:
  assumes "\<not> strContains key NamespaceMappingLabel"
  shows "gomap_get (createLabels ns K V l) key = gomap_get (mapOr l) key"
proof -
  have "\<not> strContains key (NamespaceMappingLabel @ K @ ''_'')" and "key \<noteq> GenerateLabelKey K ns"
    using assms by (auto simp: strContains_iff GenerateLabelKey_def)
  then show ?thesis
    by (cases l) (auto simp: createLabels_def updateLabel_def gomap_get_filter_keep)
qed

definition labelsAfter ::
  "string \<Rightarrow> (string \<times> string) list \<Rightarrow> (string, string) gomap option \<Rightarrow> (string, string) gomap option" where
  "labelsAfter ns rules = fold (\<lambda>(K, V) l. Some (createLabels ns K V l)) rules"

lemma labelsAfter_simps:
  "labelsAfter ns [] l = l"
  "labelsAfter ns ((K, V) # rules) l = labelsAfter ns rules (Some (createLabels ns K V l))"
  by (simp_all add: labelsAfter_def)

lemma get_labelsAfter:
  assumes "\<forall>(K, V)\<in>set rules. plainName K" and "gomap_wf rules" and "plainName K'"
    and "CHR ''/'' \<notin> set ns"
  shows "gomap_get (mapOr (labelsAfter ns rules l)) (GenerateLabelKey K' ns) =
           (case gomap_get rules K' of Some V \<Rightarrow> Some V
            | None \<Rightarrow> gomap_get (mapOr l) (GenerateLabelKey K' ns))"
  using assms
proof (induction rules arbitrary: l)
  case (Cons r rules)
  obtain K V where r: "r = (K, V)" by (cases r)
  have fresh: "gomap_get rules K = None"
    using Cons.prems(2) by (auto simp: r gomap_wf_def gomap_get_None_iff)
  show ?case
    using Cons.IH [of "Some (createLabels ns K V l)"] Cons.prems fresh
    by (auto simp: r labelsAfter_simps gomap_get_Cons get_createLabels gomap_wf_def split: option.splits)
qed (simp add: labelsAfter_simps)

lemma get_labelsAfter_foreign:
  "\<not> strContains key NamespaceMappingLabel \<Longrightarrow>
   gomap_get (mapOr (labelsAfter ns rules l)) key = gomap_get (mapOr l) key"
  by (induction rules arbitrary: l) (auto simp: labelsAfter_simps get_createLabels_foreign)

section \<open>What the controller stores\<close>

lemma mappingRule_create:
  assumes kind: "api_kind (kNamespace k) ns_Meta (\<lambda>_. ())" and w: "writable (kNamespace k) ns_Meta"
    and g: "api_Get (kNamespace k) s [] ns = Inr x" and live: "om_DeletionTimestamp (ns_Meta x) = None"
  shows "\<exists>x'. api_Get (kNamespace k) (mappingRule k ns createOrUpdateMapping (K, V) s) [] ns = Inr x' \<and>
           sameMeta (ns_Meta x') ((ns_Meta x)\<lparr>om_Labels := Some (createLabels ns K V (om_Labels (ns_Meta x)))\<rparr>)"
proof -
  let ?o = "setLabels x (createLabels ns K V (om_Labels (ns_Meta x)))"
  have key: "om_Namespace (ns_Meta x) = []" "om_Name (ns_Meta x) = ns"
    using api_kind.get_key [OF kind g] by simp_all
  then obtain o2 s' where u: "api_Update (kNamespace k) ?o s = (Inr o2, s')"
    using w g unfolding writable_def by (force simp: setLabels_def)
  have m: "ns_Meta ?o = (ns_Meta x)\<lparr>om_Labels := Some (createLabels ns K V (om_Labels (ns_Meta x)))\<rparr>"
    by (simp add: setLabels_def)
  show ?thesis
    using api_kind.update_reads_back [OF kind g m live u] u g
    by (simp add: mappingRule_def readWorkspace_def setLabels_def)
qed

lemma fold_create:
  assumes kind: "api_kind (kNamespace k) ns_Meta (\<lambda>_. ())" and w: "writable (kNamespace k) ns_Meta"
  shows "api_Get (kNamespace k) s [] ns = Inr x \<Longrightarrow> om_DeletionTimestamp (ns_Meta x) = None \<Longrightarrow>
    \<exists>x'. api_Get (kNamespace k) (fold (mappingRule k ns createOrUpdateMapping) rules s) [] ns = Inr x' \<and>
         sameMeta (ns_Meta x') ((ns_Meta x)\<lparr>om_Labels := labelsAfter ns rules (om_Labels (ns_Meta x))\<rparr>)"
proof (induction rules arbitrary: s x)
  case (Cons r rules)
  obtain K V where r: "r = (K, V)" by (cases r)
  obtain x1 where x1: "api_Get (kNamespace k) (mappingRule k ns createOrUpdateMapping (K, V) s) [] ns = Inr x1"
      "sameMeta (ns_Meta x1) ((ns_Meta x)\<lparr>om_Labels := Some (createLabels ns K V (om_Labels (ns_Meta x)))\<rparr>)"
    using mappingRule_create [OF kind w Cons.prems] by blast
  note same = sameMeta_fields [OF x1(2)]
  obtain x' where "api_Get (kNamespace k) (fold (mappingRule k ns createOrUpdateMapping) rules
        (mappingRule k ns createOrUpdateMapping (K, V) s)) [] ns = Inr x'"
      "sameMeta (ns_Meta x') ((ns_Meta x1)\<lparr>om_Labels := labelsAfter ns rules (om_Labels (ns_Meta x1))\<rparr>)"
    using Cons.IH [OF x1(1)] Cons.prems(2) same by auto
  with same sameMeta_trans [OF _ sameMeta_labels [OF x1(2)]] show ?case
    by (simp add: r labelsAfter_simps)
qed (simp add: labelsAfter_simps)

lemma labels_stored:
  assumes "api_kind (kNamespace k) ns_Meta (\<lambda>_. ())" and "writable (kNamespace k) ns_Meta"
    and "api_Get (kNamespace k) s [] ns = Inr x" and "om_DeletionTimestamp (ns_Meta x) = None"
  shows "\<exists>x'. api_Get (kNamespace k) (fold (mappingRule k ns createOrUpdateMapping) rules s) [] ns = Inr x' \<and>
    om_Labels (ns_Meta x') = labelsAfter ns rules (om_Labels (ns_Meta x))"
  using fold_create [OF assms, of rules] sameMeta_fields(3) by fastforce

section \<open>Properties\<close>

text \<open>
  C16: after a mapping has been synchronised, a schedule of a policy in that workspace redirects the
  resources of every mapped cluster to the mapped namespace, and the namespace keeps all labels that are not
  about mappings. The names of the clusters have no underscore and no slash, and the server lets the
  updates of the namespace through.
\<close>

theorem mapping_reaches_the_scheduler:
  fixes nm :: NamespaceMapping
  defines "ns \<equiv> om_Namespace (nm_Meta nm)"
  assumes kind: "api_kind (kNamespace k) ns_Meta (\<lambda>_. ())" and w: "writable (kNamespace k) ns_Meta"
    and g: "api_Get (kNamespace k) s [] ns = Inr x" and live: "om_DeletionTimestamp (ns_Meta x) = None"
    and rules: "gomap_wf (nm_Mapping nm)" "\<forall>(K, V)\<in>set (nm_Mapping nm). plainName K" "CHR ''/'' \<notin> set ns"
    and policy: "om_Namespace (po_Meta policy) = ns" and K: "gomap_get (nm_Mapping nm) K = Some V"
  shows "checkNamespaceMapping k (mappingOperator k nm createOrUpdateMapping s) policy K c
           = Inr (appendOverride BindingPathNamespace V c) \<and>
         (\<exists>x'. api_Get (kNamespace k) (mappingOperator k nm createOrUpdateMapping s) [] ns = Inr x' \<and>
           (\<forall>key. \<not> strContains key NamespaceMappingLabel \<longrightarrow>
              gomap_get (mapOr (om_Labels (ns_Meta x'))) key = gomap_get (mapOr (om_Labels (ns_Meta x))) key))"
proof (rule conjI)
  have plain: "plainName K" using K rules(1,2) by (auto simp: gomap_get_Some_iff)
  obtain x' where x': "api_Get (kNamespace k) (mappingOperator k nm createOrUpdateMapping s) [] ns = Inr x'"
      "om_Labels (ns_Meta x') = labelsAfter ns (nm_Mapping nm) (om_Labels (ns_Meta x))"
    using labels_stored [OF kind w g live] by (auto simp: mappingOperator_def ns_def)
  show "checkNamespaceMapping k (mappingOperator k nm createOrUpdateMapping s) policy K c
      = Inr (appendOverride BindingPathNamespace V c)"
    using get_labelsAfter [OF rules(2,1) plain rules(3)] x' K by (simp add: checkNamespaceMapping_def policy)
  show "\<exists>x'. api_Get (kNamespace k) (mappingOperator k nm createOrUpdateMapping s) [] ns = Inr x' \<and>
      (\<forall>key. \<not> strContains key NamespaceMappingLabel \<longrightarrow>
         gomap_get (mapOr (om_Labels (ns_Meta x'))) key = gomap_get (mapOr (om_Labels (ns_Meta x))) key)"
    using x' by (simp add: get_labelsAfter_foreign)
qed

text \<open>
  A rule that is taken out of a mapping is not withdrawn: a synchronisation leaves the label of every
  cluster without a rule as it is, and the scheduler goes on redirecting its resources.
\<close>

theorem dropped_rule_stays:
  fixes nm :: NamespaceMapping
  defines "ns \<equiv> om_Namespace (nm_Meta nm)"
  assumes kind: "api_kind (kNamespace k) ns_Meta (\<lambda>_. ())" and w: "writable (kNamespace k) ns_Meta"
    and g: "api_Get (kNamespace k) s [] ns = Inr x" and live: "om_DeletionTimestamp (ns_Meta x) = None"
    and rules: "gomap_wf (nm_Mapping nm)" "\<forall>(K, V)\<in>set (nm_Mapping nm). plainName K" "CHR ''/'' \<notin> set ns"
    and policy: "om_Namespace (po_Meta policy) = ns"
    and K: "plainName K" "gomap_get (nm_Mapping nm) K = None"
  shows "checkNamespaceMapping k (mappingOperator k nm createOrUpdateMapping s) policy K c
           = checkNamespaceMapping k s policy K c"
proof -
  obtain x' where x': "api_Get (kNamespace k) (mappingOperator k nm createOrUpdateMapping s) [] ns = Inr x'"
      "om_Labels (ns_Meta x') = labelsAfter ns (nm_Mapping nm) (om_Labels (ns_Meta x))"
    using labels_stored [OF kind w g live] by (auto simp: mappingOperator_def ns_def)
  then show ?thesis
    using get_labelsAfter [OF rules(2,1) K(1) rules(3)] K(2) g by (simp add: checkNamespaceMapping_def policy)
qed

section \<open>Witnesses\<close>

lemma mem_namespace_kind: "api_kind (kNamespace memKube) ns_Meta (\<lambda>_. ())"
  using namespaceStore.served.api_kind_axioms by (simp add: memKube_def)

lemma mem_namespace_writable: "writable (kNamespace memKube) ns_Meta"
  by (auto simp: writable_def memKube_def memApi_def memGet_def memUpdate_def keyOf_def Let_def
      split: option.splits)

definition wxMem :: "(string, string) gomap option \<Rightarrow> mem" where
  "wxMem labels = emptyMem\<lparr>mm_Namespaces :=
     [\<lparr>ns_Meta = zeroMeta\<lparr>om_Name := ''team'', om_Labels := labels\<rparr>\<rparr>]\<rparr>"

definition wxMapping :: NamespaceMapping where
  "wxMapping = \<lparr>nm_Meta = zeroMeta\<lparr>om_Namespace := ''team'', om_Name := ''m''\<rparr>,
     nm_Mapping = [(''c1'', ''a''), (''c2'', ''a'')]\<rparr>"

definition wxPolicy :: MultiClusterResourceSchedulePolicy where
  "wxPolicy = \<lparr>po_Meta = zeroMeta\<lparr>om_Namespace := ''team''\<rparr>,
     po_Spec = \<lparr>ps_Resources = [], ps_ClusterSource = [], ps_Clusterset = [], ps_Replicas = 0,
       ps_ScheduleMode = [], ps_Reschedule = False, ps_Policy = [], ps_FailoverPolicy = [],
       ps_OutTreePolicy = \<lparr>op_Url = [], op_Properties = None\<rparr>\<rparr>,
     po_Status = \<lparr>ss_Status = False, ss_Message = [], ss_LastScheduleTime = None, ss_LastModifyTime = None\<rparr>\<rparr>"

lemma wx_namespace:
  "api_Get (kNamespace memKube) (wxMem l) [] ''team''
     = Inr \<lparr>ns_Meta = zeroMeta\<lparr>om_Name := ''team'', om_Labels := l\<rparr>\<rparr>"
  by (simp add: memKube_def memApi_def memGet_def findObj_def keyOf_def wxMem_def zeroMeta_def)

lemma wx_rules:
  "gomap_wf (nm_Mapping wxMapping)" "\<forall>(K, V)\<in>set (nm_Mapping wxMapping). plainName K"
  "om_Namespace (nm_Meta wxMapping) = ''team''" "om_Namespace (po_Meta wxPolicy) = ''team''"
  "gomap_get (nm_Mapping wxMapping) ''c1'' = Some ''a''" "gomap_get (nm_Mapping wxMapping) ''c3'' = None"
  "plainName ''c3''" "CHR ''/'' \<notin> set ''team''"
  by (simp_all add: wxMapping_def wxPolicy_def gomap_wf_def plainName_def gomap_get_def)

lemma mapping_reaches_the_scheduler_witness:
  "checkNamespaceMapping memKube (mappingOperator memKube wxMapping createOrUpdateMapping (wxMem None)) wxPolicy
     ''c1'' \<lparr>bc_Name = ''c1'', bc_Override = []\<rparr>
   = Inr (appendOverride BindingPathNamespace ''a'' \<lparr>bc_Name = ''c1'', bc_Override = []\<rparr>)"
  by (rule mapping_reaches_the_scheduler [OF mem_namespace_kind mem_namespace_writable wx_namespace [of _, folded wx_rules(3)] _ wx_rules(1,2), THEN conjunct1])
     (simp_all add: zeroMeta_def wx_rules(3-) wx_namespace wx_rules(1))

lemma dropped_rule_stays_witness:
  "checkNamespaceMapping memKube
     (mappingOperator memKube wxMapping createOrUpdateMapping (wxMem (Some [(GenerateLabelKey ''c3'' ''team'', ''b'')])))
     wxPolicy ''c3'' \<lparr>bc_Name = ''c3'', bc_Override = []\<rparr>
   = Inr (appendOverride BindingPathNamespace ''b'' \<lparr>bc_Name = ''c3'', bc_Override = []\<rparr>)"
proof -
  let ?s = "wxMem (Some [(GenerateLabelKey ''c3'' ''team'', ''b'')])"
  have "checkNamespaceMapping memKube (mappingOperator memKube wxMapping createOrUpdateMapping ?s) wxPolicy ''c3'' c
      = checkNamespaceMapping memKube ?s wxPolicy ''c3'' c" for c
    by (rule dropped_rule_stays [OF mem_namespace_kind mem_namespace_writable wx_namespace [of _, folded wx_rules(3)] _ wx_rules(1,2)])
       (simp_all add: zeroMeta_def wx_rules(3-) wx_namespace wx_rules(1))
  then show ?thesis
    by (simp add: checkNamespaceMapping_def wx_namespace wx_rules gomap_get_Cons)
qed

end
