(* ===== verification/Messages.thy ===== *)
theory Messages
  imports KubeTypes
begin

text \<open>
  The messages between the core and the proxies (\<open>config/channel.proto\<close>, \<open>pkg/model\<close>) and the
  encodings they use. The encoders and decoders of Go's \<open>encoding/json\<close> and of the Kubernetes object
  types are not in the repository: the record \<open>codec\<close> holds one function per use. A decoder
  answers with the value it filled in and an error, as \<open>json.Unmarshal\<close> does.
\<close>

section \<open>Requests and responses\<close>

record Request =
  rq_Type :: string
  rq_ClusterName :: string
  rq_Body :: string

record Response =
  rp_Type :: string
  rp_ClusterName :: string
  rp_Body :: string

abbreviation rqRegister :: string where "rqRegister \<equiv> ''Register''"
abbreviation rqHeartbeat :: string where "rqHeartbeat \<equiv> ''Heartbeat''"
abbreviation rqResource :: string where "rqResource \<equiv> ''Resource''"
abbreviation rqAggregate :: string where "rqAggregate \<equiv> ''Aggregate''"

abbreviation rpUnknown :: string where "rpUnknown \<equiv> ''Unknown''"
abbreviation rpError :: string where "rpError \<equiv> ''Error''"
abbreviation rpRegisterSuccess :: string where "rpRegisterSuccess \<equiv> ''RegisterSuccess''"
abbreviation rpRegisterFailed :: string where "rpRegisterFailed \<equiv> ''RegisterFailed''"
abbreviation rpHeartbeatSuccess :: string where "rpHeartbeatSuccess \<equiv> ''HeartbeatSuccess''"
abbreviation rpHeartbeatFailed :: string where "rpHeartbeatFailed \<equiv> ''HeartbeatFailed''"
abbreviation rpResourceUpdateOrCreate :: string where
  "rpResourceUpdateOrCreate \<equiv> ''ResourceUpdateOrCreate''"
abbreviation rpResourceDelete :: string where "rpResourceDelete \<equiv> ''ResourceDelete''"
abbreviation rpResourceStatusUpdateSuccess :: string where
  "rpResourceStatusUpdateSuccess \<equiv> ''ResourceStatusUpdateSuccess''"
abbreviation rpResourceStatusUpdateFailed :: string where
  "rpResourceStatusUpdateFailed \<equiv> ''ResourceStatusUpdateFailed''"

section \<open>Bodies\<close>

text \<open>
  The properties of an addon have no fixed type in the source: a proxy that has loaded a plugin puts
  a pointer to a \<open>PluginsData\<close> there (its identifier and data), decoding a message makes them a JSON
  value. \<open>reflect.DeepEqual\<close> tells the two apart.
\<close>

datatype properties = PluginsData string json | Decoded json

record Addon =
  ao_Name :: string
  ao_Properties :: "properties option"

record HeartbeatWithChangeRequest =
  hb_Healthy :: bool
  hb_Addons :: "Addon list"
  hb_Conditions :: "Condition list"

record RegisterResponse =
  rr_ClusterResources :: "string list"
  rr_AggregatePolicies :: "string list"
  rr_AggregateRules :: "string list"

definition RegisterResponse_IsEmpty :: "RegisterResponse \<Rightarrow> bool" where
  "RegisterResponse_IsEmpty r \<longleftrightarrow>
     length (rr_ClusterResources r) = 0 \<and> length (rr_AggregateRules r) = 0 \<and>
     length (rr_AggregatePolicies r) = 0"

record StatusItem =
  si_Name :: string
  si_Namespace :: string
  si_Status :: ClusterResourceStatus

text \<open>The plugin configuration of a proxy: the in-tree names, the out-tree names with their URLs.\<close>

record Plugins =
  pg_InTree :: "string list"
  pg_OutTree :: "(string \<times> string) list"

section \<open>Encodings\<close>

record codec =
  jErrorText :: "go_error \<Rightarrow> string"
  jMarshalJson :: "json \<Rightarrow> go_error + string"
  jMarshalProperties :: "properties \<Rightarrow> go_error + string"
  jUnmarshalPluginsData :: "string \<Rightarrow> go_error + string \<times> json"
  jUnmarshalObject :: "raw \<Rightarrow> go_error + Unstructured"
  jUnmarshalMap :: "raw \<Rightarrow> go_error + (string, json) gomap"
  jMarshalRegister :: "Addon list \<Rightarrow> go_error + string"
  jUnmarshalRegister :: "string \<Rightarrow> Addon list \<times> go_error option"
  jMarshalHeartbeat :: "HeartbeatWithChangeRequest \<Rightarrow> go_error + string"
  jUnmarshalHeartbeat :: "string \<Rightarrow> HeartbeatWithChangeRequest \<times> go_error option"
  jMarshalStatusItems :: "StatusItem list \<Rightarrow> go_error + string"
  jUnmarshalStatusItems :: "string \<Rightarrow> StatusItem list \<times> go_error option"
  jMarshalClusterResources :: "ClusterResource list \<Rightarrow> go_error + string"
  jUnmarshalClusterResources :: "string \<Rightarrow> ClusterResource list \<times> go_error option"
  jMarshalClusterResource :: "ClusterResource \<Rightarrow> go_error + string"
  jUnmarshalClusterResource :: "string \<Rightarrow> ClusterResource \<times> go_error option"
  jMarshalPolicy :: "MultiClusterResourceAggregatePolicy \<Rightarrow> go_error + string"
  jUnmarshalPolicy :: "string \<Rightarrow> MultiClusterResourceAggregatePolicy \<times> go_error option"
  jMarshalRule :: "MultiClusterResourceAggregateRule \<Rightarrow> go_error + string"
  jUnmarshalRule :: "string \<Rightarrow> MultiClusterResourceAggregateRule \<times> go_error option"
  jMarshalRegisterResponse :: "RegisterResponse \<Rightarrow> go_error + string"
  jUnmarshalRegisterResponse :: "string \<Rightarrow> RegisterResponse \<times> go_error option"
  jMarshalPlugins :: "Plugins \<Rightarrow> go_error + string"
  jMarshalConfiguration :: "raw option \<Rightarrow> go_error + string"
  jMarshalClusterName :: "string \<Rightarrow> go_error + string"

definition liftE :: "go_error + 'a \<Rightarrow> 'a res" where
  "liftE r = (case r of Inl e \<Rightarrow> Raise e | Inr x \<Rightarrow> Inr x)"

lemma liftE_simps [simp]: "liftE (Inl e) = Raise e" "liftE (Inr x) = Inr x"
  by (simp_all add: liftE_def)

definition checked :: "'a \<times> go_error option \<Rightarrow> 'a res" where
  "checked r = (case r of (x, None) \<Rightarrow> Inr x | (x, Some e) \<Rightarrow> Raise e)"

lemma checked_simps [simp]: "checked (x, None) = Inr x" "checked (x, Some e) = Raise e"
  by (simp_all add: checked_def)

text \<open>\<open>utils/common.GenerateRequest\<close>, for a body that has been marshalled.\<close>

definition GenerateRequest :: "string \<Rightarrow> go_error + string \<Rightarrow> string \<Rightarrow> codec \<Rightarrow> Request res" where
  "GenerateRequest sendType body clusterName j =
     (case body of
        Inl e \<Rightarrow> Raise (ErrFmt ''marshal err: %v'' [jErrorText j e])
      | Inr b \<Rightarrow> Inr \<lparr>rq_Type = sendType, rq_ClusterName = clusterName, rq_Body = b\<rparr>)"

text \<open>\<open>NewResourceRequest\<close> of the proxy and \<open>NewResourceResponse\<close> of the core.\<close>

definition NewResourceRequest :: "string \<Rightarrow> string \<Rightarrow> string \<Rightarrow> Request res" where
  "NewResourceRequest resType clusterName body =
     (if length clusterName = 0 \<or> length body = 0
      then Raise (ErrMsg ''clusterName or body is empty'')
      else Inr \<lparr>rq_Type = resType, rq_ClusterName = clusterName, rq_Body = body\<rparr>)"

definition NewResourceResponse :: "string \<Rightarrow> string \<Rightarrow> string \<Rightarrow> Response res" where
  "NewResourceResponse resType clusterName body =
     (if length clusterName = 0 \<or> length body = 0
      then Raise (ErrMsg ''clusterName or body is empty'')
      else Inr \<lparr>rp_Type = resType, rp_ClusterName = clusterName, rp_Body = body\<rparr>)"

end
