(* ===== verification/Channel.thy ===== *)
theory Channel
  imports Messages Float64
begin

text \<open>
  The streams between the core and the proxies, which both processes keep in package variables: the
  stream table of the core (\<open>pkg/core/stream/table.go\<close>), with the time at which an entry expires,
  and the connection of a proxy (\<open>pkg/proxy/stream/stream.go\<close>). What a gRPC stream does is a
  parameter (\<open>net\<close>). The operations are first given as they run alone, and then, where they
  are not atomic, as steps that interleave.
\<close>

section \<open>State\<close>

record 'c Stream =
  st_ClusterName :: string
  st_Stream :: 'c
  st_Status :: string
  st_Expire :: int

abbreviation stOK :: string where "stOK \<equiv> ''ok''"

text \<open>
  The package variables, and the messages handed to a stream so far, oldest first. \<open>gl_Heartbeat\<close> is
  the pointer \<open>heartbeat\<close> (\<open>None\<close> for nil) to the last heartbeat the core has acknowledged.
\<close>

record 'c globals =
  gl_Table :: "(string, 'c Stream) gomap"
  gl_Initialized :: bool
  gl_Stream :: "'c option"
  gl_Heartbeat :: "HeartbeatWithChangeRequest option option"
  gl_Responses :: "('c \<times> Response) list"
  gl_Requests :: "('c \<times> Request) list"

text \<open>
  gRPC: what dialling the core answers with, and whether a stream takes a message.
\<close>

record 'c net =
  nt_Dial :: "go_error + 'c"
  nt_SendResponse :: "'c \<Rightarrow> Response \<Rightarrow> go_error option"
  nt_SendRequest :: "'c \<Rightarrow> Request \<Rightarrow> go_error option"

section \<open>The stream table\<close>

definition isExpire :: "int \<Rightarrow> 'c Stream \<Rightarrow> bool" where
  "isExpire now s \<longleftrightarrow> 0 < now - st_Expire s"

text \<open>\<open>Insert\<close> looks the entry up under the read lock, and decides and writes under the write lock.\<close>

definition insertFound ::
  "int \<Rightarrow> string \<Rightarrow> 'c Stream \<Rightarrow> 'c Stream option \<Rightarrow> (string, 'c Stream) gomap \<Rightarrow> (string, 'c Stream) gomap" where
  "insertFound now clusterName stream existStream table =
     (case existStream of
        Some e \<Rightarrow> if st_Status e = stOK \<and> \<not> isExpire now e then table
                  else gomap_put table clusterName stream
      | None \<Rightarrow> gomap_put table clusterName stream)"

definition InsertStream ::
  "int \<Rightarrow> string \<Rightarrow> 'c Stream \<Rightarrow> (string, 'c Stream) gomap \<Rightarrow> (string, 'c Stream) gomap" where
  "InsertStream now clusterName stream table =
     insertFound now clusterName stream (gomap_get table clusterName) table"

definition FindStream :: "(string, 'c Stream) gomap \<Rightarrow> string \<Rightarrow> 'c Stream option" where
  "FindStream table clusterName = gomap_get table clusterName"

text \<open>
  The entry both handlers insert. \<open>HeartbeatExpirePeriod\<close> is a number of nanoseconds, which is
  multiplied by \<open>time.Second\<close> once more, in 64 bits.
\<close>

definition streamFor :: "int \<Rightarrow> int \<Rightarrow> string \<Rightarrow> 'c \<Rightarrow> 'c Stream" where
  "streamFor heartbeatExpirePeriod now clusterName stream =
     \<lparr>st_ClusterName = clusterName, st_Stream = stream, st_Status = stOK,
      st_Expire = now + wrap64 (heartbeatExpirePeriod * 10 ^ 9)\<rparr>"

section \<open>Sending to a proxy\<close>

text \<open>\<open>core.SendResponse\<close> only logs an error.\<close>

definition SendResponse :: "'c net \<Rightarrow> 'c \<Rightarrow> Response \<Rightarrow> 'c globals \<Rightarrow> 'c globals" where
  "SendResponse net stream res g =
     (case nt_SendResponse net stream res of
        Some e \<Rightarrow> g
      | None \<Rightarrow> g\<lparr>gl_Responses := gl_Responses g @ [(stream, res)]\<rparr>)"

definition SendErrResponse ::
  "codec \<Rightarrow> 'c net \<Rightarrow> string \<Rightarrow> string \<Rightarrow> go_error \<Rightarrow> 'c \<Rightarrow> 'c globals \<Rightarrow> 'c globals" where
  "SendErrResponse j net clusterName responseType e stream =
     SendResponse net stream \<lparr>rp_Type = responseType, rp_ClusterName = clusterName, rp_Body = jErrorText j e\<rparr>"

definition SendResourceToProxy ::
  "'c net \<Rightarrow> string \<Rightarrow> Response \<Rightarrow> ('c globals, unit) step" where
  "SendResourceToProxy net clusterName resourceResponse g =
     (case FindStream (gl_Table g) clusterName of
        None \<Rightarrow> (Raise (ErrFmt ''cannot find proxy(%s) stream'' [clusterName]), g)
      | Some stream \<Rightarrow>
          (case nt_SendResponse net (st_Stream stream) resourceResponse of
             Some e \<Rightarrow> (Raise e, g)
           | None \<Rightarrow> (Inr (), g\<lparr>gl_Responses := gl_Responses g @ [(st_Stream stream, resourceResponse)]\<rparr>)))"

section \<open>The connection of a proxy\<close>

definition GetConnection :: "'c net \<Rightarrow> ('c globals, 'c option) step" where
  "GetConnection net g =
     (if gl_Initialized g then (Inr (gl_Stream g), g)
      else case nt_Dial net of
             Inl e \<Rightarrow> (Inr (gl_Stream g), g)
           | Inr s \<Rightarrow> (Inr (Some s), g\<lparr>gl_Stream := Some s, gl_Initialized := True\<rparr>))"

definition SetEmptyConnection :: "'c globals \<Rightarrow> 'c globals" where
  "SetEmptyConnection g = g\<lparr>gl_Initialized := False, gl_Stream := None\<rparr>"

definition sendOn :: "'c net \<Rightarrow> 'c \<Rightarrow> Request \<Rightarrow> ('c globals, unit) step" where
  "sendOn net stream request g =
     (case nt_SendRequest net stream request of
        Some e \<Rightarrow> (Raise e, g)
      | None \<Rightarrow> (Inr (), g\<lparr>gl_Requests := gl_Requests g @ [(stream, request)]\<rparr>))"

definition SendSyncResourceRequest :: "'c net \<Rightarrow> Request \<Rightarrow> ('c globals, unit) step" where
  "SendSyncResourceRequest net request =
     bindS (GetConnection net) (\<lambda>stream.
       case stream of
         None \<Rightarrow> liftS (Raise (ErrMsg ''new stream failed''))
       | Some c \<Rightarrow> sendOn net c request)"

section \<open>Two parts of the state\<close>

text \<open>A step on the server and a step on the package variables, over the pair of both.\<close>

definition onServer :: "('s, 'a) step \<Rightarrow> ('s \<times> 'g, 'a) step" where
  "onServer m w = (case m (fst w) of (r, s) \<Rightarrow> (r, (s, snd w)))"

definition onGlobals :: "('g, 'a) step \<Rightarrow> ('s \<times> 'g, 'a) step" where
  "onGlobals m w = (case m (snd w) of (r, g) \<Rightarrow> (r, (fst w, g)))"

lemma on_simps [simp]:
  "m s = (r, s') \<Longrightarrow> onServer m (s, g) = (r, (s', g))"
  "n g = (r, g') \<Longrightarrow> onGlobals n (s, g) = (r, (s, g'))"
  by (simp_all add: onServer_def onGlobals_def)

section \<open>The table alone\<close>

lemma FindStream_Insert:
  "FindStream (InsertStream now n stream table) m =
     (if m = n then
        (case FindStream table n of
           Some e \<Rightarrow> if st_Status e = stOK \<and> \<not> isExpire now e then Some e else Some stream
         | None \<Rightarrow> Some stream)
      else FindStream table m)"
  by (auto simp: FindStream_def InsertStream_def insertFound_def split: option.splits)

lemma fresh_not_expired:
  assumes "0 \<le> p" and "p * 10 ^ 9 < 2 ^ 63" and "later \<le> now + p * 10 ^ 9"
  shows "\<not> isExpire later (streamFor p now n c)"
  using assms by (simp add: isExpire_def streamFor_def in_int64_def)

section \<open>The table under interleaved inserts\<close>

text \<open>
  Handlers run in goroutines, so that between the look-up and the write of one \<open>Insert\<close> others may
  run. \<open>ti_Pending\<close> holds the inserts that have looked up and not yet written.
\<close>

record 'c table_state =
  ti_Table :: "(string, 'c Stream) gomap"
  ti_Pending :: "(string \<times> 'c Stream \<times> 'c Stream option) list"

inductive table_step :: "int \<Rightarrow> 'c table_state \<Rightarrow> 'c table_state \<Rightarrow> bool" for period where
  looked: "table_step period t
     (t\<lparr>ti_Pending := ti_Pending t @ [(n, streamFor period now n c, gomap_get (ti_Table t) n)]\<rparr>)"
| stored: "i < length (ti_Pending t) \<Longrightarrow> ti_Pending t ! i = (n, stream, found) \<Longrightarrow>
   table_step period t
     (t\<lparr>ti_Table := insertFound now n stream found (ti_Table t),
        ti_Pending := take i (ti_Pending t) @ drop (Suc i) (ti_Pending t)\<rparr>)"

inductive_cases table_stepE: "table_step period t t'"

definition table_runs :: "int \<Rightarrow> 'c table_state \<Rightarrow> 'c table_state \<Rightarrow> bool" where
  "table_runs period = (table_step period)\<^sup>*\<^sup>*"

definition emptyTable :: "'c table_state" where "emptyTable = \<lparr>ti_Table = [], ti_Pending = []\<rparr>"

section \<open>The connection under interleaving\<close>

text \<open>
  \<open>SetEmptyConnection\<close> makes two writes without the mutex; \<open>GetConnection\<close> runs between them. The
  state has the two variables and the number of calls of \<open>SetEmptyConnection\<close> that have made the first
  write only.
\<close>

record 'c conn_state =
  cn_Initialized :: bool
  cn_Stream :: "'c option"
  cn_Resetting :: nat

inductive conn_step :: "'c conn_state \<Rightarrow> 'c conn_state \<Rightarrow> bool" where
  dialled: "\<not> cn_Initialized t \<Longrightarrow> conn_step t (t\<lparr>cn_Stream := Some c, cn_Initialized := True\<rparr>)"
| reset_flag: "conn_step t (t\<lparr>cn_Initialized := False, cn_Resetting := Suc (cn_Resetting t)\<rparr>)"
| reset_stream: "cn_Resetting t = Suc n \<Longrightarrow> conn_step t (t\<lparr>cn_Stream := None, cn_Resetting := n\<rparr>)"

inductive_cases conn_stepE: "conn_step t t'"

definition noConnection :: "'c conn_state" where
  "noConnection = \<lparr>cn_Initialized = False, cn_Stream = None, cn_Resetting = 0\<rparr>"

definition conn_ok :: "'c globals \<Rightarrow> bool" where
  "conn_ok g \<longleftrightarrow> (gl_Initialized g \<longleftrightarrow> gl_Stream g \<noteq> None)"

lemma conn_ok_GetConnection:
  assumes "conn_ok g" and "GetConnection net g = (r, g')"
  shows "conn_ok g'"
  using assms by (auto simp: GetConnection_def conn_ok_def split: if_splits sum.splits)

lemma conn_ok_SetEmptyConnection: "conn_ok (SetEmptyConnection g)"
  by (simp add: conn_ok_def SetEmptyConnection_def)

lemma GetConnection_dials:
  assumes "conn_ok g" and "nt_Dial net = Inr c"
  shows "\<exists>c' g'. GetConnection net g = (Inr (Some c'), g') \<and> gl_Stream g' = Some c'"
  using assms by (auto simp: GetConnection_def conn_ok_def)

section \<open>Properties\<close>

text \<open>
  Two inserts for one cluster: both look up before either writes.
\<close>

definition txStream :: "nat \<Rightarrow> nat Stream" where "txStream c = streamFor 1 0 ''c'' c"

definition txBoth :: "nat table_state" where
  "txBoth = \<lparr>ti_Table = [], ti_Pending = [(''c'', txStream 1, None), (''c'', txStream 2, None)]\<rparr>"

definition txFirst :: "nat table_state" where
  "txFirst = \<lparr>ti_Table = [(''c'', txStream 1)], ti_Pending = [(''c'', txStream 2, None)]\<rparr>"

definition txSecond :: "nat table_state" where
  "txSecond = \<lparr>ti_Table = [(''c'', txStream 2)], ti_Pending = []\<rparr>"

lemma tx_runs: "table_runs 1 emptyTable txFirst" "table_step 1 txFirst txSecond"
proof -
  have look: "table_step 1 t (t\<lparr>ti_Pending := ti_Pending t @ [(''c'', txStream c, gomap_get (ti_Table t) ''c'')]\<rparr>)"
    for t c unfolding txStream_def by (rule looked)
  have "table_step 1 emptyTable (emptyTable\<lparr>ti_Pending := [(''c'', txStream 1, None)]\<rparr>)"
    using look [of emptyTable 1] by (simp add: emptyTable_def)
  moreover have "table_step 1 (emptyTable\<lparr>ti_Pending := [(''c'', txStream 1, None)]\<rparr>) txBoth"
    using look [of "emptyTable\<lparr>ti_Pending := [(''c'', txStream 1, None)]\<rparr>" 2]
    by (simp add: emptyTable_def txBoth_def)
  moreover have "table_step 1 txBoth txFirst"
    using stored [of 0 txBoth "''c''" "txStream 1" None 1 0]
    by (simp add: txBoth_def txFirst_def insertFound_def gomap_put_def)
  ultimately show "table_runs 1 emptyTable txFirst"
    unfolding table_runs_def by (meson converse_rtranclp_into_rtranclp rtranclp.rtrancl_refl)
  show "table_step 1 txFirst txSecond"
    using stored [of 0 txFirst "''c''" "txStream 2" None 1 0]
    by (simp add: txFirst_def txSecond_def insertFound_def gomap_put_def)
qed

text \<open>
  The guard of \<open>Insert\<close> does not hold under interleaving: there is a run in which the stream that a
  cluster has in the table, not expired, is replaced by another one, while an insert that runs alone
  leaves it there.
\<close>

theorem insert_race:
  "\<exists>(t :: nat table_state) t' old new. table_runs 1 emptyTable t \<and> table_step 1 t t' \<and>
     FindStream (ti_Table t) ''c'' = Some old \<and> \<not> isExpire 0 old \<and>
     FindStream (ti_Table t') ''c'' = Some new \<and> new \<noteq> old \<and>
     FindStream (InsertStream 0 ''c'' new (ti_Table t)) ''c'' = Some old"
  by (rule exI [of _ txFirst], rule exI [of _ txSecond], rule exI [of _ "txStream 1"], rule exI [of _ "txStream 2"])
     (use tx_runs in \<open>auto simp: txFirst_def txSecond_def InsertStream_def insertFound_def FindStream_def gomap_get_def
        txStream_def streamFor_def isExpire_def wrap64_def\<close>)

text \<open>
  C32: the period is multiplied by a second twice, and at its default of 30 seconds the product overflows:
  a stream has expired when it is inserted, and the next insert for its cluster replaces it, however soon
  it comes.
\<close>

theorem default_period_overflows:
  assumes "FindStream table n = None" and "earlier \<le> now"
  shows "isExpire earlier (streamFor (30 * 10 ^ 9) earlier n c) \<and>
         FindStream (InsertStream now n stream
           (InsertStream earlier n (streamFor (30 * 10 ^ 9) earlier n c) table)) n = Some stream"
  using assms
  by (auto simp: FindStream_Insert isExpire_def streamFor_def wrap64_def split: option.splits)

lemma default_period_overflows_witness:
  "isExpire 0 (streamFor (30 * 10 ^ 9) 0 ''c'' (1::nat)) \<and>
   FindStream (InsertStream 1 ''c'' (txStream 2) (InsertStream 0 ''c'' (streamFor (30 * 10 ^ 9) 0 ''c'' 1) [])) ''c''
     = Some (txStream 2)"
  using default_period_overflows [of "[]" "''c''" 0 1 1 "txStream 2"] by (simp add: FindStream_def)

text \<open>
  A connection that is dialled between the two writes of \<open>SetEmptyConnection\<close> is lost: the flag says
  that there is a connection, the variable is nil, and \<open>GetConnection\<close> answers nil without dialling.
\<close>

theorem connection_race:
  "\<exists>t :: nat conn_state. conn_step\<^sup>*\<^sup>* noConnection t \<and> cn_Resetting t = 0 \<and>
     (\<forall>net g. let lost = g\<lparr>gl_Initialized := cn_Initialized t, gl_Stream := cn_Stream t\<rparr> in
        GetConnection net lost = (Inr None, lost))"
proof -
  let ?a = "(noConnection :: nat conn_state)\<lparr>cn_Resetting := Suc 0\<rparr>"
  let ?b = "?a\<lparr>cn_Stream := Some 1, cn_Initialized := True\<rparr>"
  let ?c = "?b\<lparr>cn_Stream := None, cn_Resetting := 0\<rparr>"
  have "conn_step noConnection ?a" using reset_flag [of noConnection] by (simp add: noConnection_def)
  moreover have "conn_step ?a ?b" by (rule dialled) (simp add: noConnection_def)
  moreover have "conn_step ?b ?c" by (rule reset_stream) simp
  ultimately have "conn_step\<^sup>*\<^sup>* noConnection ?c" by (meson converse_rtranclp_into_rtranclp rtranclp.rtrancl_refl)
  then show ?thesis by (rule_tac x = ?c in exI) (auto simp: GetConnection_def)
qed

text \<open>
  Run one after the other, the operations on the connection keep the flag and the variable in step: a
  proxy has a connection whenever dialling succeeds, also after it has lost one.
\<close>

theorem connection_alone:
  assumes "conn_ok g"
  shows "\<exists>r g'. GetConnection net g = (Inr r, g') \<and> conn_ok g' \<and> conn_ok (SetEmptyConnection g') \<and>
           (\<forall>c. nt_Dial net = Inr c \<longrightarrow> r \<noteq> None \<and> fst (GetConnection net (SetEmptyConnection g')) = Inr (Some c))"
  using assms
  by (auto simp: GetConnection_def conn_ok_def SetEmptyConnection_def split: sum.splits)

end
