(* ===== verification/ClusterResourceControl.thy ===== *)
theory ClusterResourceControl
  imports Channel Finalizer Naming Server
begin

text \<open>
  The \<open>ClusterResource\<close> controller (\<open>pkg/controller/cluster-resource\<close>), which runs in both
  processes. In the core it hands every cluster resource to the proxy of its cluster. In a proxy it
  creates, updates or deletes the object that the cluster resource holds and reports the result to
  the core. Logging is left out.
\<close>

section \<open>The object in a cluster resource\<close>

text \<open>\<open>helper.GetResourceForRawExtension\<close>: the raw bytes as an unstructured object.\<close>

definition GetResourceForRawExtension :: "codec \<Rightarrow> raw \<Rightarrow> Unstructured res" where
  "GetResourceForRawExtension j raw = liftE (jUnmarshalObject j raw)"

definition GetClusterResourceObjectForRawExtension ::
  "'s kube \<Rightarrow> codec \<Rightarrow> ClusterResource \<Rightarrow> Unstructured res" where
  "GetClusterResourceObjectForRawExtension k j inst =
     (case cr_Resource inst of
        None \<Rightarrow> Raise (ErrMsg ''resource is empty'')
      | Some raw \<Rightarrow>
          bindR (GetResourceForRawExtension j raw) (\<lambda>resourceObject.
            Inr (un_Meta_update (\<lambda>m. m\<lparr>om_OwnerReferences :=
                   [kControllerRef k (cr_Meta inst) ''ClusterResource'']\<rparr>) resourceObject)))"

definition setAnnotations :: "(string, string) gomap \<Rightarrow> Unstructured \<Rightarrow> Unstructured" where
  "setAnnotations a = un_Meta_update (\<lambda>m. m\<lparr>om_Annotations := Some a\<rparr>)"

section \<open>Comparing and updating\<close>

text \<open>The annotation of an object is its spec as JSON.\<close>

definition getResourceAnnotations :: "codec \<Rightarrow> Unstructured \<Rightarrow> string res" where
  "getResourceAnnotations j resource =
     (case gomap_get (un_Object resource) ''spec'' of
        None \<Rightarrow> Raise (ErrMsg ''get spec failed'')
      | Some specObject \<Rightarrow>
          (case jMarshalJson j specObject of
             Inl e \<Rightarrow> Raise (ErrMsg ''spec json marshal failed'')
           | Inr specData \<Rightarrow> Inr specData))"

definition resourceDeepEqual :: "(string, json) gomap \<Rightarrow> (string, json) gomap \<Rightarrow> bool" where
  "resourceDeepEqual old new =
     (case gomap_get new ''spec'' of
        None \<Rightarrow> False
      | Some newSpecObject \<Rightarrow>
          (case gomap_get old ''spec'' of
             None \<Rightarrow> False
           | Some oldSpecObject \<Rightarrow> newSpecObject = oldSpecObject))"

definition resourceEqual :: "codec \<Rightarrow> Unstructured \<Rightarrow> Unstructured \<Rightarrow> bool" where
  "resourceEqual j old new =
     (case gomap_get (mapOr (om_Annotations (un_Meta old))) ResourceAnnotationKey of
        None \<Rightarrow> resourceDeepEqual (un_Object old) (un_Object new)
      | Some annotationValue \<Rightarrow>
          (case getResourceAnnotations j new of
             Inl e \<Rightarrow> False
           | Inr newAnnotationValue \<Rightarrow>
               if length annotationValue = 0 then False else newAnnotationValue = annotationValue))"

definition changeNoSpecResource :: "Unstructured \<Rightarrow> Unstructured \<Rightarrow> Unstructured" where
  "changeNoSpecResource old new =
     old\<lparr>un_Object :=
       fold (\<lambda>(k, v) m. if k = ''apiVersion'' \<or> k = ''kind'' \<or> k = ''metadata'' \<or> k = ''status'' then m
                        else gomap_put m k v)
         (un_Object new) (un_Object old)\<rparr>"

text \<open>The annotations of \<open>old\<close> may be a nil map, which cannot be written to.\<close>

definition getUpdateResource :: "codec \<Rightarrow> Unstructured \<Rightarrow> Unstructured \<Rightarrow> Unstructured res" where
  "getUpdateResource j old new =
     (case gomap_get (un_Object old) ''spec'' of
        None \<Rightarrow> Inr (changeNoSpecResource old new)
      | Some oldSpec \<Rightarrow>
          (case gomap_get (un_Object new) ''spec'' of
             None \<Rightarrow> Inr (changeNoSpecResource (old\<lparr>un_Object := gomap_del (un_Object old) ''spec''\<rparr>) new)
           | Some newSpec \<Rightarrow>
               let old = old\<lparr>un_Object := gomap_put (un_Object old) ''spec'' newSpec\<rparr> in
               (case getResourceAnnotations j new of
                  Inl e \<Rightarrow> Inr old
                | Inr newAnnotationValue \<Rightarrow>
                    (case om_Annotations (un_Meta old) of
                       None \<Rightarrow> Crash NilMapWrite
                     | Some annotation \<Rightarrow>
                         Inr (setAnnotations (gomap_put annotation ResourceAnnotationKey newAnnotationValue) old)))))"

definition annotated :: "codec \<Rightarrow> Unstructured \<Rightarrow> Unstructured" where
  "annotated j resourceObject =
     (case getResourceAnnotations j resourceObject of
        Inl e \<Rightarrow> resourceObject
      | Inr v \<Rightarrow> if 0 < length v
                 then setAnnotations (gomap_put [] ResourceAnnotationKey v) resourceObject
                 else resourceObject)"

definition createResource :: "'s kube \<Rightarrow> codec \<Rightarrow> Unstructured \<Rightarrow> ('s, unit) step" where
  "createResource k j resourceObject s =
     (case api_Create (kObject k (un_GVK resourceObject)) (annotated j resourceObject) s of
        (Inl AlreadyExists, s') \<Rightarrow> (Inr (), s')
      | (Inl e, s') \<Rightarrow> (Raise (ErrApi e), s')
      | (Inr _, s') \<Rightarrow> (Inr (), s'))"

definition syncResource :: "'s kube \<Rightarrow> codec \<Rightarrow> ClusterResource \<Rightarrow> ('s, unit) step" where
  "syncResource k j inst =
     bindS (liftS (GetClusterResourceObjectForRawExtension k j inst)) (\<lambda>resourceObject s.
       case api_Get (kObject k (un_GVK resourceObject)) s
              (om_Namespace (un_Meta resourceObject)) (om_Name (un_Meta resourceObject)) of
         Inl e \<Rightarrow> if e = NotFound then createResource k j resourceObject s
                  else (Raise (ErrApi e), s)
       | Inr existResource \<Rightarrow>
           if resourceEqual j existResource resourceObject then (Inr (), s)
           else bindS (liftS (getUpdateResource j existResource resourceObject)) (\<lambda>upd.
                bindS (writeS (api_Update (kObject k (un_GVK resourceObject)) upd)) (\<lambda>_. retS ())) s)"

definition deleteResource :: "'s kube \<Rightarrow> codec \<Rightarrow> ClusterResource \<Rightarrow> ('s, unit) step" where
  "deleteResource k j inst =
     bindS (liftS (GetClusterResourceObjectForRawExtension k j inst)) (\<lambda>resourceObject s.
       case api_Delete (kObject k (un_GVK resourceObject)) resourceObject s of
         (Some e, s') \<Rightarrow> if e = NotFound then (Inr (), s') else (Raise (ErrApi e), s')
       | (None, s') \<Rightarrow> (Inr (), s'))"

section \<open>Messages\<close>

datatype sync_event = SyncEventTypeUpdate | SyncEventTypeDelete

definition newUpdateClusterResourceStatusRequest ::
  "codec \<Rightarrow> ClusterResource list \<Rightarrow> string \<Rightarrow> Request res" where
  "newUpdateClusterResourceStatusRequest j clusterResourceList clusterName =
     bindR (liftE (jMarshalStatusItems j
              (map (\<lambda>cr. \<lparr>si_Name = om_Name (cr_Meta cr), si_Namespace = ClusterNamespace clusterName,
                           si_Status = cr_Status cr\<rparr>) clusterResourceList)))
       (NewResourceRequest rqResource clusterName)"

definition newSyncResourceResponse :: "codec \<Rightarrow> string \<Rightarrow> string \<Rightarrow> ClusterResource \<Rightarrow> Response res" where
  "newSyncResourceResponse j resType clusterName clusterResource =
     bindR (liftE (jMarshalClusterResources j [clusterResource]))
       (NewResourceResponse resType clusterName)"

definition sendClusterResourceToProxy ::
  "codec \<Rightarrow> 'c net \<Rightarrow> sync_event \<Rightarrow> ClusterResource \<Rightarrow> ('c globals, unit) step" where
  "sendClusterResourceToProxy j net eventType clusterResource =
     (let clusterName = ClusterName (om_Namespace (cr_Meta clusterResource)) in
      if length clusterName = 0 then liftS (Raise (ErrMsg ''can not find cluster name''))
      else bindS (liftS (newSyncResourceResponse j
                    (if eventType = SyncEventTypeDelete then rpResourceDelete else rpResourceUpdateOrCreate)
                    clusterName clusterResource))
             (SendResourceToProxy net clusterName))"

definition sendStatusToControlPlane ::
  "codec \<Rightarrow> 'c net \<Rightarrow> string \<Rightarrow> ClusterResource \<Rightarrow> ('c globals, unit) step" where
  "sendStatusToControlPlane j net clusterName resource =
     bindS (liftS (newUpdateClusterResourceStatusRequest j [resource] clusterName))
       (SendSyncResourceRequest net)"

section \<open>The status\<close>

definition newClusterResourceStatus :: "string \<Rightarrow> string \<Rightarrow> int \<Rightarrow> ClusterResourceStatus" where
  "newClusterResourceStatus phase message generation =
     \<lparr>rt_ObservedReceiveGeneration = generation, rt_Phase = phase, rt_Message = message\<rparr>"

text \<open>
  The process the controller runs in: whether it is the core, its cluster's name, the server it
  talks to and the streams.
\<close>

record ('s, 'c) process =
  pc_Kube :: "'s kube"
  pc_Codec :: codec
  pc_Net :: "'c net"
  pc_IsControlPlane :: bool
  pc_ClusterName :: string

definition updateClusterResourceStatus ::
  "('s, 'c) process \<Rightarrow> ClusterResource \<Rightarrow> ClusterResourceStatus \<Rightarrow> ('s \<times> 'c globals, unit) step" where
  "updateClusterResourceStatus p clusterResource status =
     (let clusterResource = clusterResource\<lparr>cr_Status := status\<rparr> in
      bindS (onGlobals (sendStatusToControlPlane (pc_Codec p) (pc_Net p) (pc_ClusterName p) clusterResource))
        (\<lambda>_. onServer (bindS (writeS (api_UpdateStatus (kClusterResource (pc_Kube p)) clusterResource))
                         (\<lambda>_. retS ()))))"

definition updateClusterResourceStatusWithCreateErrorMessage ::
  "('s, 'c) process \<Rightarrow> string \<Rightarrow> ClusterResource \<Rightarrow> ('s \<times> 'c globals, unit) step" where
  "updateClusterResourceStatusWithCreateErrorMessage p errorMessage inst =
     updateClusterResourceStatus p inst
       (newClusterResourceStatus phCreating errorMessage (om_Generation (cr_Meta inst)))"

definition isComplete :: "ClusterResource \<Rightarrow> bool" where
  "isComplete inst \<longleftrightarrow>
     rt_Phase (cr_Status inst) = phComplete \<and>
     rt_ObservedReceiveGeneration (cr_Status inst) = om_Generation (cr_Meta inst) \<and>
     length (rt_Message (cr_Status inst)) \<le> 0"

definition updateClusterResourceStatusWithPhaseComplete ::
  "('s, 'c) process \<Rightarrow> ClusterResource \<Rightarrow> ('s \<times> 'c globals, unit) step" where
  "updateClusterResourceStatusWithPhaseComplete p inst =
     (if isComplete inst then retS ()
      else updateClusterResourceStatus p inst
             (newClusterResourceStatus phComplete [] (om_Generation (cr_Meta inst))))"

definition updateClusterResourceStatusWithPhaseCreate ::
  "('s, 'c) process \<Rightarrow> ClusterResource \<Rightarrow> ('s \<times> 'c globals, unit) step" where
  "updateClusterResourceStatusWithPhaseCreate p inst =
     (if 0 < length (rt_Phase (cr_Status inst)) then retS ()
      else updateClusterResourceStatus p inst
             (newClusterResourceStatus phCreating [] (om_Generation (cr_Meta inst))))"

definition syncResourceAndUpdateStatus ::
  "('s, 'c) process \<Rightarrow> ClusterResource \<Rightarrow> ('s \<times> 'c globals, unit) step" where
  "syncResourceAndUpdateStatus p inst w =
     (case onServer (syncResource (pc_Kube p) (pc_Codec p) inst) w of
        (Inl (Err e), w') \<Rightarrow>
          bindS (updateClusterResourceStatusWithCreateErrorMessage p (jErrorText (pc_Codec p) e) inst)
            (\<lambda>_. liftS (Raise e)) w'
      | (Inl f, w') \<Rightarrow> (Inl f, w')
      | (Inr _, w') \<Rightarrow> updateClusterResourceStatusWithPhaseComplete p inst w')"

section \<open>The reconcile\<close>

definition syncCoreClusterResource ::
  "('s, 'c) process \<Rightarrow> ClusterResource \<Rightarrow> ('s \<times> 'c globals, reconciled) step" where
  "syncCoreClusterResource p inst =
     requeueS (onGlobals (sendClusterResourceToProxy (pc_Codec p) (pc_Net p) SyncEventTypeUpdate inst))
       (\<lambda>_. doneS)"

definition syncProxyClusterResource ::
  "('s, 'c) process \<Rightarrow> ClusterResource \<Rightarrow> ('s \<times> 'c globals, reconciled) step" where
  "syncProxyClusterResource p inst = requeueS (syncResourceAndUpdateStatus p inst) (\<lambda>_. doneS)"

definition syncClusterResource ::
  "('s, 'c) process \<Rightarrow> ClusterResource \<Rightarrow> ('s \<times> 'c globals, reconciled) step" where
  "syncClusterResource p inst =
     (if pc_IsControlPlane p then syncCoreClusterResource p inst else syncProxyClusterResource p inst)"

definition deleteClusterResource ::
  "('s, 'c) process \<Rightarrow> ClusterResource \<Rightarrow> ('s \<times> 'c globals, unit) step" where
  "deleteClusterResource p inst =
     (if \<not> pc_IsControlPlane p
      then if rt_Phase (cr_Status inst) \<noteq> phTerminating
           then onServer (deleteResource (pc_Kube p) (pc_Codec p) inst)
           else retS ()
      else onGlobals (sendClusterResourceToProxy (pc_Codec p) (pc_Net p) SyncEventTypeDelete inst))"

text \<open>\<open>addFinalizer\<close> and \<open>removeFinalizer\<close> of this controller.\<close>

abbreviation addClusterResourceFinalizer :: "('s, 'c) process \<Rightarrow> ClusterResource \<Rightarrow> ('s \<times> 'c globals, reconciled) step" where
  "addClusterResourceFinalizer p inst \<equiv>
     requeueS (onServer (AddFinalizer cr_Meta cr_Meta_update (kClusterResource (pc_Kube p)) inst)) (\<lambda>_. doneS)"

abbreviation removeClusterResourceFinalizer :: "('s, 'c) process \<Rightarrow> ClusterResource \<Rightarrow> ('s \<times> 'c globals, reconciled) step" where
  "removeClusterResourceFinalizer p inst \<equiv>
     requeueS (onServer (RemoveFinalizer cr_Meta cr_Meta_update (kClusterResource (pc_Kube p)) inst)) (\<lambda>_. doneS)"

definition removeClusterResource ::
  "('s, 'c) process \<Rightarrow> ClusterResource \<Rightarrow> ('s \<times> 'c globals, reconciled) step" where
  "removeClusterResource p inst =
     requeueS (deleteClusterResource p inst) (\<lambda>_.
       removeClusterResourceFinalizer p inst)"

definition reconcileClusterResource ::
  "('s, 'c) process \<Rightarrow> string \<Rightarrow> string \<Rightarrow> ('s \<times> 'c globals, reconciled) step" where
  "reconcileClusterResource p namespace name w =
     (if pc_IsControlPlane p \<and> \<not> strHasPrefix namespace ClusterNamespaceInControlPlanePrefix then doneS w
      else if \<not> pc_IsControlPlane p \<and> strHasPrefix namespace ClusterNamespaceInControlPlanePrefix then doneS w
      else case api_Get (kClusterResource (pc_Kube p)) (fst w) namespace name of
        Inl e \<Rightarrow> (Inr (doneResult, ignoreNotFound e), w)
      | Inr inst \<Rightarrow>
          if ShouldAddFinalizer cr_Meta inst
          then addClusterResourceFinalizer p inst w
          else if om_DeletionTimestamp (cr_Meta inst) \<noteq> None then removeClusterResource p inst w
          else syncClusterResource p inst w)"

interpretation clusterResourceObject: client_object cr_Meta cr_Meta_update
  by unfold_locales simp_all

interpretation clusterResourceLife: finalized_object cr_Meta cr_Meta_update
    "memApi mm_ClusterResources (\<lambda>xs. mm_ClusterResources_update (\<lambda>_. xs)) cr_Meta cr_Meta_update
       (\<lambda>a b. b\<lparr>cr_Status := cr_Status a\<rparr>)" cr_Resource cr_Status
  by unfold_locales simp_all

section \<open>The cluster resources of a proxy\<close>

text \<open>\<open>newClusterResource\<close>: the name and the spec of a cluster resource that came from the core.\<close>

definition newClusterResource :: "ClusterResource \<Rightarrow> ClusterResource" where
  "newClusterResource clusterResource =
     \<lparr>cr_Meta = zeroMeta\<lparr>om_Name := om_Name (cr_Meta clusterResource),
        om_Namespace := om_Namespace (cr_Meta clusterResource)\<rparr>,
      cr_Resource = cr_Resource clusterResource, cr_Status = zeroClusterResourceStatus\<rparr>"

definition SyncProxyClusterResource :: "'s kube \<Rightarrow> ClusterResource \<Rightarrow> ('s, unit) step" where
  "SyncProxyClusterResource k clusterResource s =
     (case api_Get (kClusterResource k) s (om_Namespace (cr_Meta clusterResource)) (om_Name (cr_Meta clusterResource)) of
        Inl e \<Rightarrow>
          if e = NotFound
          then bindS (writeS (api_Create (kClusterResource k) (newClusterResource clusterResource))) (\<lambda>_. retS ()) s
          else (Raise (ErrApi e), s)
      | Inr exist \<Rightarrow>
          if cr_Resource clusterResource = cr_Resource exist then (Inr (), s)
          else bindS (writeS (api_Update (kClusterResource k) (exist\<lparr>cr_Resource := cr_Resource clusterResource\<rparr>)))
                 (\<lambda>_. retS ()) s)"

definition DeleteProxyClusterResource :: "'s kube \<Rightarrow> ClusterResource \<Rightarrow> ('s, unit) step" where
  "DeleteProxyClusterResource k clusterResource s =
     (case api_Get (kClusterResource k) s (om_Namespace (cr_Meta clusterResource)) (om_Name (cr_Meta clusterResource)) of
        Inl e \<Rightarrow> if e = NotFound then (Inr (), s) else (Raise (ErrApi e), s)
      | Inr exist \<Rightarrow> deleteS (api_Delete (kClusterResource k) clusterResource) s)"

end
