(* ===== verification/MemCodec.thy ===== *)
theory MemCodec
  imports Messages
begin

text \<open>
  A concrete codec, at which the properties that need encodings are evaluated; the model of the
  program never uses it. A cluster resource becomes its name, namespace and raw object, separated by
  bars; raw bytes decode to a deployment whose spec they are; the body ''bad'' decodes with an error.
\<close>

definition memObject :: "raw \<Rightarrow> Unstructured" where
  "memObject raw = \<lparr>un_GVK = \<lparr>gvk_Group = ''apps'', gvk_Version = ''v1'', gvk_Kind = ''Deployment''\<rparr>,
     un_Meta = zeroMeta\<lparr>om_Name := ''web'', om_Namespace := ''team''\<rparr>,
     un_Object = [(''spec'', JString raw)]\<rparr>"

definition bar :: "string \<Rightarrow> string \<times> string" where
  "bar s = (takeWhile (\<lambda>c. c \<noteq> CHR ''|'') s, tl (dropWhile (\<lambda>c. c \<noteq> CHR ''|'') s))"

definition encodeResource :: "ClusterResource \<Rightarrow> string" where
  "encodeResource cr = om_Name (cr_Meta cr) @ ''|'' @ om_Namespace (cr_Meta cr) @ ''|'' @
     (case cr_Resource cr of None \<Rightarrow> [] | Some raw \<Rightarrow> raw)"

definition decodeResource :: "string \<Rightarrow> ClusterResource" where
  "decodeResource s = \<lparr>cr_Meta = zeroMeta\<lparr>om_Name := fst (bar s), om_Namespace := fst (bar (snd (bar s)))\<rparr>,
     cr_Resource = Some (snd (bar (snd (bar s)))), cr_Status = zeroClusterResourceStatus\<rparr>"

definition orBad :: "'a \<Rightarrow> string \<Rightarrow> 'a \<times> go_error option" where
  "orBad x s = (x, if s = ''bad'' then Some (ErrMsg ''unexpected end of JSON input'') else None)"

definition memHeartbeat :: HeartbeatWithChangeRequest where
  "memHeartbeat = \<lparr>hb_Healthy = True,
     hb_Addons = [\<lparr>ao_Name = ''etcd'', ao_Properties = Some (Decoded (JString ''ip''))\<rparr>], hb_Conditions = []\<rparr>"

definition memPolicy :: MultiClusterResourceAggregatePolicy where
  "memPolicy = \<lparr>ap_Meta = zeroMeta, ap_AggregateRules = [], ap_Clusters = None, ap_Policy = [], ap_Limit = None,
     ap_Status = [], ap_Message = []\<rparr>"

definition memCodec :: codec where
  "memCodec = \<lparr>
     jErrorText = (\<lambda>e. ''error''),
     jMarshalJson = (\<lambda>v. case v of JString s \<Rightarrow> Inr (''\"'' @ s) | _ \<Rightarrow> Inr ''value''),
     jMarshalProperties = (\<lambda>p. Inr ''properties''),
     jUnmarshalPluginsData = (\<lambda>s. Inr ([], JString s)),
     jUnmarshalObject = (\<lambda>raw. if raw = ''bad'' then Inl (ErrMsg ''unexpected end of JSON input'')
                               else Inr (memObject raw)),
     jUnmarshalMap = (\<lambda>raw. Inr []),
     jMarshalRegister = (\<lambda>as. Inr ''register''),
     jUnmarshalRegister = orBad [],
     jMarshalHeartbeat = (\<lambda>hb. Inr ''heartbeat''),
     jUnmarshalHeartbeat = orBad memHeartbeat,
     jMarshalStatusItems = (\<lambda>xs. Inr ''status''),
     jUnmarshalStatusItems = orBad [],
     jMarshalClusterResources = (\<lambda>xs. case xs of [cr] \<Rightarrow> Inr (encodeResource cr) | _ \<Rightarrow> Inr ''many''),
     jUnmarshalClusterResources = (\<lambda>s. orBad [decodeResource s] s),
     jMarshalClusterResource = (\<lambda>cr. Inr (encodeResource cr)),
     jUnmarshalClusterResource = (\<lambda>s. orBad (decodeResource s) s),
     jMarshalPolicy = (\<lambda>p. Inr ''policy''),
     jUnmarshalPolicy = orBad memPolicy,
     jMarshalRule = (\<lambda>r. Inr ''rule''),
     jUnmarshalRule = orBad \<lparr>ar_Meta = zeroMeta, ar_ResourceRef = None, ar_Cue = []\<rparr>,
     jMarshalRegisterResponse = (\<lambda>r. Inr ''resources''),
     jUnmarshalRegisterResponse = orBad \<lparr>rr_ClusterResources = [], rr_AggregatePolicies = [], rr_AggregateRules = []\<rparr>,
     jMarshalPlugins = (\<lambda>p. Inr ''plugins''),
     jMarshalConfiguration = (\<lambda>c. Inr (case c of None \<Rightarrow> ''null'' | Some raw \<Rightarrow> raw)),
     jMarshalClusterName = (\<lambda>n. Inr n)\<rparr>"

end
