(* ===== verification/ClusterResourceProps.thy ===== *)
theory ClusterResourceProps
  imports ClusterResourceControl MemCodec
begin

text \<open>
  The properties of the \<open>ClusterResource\<close> controller: that an object settles after one
  synchronisation and gets the new spec, what is reported to the core, what is sent to a proxy and
  what happens when there is none, and the nil map of an object without annotations.
\<close>

section \<open>One synchronisation\<close>

lemma resourceEqual_annotated:
  assumes "getResourceAnnotations j new = Inr v" and "v \<noteq> []"
    and "gomap_get (mapOr (om_Annotations (un_Meta old))) ResourceAnnotationKey = Some v"
  shows "resourceEqual j old new"
  using assms by (simp add: resourceEqual_def)

text \<open>What an update writes, for an object and a resource with a spec.\<close>

lemma getUpdateResource_spec:
  assumes "gomap_get (un_Object old) ''spec'' = Some sp" and "getResourceAnnotations j new = Inr v"
    and "om_Annotations (un_Meta old) = Some a"
  shows "\<exists>upd. getUpdateResource j old new = Inr upd \<and>
    un_Meta upd = (un_Meta old)\<lparr>om_Annotations := Some (gomap_put a ResourceAnnotationKey v)\<rparr> \<and>
    (\<exists>newSpec. gomap_get (un_Object new) ''spec'' = Some newSpec \<and>
       un_Object upd = gomap_put (un_Object old) ''spec'' newSpec)"
  using assms
  by (auto simp: getUpdateResource_def getResourceAnnotations_def setAnnotations_def
      split: option.splits sum.splits)

text \<open>
  The three ways in which a synchronisation succeeds: the object was created, it was up to date or
  another one created it meanwhile, or it was updated.
\<close>

lemma syncResource_cases:
  assumes "GetClusterResourceObjectForRawExtension k j inst = Inr o1"
    and run: "syncResource k j inst s = (Inr (), s')"
  obtains
    (created) o2 where
      "api_Get (kObject k (un_GVK o1)) s (om_Namespace (un_Meta o1)) (om_Name (un_Meta o1)) = Inl NotFound"
      "api_Create (kObject k (un_GVK o1)) (annotated j o1) s = (Inr o2, s')"
  | (exists) "api_Get (kObject k (un_GVK o1)) s (om_Namespace (un_Meta o1)) (om_Name (un_Meta o1)) = Inl NotFound"
      "api_Create (kObject k (un_GVK o1)) (annotated j o1) s = (Inl AlreadyExists, s')"
  | (equal) x where "api_Get (kObject k (un_GVK o1)) s (om_Namespace (un_Meta o1)) (om_Name (un_Meta o1)) = Inr x"
      "resourceEqual j x o1" "s' = s"
  | (updated) x upd o2 where
      "api_Get (kObject k (un_GVK o1)) s (om_Namespace (un_Meta o1)) (om_Name (un_Meta o1)) = Inr x"
      "\<not> resourceEqual j x o1" "getUpdateResource j x o1 = Inr upd"
      "api_Update (kObject k (un_GVK o1)) upd s = (Inr o2, s')"
proof (cases "api_Get (kObject k (un_GVK o1)) s (om_Namespace (un_Meta o1)) (om_Name (un_Meta o1))")
  case (Inl e)
  then have "e = NotFound" and c: "createResource k j o1 s = (Inr (), s')"
    using run assms(1) by (simp_all add: syncResource_def split: if_splits)
  obtain r s1 where a: "api_Create (kObject k (un_GVK o1)) (annotated j o1) s = (r, s1)" by fastforce
  show ?thesis
  proof (cases r)
    case (Inl e2)
    then have "e2 = AlreadyExists" "s1 = s'" using c a by (cases e2; simp add: createResource_def)+
    then show ?thesis using a Inl \<open>e = NotFound\<close> \<open>api_Get _ _ _ _ = _\<close> by (intro exists) simp_all
  next
    case (Inr o2)
    then have "s1 = s'" using c a by (simp add: createResource_def)
    then show ?thesis using a Inr \<open>e = NotFound\<close> \<open>api_Get _ _ _ _ = _\<close> by (intro created) simp_all
  qed
next
  case (Inr x)
  show ?thesis
  proof (cases "resourceEqual j x o1")
    case True
    then have "s' = s" using run assms(1) Inr by (simp add: syncResource_def)
    then show ?thesis by (rule equal [OF Inr True])
  next
    case False
    have u: "bindS (liftS (getUpdateResource j x o1)) (\<lambda>upd.
        bindS (writeS (api_Update (kObject k (un_GVK o1)) upd)) (\<lambda>_. retS ())) s = (Inr (), s')"
      using run assms(1) Inr False by (simp add: syncResource_def)
    then obtain upd where upd: "getUpdateResource j x o1 = Inr upd"
      by (auto simp: bindS_Inr_iff)
    obtain r s1 where w: "api_Update (kObject k (un_GVK o1)) upd s = (r, s1)" by fastforce
    from u upd w obtain o2 where "r = Inr o2" "s1 = s'"
      by (cases r) (simp_all add: bindS_def writeS_def)
    then show ?thesis using updated [OF Inr False upd, of o2] w by simp
  qed
qed

text \<open>
  C14: a synchronisation that succeeds settles the object, when the resource has a spec and an object that is already
  there has one too: the next synchronisation writes nothing, whether the object was created, updated or found up
  to date, and however the server has defaulted or pruned what was sent. (Without a spec nothing settles, see
  below.)
\<close>

theorem sync_resource_settles:
  assumes obj: "GetClusterResourceObjectForRawExtension k j inst = Inr o1"
    and kind: "object_kind (kObject k (un_GVK o1))"
    and spec: "getResourceAnnotations j o1 = Inr v" "v \<noteq> []"
    and old: "\<And>x. api_Get (kObject k (un_GVK o1)) s (om_Namespace (un_Meta o1)) (om_Name (un_Meta o1)) = Inr x \<Longrightarrow>
                om_DeletionTimestamp (un_Meta x) = None \<and> gomap_get (un_Object x) ''spec'' \<noteq> None"
    and run: "syncResource k j inst s = (Inr (), s')"
  shows "syncResource k j inst s' = (Inr (), s')"
proof -
  let ?a = "kObject k (un_GVK o1)" and ?ns = "om_Namespace (un_Meta o1)" and ?n = "om_Name (un_Meta o1)"
  have quiet: "syncResource k j inst s' = (Inr (), s')"
    if "api_Get ?a s' ?ns ?n = Inr x" "resourceEqual j x o1" for x
    using obj that by (simp add: syncResource_def)
  have marked: "resourceEqual j x o1"
    if "keeps_annotations obj x" "om_Annotations (un_Meta obj) = Some (gomap_put a ResourceAnnotationKey v)" for x obj a
    by (rule resourceEqual_annotated [OF spec]) (use that in \<open>simp add: keeps_annotations_def\<close>)
  from obj run show ?thesis
  proof (cases rule: syncResource_cases)
    case (created o2)
    have "un_Meta (annotated j o1) = (un_Meta o1)\<lparr>om_Annotations := Some (gomap_put [] ResourceAnnotationKey v)\<rparr>"
      using spec by (simp add: annotated_def setAnnotations_def)
    with object_kind.created [OF kind created(2)]
    show ?thesis by (intro quiet [of o2] marked [of "annotated j o1" o2 "[]"]) simp_all
  next
    case exists
    then show ?thesis using run object_kind.create_failed [OF kind exists(2)] by simp
  next
    case (equal x)
    then show ?thesis using quiet by simp
  next
    case (updated x upd o2)
    show ?thesis
    proof (cases "om_Annotations (un_Meta x)")
      case None
      then show ?thesis using updated(3) spec old [OF updated(1)]
        by (auto simp: getUpdateResource_def getResourceAnnotations_def Let_def split: option.splits sum.splits)
    next
      case (Some a)
      have m: "un_Meta upd = (un_Meta x)\<lparr>om_Annotations := Some (gomap_put a ResourceAnnotationKey v)\<rparr>"
        using getUpdateResource_spec [OF _ spec(1) Some] old [OF updated(1)] updated(3) by auto
      with object_kind.updated [OF kind _ _ _ updated(4)] object_kind.get_key [OF kind updated(1)]
        old [OF updated(1)] updated(1) show ?thesis
        by (intro quiet [of o2] marked [of upd o2 a]) simp_all
    qed
  qed
qed

text \<open>
  A resource without a spec, such as a config map, is never found up to date: each synchronisation over an existing
  object that succeeds has sent an update.
\<close>

theorem specless_rewritten:
  assumes "GetClusterResourceObjectForRawExtension k j inst = Inr o1" and "gomap_get (un_Object o1) ''spec'' = None"
    and "api_Get (kObject k (un_GVK o1)) s (om_Namespace (un_Meta o1)) (om_Name (un_Meta o1)) = Inr x"
    and "syncResource k j inst s = (Inr (), s')"
  shows "\<exists>upd o2. getUpdateResource j x o1 = Inr upd \<and> api_Update (kObject k (un_GVK o1)) upd s = (Inr o2, s')"
  using assms(1,4)
proof (cases rule: syncResource_cases)
  case (equal y)
  then show ?thesis using assms(2)
    by (auto simp: resourceEqual_def resourceDeepEqual_def getResourceAnnotations_def split: option.splits)
qed (use assms in auto)

text \<open>
  C15: when the spec of a resource has changed, a successful synchronisation has sent exactly one update, of the object
  as it was with the new spec in the place of the old one and the new value of the annotation, and nothing else
  changed. The object is then what the server made of this update, and bears the new annotation.
\<close>

theorem changed_spec_reaches_object:
  assumes obj: "GetClusterResourceObjectForRawExtension k j inst = Inr o1"
    and kind: "object_kind (kObject k (un_GVK o1))"
    and spec: "getResourceAnnotations j o1 = Inr v"
    and old: "api_Get (kObject k (un_GVK o1)) s (om_Namespace (un_Meta o1)) (om_Name (un_Meta o1)) = Inr x"
      "om_DeletionTimestamp (un_Meta x) = None" "gomap_get (un_Object x) ''spec'' = Some sp"
      "om_Annotations (un_Meta x) = Some a" "gomap_get a ResourceAnnotationKey = Some w" "w \<noteq> v"
    and run: "syncResource k j inst s = (Inr (), s')"
  shows "\<exists>upd o2. api_Update (kObject k (un_GVK o1)) upd s = (Inr o2, s') \<and>
           un_Meta upd = (un_Meta x)\<lparr>om_Annotations := Some (gomap_put a ResourceAnnotationKey v)\<rparr> \<and>
           (\<forall>key. gomap_get (un_Object upd) key =
              gomap_get (if key = ''spec'' then un_Object o1 else un_Object x) key) \<and>
           api_Get (kObject k (un_GVK o1)) s' (om_Namespace (un_Meta o1)) (om_Name (un_Meta o1)) = Inr o2 \<and>
           gomap_get (mapOr (om_Annotations (un_Meta o2))) ResourceAnnotationKey = Some v"
  using obj run
proof (cases rule: syncResource_cases)
  case (updated y upd o2)
  have xy: "y = x" using updated(1) old(1) by simp
  from getUpdateResource_spec [OF old(3) spec old(4)] updated(3)
  obtain newSpec where u: "un_Meta upd = (un_Meta x)\<lparr>om_Annotations := Some (gomap_put a ResourceAnnotationKey v)\<rparr>"
      "gomap_get (un_Object o1) ''spec'' = Some newSpec" "un_Object upd = gomap_put (un_Object x) ''spec'' newSpec"
    by (auto simp: xy)
  have "api_Get (kObject k (un_GVK o1)) s' (om_Namespace (un_Meta o1)) (om_Name (un_Meta o1)) = Inr o2 \<and> keeps_annotations upd o2"
    using object_kind.updated [OF kind _ old(2) _ updated(4)] object_kind.get_key [OF kind old(1)] old(1,2) u by simp
  with u updated(4) show ?thesis
    by (intro exI [of _ upd] exI [of _ o2]) (auto simp: keeps_annotations_def)
qed (use old spec in \<open>auto simp: resourceEqual_def split: if_splits\<close>)

text \<open>
  The update of an object that has a spec but no annotations panics: the annotation is written into a
  nil map.
\<close>

theorem unannotated_update_panics:
  assumes obj: "GetClusterResourceObjectForRawExtension k j inst = Inr o1"
    and spec: "gomap_get (un_Object o1) ''spec'' = Some new" "jMarshalJson j new = Inr v"
    and old: "api_Get (kObject k (un_GVK o1)) s (om_Namespace (un_Meta o1)) (om_Name (un_Meta o1)) = Inr x"
      "om_Annotations (un_Meta x) = None" "gomap_get (un_Object x) ''spec'' = Some sp" "sp \<noteq> new"
  shows "syncResource k j inst s = (Crash NilMapWrite, s)"
  using assms
  by (simp add: syncResource_def resourceEqual_def resourceDeepEqual_def getUpdateResource_def
      getResourceAnnotations_def Let_def bindS_def)

section \<open>Reports to the core\<close>

lemma status_sent:
  assumes "gl_Initialized g" and "gl_Stream g = Some c" and "clusterName \<noteq> []"
    and "jMarshalStatusItems j [\<lparr>si_Name = om_Name (cr_Meta inst), si_Namespace = ClusterNamespace clusterName,
           si_Status = cr_Status inst\<rparr>] = Inr body" and "body \<noteq> []"
    and "nt_SendRequest net c \<lparr>rq_Type = rqResource, rq_ClusterName = clusterName, rq_Body = body\<rparr> = None"
  shows "sendStatusToControlPlane j net clusterName inst g = (Inr (), g\<lparr>gl_Requests := gl_Requests g @
           [(c, \<lparr>rq_Type = rqResource, rq_ClusterName = clusterName, rq_Body = body\<rparr>)]\<rparr>)"
  using assms
  by (simp add: sendStatusToControlPlane_def newUpdateClusterResourceStatusRequest_def NewResourceRequest_def
      SendSyncResourceRequest_def GetConnection_def bindS_def sendOn_def)

text \<open>The status that reports the outcome of a synchronisation, and how the reconcile then ends.\<close>

definition outcomeStatus :: "codec \<Rightarrow> unit res \<Rightarrow> int \<Rightarrow> ClusterResourceStatus" where
  "outcomeStatus j out generation =
     (case out of
        Inl (Err e) \<Rightarrow> newClusterResourceStatus phCreating (jErrorText j e) generation
      | _ \<Rightarrow> newClusterResourceStatus phComplete [] generation)"

definition outcomeResult :: "unit res \<Rightarrow> reconciled" where
  "outcomeResult out = (case out of Inl (Err e) \<Rightarrow> reQueueResult e | _ \<Rightarrow> (doneResult, None))"

text \<open>
  C33: the reconcile of a cluster resource in a connected proxy reports the outcome of the synchronisation,
  complete or an error with its text, first to the core and then in the status, and asks for
  another reconcile exactly when the synchronisation failed.
\<close>

theorem proxy_reports_outcome:
  fixes p :: "('s, 'c) process"
  defines "j \<equiv> pc_Codec p" and "api \<equiv> kClusterResource (pc_Kube p)"
  assumes proc: "\<not> pc_IsControlPlane p" "pc_ClusterName p \<noteq> []"
      "\<not> strHasPrefix ns ClusterNamespaceInControlPlanePrefix"
    and inst: "api_Get api s ns n = Inr inst" "\<not> ShouldAddFinalizer cr_Meta inst"
      "om_DeletionTimestamp (cr_Meta inst) = None" "\<not> isComplete inst"
    and sync: "syncResource (pc_Kube p) j inst s = (out, s1)" "out = Inr () \<or> (\<exists>e. out = Raise e)"
    and new: "new = inst\<lparr>cr_Status := outcomeStatus j out (om_Generation (cr_Meta inst))\<rparr>"
    and conn: "gl_Initialized g" "gl_Stream g = Some c"
    and req: "jMarshalStatusItems j [\<lparr>si_Name = om_Name (cr_Meta inst),
                si_Namespace = ClusterNamespace (pc_ClusterName p), si_Status = cr_Status new\<rparr>] = Inr body"
      "body \<noteq> []" "rq = \<lparr>rq_Type = rqResource, rq_ClusterName = pc_ClusterName p, rq_Body = body\<rparr>"
      "nt_SendRequest (pc_Net p) c rq = None"
    and upd: "api_UpdateStatus api new s1 = (Inr o2, s2)"
  shows "reconcileClusterResource p ns n (s, g) =
           (Inr (outcomeResult out), (s2, g\<lparr>gl_Requests := gl_Requests g @ [(c, rq)]\<rparr>))"
proof -
  have send: "sendStatusToControlPlane j (pc_Net p) (pc_ClusterName p) new g =
      (Inr (), g\<lparr>gl_Requests := gl_Requests g @ [(c, rq)]\<rparr>)"
    using status_sent [of g c "pc_ClusterName p" j new body "pc_Net p"] conn proc req new by simp
  have w: "bindS (writeS (api_UpdateStatus api new)) (\<lambda>_. retS ()) s1 = (Inr (), s2)"
    using upd by (simp add: bindS_def writeS_def)
  have stat: "updateClusterResourceStatus p inst (outcomeStatus j out (om_Generation (cr_Meta inst))) (s1, g) =
      (Inr (), (s2, g\<lparr>gl_Requests := gl_Requests g @ [(c, rq)]\<rparr>))"
    using send w by (simp add: updateClusterResourceStatus_def new Let_def j_def api_def bindS_def)
  have "syncResourceAndUpdateStatus p inst (s, g) =
      (out, (s2, g\<lparr>gl_Requests := gl_Requests g @ [(c, rq)]\<rparr>))"
    using sync(2)
  proof
    assume "out = Inr ()"
    then show ?thesis using sync(1) stat inst(4)
      by (simp add: syncResourceAndUpdateStatus_def updateClusterResourceStatusWithPhaseComplete_def
          outcomeStatus_def j_def)
  next
    assume "\<exists>e. out = Raise e"
    then show ?thesis using sync(1) stat
      by (auto simp: syncResourceAndUpdateStatus_def updateClusterResourceStatusWithCreateErrorMessage_def
          outcomeStatus_def j_def bindS_def)
  qed
  then have "syncProxyClusterResource p inst (s, g) =
      (Inr (outcomeResult out), (s2, g\<lparr>gl_Requests := gl_Requests g @ [(c, rq)]\<rparr>))"
    using sync(2) by (auto simp: syncProxyClusterResource_def outcomeResult_def)
  then show ?thesis
    using proc inst by (simp add: reconcileClusterResource_def syncClusterResource_def api_def)
qed

section \<open>The core and its streams\<close>

definition syncType :: "sync_event \<Rightarrow> string" where
  "syncType event = (if event = SyncEventTypeDelete then rpResourceDelete else rpResourceUpdateOrCreate)"

lemma sendClusterResource_sent:
  assumes cl: "cluster \<noteq> []" "\<not> strContains cluster ClusterNamespaceInControlPlanePrefix"
    and ns: "om_Namespace (cr_Meta inst) = ClusterNamespace cluster"
    and stream: "FindStream (gl_Table g) cluster = Some st"
    and msg: "jMarshalClusterResources j [inst] = Inr body" "body \<noteq> []"
      "rp = \<lparr>rp_Type = syncType event, rp_ClusterName = cluster, rp_Body = body\<rparr>"
      "nt_SendResponse net (st_Stream st) rp = None"
  shows "sendClusterResourceToProxy j net event inst g =
    (Inr (), g\<lparr>gl_Responses := gl_Responses g @ [(st_Stream st, rp)]\<rparr>)"
  using assms
  by (simp add: sendClusterResourceToProxy_def ClusterName_ClusterNamespace newSyncResourceResponse_def
      NewResourceResponse_def SendResourceToProxy_def bindS_def syncType_def)

text \<open>
  The reconcile of a cluster resource in the core, for a cluster with a stream, sends exactly one
  message, with the cluster resource, on the stream of the cluster in whose namespace it is, and writes
  nothing to the server.
\<close>

theorem core_hands_over:
  fixes p :: "('s, 'c) process"
  assumes proc: "pc_IsControlPlane p"
    and cl: "cluster \<noteq> []" "\<not> strContains cluster ClusterNamespaceInControlPlanePrefix"
    and kind: "api_kind (kClusterResource (pc_Kube p)) cr_Meta cr_Resource"
    and inst: "api_Get (kClusterResource (pc_Kube p)) s (ClusterNamespace cluster) n = Inr inst"
      "\<not> ShouldAddFinalizer cr_Meta inst" "om_DeletionTimestamp (cr_Meta inst) = None"
    and stream: "FindStream (gl_Table g) cluster = Some st"
    and msg: "jMarshalClusterResources (pc_Codec p) [inst] = Inr body" "body \<noteq> []"
      "rp = \<lparr>rp_Type = rpResourceUpdateOrCreate, rp_ClusterName = cluster, rp_Body = body\<rparr>"
      "nt_SendResponse (pc_Net p) (st_Stream st) rp = None"
  shows "reconcileClusterResource p (ClusterNamespace cluster) n (s, g) =
           (Inr (doneResult, None), (s, g\<lparr>gl_Responses := gl_Responses g @ [(st_Stream st, rp)]\<rparr>))"
proof -
  have "om_Namespace (cr_Meta inst) = ClusterNamespace cluster"
    using api_kind.get_key [OF kind inst(1)] by simp
  then have "sendClusterResourceToProxy (pc_Codec p) (pc_Net p) SyncEventTypeUpdate inst g =
      (Inr (), g\<lparr>gl_Responses := gl_Responses g @ [(st_Stream st, rp)]\<rparr>)"
    using msg by (intro sendClusterResource_sent [OF cl _ stream msg(1,2)]) (simp_all add: syncType_def)
  then show ?thesis using proc inst
    by (simp add: reconcileClusterResource_def syncClusterResource_def syncCoreClusterResource_def)
qed

text \<open>
  C34: without a stream for its cluster a cluster resource in the core is neither handed over nor released:
  the reconcile, of a live one or of one that is being deleted, changes nothing and is repeated. The
  cluster resources of a cluster that never comes back keep their finalizer.
\<close>

theorem no_stream_no_release:
  fixes p :: "('s, 'c) process"
  assumes proc: "pc_IsControlPlane p"
    and cl: "cluster \<noteq> []" "\<not> strContains cluster ClusterNamespaceInControlPlanePrefix"
    and kind: "api_kind (kClusterResource (pc_Kube p)) cr_Meta cr_Resource"
    and inst: "api_Get (kClusterResource (pc_Kube p)) s (ClusterNamespace cluster) n = Inr inst"
      "\<not> ShouldAddFinalizer cr_Meta inst"
    and stream: "FindStream (gl_Table g) cluster = None"
    and msg: "jMarshalClusterResources (pc_Codec p) [inst] = Inr body" "body \<noteq> []"
  shows "\<exists>e. reconcileClusterResource p (ClusterNamespace cluster) n (s, g) = (Inr (reQueueResult e), (s, g))"
proof -
  have "om_Namespace (cr_Meta inst) = ClusterNamespace cluster"
    using api_kind.get_key [OF kind inst(1)] by simp
  then have "sendClusterResourceToProxy (pc_Codec p) (pc_Net p) event inst g =
      (Raise (ErrFmt ''cannot find proxy(%s) stream'' [cluster]), g)" for event
    using cl stream msg
    by (simp add: sendClusterResourceToProxy_def ClusterName_ClusterNamespace newSyncResourceResponse_def
        NewResourceResponse_def SendResourceToProxy_def bindS_def)
  then show ?thesis using proc inst
    by (auto simp: reconcileClusterResource_def syncClusterResource_def syncCoreClusterResource_def
        removeClusterResource_def deleteClusterResource_def)
qed

section \<open>Witnesses\<close>

definition cxDeployment :: GroupVersionKind where
  "cxDeployment = \<lparr>gvk_Group = ''apps'', gvk_Version = ''v1'', gvk_Kind = ''Deployment''\<rparr>"

definition cxNet :: "nat net" where
  "cxNet = \<lparr>nt_Dial = Inr 1, nt_SendResponse = (\<lambda>c r. None), nt_SendRequest = (\<lambda>c r. None)\<rparr>"

definition cxProcess :: "bool \<Rightarrow> (mem, nat) process" where
  "cxProcess core = \<lparr>pc_Kube = memKube, pc_Codec = memCodec, pc_Net = cxNet, pc_IsControlPlane = core,
     pc_ClusterName = ''c1''\<rparr>"

definition cxInst :: "string \<Rightarrow> raw \<Rightarrow> ClusterResource" where
  "cxInst ns raw = \<lparr>cr_Meta = zeroMeta\<lparr>om_Name := ''r'', om_Namespace := ns, om_Generation := 3,
     om_Finalizers := [FinalizerName]\<rparr>, cr_Resource = Some raw, cr_Status = zeroClusterResourceStatus\<rparr>"

definition cxObject :: "raw \<Rightarrow> (string, string) gomap option \<Rightarrow> Unstructured" where
  "cxObject raw a = un_Meta_update (\<lambda>m. m\<lparr>om_Annotations := a\<rparr>) (memObject raw)"

definition cxMem :: "ClusterResource list \<Rightarrow> Unstructured list \<Rightarrow> mem" where
  "cxMem crs objs = emptyMem\<lparr>mm_ClusterResources := crs, mm_Objects := [(cxDeployment, objs)]\<rparr>"

definition cxGlobals :: "nat globals" where
  "cxGlobals = \<lparr>gl_Table = [(''c1'', streamFor 1 0 ''c1'' 7)], gl_Initialized = True, gl_Stream = Some 5,
     gl_Heartbeat = None, gl_Responses = [], gl_Requests = []\<rparr>"

text \<open>The objects are on the server that defaults and protects what it stores.\<close>

lemmas admitted_objects = admittedObjects.object_kind_axioms

lemma mem_cluster_resource_kind: "api_kind (kClusterResource memKube) cr_Meta cr_Resource"
  using clusterResourceStore.served.api_kind_axioms by (simp add: memKube_def)

lemma cx_object:
  assumes "raw \<noteq> ''bad''"
  obtains o1 where "GetClusterResourceObjectForRawExtension k memCodec (cxInst ns raw) = Inr o1"
    and "un_GVK o1 = cxDeployment" "un_Object o1 = [(''spec'', JString raw)]"
    and "om_Namespace (un_Meta o1) = ''team''" "om_Name (un_Meta o1) = ''web''"
  using assms
  by (simp add: GetClusterResourceObjectForRawExtension_def GetResourceForRawExtension_def cxInst_def memCodec_def
      memObject_def cxDeployment_def zeroMeta_def)

lemma cx_spec:
  "un_Object o1 = [(''spec'', JString raw)] \<Longrightarrow> getResourceAnnotations memCodec o1 = Inr (CHR 0x22 # raw)"
  by (simp add: getResourceAnnotations_def gomap_get_def memCodec_def)

lemma cx_get:
  "api_Get (kObject memKube cxDeployment) (cxMem crs [cxObject raw a]) ''team'' ''web'' = Inr (cxObject raw a)"
  "api_Get (kObject memKube cxDeployment) (cxMem crs []) ''team'' ''web'' = Inl NotFound"
  "api_Get (kObject admittingKube gvk) = api_Get (kObject memKube gvk)"
  by (simp_all add: admittingKube_def memKube_def memApi_def memGet_def findObj_def keyOf_def cxMem_def cxObject_def memObject_def
      zeroMeta_def objectsOf_def gomap_get_def)

text \<open>The object that is stored has more in its spec than the resource, and the next synchronisation is quiet all the same.\<close>

lemma sync_resource_settles_witness:
  "syncResource admittingKube memCodec (cxInst ''team'' ''v2'')
     (snd (syncResource admittingKube memCodec (cxInst ''team'' ''v2'') (cxMem [] [])))
   = (Inr (), snd (syncResource admittingKube memCodec (cxInst ''team'' ''v2'') (cxMem [] [])))"
proof -
  let ?i = "cxInst ''team'' ''v2''" and ?s = "cxMem [] []"
  obtain o1 where o1: "GetClusterResourceObjectForRawExtension admittingKube memCodec ?i = Inr o1"
      "un_GVK o1 = cxDeployment" "un_Object o1 = [(''spec'', JString ''v2'')]"
      "om_Namespace (un_Meta o1) = ''team''" "om_Name (un_Meta o1) = ''web''"
    by (rule cx_object [of "''v2''"]) simp_all
  have "fst (syncResource admittingKube memCodec ?i ?s) = Inr ()" by code_simp
  then have run: "syncResource admittingKube memCodec ?i ?s = (Inr (), snd (syncResource admittingKube memCodec ?i ?s))"
    by (simp add: prod_eq_iff)
  show ?thesis
    by (rule sync_resource_settles [OF o1(1) admitted_objects cx_spec [OF o1(3)] _ _ run]) (simp_all add: o1 cx_get)
qed

lemma changed_spec_reaches_object_witness:
  "\<exists>upd o2. api_Update (kObject admittingKube cxDeployment) upd (cxMem [] [cxObject ''v1'' (Some [(ResourceAnnotationKey, ''old'')])]) =
       (Inr o2, snd (syncResource admittingKube memCodec (cxInst ''team'' ''v2'')
          (cxMem [] [cxObject ''v1'' (Some [(ResourceAnnotationKey, ''old'')])]))) \<and>
     gomap_get (un_Object upd) ''spec'' = Some (JString ''v2'') \<and>
     gomap_get (mapOr (om_Annotations (un_Meta o2))) ResourceAnnotationKey = Some (CHR 0x22 # ''v2'')"
proof -
  let ?i = "cxInst ''team'' ''v2''" and ?x = "cxObject ''v1'' (Some [(ResourceAnnotationKey, ''old'')])"
  let ?s = "cxMem [] [?x]"
  obtain o1 where o1: "GetClusterResourceObjectForRawExtension admittingKube memCodec ?i = Inr o1"
      "un_GVK o1 = cxDeployment" "un_Object o1 = [(''spec'', JString ''v2'')]"
      "om_Namespace (un_Meta o1) = ''team''" "om_Name (un_Meta o1) = ''web''"
    by (rule cx_object [of "''v2''"]) simp_all
  have "fst (syncResource admittingKube memCodec ?i ?s) = Inr ()" by code_simp
  then have run: "syncResource admittingKube memCodec ?i ?s = (Inr (), snd (syncResource admittingKube memCodec ?i ?s))"
    by (simp add: prod_eq_iff)
  have x: "api_Get (kObject admittingKube (un_GVK o1)) ?s (om_Namespace (un_Meta o1)) (om_Name (un_Meta o1)) = Inr ?x"
    by (simp add: o1 cx_get)
  have fields: "om_DeletionTimestamp (un_Meta ?x) = None" "gomap_get (un_Object ?x) ''spec'' = Some (JString ''v1'')"
      "om_Annotations (un_Meta ?x) = Some [(ResourceAnnotationKey, ''old'')]"
      "gomap_get [(ResourceAnnotationKey, ''old'')] ResourceAnnotationKey = Some ''old''" "''old'' \<noteq> CHR 0x22 # ''v2''"
    by (simp_all add: cxObject_def memObject_def zeroMeta_def gomap_get_def)
  from changed_spec_reaches_object [OF o1(1) admitted_objects cx_spec [OF o1(3)] x fields run] obtain upd o2 where
    "api_Update (kObject admittingKube cxDeployment) upd ?s = (Inr o2, snd (syncResource admittingKube memCodec ?i ?s))"
    "gomap_get (un_Object upd) ''spec'' = gomap_get (un_Object o1) ''spec''"
    "gomap_get (mapOr (om_Annotations (un_Meta o2))) ResourceAnnotationKey = Some (CHR 0x22 # ''v2'')"
    using o1(2) by auto
  moreover have "gomap_get (un_Object o1) ''spec'' = Some (JString ''v2'')" using o1(3) by (simp add: gomap_get_def)
  ultimately show ?thesis by metis
qed

lemma unannotated_update_panics_witness:
  "syncResource memKube memCodec (cxInst ''team'' ''v2'') (cxMem [] [cxObject ''v1'' None])
     = (Crash NilMapWrite, cxMem [] [cxObject ''v1'' None])"
proof -
  obtain o1 where o1: "GetClusterResourceObjectForRawExtension memKube memCodec (cxInst ''team'' ''v2'') = Inr o1"
      "un_GVK o1 = cxDeployment" "un_Object o1 = [(''spec'', JString ''v2'')]"
      "om_Namespace (un_Meta o1) = ''team''" "om_Name (un_Meta o1) = ''web''"
    by (rule cx_object [of "''v2''"]) simp_all
  show ?thesis
    by (rule unannotated_update_panics [OF o1(1)],
        simp_all add: o1 cx_get gomap_get_def memCodec_def, simp_all add: cxObject_def memObject_def zeroMeta_def, simp)
qed

lemma cx_inst:
  "api_Get (kClusterResource memKube) (cxMem [cxInst ns raw] objs) ns ''r'' = Inr (cxInst ns raw)"
  "\<not> ShouldAddFinalizer cr_Meta (cxInst ns raw)" "om_DeletionTimestamp (cr_Meta (cxInst ns raw)) = None"
  "\<not> isComplete (cxInst ns raw)"
  by (simp_all add: memKube_def memApi_def memGet_def findObj_def keyOf_def cxMem_def cxInst_def zeroMeta_def
      ShouldAddFinalizer_def isComplete_def zeroClusterResourceStatus_def)

lemma cx_status: "jMarshalStatusItems memCodec xs = Inr ''status''"
  by (simp add: memCodec_def)

lemma proxy_reports_outcome_witness:
  "fst (reconcileClusterResource (cxProcess False) ''team'' ''r'' (cxMem [cxInst ''team'' ''v2''] [], cxGlobals))
     = Inr (doneResult, None) \<and>
   gl_Requests (snd (snd (reconcileClusterResource (cxProcess False) ''team'' ''r''
     (cxMem [cxInst ''team'' ''v2''] [], cxGlobals))))
     = [(5, \<lparr>rq_Type = rqResource, rq_ClusterName = ''c1'', rq_Body = ''status''\<rparr>)]"
proof -
  let ?i = "cxInst ''team'' ''v2''" and ?s = "cxMem [cxInst ''team'' ''v2''] []"
  have "fst (syncResource memKube memCodec ?i ?s) = Inr ()" by code_simp
  then have run: "syncResource memKube memCodec ?i ?s = (Inr (), snd (syncResource memKube memCodec ?i ?s))"
    by (simp add: prod_eq_iff)
  let ?new = "?i\<lparr>cr_Status := outcomeStatus memCodec (Inr ()) (om_Generation (cr_Meta ?i))\<rparr>"
  have "\<not> isl (fst (api_UpdateStatus (kClusterResource memKube) ?new (snd (syncResource memKube memCodec ?i ?s))))"
    by code_simp
  then obtain o2 s2 where
      "api_UpdateStatus (kClusterResource memKube) ?new (snd (syncResource memKube memCodec ?i ?s)) = (Inr o2, s2)"
    by (metis prod.collapse sum.collapse(2))
  from proxy_reports_outcome [of "cxProcess False" "''team''" ?s "''r''" ?i "Inr ()" _ ?new cxGlobals 5 "''status''"
      "\<lparr>rq_Type = rqResource, rq_ClusterName = ''c1'', rq_Body = ''status''\<rparr>" o2 s2] this run cx_inst
  show ?thesis
    by (simp add: cxProcess_def cxGlobals_def cx_status cxNet_def outcomeResult_def
        ClusterNamespaceInControlPlanePrefix_def strHasPrefix_def)
qed

lemma cx_body:
  "jMarshalClusterResources (pc_Codec (cxProcess b)) [cxInst ns raw] = Inr (''r|'' @ ns @ ''|'' @ raw)"
  by (simp add: cxProcess_def memCodec_def encodeResource_def cxInst_def)

lemma core_hands_over_witness:
  "reconcileClusterResource (cxProcess True) (ClusterNamespace ''c1'') ''r''
     (cxMem [cxInst (ClusterNamespace ''c1'') ''v2''] [], cxGlobals) =
   (Inr (doneResult, None), (cxMem [cxInst (ClusterNamespace ''c1'') ''v2''] [],
      cxGlobals\<lparr>gl_Responses := [(7, \<lparr>rp_Type = rpResourceUpdateOrCreate, rp_ClusterName = ''c1'',
        rp_Body = ''r|'' @ ClusterNamespace ''c1'' @ ''|v2''\<rparr>)]\<rparr>))"
proof -
  have "\<not> strContains ''c1'' ClusterNamespaceInControlPlanePrefix" by code_simp
  from core_hands_over [of "cxProcess True" "''c1''" "cxMem [cxInst (ClusterNamespace ''c1'') ''v2''] []" "''r''"
      "cxInst (ClusterNamespace ''c1'') ''v2''" cxGlobals "streamFor 1 0 ''c1'' 7", OF _ _ this _ _ _ _ _ cx_body]
    cx_inst(1) [where objs = "[]"] cx_inst(2-) mem_cluster_resource_kind
  show ?thesis
    by (simp add: cxProcess_def cxNet_def cxGlobals_def FindStream_def gomap_get_def streamFor_def)
qed

lemma no_stream_no_release_witness:
  "\<exists>e. reconcileClusterResource (cxProcess True) (ClusterNamespace ''c2'') ''r''
     (cxMem [cxInst (ClusterNamespace ''c2'') ''v2''] [], cxGlobals)
     = (Inr (reQueueResult e), (cxMem [cxInst (ClusterNamespace ''c2'') ''v2''] [], cxGlobals))"
proof -
  have "\<not> strContains ''c2'' ClusterNamespaceInControlPlanePrefix" by code_simp
  from no_stream_no_release [of "cxProcess True" "''c2''" "cxMem [cxInst (ClusterNamespace ''c2'') ''v2''] []" "''r''"
      "cxInst (ClusterNamespace ''c2'') ''v2''" cxGlobals, OF _ _ this _ _ _ _ cx_body]
    cx_inst(1) [where objs = "[]"] cx_inst(2-) mem_cluster_resource_kind
  show ?thesis by (simp add: cxProcess_def cxGlobals_def FindStream_def gomap_get_def)
qed

end
