(* ===== verification/ClusterControl.thy ===== *)
theory ClusterControl
  imports Messages Finalizer Naming
begin

text \<open>
  The \<open>Cluster\<close> controller (\<open>pkg/controller/cluster\<close>): the conditions of a cluster and the
  writes of its status that other components share (\<open>common.go\<close>,
  \<open>common/cluster-health/check.go\<close>), the proxy that is deployed into a new cluster
  (\<open>proxy_builder.go\<close>, \<open>pkg/cue\<close>) and the reconciler. Events and logging are left out. The
  CUE evaluator and the client of the target cluster are parameters (\<open>deploy_env\<close>).
\<close>

section \<open>Conditions\<close>

definition readyCondition :: "int \<Rightarrow> string \<Rightarrow> string \<Rightarrow> Condition" where
  "readyCondition now reason message =
     \<lparr>cd_Timestamp = now, cd_Message = message, cd_Reason = reason, cd_Type = ''Ready''\<rparr>"

definition GenerateReadyCondition :: "int \<Rightarrow> bool \<Rightarrow> bool \<Rightarrow> Condition list" where
  "GenerateReadyCondition now online healthy =
     (if \<not> online then [readyCondition now ''ClusterNotReachable'' ''cluster is not reachable'']
      else if \<not> healthy
      then [readyCondition now ''ClusterNotReady''
              ''cluster is reachable but health endpoint responded without ok'']
      else [readyCondition now ''ClusterReady''
              ''cluster is reachable and health endpoint responded with ok''])"

definition ConditionMaximumLength :: nat where "ConditionMaximumLength = 10"

definition trimConditions :: "ClusterStatus \<Rightarrow> ClusterStatus" where
  "trimConditions st =
     (if ConditionMaximumLength < length (ct_Conditions st)
      then st\<lparr>ct_Conditions :=
             drop (length (ct_Conditions st) - ConditionMaximumLength) (ct_Conditions st)\<rparr>
      else st)"

definition UpdateClusterStatus :: "'s kube \<Rightarrow> Cluster \<Rightarrow> ('s, Cluster) step" where
  "UpdateClusterStatus k cluster =
     writeS (api_UpdateStatus (kCluster k) (cluster\<lparr>cl_Status := trimConditions (cl_Status cluster)\<rparr>))"

definition UpdateCluster :: "'s kube \<Rightarrow> Cluster \<Rightarrow> ('s, Cluster) step" where
  "UpdateCluster k cluster = writeS (api_Update (kCluster k) cluster)"

definition offlineStatus :: "int \<Rightarrow> int \<Rightarrow> ClusterStatus \<Rightarrow> ClusterStatus" where
  "offlineStatus now conditionTime st =
     st\<lparr>ct_Status := OfflineStatus, ct_LastUpdateTimestamp := now,
        ct_Conditions := ct_Conditions st @ GenerateReadyCondition conditionTime False False\<rparr>"

definition OfflineCluster :: "'s kube \<Rightarrow> int \<Rightarrow> int \<Rightarrow> Cluster \<Rightarrow> ('s, unit) step" where
  "OfflineCluster k now conditionTime cluster =
     (if ct_Status (cl_Status cluster) = OfflineStatus then retS ()
      else bindS (UpdateClusterStatus k
                    (cluster\<lparr>cl_Status := offlineStatus now conditionTime (cl_Status cluster)\<rparr>))
             (\<lambda>_. retS ()))"

section \<open>Generated objects\<close>

definition GenerateNamespaceInControlPlane :: "Cluster \<Rightarrow> Namespace" where
  "GenerateNamespaceInControlPlane cluster =
     \<lparr>ns_Meta = zeroMeta\<lparr>om_Name := ClusterNamespaceInControlPlanePrefix @ om_Name (cl_Meta cluster)\<rparr>\<rparr>"

definition ConvertCluster2AddonsModel :: "Cluster \<Rightarrow> Plugins" where
  "ConvertCluster2AddonsModel cluster =
     \<lparr>pg_InTree = map ad_Name (filter (\<lambda>a. ad_Type a = InTreeType) (cp_Addons (cl_Spec cluster))),
      pg_OutTree = []\<rparr>"

record ProxyBuilder =
  pb_Cluster :: Cluster
  pb_ConfigurationName :: string
  pb_ConfigurationNamespace :: string

text \<open>\<open>reflect.TypeOf\<close>, printed, of what \<open>json.Unmarshal\<close> puts into an interface value.\<close>

fun jsonTypeName :: "json \<Rightarrow> string" where
  "jsonTypeName JNull = ''%!s(<nil>)''"
| "jsonTypeName (JBool b) = ''bool''"
| "jsonTypeName (JNumber n) = ''float64''"
| "jsonTypeName (JString s) = ''string''"
| "jsonTypeName (JArray xs) = ''[]interface {}''"
| "jsonTypeName (JObject ms) = ''map[string]interface {}''"

definition stringField :: "(string, json) gomap \<Rightarrow> string \<Rightarrow> string res" where
  "stringField cfg field =
     (case gomap_get cfg field of
        Some (JString v) \<Rightarrow> Inr v
      | Some v \<Rightarrow> Raise (ErrFmt (''spec.configuration.'' @ field @ '' must be string, but got %s'') [jsonTypeName v])
      | None \<Rightarrow> Raise (ErrFmt (''spec.configuration.'' @ field @ '' must be string, but got %s'') [jsonTypeName JNull]))"

definition presentField :: "(string, json) gomap \<Rightarrow> string \<Rightarrow> unit res" where
  "presentField cfg field =
     (case gomap_get cfg field of
        None \<Rightarrow> Raise (ErrMsg (''spec.configuration.'' @ field @ '' cannot be null''))
      | Some v \<Rightarrow> Inr ())"

definition NewProxyBuilder :: "codec \<Rightarrow> Cluster \<Rightarrow> ProxyBuilder res" where
  "NewProxyBuilder j c =
     (case cp_Configuration (cl_Spec c) of
        None \<Rightarrow> Raise (ErrMsg ''spec.configuration cannot be null'')
      | Some raw \<Rightarrow>
          bindR (liftE (jUnmarshalMap j raw)) (\<lambda>cfg.
          bindR (presentField cfg ''name'') (\<lambda>_.
          bindR (presentField cfg ''namespace'') (\<lambda>_.
          bindR (stringField cfg ''name'') (\<lambda>name.
          bindR (stringField cfg ''namespace'') (\<lambda>namespace.
            Inr \<lparr>pb_Cluster = c, pb_ConfigurationName = name,
                 pb_ConfigurationNamespace = namespace\<rparr>))))))"

definition GenerateNamespaces :: "ProxyBuilder \<Rightarrow> Namespace" where
  "GenerateNamespaces pb = \<lparr>ns_Meta = zeroMeta\<lparr>om_Name := pb_ConfigurationNamespace pb\<rparr>\<rparr>"

definition GenerateAddonsConfigMap :: "codec \<Rightarrow> ProxyBuilder \<Rightarrow> ConfigMap res" where
  "GenerateAddonsConfigMap j pb =
     bindR (liftE (jMarshalPlugins j (ConvertCluster2AddonsModel (pb_Cluster pb)))) (\<lambda>b.
       Inr \<lparr>cm_Meta = zeroMeta\<lparr>om_Name := pb_ConfigurationName pb,
              om_Namespace := pb_ConfigurationNamespace pb\<rparr>,
            cm_Data = gomap_put [] ''addons.yaml'' b\<rparr>)"

section \<open>Rendering the template\<close>

text \<open>A kubeconfig: a loaded file, or the one the source makes for a token.\<close>

datatype kubeconfig = LoadedConfig string | TokenConfig string string

text \<open>
  \<open>deploy_env\<close>: parsing one CUE file (its name and content), the fields of \<open>outputs\<close> in the
  instance built from the files (\<open>None\<close> when there is no such field; a label may be missing, the
  JSON of a field may fail), checking a kubeconfig file, and connecting to a cluster.
\<close>

record 's deploy_env =
  dParseCue :: "string \<Rightarrow> string \<Rightarrow> go_error option"
  dOutputs :: "string list \<Rightarrow> (go_error + (string option \<times> (go_error + raw)) list) option"
  dLoadKubeconfig :: "string \<Rightarrow> go_error option"
  dConnect :: "string \<Rightarrow> kubeconfig \<Rightarrow> go_error + (GroupVersionKind \<Rightarrow> ('s, Unstructured) api)"

definition GetContextFile :: "codec \<Rightarrow> Cluster \<Rightarrow> string" where
  "GetContextFile j cluster =
     (case jMarshalClusterName j (om_Name (cl_Meta cluster)) of
        Inl e \<Rightarrow> ''context: {}''
      | Inr b \<Rightarrow> if b = ''null'' then ''context: {}'' else ''context: '' @ b)"

definition fillContext :: "string \<Rightarrow> string" where
  "fillContext cueTemplate = cueTemplate @ [CHR 0x0A] @ ''context: {}''"

definition parsedOr :: "go_error option \<Rightarrow> (go_error \<Rightarrow> go_error) \<Rightarrow> unit res" where
  "parsedOr r f = (case r of None \<Rightarrow> Inr () | Some e \<Rightarrow> Raise (f e))"

definition Complete :: "codec \<Rightarrow> 's deploy_env \<Rightarrow> string \<Rightarrow> string \<Rightarrow> raw option \<Rightarrow> string list res" where
  "Complete j env contextFile cueTemplate params =
     (case jMarshalConfiguration j params of
        Inl e \<Rightarrow> Raise (ErrFmt ''parse params json error: %s'' [jErrorText j e])
      | Inr pb \<Rightarrow>
          (let paramFile = (if pb \<noteq> ''null'' then ''parameters: '' @ pb else ''parameters: {}'');
               template = fillContext cueTemplate in
           bindR (parsedOr (dParseCue env ''-'' template)
                    (\<lambda>e. ErrFmt ''parse cue template error: %s'' [jErrorText j e])) (\<lambda>_.
           bindR (parsedOr (dParseCue env ''parameters'' paramFile)
                    (\<lambda>e. ErrFmt ''parse cue template with params error: %s'' [jErrorText j e])) (\<lambda>_.
           bindR (parsedOr (dParseCue env ''context'' contextFile)
                    (\<lambda>e. ErrFmt ''add context in cue template error: %s'' [jErrorText j e])) (\<lambda>_.
             Inr [template, paramFile, contextFile])))))"

fun outputResources ::
  "codec \<Rightarrow> (string option \<times> (go_error + raw)) list \<Rightarrow> (string, Unstructured) gomap \<Rightarrow>
   (string, Unstructured) gomap res" where
  "outputResources j [] result = Inr result"
| "outputResources j ((label, generated) # fs) result =
     (case label of
        None \<Rightarrow> outputResources j fs result
      | Some l \<Rightarrow>
          bindR (liftE generated) (\<lambda>g.
          bindR (liftE (jUnmarshalObject j g)) (\<lambda>v.
            outputResources j fs (gomap_put result l v))))"

definition GenerateProxyResources ::
  "codec \<Rightarrow> 's deploy_env \<Rightarrow> ProxyBuilder \<Rightarrow> string \<Rightarrow> (string, Unstructured) gomap res" where
  "GenerateProxyResources j env pb clusterTemplate =
     bindR (Complete j env (GetContextFile j (pb_Cluster pb)) clusterTemplate
              (cp_Configuration (cl_Spec (pb_Cluster pb)))) (\<lambda>files.
       case dOutputs env files of
         None \<Rightarrow> Inr []
       | Some outputs \<Rightarrow> bindR (liftE outputs) (\<lambda>fs. outputResources j fs []))"

text \<open>
  \<open>pkg/utils/cue-render\<close>, which nothing calls yet: one value rendered from a template and an object. The CUE
  engine is a parameter: the kind of an object and its text with the newline that follows, compiling, looking a path up, encoding.
\<close>

record ('o, 'v) cue_engine =
  cu_Kind :: "'o \<Rightarrow> string"
  cu_Text :: "'o \<Rightarrow> string"
  cu_CompileString :: "string \<Rightarrow> go_error + 'v"
  cu_LookupPath :: "'v \<Rightarrow> string \<Rightarrow> go_error + 'v"
  cu_MarshalJSON :: "'v \<Rightarrow> go_error + string"

definition getContextString :: "('o, 'v) cue_engine \<Rightarrow> 'o \<Rightarrow> string res" where
  "getContextString cu object =
     (if length (cu_Kind cu object) = 0 then Raise (ErrMsg ''kind is empty'')
      else Inr (''context: '' @ cu_Text cu object))"

definition RenderCue :: "('o, 'v) cue_engine \<Rightarrow> 'o \<Rightarrow> string \<Rightarrow> string \<Rightarrow> string res" where
  "RenderCue cu object cueString parsePath =
     bindR (getContextString cu object) (\<lambda>contextString.
     bindR (liftE (cu_CompileString cu (cueString @ contextString))) (\<lambda>allValue.
     bindR (liftE (cu_LookupPath cu allValue (if length parsePath = 0 then ''output'' else parsePath))) (\<lambda>patchValue.
       liftE (cu_MarshalJSON cu patchValue))))"

section \<open>Deploying the proxy\<close>

definition kubeconfigFor :: "'s kube \<Rightarrow> 's deploy_env \<Rightarrow> Cluster \<Rightarrow> 's \<Rightarrow> kubeconfig res" where
  "kubeconfigFor k env cluster s =
     (let ref = cp_SecretRef (cl_Spec cluster) in
      bindR (liftApi (api_Get (kSecret k) s (sr_Namespace ref) (sr_Name ref))) (\<lambda>secret.
        case gomap_get (sc_Data secret) (sr_Field ref) of
          None \<Rightarrow> Raise (ErrFmt ''secret %s/%s does not have data with field: %s''
                          [sr_Name ref, sr_Namespace ref, sr_Field ref])
        | Some data \<Rightarrow>
            if sr_Type ref = KubeConfigType
            then (case dLoadKubeconfig env data of None \<Rightarrow> Inr (LoadedConfig data) | Some e \<Rightarrow> Raise e)
            else if sr_Type ref = TokenType
            then Inr (TokenConfig (cp_ApiServer (cl_Spec cluster)) data)
            else Raise (ErrFmt ''secret type must in [%s, %s]'' [KubeConfigType, TokenType])))"

text \<open>A create that is content with an existing object.\<close>

definition createIfAbsent :: "('s, 'o) api \<Rightarrow> 'o \<Rightarrow> ('s, unit) step" where
  "createIfAbsent a obj s =
     (case api_Create a obj s of
        (Inl AlreadyExists, s') \<Rightarrow> (Inr (), s')
      | (Inl e, s') \<Rightarrow> (Raise (ErrApi e), s')
      | (Inr _, s') \<Rightarrow> (Inr (), s'))"

definition deployProxy ::
  "'s kube \<Rightarrow> codec \<Rightarrow> 's deploy_env \<Rightarrow> string \<times> string \<Rightarrow> Cluster \<Rightarrow> ('s, unit) step" where
  "deployProxy k j env tmpl cluster =
     bindS (readS (kubeconfigFor k env cluster)) (\<lambda>cfg.
     bindS (liftS (liftE (dConnect env (cp_ApiServer (cl_Spec cluster)) cfg))) (\<lambda>target.
     bindS (readS (\<lambda>s. liftApi (api_Get (kConfigMap k) s (fst tmpl) (snd tmpl)))) (\<lambda>cm.
     bindS (liftS (case gomap_get (cm_Data cm) ''deploy-proxy.cue'' of
                     None \<Rightarrow> Raise (ErrFmt ''cannot find cluster template in ConfigMap %s field %s''
                                     [fst tmpl @ ''/'' @ snd tmpl, ''deploy-proxy.cue''])
                   | Some t \<Rightarrow> Inr t)) (\<lambda>clusterTemplate.
     bindS (liftS (NewProxyBuilder j cluster)) (\<lambda>pb.
     bindS (liftS (GenerateProxyResources j env pb clusterTemplate)) (\<lambda>resources.
     bindS (createIfAbsent (kNamespace k) (GenerateNamespaces pb)) (\<lambda>_.
     bindS (liftS (GenerateAddonsConfigMap j pb)) (\<lambda>addonsCfg.
     bindS (createIfAbsent (kConfigMap k) addonsCfg) (\<lambda>_.
       forS (\<lambda>(_, resource) _. createIfAbsent (target (un_GVK resource)) resource) resources ())))))))))"

section \<open>The reconcile\<close>

definition requeue5 :: "('s, 'a) step \<Rightarrow> ('a \<Rightarrow> ('s, reconciled) step) \<Rightarrow> ('s, reconciled) step" where
  "requeue5 m f s =
     (case m s of
        (Inl (Err e), s') \<Rightarrow> (Inr (requeueAfter 5, Some e), s')
      | (Inl x, s') \<Rightarrow> (Inl x, s')
      | (Inr x, s') \<Rightarrow> f x s')"

definition deleteCluster :: "'s kube \<Rightarrow> Cluster \<Rightarrow> ('s, Cluster) step" where
  "deleteCluster k cluster s =
     (case api_Delete (kNamespace k) (GenerateNamespaceInControlPlane cluster) s of
        (Some e, s') \<Rightarrow>
          if e = NotFound then RemoveFinalizer cl_Meta cl_Meta_update (kCluster k) cluster s'
          else (Raise (ErrApi e), s')
      | (None, s') \<Rightarrow> RemoveFinalizer cl_Meta cl_Meta_update (kCluster k) cluster s')"

definition shouldDeploy :: "Cluster \<Rightarrow> bool" where
  "shouldDeploy cluster \<longleftrightarrow>
     gomap_get (mapOr (om_Annotations (cl_Meta cluster))) ''auto.deploy/stellaris.harmonycloud.cn''
       = Some ''true'' \<and>
     (ct_Status (cl_Status cluster) = [] \<or> ct_Status (cl_Status cluster) = InitializingStatus)"

definition reconcileCluster ::
  "'s kube \<Rightarrow> codec \<Rightarrow> 's deploy_env \<Rightarrow> string \<times> string \<Rightarrow> string \<Rightarrow> ('s, reconciled) step" where
  "reconcileCluster k j env tmpl name s =
     (case api_Get (kCluster k) s [] name of
        Inl e \<Rightarrow> (Inr (doneResult, ignoreNotFound e), s)
      | Inr cluster \<Rightarrow>
          requeue5 (if ShouldAddFinalizer cl_Meta cluster
                    then AddFinalizer cl_Meta cl_Meta_update (kCluster k) cluster
                    else retS cluster) (\<lambda>cluster.
          requeue5 (if om_DeletionTimestamp (cl_Meta cluster) \<noteq> None then deleteCluster k cluster
                    else retS cluster) (\<lambda>cluster.
          requeue5 (if shouldDeploy cluster
                    then bindS (writeS (api_UpdateStatus (kCluster k)
                           (cluster\<lparr>cl_Status := (cl_Status cluster)\<lparr>ct_Status := InitializingStatus\<rparr>\<rparr>)))
                           (\<lambda>cluster. bindS (deployProxy k j env tmpl cluster) (\<lambda>_. retS cluster))
                    else retS cluster) (\<lambda>cluster.
          requeue5 (createIfAbsent (kNamespace k) (GenerateNamespaceInControlPlane cluster)) (\<lambda>_.
            doneS)))) s)"

interpretation clusterObject: client_object cl_Meta cl_Meta_update
  by unfold_locales simp_all

text \<open>The reconciler of \<open>ClusterSet\<close> only reads.\<close>

definition reconcileClusterSet :: "'s kube \<Rightarrow> string \<Rightarrow> 's \<Rightarrow> reconciled" where
  "reconcileClusterSet k name s =
     (case api_Get (kClusterSet k) s [] name of
        Inl e \<Rightarrow> if e = NotFound then (doneResult, None)
                 else (\<lparr>cr_Requeue = True, cr_RequeueAfter = 0\<rparr>, Some (ErrApi e))
      | Inr _ \<Rightarrow> (doneResult, None))"

section \<open>Conditions are bounded\<close>

lemma trimConditions_drop:
  "ct_Conditions (trimConditions st) =
     drop (length (ct_Conditions st) - ConditionMaximumLength) (ct_Conditions st)"
  by (simp add: trimConditions_def)

lemma trimConditions_length: "length (ct_Conditions (trimConditions st)) \<le> ConditionMaximumLength"
  by (simp add: trimConditions_def)

lemma trimConditions_other:
  "ct_Status (trimConditions st) = ct_Status st" "ct_Healthy (trimConditions st) = ct_Healthy st"
  "ct_LastReceiveHeartBeatTimestamp (trimConditions st) = ct_LastReceiveHeartBeatTimestamp st"
  "ct_Addons (trimConditions st) = ct_Addons st"
  by (simp_all add: trimConditions_def)

text \<open>What was appended last survives, as long as it is not longer than the maximum.\<close>

lemma trimConditions_keeps:
  assumes "ct_Conditions st = old @ new" and "length new \<le> ConditionMaximumLength"
  shows "\<exists>kept. ct_Conditions (trimConditions st) = kept @ new"
  using assms by (auto simp: trimConditions_def)

end
