(* ===== verification/Core.thy ===== *)
theory Core
  imports Channel ClusterControl
begin

text \<open>
  The core's side of the channel (\<open>pkg/core/handler\<close>, \<open>pkg/utils/core\<close>): the loop that receives the
  requests of a proxy and starts a handler for each, and the handlers for a registration, a
  heartbeat and a status report. A handler that has answered with an error goes on, as the code does.
  The current time is asked for at several places of a handler: \<open>clock\<close> has one value for each.
\<close>

section \<open>Conversions (\<open>utils/core\<close>)\<close>

definition NewCluster :: "string \<Rightarrow> Cluster" where
  "NewCluster clusterName =
     \<lparr>cl_Meta = zeroMeta\<lparr>om_Name := clusterName\<rparr>, cl_Spec = zeroClusterSpec, cl_Status = zeroClusterStatus\<rparr>"

definition Object2RawExtension :: "codec \<Rightarrow> properties \<Rightarrow> raw res" where
  "Object2RawExtension j obj = liftE (jMarshalProperties j obj)"

fun ConvertRegisterAddons2KubeAddons :: "codec \<Rightarrow> Addon list \<Rightarrow> ClusterAddonStatus list res" where
  "ConvertRegisterAddons2KubeAddons j [] = Inr []"
| "ConvertRegisterAddons2KubeAddons j (addon # addons) =
     (if length (ao_Name addon) \<le> 0 then ConvertRegisterAddons2KubeAddons j addons
      else case ao_Properties addon of
        None \<Rightarrow>
          bindR (ConvertRegisterAddons2KubeAddons j addons) (\<lambda>result.
            Inr (\<lparr>as_Name = ao_Name addon, as_Info = None\<rparr> # result))
      | Some p \<Rightarrow>
          bindR (Object2RawExtension j p) (\<lambda>raw.
          bindR (ConvertRegisterAddons2KubeAddons j addons) (\<lambda>result.
            Inr (\<lparr>as_Name = ao_Name addon, as_Info = Some raw\<rparr> # result))))"

definition zeroCondition :: Condition where
  "zeroCondition = \<lparr>cd_Timestamp = zeroTime, cd_Message = [], cd_Reason = [], cd_Type = []\<rparr>"

text \<open>\<open>make\<close> with a length, and \<open>append\<close>: the zero conditions stay in front.\<close>

definition ConvertCondition2KubeCondition :: "Condition list \<Rightarrow> Condition list" where
  "ConvertCondition2KubeCondition conditions = replicate (length conditions) zeroCondition @ conditions"

section \<open>The server\<close>

record ('s, 'c) core_server =
  cv_Kube :: "'s kube"
  cv_Codec :: codec
  cv_Net :: "'c net"
  cv_HeartbeatExpirePeriod :: int

record clock =
  ck_Status :: int
  ck_Condition :: int
  ck_Expire :: int
  ck_Insert :: int

text \<open>What a handler does with the error of a call.\<close>

definition replyErr ::
  "('s, 'c) core_server \<Rightarrow> string \<Rightarrow> string \<Rightarrow> 'c \<Rightarrow> 'a res \<Rightarrow> 'c globals \<Rightarrow> 'c globals" where
  "replyErr cv clusterName responseType stream r g =
     (case r of
        Inl (Err e) \<Rightarrow> SendErrResponse (cv_Codec cv) (cv_Net cv) clusterName responseType e stream g
      | _ \<Rightarrow> g)"

definition insertStream ::
  "('s, 'c) core_server \<Rightarrow> clock \<Rightarrow> string \<Rightarrow> 'c \<Rightarrow> 'c globals \<Rightarrow> 'c globals" where
  "insertStream cv ck clusterName stream g =
     g\<lparr>gl_Table := InsertStream (ck_Insert ck) clusterName
         (streamFor (cv_HeartbeatExpirePeriod cv) (ck_Expire ck) clusterName stream) (gl_Table g)\<rparr>"

section \<open>Registration\<close>

definition onlineStatus :: "clock \<Rightarrow> ClusterStatus \<Rightarrow> ClusterStatus" where
  "onlineStatus ck st =
     st\<lparr>ct_LastUpdateTimestamp := ck_Status ck, ct_LastReceiveHeartBeatTimestamp := ck_Status ck,
        ct_Status := OnlineStatus, ct_Healthy := True,
        ct_Conditions := ct_Conditions st @ GenerateReadyCondition (ck_Condition ck) True True\<rparr>"

definition registerClusterInKube :: "'s kube \<Rightarrow> clock \<Rightarrow> Cluster \<Rightarrow> ('s, unit) step" where
  "registerClusterInKube k ck cluster s =
     (case api_Get (kCluster k) s [] (om_Name (cl_Meta cluster)) of
        Inl e \<Rightarrow>
          if e = NotFound then bindS (writeS (api_Create (kCluster k) cluster)) (\<lambda>_. retS ()) s
          else (Raise (ErrApi e), s)
      | Inr existCluster \<Rightarrow>
          if ct_Status (cl_Status cluster) = OnlineStatus then (Inr (), s)
          else bindS (UpdateCluster k (existCluster\<lparr>cl_Spec := cl_Spec cluster\<rparr>)) (\<lambda>existCluster.
               bindS (UpdateClusterStatus k
                        (existCluster\<lparr>cl_Status := onlineStatus ck (cl_Status existCluster)\<rparr>)) (\<lambda>_.
                 retS ())) s)"

text \<open>The three lists share a loop that stops at the first item that cannot be marshalled.\<close>

fun marshalItems :: "('o \<Rightarrow> go_error + string) \<Rightarrow> 'o list \<Rightarrow> string list" where
  "marshalItems f [] = []"
| "marshalItems f (item # items) =
     (case f item of Inl e \<Rightarrow> [] | Inr itemData \<Rightarrow> itemData # marshalItems f items)"

definition getClusterResourceList :: "'s kube \<Rightarrow> codec \<Rightarrow> string \<Rightarrow> 's \<Rightarrow> api_error + string list" where
  "getClusterResourceList k j clusterNamespace s =
     map_sum id (marshalItems (jMarshalClusterResource j))
       (api_List (kClusterResource k) s \<lparr>lo_Namespace = clusterNamespace, lo_Selector = None\<rparr>)"

definition getPolicyList :: "'s kube \<Rightarrow> codec \<Rightarrow> string \<Rightarrow> 's \<Rightarrow> api_error + string list" where
  "getPolicyList k j clusterNamespace s =
     map_sum id (marshalItems (jMarshalPolicy j))
       (api_List (kAggregatePolicy k) s \<lparr>lo_Namespace = clusterNamespace, lo_Selector = None\<rparr>)"

definition getRuleList :: "'s kube \<Rightarrow> codec \<Rightarrow> 's \<Rightarrow> api_error + string list" where
  "getRuleList k j s = map_sum id (marshalItems (jMarshalRule j)) (api_List (kAggregateRule k) s listAll)"

text \<open>The body that has been filled when a list fails is the answer, the error is dropped.\<close>

definition getRegisterResources :: "'s kube \<Rightarrow> codec \<Rightarrow> string \<Rightarrow> 's \<Rightarrow> RegisterResponse" where
  "getRegisterResources k j clusterName s =
     (let body = \<lparr>rr_ClusterResources = [], rr_AggregatePolicies = [], rr_AggregateRules = []\<rparr> in
      case getClusterResourceList k j (ClusterNamespace clusterName) s of
        Inl e \<Rightarrow> body
      | Inr crs \<Rightarrow>
          (let body = body\<lparr>rr_ClusterResources := crs\<rparr> in
           case getPolicyList k j (ClusterNamespace clusterName) s of
             Inl e \<Rightarrow> body
           | Inr ps \<Rightarrow>
               (let body = body\<lparr>rr_AggregatePolicies := ps\<rparr> in
                case getRuleList k j s of
                  Inl e \<Rightarrow> body
                | Inr rs \<Rightarrow> body\<lparr>rr_AggregateRules := rs\<rparr>)))"

definition newResponse :: "'s kube \<Rightarrow> codec \<Rightarrow> string \<Rightarrow> 's \<Rightarrow> Response" where
  "newResponse k j clusterName s =
     (let res = \<lparr>rp_Type = rpRegisterSuccess, rp_ClusterName = clusterName, rp_Body = []\<rparr>;
          body = getRegisterResources k j clusterName s in
      if RegisterResponse_IsEmpty body then res
      else case jMarshalRegisterResponse j body of
             Inl e \<Rightarrow> res
           | Inr bodyData \<Rightarrow> res\<lparr>rp_Body := bodyData\<rparr>)"

definition Register ::
  "('s, 'c) core_server \<Rightarrow> clock \<Rightarrow> Request \<Rightarrow> 'c \<Rightarrow> 's \<times> 'c globals \<Rightarrow> 's \<times> 'c globals" where
  "Register cv ck req stream w =
     (case w of (s, g) \<Rightarrow>
        let j = cv_Codec cv; name = rq_ClusterName req;
            (addons, err) = jUnmarshalRegister j (rq_Body req);
            g = replyErr cv name rpRegisterFailed stream (checked ((), err)) g;
            converted = ConvertRegisterAddons2KubeAddons j addons;
            g = replyErr cv name rpRegisterFailed stream converted g;
            clusterAddons = (case converted of Inl _ \<Rightarrow> [] | Inr as \<Rightarrow> as);
            cluster = (NewCluster name)\<lparr>cl_Status := zeroClusterStatus\<lparr>ct_Addons := clusterAddons\<rparr>\<rparr>;
            (r, s) = registerClusterInKube (cv_Kube cv) ck cluster s;
            g = replyErr cv name rpRegisterFailed stream r g;
            g = insertStream cv ck name stream g
        in (s, SendResponse (cv_Net cv) stream (newResponse (cv_Kube cv) j name s) g))"

section \<open>Heartbeat\<close>

definition addonsEqual :: "ClusterAddonStatus list \<Rightarrow> ClusterAddonStatus list \<Rightarrow> bool" where
  "addonsEqual old new \<longleftrightarrow>
     length old = length new \<and>
     list_all (\<lambda>oldItem.
       list_all (\<lambda>newItem. as_Name oldItem = as_Name newItem \<longrightarrow> as_Info oldItem = as_Info newItem) new \<and>
       list_ex (\<lambda>newItem. as_Name oldItem = as_Name newItem) new) old"

definition updateClusterWithHeartbeatAddons ::
  "'s kube \<Rightarrow> codec \<Rightarrow> Addon list \<Rightarrow> Cluster \<Rightarrow> ('s, Cluster) step" where
  "updateClusterWithHeartbeatAddons k j addons cluster =
     (if length addons \<le> 0 then retS cluster
      else bindS (liftS (ConvertRegisterAddons2KubeAddons j addons)) (\<lambda>clusterAddons.
             if \<not> addonsEqual (ct_Addons (cl_Status cluster)) clusterAddons
             then UpdateCluster k
                    (cluster\<lparr>cl_Status := (cl_Status cluster)\<lparr>ct_Addons := clusterAddons\<rparr>\<rparr>)
             else retS cluster))"

definition heartbeatStatus :: "clock \<Rightarrow> Condition list \<Rightarrow> bool \<Rightarrow> ClusterStatus \<Rightarrow> ClusterStatus" where
  "heartbeatStatus ck conditions healthy st =
     (let cs1 = (if 0 < length conditions
                 then ct_Conditions st @ ConvertCondition2KubeCondition conditions else ct_Conditions st);
          cs2 = (if ct_Status st \<noteq> OnlineStatus
                 then cs1 @ GenerateReadyCondition (ck_Condition ck) True healthy else cs1)
      in st\<lparr>ct_Conditions := cs2, ct_Status := OnlineStatus, ct_Healthy := healthy,
            ct_LastReceiveHeartBeatTimestamp := ck_Status ck, ct_LastUpdateTimestamp := ck_Status ck\<rparr>)"

definition updateClusterStatusWithHeartbeat ::
  "'s kube \<Rightarrow> clock \<Rightarrow> Cluster \<Rightarrow> Condition list \<Rightarrow> bool \<Rightarrow> ('s, unit) step" where
  "updateClusterStatusWithHeartbeat k ck cluster conditions healthy =
     bindS (UpdateClusterStatus k
              (cluster\<lparr>cl_Status := heartbeatStatus ck conditions healthy (cl_Status cluster)\<rparr>)) (\<lambda>_. retS ())"

definition updateClusterWithHeartbeat ::
  "'s kube \<Rightarrow> codec \<Rightarrow> clock \<Rightarrow> string \<Rightarrow> HeartbeatWithChangeRequest \<Rightarrow> ('s, unit) step" where
  "updateClusterWithHeartbeat k j ck clusterName hb =
     bindS (readS (\<lambda>s. liftApi (api_Get (kCluster k) s [] clusterName))) (\<lambda>cluster.
     bindS (updateClusterWithHeartbeatAddons k j (hb_Addons hb) cluster) (\<lambda>cluster.
       updateClusterStatusWithHeartbeat k ck cluster (hb_Conditions hb) (hb_Healthy hb)))"

definition Heartbeat ::
  "('s, 'c) core_server \<Rightarrow> clock \<Rightarrow> Request \<Rightarrow> 'c \<Rightarrow> 's \<times> 'c globals \<Rightarrow> 's \<times> 'c globals" where
  "Heartbeat cv ck req stream w =
     (case w of (s, g) \<Rightarrow>
        let j = cv_Codec cv; name = rq_ClusterName req;
            (data, err) = jUnmarshalHeartbeat j (rq_Body req);
            g = replyErr cv name rpHeartbeatFailed stream (checked ((), err)) g;
            (r, s) = updateClusterWithHeartbeat (cv_Kube cv) j ck name data s;
            g = replyErr cv name rpHeartbeatFailed stream r g;
            g = insertStream cv ck name stream g
        in (s, SendResponse (cv_Net cv) stream
                 \<lparr>rp_Type = rpHeartbeatSuccess, rp_ClusterName = name, rp_Body = rq_Body req\<rparr> g))"

section \<open>Status reports\<close>

definition syncStatusItem :: "'s kube \<Rightarrow> StatusItem \<Rightarrow> ('s, unit) step" where
  "syncStatusItem k item =
     bindS (readS (\<lambda>s. liftApi (api_Get (kClusterResource k) s (si_Namespace item) (si_Name item))))
       (\<lambda>clusterResource.
          if cr_Status clusterResource = si_Status item then retS ()
          else bindS (writeS (api_UpdateStatus (kClusterResource k)
                                (clusterResource\<lparr>cr_Status := si_Status item\<rparr>))) (\<lambda>_. retS ()))"

definition syncClusterResourceStatus :: "'s kube \<Rightarrow> StatusItem list \<Rightarrow> ('s, unit) step" where
  "syncClusterResourceStatus k statusList = forS (\<lambda>item _. syncStatusItem k item) statusList ()"

definition ResourceHandler ::
  "('s, 'c) core_server \<Rightarrow> Request \<Rightarrow> 'c \<Rightarrow> 's \<times> 'c globals \<Rightarrow> 's \<times> 'c globals" where
  "ResourceHandler cv req stream w =
     (case w of (s, g) \<Rightarrow>
        let name = rq_ClusterName req;
            (items, err) = jUnmarshalStatusItems (cv_Codec cv) (rq_Body req);
            g = replyErr cv name rpResourceStatusUpdateFailed stream (checked ((), err)) g;
            (r, s) = syncClusterResourceStatus (cv_Kube cv) items s;
            g = replyErr cv name rpResourceStatusUpdateFailed stream r g
        in (s, SendResponse (cv_Net cv) stream
                 \<lparr>rp_Type = rpResourceStatusUpdateSuccess, rp_ClusterName = name, rp_Body = []\<rparr> g))"

section \<open>Receiving\<close>

datatype handler = hRegister | hHeartbeat | hResource | hAggregate

definition registerHandler ::
  "string \<Rightarrow> handler \<Rightarrow> (string, handler list) gomap \<Rightarrow> (string, handler list) gomap" where
  "registerHandler ty fn handlers =
     gomap_put handlers ty ((case gomap_get handlers ty of None \<Rightarrow> [] | Some fns \<Rightarrow> fns) @ [fn])"

definition initHandlers :: "(string, handler list) gomap" where
  "initHandlers = registerHandler rqAggregate hAggregate (registerHandler rqResource hResource
     (registerHandler rqHeartbeat hHeartbeat (registerHandler rqRegister hRegister [])))"

definition validate :: "Request \<Rightarrow> unit res" where
  "validate request =
     (if rq_Type request = [] then Raise (ErrMsg ''type field is empty in request'')
      else if rq_ClusterName request = [] then Raise (ErrMsg ''clusterName field is empty in request'')
      else Inr ())"

text \<open>
  One stream: what it receives until an error, and the handlers that are started, each in a
  goroutine of its own.
\<close>

fun Establish :: "(string, handler list) gomap \<Rightarrow> (go_error + Request) list \<Rightarrow> (handler \<times> Request) list" where
  "Establish handlers [] = []"
| "Establish handlers (Inl e # rs) = []"
| "Establish handlers (Inr req # rs) =
     (case validate req of
        Inl e \<Rightarrow> Establish handlers rs
      | Inr _ \<Rightarrow>
          map (\<lambda>h. (h, req)) (case gomap_get handlers (rq_Type req) of None \<Rightarrow> [] | Some hs \<Rightarrow> hs)
            @ Establish handlers rs)"

text \<open>A handler that has been started; the one for aggregation does nothing yet.\<close>

definition runHandler ::
  "('s, 'c) core_server \<Rightarrow> clock \<Rightarrow> 'c \<Rightarrow> handler \<times> Request \<Rightarrow> 's \<times> 'c globals \<Rightarrow> 's \<times> 'c globals" where
  "runHandler cv ck stream hr w =
     (case hr of
        (hRegister, req) \<Rightarrow> Register cv ck req stream w
      | (hHeartbeat, req) \<Rightarrow> Heartbeat cv ck req stream w
      | (hResource, req) \<Rightarrow> ResourceHandler cv req stream w
      | (hAggregate, req) \<Rightarrow> w)"

end
