(* ===== verification/Proxy.thy ===== *)
theory Proxy
  imports ClusterResourceProps Core
begin

text \<open>
  A proxy's side of the channel (\<open>pkg/proxy/send\<close>, \<open>pkg/proxy/handler\<close>): the registration, one
  round of the heartbeat loop, one round of the loop that receives the answers of the core, and the
  handlers of the answers. Handlers only log their errors. What the plugins of a proxy load is the
  argument \<open>loaded\<close> here; the theory Addons has how it comes about.
\<close>

section \<open>Registration (\<open>send/register.go\<close>)\<close>

definition sendRegister ::
  "('s, 'c) process \<Rightarrow> string \<Rightarrow> (go_error + Addon list) \<Rightarrow> ('c globals, unit) step" where
  "sendRegister p addonPath loaded =
     bindS (GetConnection (pc_Net p)) (\<lambda>stream.
       case stream of
         None \<Rightarrow> liftS (Raise (ErrMsg ''get stream failed''))
       | Some c \<Rightarrow>
           bindS (liftS (if addonPath \<noteq> [] then liftE loaded else Inr [])) (\<lambda>addons.
           bindS (liftS (GenerateRequest rqRegister (jMarshalRegister (pc_Codec p) addons)
                           (pc_ClusterName p) (pc_Codec p))) (sendOn (pc_Net p) c)))"

section \<open>Heartbeat (\<open>send/heartbeat.go\<close>, \<open>condition\<close>, \<open>cluster-health\<close>)\<close>

definition GetProxyCondition :: "Condition list" where "GetProxyCondition = []"

text \<open>What the health endpoint answers: an error or a status code.\<close>

definition GetClusterHealthStatus :: "(go_error + int) \<Rightarrow> bool \<times> bool" where
  "GetClusterHealthStatus healthz =
     (case healthz of
        Inl e \<Rightarrow> (False, False)
      | Inr healthStatus \<Rightarrow> if healthStatus \<noteq> 200 then (True, False) else (True, True))"

definition getAddonMap :: "Addon list \<Rightarrow> (string, Addon) gomap" where
  "getAddonMap addonList = fold (\<lambda>item m. gomap_put m (ao_Name item) item) addonList []"

definition isEqualAddons :: "Addon list \<Rightarrow> Addon list \<Rightarrow> bool" where
  "isEqualAddons new old =
     (if length old = 0 then False
      else if length new \<noteq> length old then False
      else gomap_eq (getAddonMap new) (getAddonMap old))"

definition getHeartbeatAddons :: "string \<Rightarrow> (go_error + Addon list) \<Rightarrow> Addon list" where
  "getHeartbeatAddons addonPath loaded =
     (if length addonPath = 0 then []
      else case loaded of Inl e \<Rightarrow> [] | Inr addonsInfo \<Rightarrow> addonsInfo)"

definition newHeartbeat ::
  "HeartbeatWithChangeRequest option \<Rightarrow> Addon list \<Rightarrow> bool \<Rightarrow> HeartbeatWithChangeRequest" where
  "newHeartbeat lastHeartbeat addonsInfo healthy =
     \<lparr>hb_Healthy = healthy,
      hb_Addons = (if \<not> (case lastHeartbeat of None \<Rightarrow> False
                         | Some l \<Rightarrow> isEqualAddons addonsInfo (hb_Addons l))
                   then addonsInfo else []),
      hb_Conditions = GetProxyCondition\<rparr>"

text \<open>\<open>start\<close>, one round; an error ends the round.\<close>

definition heartbeatRound ::
  "('s, 'c) process \<Rightarrow> string \<Rightarrow> (go_error + Addon list) \<Rightarrow> (go_error + int) \<Rightarrow> 'c globals \<Rightarrow> 'c globals" where
  "heartbeatRound p addonPath loaded healthz g =
     snd (bindS (liftS (GenerateRequest rqHeartbeat
              (jMarshalHeartbeat (pc_Codec p)
                 (newHeartbeat (case gl_Heartbeat g of None \<Rightarrow> None | Some l \<Rightarrow> l)
                    (getHeartbeatAddons addonPath loaded) (snd (GetClusterHealthStatus healthz))))
              (pc_ClusterName p) (pc_Codec p))) (\<lambda>request.
          bindS (GetConnection (pc_Net p)) (\<lambda>stream.
            case stream of None \<Rightarrow> retS () | Some c \<Rightarrow> sendOn (pc_Net p) c request)) g)"

text \<open>The first registration that succeeds starts the loop and makes the object it keeps its state in.\<close>

definition HeartbeatStart :: "'c globals \<Rightarrow> 'c globals" where
  "HeartbeatStart g = (if gl_Heartbeat g = None then g\<lparr>gl_Heartbeat := Some None\<rparr> else g)"

definition SetLastHeartbeat :: "HeartbeatWithChangeRequest \<Rightarrow> ('c globals, unit) step" where
  "SetLastHeartbeat request g =
     (case gl_Heartbeat g of
        None \<Rightarrow> (Crash NilDereference, g)
      | Some _ \<Rightarrow> (Inr (), g\<lparr>gl_Heartbeat := Some (Some request)\<rparr>))"

section \<open>Answers to a registration (\<open>handler/response_handler.go\<close>)\<close>

definition syncRegistered :: "'s kube \<Rightarrow> codec \<Rightarrow> string \<Rightarrow> ('s, unit) step" where
  "syncRegistered k j str =
     bindS (liftS (checked (jUnmarshalClusterResource j str))) (\<lambda>clusterResource.
       case GetClusterResourceObjectForRawExtension k j clusterResource of
         Inl e \<Rightarrow> retS ()
       | Inr resource \<Rightarrow>
           SyncProxyClusterResource k
             (cr_Meta_update (\<lambda>m. m\<lparr>om_Namespace := om_Namespace (un_Meta resource)\<rparr>) clusterResource))"

definition syncClusterResourcesList :: "'s kube \<Rightarrow> codec \<Rightarrow> string list \<Rightarrow> ('s, unit) step" where
  "syncClusterResourcesList k j clusterResourceList =
     forS (\<lambda>str _. syncRegistered k j str) clusterResourceList ()"

text \<open>Policies and rules are created, or overwritten when they exist.\<close>

definition createOrOverwrite :: "('s, 'o) api \<Rightarrow> 'o \<Rightarrow> ('s, unit) step" where
  "createOrOverwrite a obj s =
     (case api_Create a obj s of
        (Inr _, s') \<Rightarrow> (Inr (), s')
      | (Inl AlreadyExists, s') \<Rightarrow> bindS (writeS (api_Update a obj)) (\<lambda>_. retS ()) s'
      | (Inl e, s') \<Rightarrow> (Raise (ErrApi e), s'))"

definition syncPolicys :: "'s kube \<Rightarrow> codec \<Rightarrow> string list \<Rightarrow> ('s, unit) step" where
  "syncPolicys k j policyList =
     forS (\<lambda>str _. bindS (liftS (checked (jUnmarshalPolicy j str))) (createOrOverwrite (kAggregatePolicy k)))
       policyList ()"

definition syncRules :: "'s kube \<Rightarrow> codec \<Rightarrow> string list \<Rightarrow> ('s, unit) step" where
  "syncRules k j ruleList =
     forS (\<lambda>str _. bindS (liftS (checked (jUnmarshalRule j str))) (createOrOverwrite (kAggregateRule k)))
       ruleList ()"

definition syncRegisterResources :: "'s kube \<Rightarrow> codec \<Rightarrow> RegisterResponse \<Rightarrow> ('s, unit) step" where
  "syncRegisterResources k j resourceList =
     bindS (syncClusterResourcesList k j (rr_ClusterResources resourceList)) (\<lambda>_.
     bindS (syncPolicys k j (rr_AggregatePolicies resourceList)) (\<lambda>_.
       syncRules k j (rr_AggregateRules resourceList)))"

definition dealResponse :: "'s kube \<Rightarrow> codec \<Rightarrow> Response \<Rightarrow> ('s, unit) step" where
  "dealResponse k j response =
     (if length (rp_Body response) \<le> 0 then retS ()
      else bindS (liftS (checked (jUnmarshalRegisterResponse j (rp_Body response))))
             (syncRegisterResources k j))"

definition RecvRegisterResponse ::
  "('s, 'c) process \<Rightarrow> Response \<Rightarrow> 's \<times> 'c globals \<Rightarrow> 's \<times> 'c globals" where
  "RecvRegisterResponse p response w =
     (if rp_Type response \<noteq> rpRegisterSuccess then w
      else (snd (dealResponse (pc_Kube p) (pc_Codec p) response (fst w)), HeartbeatStart (snd w)))"

section \<open>Answers to a heartbeat (\<open>handler/heartbeat.go\<close>)\<close>

definition RecvHeartbeatResponse :: "codec \<Rightarrow> Response \<Rightarrow> ('c globals, unit) step" where
  "RecvHeartbeatResponse j res =
     (if rp_Type res \<noteq> rpHeartbeatSuccess then retS ()
      else case jUnmarshalHeartbeat j (rp_Body res) of
             (heartbeatWithChange, None) \<Rightarrow> SetLastHeartbeat heartbeatWithChange
           | (_, Some e) \<Rightarrow> retS ())"

section \<open>Cluster resources from the core (\<open>handler/resource.go\<close>)\<close>

definition syncResponseItem :: "'s kube \<Rightarrow> codec \<Rightarrow> string \<Rightarrow> ClusterResource \<Rightarrow> 's \<Rightarrow> 's" where
  "syncResponseItem k j responseType clusterResource s =
     (case GetClusterResourceObjectForRawExtension k j clusterResource of
        Inl e \<Rightarrow> s
      | Inr resource \<Rightarrow>
          (let clusterResource = cr_Meta_update (\<lambda>m. m\<lparr>om_Namespace := om_Namespace (un_Meta resource)\<rparr>)
                                   clusterResource in
           if responseType = rpResourceUpdateOrCreate then snd (SyncProxyClusterResource k clusterResource s)
           else if responseType = rpResourceDelete then snd (DeleteProxyClusterResource k clusterResource s)
           else s))"

definition syncResponse :: "'s kube \<Rightarrow> codec \<Rightarrow> Response \<Rightarrow> 's \<Rightarrow> 's" where
  "syncResponse k j response s =
     (case jUnmarshalClusterResources j (rp_Body response) of
        (_, Some e) \<Rightarrow> s
      | (items, None) \<Rightarrow> fold (syncResponseItem k j (rp_Type response)) items s)"

definition RecvSyncResourceResponse :: "'s kube \<Rightarrow> codec \<Rightarrow> Response \<Rightarrow> 's \<Rightarrow> 's" where
  "RecvSyncResourceResponse k j response s =
     (if rp_Type response = rpResourceStatusUpdateFailed then s
      else if rp_Type response = rpResourceStatusUpdateSuccess then s
      else if rp_Type response = rpResourceUpdateOrCreate then syncResponse k j response s
      else if rp_Type response = rpResourceDelete then syncResponse k j response s
      else s)"

section \<open>Receiving (\<open>handler/grpc_proxy.go\<close>)\<close>

definition dispatchResponse ::
  "('s, 'c) process \<Rightarrow> Response \<Rightarrow> ('s \<times> 'c globals, unit) step" where
  "dispatchResponse p response w =
     (let ty = rp_Type response in
      if ty \<in> {rpRegisterSuccess, rpRegisterFailed} then (Inr (), RecvRegisterResponse p response w)
      else if ty \<in> {rpHeartbeatSuccess, rpHeartbeatFailed}
      then onGlobals (RecvHeartbeatResponse (pc_Codec p) response) w
      else if ty \<in> {rpResourceUpdateOrCreate, rpResourceDelete, rpResourceStatusUpdateSuccess,
                    rpResourceStatusUpdateFailed}
      then (Inr (), (RecvSyncResourceResponse (pc_Kube p) (pc_Codec p) response (fst w), snd w))
      else (Inr (), w))"

text \<open>One round; \<open>recv\<close> is what the stream delivers.\<close>

definition RecvResponse ::
  "('s, 'c) process \<Rightarrow> ('c \<Rightarrow> go_error + Response) \<Rightarrow> ('s \<times> 'c globals, unit) step" where
  "RecvResponse p recv =
     bindS (onGlobals (GetConnection (pc_Net p))) (\<lambda>stream.
       case stream of
         None \<Rightarrow> (\<lambda>(s, g). (Inr (), (s, SetEmptyConnection g)))
       | Some c \<Rightarrow>
           (case recv c of
              Inl e \<Rightarrow> (\<lambda>(s, g). (Inr (), (s, SetEmptyConnection g)))
            | Inr response \<Rightarrow> dispatchResponse p response))"

end
