(* ===== verification/CoreProps.thy ===== *)
theory CoreProps
  imports Core MemCodec Server
begin

text \<open>
  The properties of the core's handlers: which handler a request starts, that every request is
  answered with success in the end, what a registration and a heartbeat leave in the stored cluster,
  and that a status report is stored.
\<close>

section \<open>Receiving\<close>

text \<open>The handler that is registered for a type of request.\<close>

definition handlerFor :: "string \<Rightarrow> handler option" where
  "handlerFor ty =
     (if ty = rqRegister then Some hRegister else if ty = rqHeartbeat then Some hHeartbeat
      else if ty = rqResource then Some hResource else if ty = rqAggregate then Some hAggregate else None)"

lemma initHandlers_get:
  "gomap_get initHandlers ty = (case handlerFor ty of None \<Rightarrow> None | Some h \<Rightarrow> Some [h])"
  by (simp add: initHandlers_def registerHandler_def handlerFor_def)

lemma validate_iff: "validate req = Inr u \<longleftrightarrow> rq_Type req \<noteq> [] \<and> rq_ClusterName req \<noteq> []"
  by (simp add: validate_def)

lemma handlerFor_ne: "handlerFor ty = Some h \<Longrightarrow> ty \<noteq> []"
  by (auto simp: handlerFor_def split: if_splits)

lemma Establish_init:
  "Establish initHandlers rs =
     List.map_filter (\<lambda>req. if rq_ClusterName req = [] then None
                            else map_option (\<lambda>h. (h, req)) (handlerFor (rq_Type req)))
       (map projr (takeWhile (\<lambda>r. \<not> isl r) rs))"
proof (induction "initHandlers" rs rule: Establish.induct)
  case (3 req rs)
  then show ?case
    by (cases "handlerFor (rq_Type req)")
       (auto simp: initHandlers_get validate_def map_filter_simps dest: handlerFor_ne)
qed (simp_all add: map_filter_simps)

section \<open>Answers\<close>

definition successType :: "handler \<Rightarrow> string" where
  "successType h = (case h of hRegister \<Rightarrow> rpRegisterSuccess | hHeartbeat \<Rightarrow> rpHeartbeatSuccess
     | hResource \<Rightarrow> rpResourceStatusUpdateSuccess | hAggregate \<Rightarrow> [])"

definition failureType :: "handler \<Rightarrow> string" where
  "failureType h = (case h of hRegister \<Rightarrow> rpRegisterFailed | hHeartbeat \<Rightarrow> rpHeartbeatFailed
     | hResource \<Rightarrow> rpResourceStatusUpdateFailed | hAggregate \<Rightarrow> [])"

text \<open>\<open>g'\<close> is \<open>g\<close> after some answers of one type on one stream.\<close>

definition answered :: "'c \<Rightarrow> string \<Rightarrow> 'c globals \<Rightarrow> 'c globals \<Rightarrow> bool" where
  "answered stream ty g g' \<longleftrightarrow>
     (\<exists>ms. gl_Responses g' = gl_Responses g @ ms \<and> (\<forall>m\<in>set ms. fst m = stream \<and> rp_Type (snd m) = ty))"

lemma answered_refl: "answered stream ty g g"
  by (simp add: answered_def)

lemma answered_trans:
  "answered stream ty g g' \<Longrightarrow> answered stream ty g' g'' \<Longrightarrow> answered stream ty g g''"
  by (force simp: answered_def)

lemma answered_replyErr: "answered stream ty g (replyErr cv name ty stream r g)"
  by (auto simp: answered_def replyErr_def SendErrResponse_def SendResponse_def split: sum.splits fail.splits option.splits)

lemma answered_insertStream: "answered stream ty g g' \<Longrightarrow> answered stream ty g (insertStream cv ck name stream g')"
  by (simp add: answered_def insertStream_def)

lemmas answered_intros = answered_insertStream answered_trans [OF _ answered_replyErr] answered_replyErr

lemma newResponse_type [simp]: "rp_Type (newResponse k j n s) = rpRegisterSuccess"
  by (simp add: newResponse_def Let_def split: sum.splits)

text \<open>How each handler ends: with the answer of success, after answers of failure.\<close>

lemma handler_ends:
  assumes "h \<noteq> hAggregate"
  shows "\<exists>g' res. snd (runHandler cv ck stream (h, req) (s, g)) = SendResponse (cv_Net cv) stream res g' \<and>
           answered stream (failureType h) g g' \<and> rp_Type res = successType h"
proof (cases h)
  case hRegister
  then show ?thesis
    by (auto simp: runHandler_def Register_def Let_def failureType_def successType_def split: prod.split
        intro!: exI conjI [OF refl] answered_intros)
next
  case hHeartbeat
  then show ?thesis
    by (auto simp: runHandler_def Heartbeat_def Let_def failureType_def successType_def split: prod.split
        intro!: exI conjI [OF refl] answered_intros)
next
  case hResource
  then show ?thesis
    by (auto simp: runHandler_def ResourceHandler_def Let_def failureType_def successType_def split: prod.split
        intro!: exI conjI [OF refl] answered_intros)
qed (use assms in simp)

text \<open>
  C35: whatever happens in a handler, its last answer on the stream is the one of success; the errors it meets,
  a body that does not decode included, are only answered before it.
\<close>

theorem last_answer_is_success:
  assumes "h \<noteq> hAggregate" and "\<And>res. nt_SendResponse (cv_Net cv) stream res = None"
  shows "\<exists>ms res. gl_Responses (snd (runHandler cv ck stream (h, req) (s, g)))
             = gl_Responses g @ ms @ [(stream, res)] \<and> rp_Type res = successType h \<and>
           (\<forall>m\<in>set ms. fst m = stream \<and> rp_Type (snd m) = failureType h)"
  using handler_ends [OF assms(1), of cv ck stream req s g] assms(2)
  by (force simp: answered_def SendResponse_def)

section \<open>Conditions\<close>

lemma conditions_bounded: "length (ct_Conditions (trimConditions st)) \<le> 10"
  using trimConditions_length [of st] by (simp add: ConditionMaximumLength_def)

text \<open>The new conditions of a heartbeat are padded in front with as many empty ones.\<close>

lemma converted_conditions:
  "ConvertCondition2KubeCondition cs = replicate (length cs) zeroCondition @ cs"
  by (simp add: ConvertCondition2KubeCondition_def)

section \<open>What is stored\<close>

lemma UpdateClusterStatus_Inr:
  "UpdateClusterStatus k c s = (Inr o2, s') \<longleftrightarrow>
     api_UpdateStatus (kCluster k) (c\<lparr>cl_Status := trimConditions (cl_Status c)\<rparr>) s = (Inr o2, s')"
  by (auto simp: UpdateClusterStatus_def writeS_def split: prod.splits)

lemma UpdateCluster_Inr: "UpdateCluster k c s = (Inr o2, s') \<longleftrightarrow> api_Update (kCluster k) c s = (Inr o2, s')"
  by (auto simp: UpdateCluster_def writeS_def split: prod.splits)

lemmas stored_simps = UpdateClusterStatus_Inr UpdateCluster_Inr bindS_Inr_iff

text \<open>What the two handlers leave in the stored cluster.\<close>

lemma registered_status:
  assumes laws: "api_status_kind (kCluster k) cl_Meta cl_Spec cl_Status"
    and g: "api_Get (kCluster k) s [] name = Inr old" "om_DeletionTimestamp (cl_Meta old) = None"
    and run: "registerClusterInKube k ck
                ((NewCluster name)\<lparr>cl_Status := zeroClusterStatus\<lparr>ct_Addons := addons\<rparr>\<rparr>) s = (Inr (), s')"
  shows "\<exists>new. api_Get (kCluster k) s' [] name = Inr new \<and> sameMeta (cl_Meta new) (cl_Meta old) \<and>
           cl_Spec new = zeroClusterSpec \<and> cl_Status new = trimConditions (onlineStatus ck (cl_Status old))"
proof -
  obtain x s1 where u: "api_Update (kCluster k) (old\<lparr>cl_Spec := zeroClusterSpec\<rparr>) s = (Inr x, s1)"
    and t: "UpdateClusterStatus k (x\<lparr>cl_Status := onlineStatus ck (cl_Status x)\<rparr>) s1 \<in> {(Inr y, s') | y. True}"
    using run g(1)
    by (auto simp: registerClusterInKube_def NewCluster_def zeroMeta_def zeroClusterStatus_def stored_simps)
  from t obtain y where t: "api_UpdateStatus (kCluster k)
      (x\<lparr>cl_Status := trimConditions (onlineStatus ck (cl_Status x))\<rparr>) s1 = (Inr y, s')"
    by (auto simp: stored_simps)
  from api_status_kind.update_then_status [OF laws g(1) _ g(2) u _ t] show ?thesis by simp
qed

lemma heartbeat_status:
  assumes laws: "api_status_kind (kCluster k) cl_Meta cl_Spec cl_Status"
    and g: "api_Get (kCluster k) s [] name = Inr old" "om_DeletionTimestamp (cl_Meta old) = None"
    and run: "updateClusterWithHeartbeat k j ck name hb s = (Inr (), s')"
  shows "\<exists>new. api_Get (kCluster k) s' [] name = Inr new \<and> sameMeta (cl_Meta new) (cl_Meta old) \<and>
           cl_Spec new = cl_Spec old \<and>
           cl_Status new = trimConditions (heartbeatStatus ck (hb_Conditions hb) (hb_Healthy hb) (cl_Status old))"
proof -
  let ?hs = "heartbeatStatus ck (hb_Conditions hb) (hb_Healthy hb)"
  obtain x s1 where x: "updateClusterWithHeartbeatAddons k j (hb_Addons hb) old s = (Inr x, s1)"
    and t: "updateClusterStatusWithHeartbeat k ck x (hb_Conditions hb) (hb_Healthy hb) s1 = (Inr (), s')"
    using run g(1) by (auto simp: updateClusterWithHeartbeat_def bindS_Inr_iff)
  from t obtain y where t: "api_UpdateStatus (kCluster k) (x\<lparr>cl_Status := trimConditions (?hs (cl_Status x))\<rparr>) s1
      = (Inr y, s')"
    by (auto simp: updateClusterStatusWithHeartbeat_def stored_simps)
  show ?thesis
  proof (cases "s1 = s \<and> x = old")
    case True
    with t have "api_UpdateStatus (kCluster k) (old\<lparr>cl_Status := trimConditions (?hs (cl_Status old))\<rparr>) s
        = (Inr y, s')" by simp
    from api_status_kind.status_reads_back [OF laws g(1) _ this] show ?thesis by simp
  next
    case False
    then obtain as where u: "api_Update (kCluster k) (old\<lparr>cl_Status := (cl_Status old)\<lparr>ct_Addons := as\<rparr>\<rparr>) s
        = (Inr x, s1)"
      using x by (auto simp: updateClusterWithHeartbeatAddons_def stored_simps split: if_splits)
    from api_status_kind.update_then_status [OF laws g(1) _ g(2) u _ t] show ?thesis by simp
  qed
qed

text \<open>
  The registration of a cluster that exists marks it online and healthy, keeps at most ten conditions,
  and resets its whole spec: the address, the secret, the addons and the configuration that were there
  are gone, and the addons of the request are not stored.
\<close>

theorem registration_resets_spec:
  assumes laws: "api_status_kind (kCluster k) cl_Meta cl_Spec cl_Status"
    and g: "api_Get (kCluster k) s [] name = Inr old" "om_DeletionTimestamp (cl_Meta old) = None"
    and run: "registerClusterInKube k ck
                ((NewCluster name)\<lparr>cl_Status := zeroClusterStatus\<lparr>ct_Addons := addons\<rparr>\<rparr>) s = (Inr (), s')"
  shows "\<exists>new. api_Get (kCluster k) s' [] name = Inr new \<and>
           sameMeta (cl_Meta new) (cl_Meta old) \<and> cl_Spec new = zeroClusterSpec \<and>
           ct_Status (cl_Status new) = OnlineStatus \<and> ct_Healthy (cl_Status new) \<and>
           ct_LastReceiveHeartBeatTimestamp (cl_Status new) = ck_Status ck \<and>
           ct_Addons (cl_Status new) = ct_Addons (cl_Status old) \<and>
           length (ct_Conditions (cl_Status new)) \<le> 10"
  using registered_status [OF laws g run] conditions_bounded
  by (auto simp: trimConditions_other onlineStatus_def)

text \<open>
  C36: a heartbeat that is processed without an error stores that the cluster is online, its health and the
  time, and keeps the spec and at most ten conditions. The addons it reports are lost: what is stored are
  the addons that were stored before, since they are put into the status and written with the main
  resource.
\<close>

theorem heartbeat_loses_addons:
  assumes laws: "api_status_kind (kCluster k) cl_Meta cl_Spec cl_Status"
    and g: "api_Get (kCluster k) s [] name = Inr old" "om_DeletionTimestamp (cl_Meta old) = None"
    and run: "updateClusterWithHeartbeat k j ck name hb s = (Inr (), s')"
  shows "\<exists>new. api_Get (kCluster k) s' [] name = Inr new \<and>
           sameMeta (cl_Meta new) (cl_Meta old) \<and> cl_Spec new = cl_Spec old \<and>
           ct_Status (cl_Status new) = OnlineStatus \<and> ct_Healthy (cl_Status new) = hb_Healthy hb \<and>
           ct_LastReceiveHeartBeatTimestamp (cl_Status new) = ck_Status ck \<and>
           ct_Addons (cl_Status new) = ct_Addons (cl_Status old) \<and>
           length (ct_Conditions (cl_Status new)) \<le> 10"
  using heartbeat_status [OF laws g run] conditions_bounded
  by (auto simp: trimConditions_other heartbeatStatus_def Let_def)

text \<open>
  C39: the comparison of the reported with the stored addons, two nested loops over names, decides whether
  both are the same addons, in any order, when no list has a name twice.
\<close>

theorem addonsEqual_iff:
  assumes "distinct (map as_Name old)" and "distinct (map as_Name new)"
  shows "addonsEqual old new \<longleftrightarrow> mset old = mset new"
proof
  assume eq: "addonsEqual old new"
  have "a \<in> set new" if a: "a \<in> set old" for a
  proof -
    obtain b where b: "b \<in> set new" "as_Name a = as_Name b" using eq a by (auto simp: addonsEqual_def list_all_iff list_ex_iff)
    with eq a have "as_Info a = as_Info b" by (auto simp: addonsEqual_def list_all_iff)
    with b have "a = b" by (simp add: ClusterAddonStatus.equality)
    with b show ?thesis by simp
  qed
  moreover have d: "distinct old" "distinct new" using assms by (simp_all add: distinct_map)
  moreover have "length old = length new" using eq by (simp add: addonsEqual_def)
  ultimately have "set old = set new" by (metis card_subset_eq distinct_card finite_set subsetI)
  with d show "mset old = mset new" by (simp add: set_eq_iff_mset_eq_distinct)
next
  assume eq: "mset old = mset new"
  then have "set old = set new" "length old = length new" by (auto dest: mset_eq_setD mset_eq_length)
  moreover have "as_Info a = as_Info b" if "a \<in> set new" "b \<in> set new" "as_Name a = as_Name b" for a b
  proof -
    have "a = b" using assms(2) that by (simp add: distinct_map inj_on_def)
    then show ?thesis by simp
  qed
  ultimately show "addonsEqual old new" unfolding addonsEqual_def list_all_iff list_ex_iff by blast
qed

text \<open>A status report, item by item.\<close>

definition itemKey :: "StatusItem \<Rightarrow> string \<times> string" where
  "itemKey i = (si_Namespace i, si_Name i)"

lemma syncStatusItem_stores:
  assumes laws: "api_status_kind (kClusterResource k) cr_Meta cr_Resource cr_Status"
    and run: "syncStatusItem k i s = (Inr u, s')"
  shows "\<exists>x y. api_Get (kClusterResource k) s (si_Namespace i) (si_Name i) = Inr x \<and>
      api_Get (kClusterResource k) s' (si_Namespace i) (si_Name i) = Inr y \<and>
      cr_Status y = si_Status i \<and> cr_Resource y = cr_Resource x"
    and "(ns, n) \<noteq> itemKey i \<Longrightarrow> api_Get (kClusterResource k) s' ns n = api_Get (kClusterResource k) s ns n"
proof -
  obtain x where x: "api_Get (kClusterResource k) s (si_Namespace i) (si_Name i) = Inr x"
    using run by (auto simp: syncStatusItem_def bindS_Inr_iff)
  have key: "om_Namespace (cr_Meta x) = si_Namespace i" "om_Name (cr_Meta x) = si_Name i"
    using api_kind.get_key [OF api_status_kind.axioms(1) [OF laws] x] by simp_all
  have "(\<exists>y. api_Get (kClusterResource k) s' (si_Namespace i) (si_Name i) = Inr y \<and>
      cr_Status y = si_Status i \<and> cr_Resource y = cr_Resource x) \<and>
    ((ns, n) \<noteq> itemKey i \<longrightarrow> api_Get (kClusterResource k) s' ns n = api_Get (kClusterResource k) s ns n)"
  proof (cases "cr_Status x = si_Status i")
    case True
    then show ?thesis using run x by (simp add: syncStatusItem_def bindS_def)
  next
    case False
    then obtain y where u: "api_UpdateStatus (kClusterResource k) (x\<lparr>cr_Status := si_Status i\<rparr>) s = (Inr y, s')"
      using run x by (auto simp: syncStatusItem_def bindS_def writeS_def split: prod.splits sum.splits)
    from api_status_kind.status_reads_back [OF laws x _ u] api_status_kind.get_update_status [OF laws u, of ns n] key
    show ?thesis by (auto simp: itemKey_def)
  qed
  with x show "\<exists>x y. api_Get (kClusterResource k) s (si_Namespace i) (si_Name i) = Inr x \<and>
      api_Get (kClusterResource k) s' (si_Namespace i) (si_Name i) = Inr y \<and>
      cr_Status y = si_Status i \<and> cr_Resource y = cr_Resource x"
    and "(ns, n) \<noteq> itemKey i \<Longrightarrow> api_Get (kClusterResource k) s' ns n = api_Get (kClusterResource k) s ns n"
    by blast+
qed

lemma syncClusterResourceStatus_keeps:
  assumes laws: "api_status_kind (kClusterResource k) cr_Meta cr_Resource cr_Status"
  shows "syncClusterResourceStatus k items s = (Inr u, s') \<Longrightarrow> (ns, n) \<notin> itemKey ` set items \<Longrightarrow>
    api_Get (kClusterResource k) s' ns n = api_Get (kClusterResource k) s ns n"
proof (induction items arbitrary: s)
  case (Cons i items)
  from Cons.prems(1) obtain v s1 where i: "syncStatusItem k i s = (Inr v, s1)"
      "syncClusterResourceStatus k items s1 = (Inr u, s')"
    by (auto simp: syncClusterResourceStatus_def bindS_Inr_iff)
  with Cons.IH [OF i(2)] Cons.prems(2) syncStatusItem_stores(2) [OF laws i(1), of ns n] show ?case by simp
qed (simp add: syncClusterResourceStatus_def)

text \<open>
  C18: a status report that is processed without an error leaves every cluster resource it names with the
  reported status and its resource unchanged, and leaves all others alone.
\<close>

theorem status_report_stored:
  assumes laws: "api_status_kind (kClusterResource k) cr_Meta cr_Resource cr_Status"
    and run: "syncClusterResourceStatus k items s = (Inr u, s')" and dist: "distinct (map itemKey items)"
  shows "(\<forall>i\<in>set items. \<exists>x y. api_Get (kClusterResource k) s (si_Namespace i) (si_Name i) = Inr x \<and>
            api_Get (kClusterResource k) s' (si_Namespace i) (si_Name i) = Inr y \<and>
            cr_Status y = si_Status i \<and> cr_Resource y = cr_Resource x) \<and>
         (\<forall>ns n. (ns, n) \<notin> itemKey ` set items \<longrightarrow>
            api_Get (kClusterResource k) s' ns n = api_Get (kClusterResource k) s ns n)"
  using run dist
proof (induction items arbitrary: s)
  case (Cons i items)
  from Cons.prems(1) obtain v s1 where i: "syncStatusItem k i s = (Inr v, s1)"
      "syncClusterResourceStatus k items s1 = (Inr u, s')"
    by (auto simp: syncClusterResourceStatus_def bindS_Inr_iff)
  have i_kept: "api_Get (kClusterResource k) s' (si_Namespace i) (si_Name i)
      = api_Get (kClusterResource k) s1 (si_Namespace i) (si_Name i)"
    using syncClusterResourceStatus_keeps [OF laws i(2)] Cons.prems(2) by (auto simp: itemKey_def)
  have "api_Get (kClusterResource k) s1 (si_Namespace j) (si_Name j)
      = api_Get (kClusterResource k) s (si_Namespace j) (si_Name j)" if "j \<in> set items" for j
  proof -
    have "itemKey j \<noteq> itemKey i" using Cons.prems(2) that by (metis distinct.simps(2) image_eqI list.simps(9) set_map)
    then show ?thesis using syncStatusItem_stores(2) [OF laws i(1), of "si_Namespace j" "si_Name j"]
      by (simp add: itemKey_def)
  qed
  with Cons.IH [OF i(2)] Cons.prems(2) syncStatusItem_stores [OF laws i(1)] i_kept show ?case by simp
qed (simp add: syncClusterResourceStatus_def)

section \<open>Witnesses\<close>

lemma mem_cluster_status: "api_status_kind (kCluster memKube) cl_Meta cl_Spec cl_Status"
  using clusterStatus.mem_status_kind by (simp add: memKube_def)

lemma mem_cluster_resource_status: "api_status_kind (kClusterResource memKube) cr_Meta cr_Resource cr_Status"
  using clusterResourceStatus.mem_status_kind by (simp add: memKube_def)

definition hxClock :: clock where
  "hxClock = \<lparr>ck_Status = 5, ck_Condition = 6, ck_Expire = 7, ck_Insert = 8\<rparr>"

definition hxCluster :: Cluster where
  "hxCluster = \<lparr>cl_Meta = zeroMeta\<lparr>om_Name := ''c1''\<rparr>,
     cl_Spec = zeroClusterSpec\<lparr>cp_ApiServer := ''https''\<rparr>,
     cl_Status = zeroClusterStatus\<lparr>ct_Addons := [\<lparr>as_Name = ''old'', as_Info = None\<rparr>]\<rparr>\<rparr>"

definition hxMem :: mem where
  "hxMem = emptyMem\<lparr>mm_Clusters := [hxCluster],
     mm_ClusterResources := [\<lparr>cr_Meta = zeroMeta\<lparr>om_Namespace := ''n'', om_Name := ''r''\<rparr>,
       cr_Resource = Some ''v'', cr_Status = zeroClusterResourceStatus\<rparr>]\<rparr>"

definition hxServer :: "(mem, nat) core_server" where
  "hxServer = \<lparr>cv_Kube = memKube, cv_Codec = memCodec,
     cv_Net = \<lparr>nt_Dial = Inr 1, nt_SendResponse = (\<lambda>c r. None), nt_SendRequest = (\<lambda>c r. None)\<rparr>,
     cv_HeartbeatExpirePeriod = 1\<rparr>"

definition hxGlobals :: "nat globals" where
  "hxGlobals = \<lparr>gl_Table = [], gl_Initialized = False, gl_Stream = None, gl_Heartbeat = None,
     gl_Responses = [], gl_Requests = []\<rparr>"

lemma hx_cluster: "api_Get (kCluster memKube) hxMem [] ''c1'' = Inr hxCluster"
  "om_DeletionTimestamp (cl_Meta hxCluster) = None"
  by (simp_all add: memKube_def memApi_def memGet_def findObj_def keyOf_def hxMem_def hxCluster_def zeroMeta_def)

lemma addonsEqual_iff_witness:
  "addonsEqual [\<lparr>as_Name = ''a'', as_Info = None\<rparr>, \<lparr>as_Name = ''b'', as_Info = Some ''1''\<rparr>]
     [\<lparr>as_Name = ''b'', as_Info = Some ''1''\<rparr>, \<lparr>as_Name = ''a'', as_Info = None\<rparr>]"
  by (subst addonsEqual_iff) simp_all

lemma last_answer_is_success_witness:
  "\<exists>ms res. gl_Responses (snd (runHandler hxServer hxClock 3
       (hRegister, \<lparr>rq_Type = rqRegister, rq_ClusterName = ''c1'', rq_Body = ''bad''\<rparr>) (hxMem, hxGlobals)))
     = gl_Responses hxGlobals @ ms @ [(3, res)] \<and> rp_Type res = rpRegisterSuccess \<and>
     (\<forall>m\<in>set ms. fst m = 3 \<and> rp_Type (snd m) = rpRegisterFailed)"
  using last_answer_is_success [of hRegister hxServer 3 hxClock
      "\<lparr>rq_Type = rqRegister, rq_ClusterName = ''c1'', rq_Body = ''bad''\<rparr>" hxMem hxGlobals]
  by (simp add: hxServer_def successType_def failureType_def)

lemma registration_resets_spec_witness:
  "cp_ApiServer (cl_Spec hxCluster) = ''https'' \<and>
   (\<exists>s' new. registerClusterInKube memKube hxClock
        ((NewCluster ''c1'')\<lparr>cl_Status := zeroClusterStatus\<lparr>ct_Addons := [\<lparr>as_Name = ''new'', as_Info = None\<rparr>]\<rparr>\<rparr>) hxMem
      = (Inr (), s') \<and>
      api_Get (kCluster memKube) s' [] ''c1'' = Inr new \<and> cp_ApiServer (cl_Spec new) = [])"
proof -
  let ?r = "registerClusterInKube memKube hxClock
        ((NewCluster ''c1'')\<lparr>cl_Status := zeroClusterStatus\<lparr>ct_Addons := [\<lparr>as_Name = ''new'', as_Info = None\<rparr>]\<rparr>\<rparr>) hxMem"
  have "fst ?r = Inr ()" by code_simp
  then have run: "?r = (Inr (), snd ?r)" by (simp add: prod_eq_iff)
  from registration_resets_spec [OF mem_cluster_status hx_cluster run] run show ?thesis
    by (force simp: hxCluster_def zeroClusterSpec_def)
qed

lemma heartbeat_loses_addons_witness:
  "\<exists>s' new. updateClusterWithHeartbeat memKube memCodec hxClock ''c1'' memHeartbeat hxMem = (Inr (), s') \<and>
     api_Get (kCluster memKube) s' [] ''c1'' = Inr new \<and> ct_Status (cl_Status new) = OnlineStatus \<and>
     map as_Name (ct_Addons (cl_Status new)) = [''old''] \<and> map ao_Name (hb_Addons memHeartbeat) = [''etcd'']"
proof -
  let ?r = "updateClusterWithHeartbeat memKube memCodec hxClock ''c1'' memHeartbeat hxMem"
  have "fst ?r = Inr ()" by code_simp
  then have run: "?r = (Inr (), snd ?r)" by (simp add: prod_eq_iff)
  from heartbeat_loses_addons [OF mem_cluster_status hx_cluster run] run show ?thesis
    by (force simp: hxCluster_def memHeartbeat_def)
qed

definition hxItem :: StatusItem where
  "hxItem = \<lparr>si_Name = ''r'', si_Namespace = ''n'',
     si_Status = zeroClusterResourceStatus\<lparr>rt_Phase := phComplete\<rparr>\<rparr>"

lemma status_report_stored_witness:
  "\<exists>s' y. syncClusterResourceStatus memKube [hxItem] hxMem = (Inr (), s') \<and>
     api_Get (kClusterResource memKube) s' ''n'' ''r'' = Inr y \<and> cr_Status y = si_Status hxItem"
proof -
  let ?r = "syncClusterResourceStatus memKube [hxItem] hxMem"
  have "fst ?r = Inr ()" by code_simp
  then have run: "?r = (Inr (), snd ?r)" by (simp add: prod_eq_iff)
  have "si_Name hxItem = ''r''" "si_Namespace hxItem = ''n''" by (simp_all add: hxItem_def)
  with status_report_stored [OF mem_cluster_resource_status run] run show ?thesis by force
qed

section \<open>The stream of a cluster\<close>

text \<open>
  Handlers that run one after the other, each with its clock, the stream that its request came over, and the
  request. A registration and a heartbeat claim the stream table for their cluster.
\<close>

type_synonym 'c handled = "clock \<times> 'c \<times> handler \<times> Request"

definition runHandlers ::
  "('s, 'c) core_server \<Rightarrow> 'c handled list \<Rightarrow> 's \<times> 'c globals \<Rightarrow> 's \<times> 'c globals" where
  "runHandlers cv es w = fold (\<lambda>(ck, stream, hr). runHandler cv ck stream hr) es w"

definition claims :: "string \<Rightarrow> 'c handled \<Rightarrow> bool" where
  "claims n e \<longleftrightarrow> (case e of (ck, stream, h, req) \<Rightarrow> h \<in> {hRegister, hHeartbeat} \<and> rq_ClusterName req = n)"

lemma table_unchanged [simp]:
  "gl_Table (replyErr cv n ty stream r g) = gl_Table g" "gl_Table (SendResponse net stream res g) = gl_Table g"
  by (auto simp: replyErr_def SendErrResponse_def SendResponse_def split: sum.splits fail.splits option.splits)

lemma runHandler_table:
  "gl_Table (snd (runHandler cv ck stream (h, req) w)) =
     (if claims (rq_ClusterName req) (ck, stream, h, req)
      then InsertStream (ck_Insert ck) (rq_ClusterName req)
             (streamFor (cv_HeartbeatExpirePeriod cv) (ck_Expire ck) (rq_ClusterName req) stream) (gl_Table (snd w))
      else gl_Table (snd w))"
  by (cases h) (auto simp: runHandler_def Register_def Heartbeat_def ResourceHandler_def claims_def insertStream_def
      Let_def split: prod.splits)

text \<open>What one handler does to the entry of a cluster, when a lease is a number of nanoseconds in range.\<close>

lemma runHandler_finds:
  assumes "in_int64 (cv_HeartbeatExpirePeriod cv * 10 ^ 9)"
    and ok: "\<And>st. FindStream (gl_Table (snd w)) n = Some st \<Longrightarrow> st_Status st = stOK"
  shows "FindStream (gl_Table (snd (runHandler cv ck stream (h, req) w))) n =
     (if claims n (ck, stream, h, req)
      then (case FindStream (gl_Table (snd w)) n of
              Some st \<Rightarrow> if ck_Insert ck \<le> st_Expire st then Some st
                         else Some (streamFor (cv_HeartbeatExpirePeriod cv) (ck_Expire ck) n stream)
            | None \<Rightarrow> Some (streamFor (cv_HeartbeatExpirePeriod cv) (ck_Expire ck) n stream))
      else FindStream (gl_Table (snd w)) n)"
  using ok
  by (auto simp: runHandler_table FindStream_Insert claims_def isExpire_def split: option.splits)

lemma runHandlers_snoc:
  "runHandlers cv (es @ [(ck, stream, hr)]) w = runHandler cv ck stream hr (runHandlers cv es w)"
  by (simp add: runHandlers_def)

definition leased ::
  "('s, 'c) core_server \<Rightarrow> 's \<times> 'c globals \<Rightarrow> string \<Rightarrow> 'c handled list \<Rightarrow> 'c Stream \<Rightarrow> bool" where
  "leased cv w n es st \<longleftrightarrow>
     (\<exists>pre ck stream h req post. es = pre @ (ck, stream, h, req) # post \<and> claims n (ck, stream, h, req) \<and>
        st = \<lparr>st_ClusterName = n, st_Stream = stream, st_Status = stOK,
              st_Expire = ck_Expire ck + cv_HeartbeatExpirePeriod cv * 10 ^ 9\<rparr> \<and>
        (\<forall>old. FindStream (gl_Table (snd (runHandlers cv pre w))) n = Some old \<longrightarrow> st_Expire old < ck_Insert ck) \<and>
        (\<forall>e\<in>set post. claims n e \<longrightarrow> ck_Insert (fst e) \<le> st_Expire st))"

lemma leased_step:
  assumes "leased cv w n es st" and "claims n e \<Longrightarrow> ck_Insert (fst e) \<le> st_Expire st"
  shows "leased cv w n (es @ [e]) st"
proof -
  obtain pre ck stream h req post where "es = pre @ (ck, stream, h, req) # post" "claims n (ck, stream, h, req)"
    "st = \<lparr>st_ClusterName = n, st_Stream = stream, st_Status = stOK,
        st_Expire = ck_Expire ck + cv_HeartbeatExpirePeriod cv * 10 ^ 9\<rparr>"
    "\<forall>old. FindStream (gl_Table (snd (runHandlers cv pre w))) n = Some old \<longrightarrow> st_Expire old < ck_Insert ck"
    "\<forall>e\<in>set (post @ [e]). claims n e \<longrightarrow> ck_Insert (fst e) \<le> st_Expire st"
    using assms unfolding leased_def by auto
  moreover from this(1) have "es @ [e] = pre @ (ck, stream, h, req) # (post @ [e])" by simp
  ultimately show ?thesis unfolding leased_def by blast
qed

lemma stream_leased:
  assumes empty: "gl_Table (snd w) = []" and range: "in_int64 (cv_HeartbeatExpirePeriod cv * 10 ^ 9)"
  shows "case FindStream (gl_Table (snd (runHandlers cv es w))) n of
           None \<Rightarrow> \<not> list_ex (claims n) es
         | Some st \<Rightarrow> leased cv w n es st"
proof (induction es rule: rev_induct)
  case Nil
  then show ?case by (simp add: runHandlers_def empty FindStream_def gomap_get_def)
next
  case (snoc e es)
  obtain ck stream h req where e: "e = (ck, stream, h, req)" by (cases e)
  let ?old = "FindStream (gl_Table (snd (runHandlers cv es w))) n"
  have ok: "?old = Some st \<Longrightarrow> st_Status st = stOK" for st using snoc by (auto simp: leased_def)
  have finds: "FindStream (gl_Table (snd (runHandlers cv (es @ [e]) w))) n =
      (if claims n e then (case ?old of
           Some st \<Rightarrow> if ck_Insert ck \<le> st_Expire st then Some st
                      else Some (streamFor (cv_HeartbeatExpirePeriod cv) (ck_Expire ck) n stream)
         | None \<Rightarrow> Some (streamFor (cv_HeartbeatExpirePeriod cv) (ck_Expire ck) n stream)) else ?old)"
    using runHandler_finds [OF range ok, where ck = ck and stream = stream and h = h and req = req] by (simp add: e runHandlers_snoc)
  have new: "leased cv w n (es @ [e]) (streamFor (cv_HeartbeatExpirePeriod cv) (ck_Expire ck) n stream)"
    if "claims n e" "\<And>old. ?old = Some old \<Longrightarrow> st_Expire old < ck_Insert ck"
    unfolding leased_def using that range
    by (intro exI [of _ es] exI [of _ ck] exI [of _ stream] exI [of _ h] exI [of _ req] exI [of _ "[]"])
       (simp add: e streamFor_def)
  show ?case
  proof (cases ?old)
    case None
    then show ?thesis using finds new snoc by auto
  next
    case (Some st)
    then have "leased cv w n es st" using snoc by simp
    then show ?thesis using finds new leased_step [of cv w n es st e] Some by (auto simp: e)
  qed
qed

text \<open>
  C20: whatever requests the core handles, one after the other, the entry of a cluster in the stream table is lent to one
  stream at a time. A cluster that has registered or sent a heartbeat has an entry, with a stream over which it
  did so; that stream got the entry when there was none or when the lease of the one before was over, and every claim
  since then came within its own lease. A message for the cluster goes to this stream, and one for a
  cluster that never claimed an entry is refused. A lease is in the range of 64 bits, which the default period is not.
\<close>

theorem stream_is_leased:
  fixes cv :: "('s, 'c) core_server" and w :: "'s \<times> 'c globals"
  defines "table \<equiv> \<lambda>es. gl_Table (snd (runHandlers cv es w))" and "lease \<equiv> cv_HeartbeatExpirePeriod cv * 10 ^ 9"
  assumes empty: "gl_Table (snd w) = []" and range: "in_int64 lease"
  shows "case FindStream (table es) n of
           None \<Rightarrow> \<not> list_ex (claims n) es \<and>
             (\<forall>net rp g. gl_Table g = table es \<longrightarrow> (\<exists>e. SendResourceToProxy net n rp g = (Raise e, g)))
         | Some st \<Rightarrow> \<exists>pre ck stream h req post.
             es = pre @ (ck, stream, h, req) # post \<and> claims n (ck, stream, h, req) \<and>
             st = \<lparr>st_ClusterName = n, st_Stream = stream, st_Status = stOK, st_Expire = ck_Expire ck + lease\<rparr> \<and>
             (\<forall>old. FindStream (table pre) n = Some old \<longrightarrow> st_Expire old < ck_Insert ck) \<and>
             (\<forall>e\<in>set post. claims n e \<longrightarrow> ck_Insert (fst e) \<le> ck_Expire ck + lease) \<and>
             (\<forall>net rp g. gl_Table g = table es \<longrightarrow> nt_SendResponse net stream rp = None \<longrightarrow>
                SendResourceToProxy net n rp g = (Inr (), g\<lparr>gl_Responses := gl_Responses g @ [(stream, rp)]\<rparr>))"
proof (cases "FindStream (table es) n")
  case None
  then show ?thesis using stream_leased [OF empty, where cv = cv and es = es and n = n] range
    by (auto simp: table_def lease_def SendResourceToProxy_def)
next
  case (Some st)
  then have "leased cv w n es st" using stream_leased [OF empty, where cv = cv and es = es and n = n] range by (simp add: table_def lease_def)
  then obtain pre ck stream h req post where
    "es = pre @ (ck, stream, h, req) # post" "claims n (ck, stream, h, req)"
    and st: "st = \<lparr>st_ClusterName = n, st_Stream = stream, st_Status = stOK, st_Expire = ck_Expire ck + lease\<rparr>"
    and "\<forall>old. FindStream (table pre) n = Some old \<longrightarrow> st_Expire old < ck_Insert ck"
    and "\<forall>e\<in>set post. claims n e \<longrightarrow> ck_Insert (fst e) \<le> st_Expire st"
    unfolding leased_def table_def lease_def by blast
  moreover have "SendResourceToProxy net n rp g = (Inr (), g\<lparr>gl_Responses := gl_Responses g @ [(stream, rp)]\<rparr>)"
    if "gl_Table g = table es" "nt_SendResponse net stream rp = None" for net rp g
    using that Some by (simp add: SendResourceToProxy_def st)
  ultimately show ?thesis using Some by (simp add: st) blast
qed

text \<open>
  Two streams claim the cluster c at the times 0 and 5, with leases of a second: the first keeps it, and a third
  one gets it two seconds later.
\<close>

definition lxClock :: "int \<Rightarrow> clock" where
  "lxClock t = \<lparr>ck_Status = t, ck_Condition = t, ck_Expire = t, ck_Insert = t\<rparr>"

definition lxServer :: "(mem, nat) core_server" where
  "lxServer = \<lparr>cv_Kube = memKube, cv_Codec = memCodec,
     cv_Net = \<lparr>nt_Dial = Inr 1, nt_SendResponse = (\<lambda>c r. None), nt_SendRequest = (\<lambda>c r. None)\<rparr>, cv_HeartbeatExpirePeriod = 1\<rparr>"

definition lxRequest :: "string \<Rightarrow> Request" where
  "lxRequest ty = \<lparr>rq_Type = ty, rq_ClusterName = ''c'', rq_Body = []\<rparr>"

definition lxGlobals :: "nat globals" where
  "lxGlobals = \<lparr>gl_Table = [], gl_Initialized = False, gl_Stream = None, gl_Heartbeat = None, gl_Responses = [], gl_Requests = []\<rparr>"

definition lxEvents :: "nat handled list" where
  "lxEvents = [(lxClock 0, 1, hRegister, lxRequest rqRegister), (lxClock 5, 2, hRegister, lxRequest rqRegister),
     (lxClock (2 * 10 ^ 9), 3, hHeartbeat, lxRequest rqHeartbeat)]"

lemma lx_runs:
  "map (map_option st_Stream \<circ> (\<lambda>es. FindStream (gl_Table (snd (runHandlers lxServer es (emptyMem, lxGlobals)))) ''c''))
     [take 1 lxEvents, take 2 lxEvents, lxEvents] = [Some 1, Some 1, Some 3]"
  by code_simp

lemma stream_is_leased_witness:
  "FindStream (gl_Table (snd (runHandlers lxServer (take 2 lxEvents) (emptyMem, lxGlobals)))) ''c'' =
     Some \<lparr>st_ClusterName = ''c'', st_Stream = 1, st_Status = stOK, st_Expire = 10 ^ 9\<rparr>"
proof -
  let ?es = "take 2 lxEvents"
  obtain st where st: "FindStream (gl_Table (snd (runHandlers lxServer ?es (emptyMem, lxGlobals)))) ''c'' = Some st" "st_Stream st = 1"
    using lx_runs by auto
  have "in_int64 (cv_HeartbeatExpirePeriod lxServer * 10 ^ 9)" by (simp add: lxServer_def in_int64_def)
  from stream_is_leased [where w = "(emptyMem, lxGlobals)" and cv = lxServer and es = ?es and n = "''c''", OF _ this] st show ?thesis
    by (auto simp: lxGlobals_def lxEvents_def lxServer_def lxClock_def Cons_eq_append_conv)
qed

end
