(* ===== verification/Addons.thy ===== *)
theory Addons
  imports Messages KubeClient
begin

text \<open>
  The plugins of a proxy (\<open>pkg/proxy/addons\<close>): what one plugin loads, in the tree or from a URL, and
  the parallel load of all of them, which ends when every channel has delivered a plugin of its own or
  when the deadline has passed. The pods of the cluster, HTTP, fresh identifiers and random suffixes are
  parameters (\<open>addon_env\<close>).
\<close>

section \<open>Surroundings\<close>

text \<open>\<open>ae_HttpGet\<close> answers with a status code and what reading the body gives, \<open>ae_ListPods\<close> with the
  addresses of the pods.\<close>

record addon_env =
  ae_ParseLabels :: "string \<Rightarrow> go_error + selector"
  ae_ListPods :: "list_opts \<Rightarrow> api_error + string list"
  ae_HttpGet :: "string \<Rightarrow> go_error + int \<times> (go_error + string)"
  ae_NewUid :: string
  ae_UnmarshalPluginsData :: "string \<Rightarrow> go_error + string \<times> json"

section \<open>Plugins in the tree (\<open>in-tree\<close>)\<close>

datatype addonsLoader = apiServerAddons | etcdAddons | prometheusAddons | esAddons | ingressAddons

abbreviation loaderPrometheus :: string where "loaderPrometheus \<equiv> ''prometheus''"
abbreviation loaderElasticsearch :: string where "loaderElasticsearch \<equiv> ''elasticsearch''"
abbreviation loaderIngress :: string where "loaderIngress \<equiv> ''ingress''"
abbreviation loaderApiServer :: string where "loaderApiServer \<equiv> ''apiserver''"
abbreviation loaderEtcd :: string where "loaderEtcd \<equiv> ''etcd''"

definition AddonsRegisterMap :: "(string, addonsLoader) gomap" where
  "AddonsRegisterMap = gomap_put (gomap_put [] loaderApiServer apiServerAddons) loaderEtcd etcdAddons"

definition PodList :: "addon_env \<Rightarrow> string \<Rightarrow> string \<Rightarrow> string list res" where
  "PodList env ns label =
     bindR (liftE (ae_ParseLabels env label)) (\<lambda>s.
       liftApi (ae_ListPods env \<lparr>lo_Namespace = ns, lo_Selector = Some s\<rparr>))"

text \<open>\<open>ApiServerAddonsData\<close> and \<open>EtcdAddonsInfo\<close>, as the JSON they become.\<close>

definition podData :: "string list \<Rightarrow> json" where
  "podData ips = JObject [(''podIP'', JArray (map JString ips))]"

text \<open>Without an API server pod the first answers nil and no error.\<close>

definition apiServerAddons_Load :: "addon_env \<Rightarrow> properties option res" where
  "apiServerAddons_Load env =
     bindR (PodList env ''kube-system'' ''component=kube-apiserver'') (\<lambda>items.
       if length items = 0 then Inr None
       else Inr (Some (PluginsData (ae_NewUid env) (podData items))))"

definition etcdAddons_Load :: "addon_env \<Rightarrow> properties option res" where
  "etcdAddons_Load env =
     bindR (PodList env ''kube-system'' ''component=etcd'') (\<lambda>items.
       if length items = 0 then Raise (ErrMsg ''can not find etcd pod list'')
       else Inr (Some (PluginsData (ae_NewUid env) (podData items))))"

fun loaderLoad :: "addon_env \<Rightarrow> addonsLoader \<Rightarrow> properties option res" where
  "loaderLoad env apiServerAddons = apiServerAddons_Load env"
| "loaderLoad env etcdAddons = etcdAddons_Load env"
| "loaderLoad env prometheusAddons = Inr None"
| "loaderLoad env esAddons = Inr None"
| "loaderLoad env ingressAddons = Inr None"

definition LoadInTreeData :: "addon_env \<Rightarrow> string \<Rightarrow> properties option res" where
  "LoadInTreeData env name =
     (case gomap_get AddonsRegisterMap (strToLower name) of
        None \<Rightarrow> Raise (ErrFmt ''can not find inTree(%s)'' [name])
      | Some loader \<Rightarrow> loaderLoad env loader)"

section \<open>Plugins behind a URL (\<open>out-tree\<close>)\<close>

definition LoadOutTreeData :: "addon_env \<Rightarrow> string \<Rightarrow> properties option res" where
  "LoadOutTreeData env url =
     bindR (liftE (ae_HttpGet env url)) (\<lambda>(statusCode, body).
       if statusCode \<noteq> 200 then Raise (ErrMsg ''status code is not 200'')
       else bindR (liftE body) (\<lambda>data.
            bindR (liftE (ae_UnmarshalPluginsData env data)) (\<lambda>(uid, v).
              Inr (Some (PluginsData (if length uid \<le> 0 then ae_NewUid env else uid) v)))))"

section \<open>One plugin (\<open>addons_process.go\<close>)\<close>

definition getAddon :: "addon_env \<Rightarrow> string \<Rightarrow> string \<Rightarrow> Addon option" where
  "getAddon env name url =
     (if length name = 0 then None
      else case (if length url \<noteq> 0 then LoadOutTreeData env url else LoadInTreeData env name) of
             Inl _ \<Rightarrow> None
           | Inr None \<Rightarrow> None
           | Inr (Some data) \<Rightarrow> Some \<lparr>ao_Name = name, ao_Properties = Some data\<rparr>)"

section \<open>The addon manager (\<open>addons_manager.go\<close>)\<close>

abbreviation emptyAddonPrefix :: string where "emptyAddonPrefix \<equiv> ''empty-''"

definition randEmptyAddon :: "string \<Rightarrow> Addon" where
  "randEmptyAddon r = \<lparr>ao_Name = emptyAddonPrefix @ r, ao_Properties = None\<rparr>"

definition isEmptyAddon :: "Addon \<Rightarrow> bool" where
  "isEmptyAddon addon \<longleftrightarrow> strHasPrefix (ao_Name addon) emptyAddonPrefix"

text \<open>What a goroutine appends for what its channel delivered; \<open>r\<close> is its random suffix.\<close>

definition addonOr :: "Addon option \<times> string \<Rightarrow> Addon" where
  "addonOr p = (case p of (None, r) \<Rightarrow> randEmptyAddon r | (Some addon, r) \<Rightarrow> addon)"

definition AppendAddon :: "Addon option \<times> string \<Rightarrow> (string, Addon) gomap \<Rightarrow> (string, Addon) gomap" where
  "AppendAddon p addonMap =
     (case gomap_get addonMap (ao_Name (addonOr p)) of
        Some _ \<Rightarrow> addonMap
      | None \<Rightarrow> gomap_put addonMap (ao_Name (addonOr p)) (addonOr p))"

text \<open>Go iterates a map in any order: the properties speak of the set of the list.\<close>

definition AddonList :: "(string, Addon) gomap \<Rightarrow> Addon list" where
  "AddonList addonMap = filter (\<lambda>v. \<not> isEmptyAddon v) (map snd addonMap)"

text \<open>The loop that waits, at one of its rounds: nothing yet, or the answer.\<close>

definition getAddonsInfo :: "bool \<Rightarrow> nat \<Rightarrow> (string, Addon) gomap \<Rightarrow> Addon list option" where
  "getAddonsInfo deadlineExceeded channels addonMap =
     (if deadlineExceeded \<or> length addonMap = channels then Some (AddonList addonMap) else None)"

section \<open>The parallel load\<close>

text \<open>
  A goroutine of the manager receives a plugin, tests the map under the read lock, and writes under the
  write lock: in between others may have written.
\<close>

record loading =
  ld_Map :: "(string, Addon) gomap"
  ld_Waiting :: "(Addon option \<times> string) list"
  ld_Tested :: "Addon list"

inductive load_step :: "loading \<Rightarrow> loading \<Rightarrow> bool" where
  tested_new: "ld_Waiting l = xs @ p # ys \<Longrightarrow> gomap_get (ld_Map l) (ao_Name (addonOr p)) = None \<Longrightarrow>
    load_step l (l\<lparr>ld_Waiting := xs @ ys, ld_Tested := addonOr p # ld_Tested l\<rparr>)"
| tested_known: "ld_Waiting l = xs @ p # ys \<Longrightarrow> gomap_get (ld_Map l) (ao_Name (addonOr p)) \<noteq> None \<Longrightarrow>
    load_step l (l\<lparr>ld_Waiting := xs @ ys\<rparr>)"
| written: "ld_Tested l = xs @ addon # ys \<Longrightarrow>
    load_step l (l\<lparr>ld_Tested := xs @ ys, ld_Map := gomap_put (ld_Map l) (ao_Name addon) addon\<rparr>)"

definition startLoad :: "(Addon option \<times> string) list \<Rightarrow> loading" where
  "startLoad ps = \<lparr>ld_Map = [], ld_Waiting = ps, ld_Tested = []\<rparr>"

text \<open>What the goroutines that run the plugins deliver, in the order of the channels.\<close>

definition pluginChannels :: "addon_env \<Rightarrow> Plugins \<Rightarrow> Addon option list" where
  "pluginChannels env cfg =
     map (\<lambda>name. getAddon env name []) (pg_InTree cfg) @
     map (\<lambda>(name, url). getAddon env name url) (pg_OutTree cfg)"

text \<open>
  \<open>LoadAddon\<close> may answer \<open>addons\<close>: right away when no plugin is configured, otherwise at some state of
  the load, with the random suffixes \<open>rs\<close>, when the deadline has passed or all are there.
\<close>

inductive LoadAddon :: "addon_env \<Rightarrow> Plugins \<Rightarrow> string list \<Rightarrow> bool \<Rightarrow> Addon list \<Rightarrow> bool" for env cfg rs where
  no_plugins: "length (pg_InTree cfg) \<le> 0 \<Longrightarrow> length (pg_OutTree cfg) \<le> 0 \<Longrightarrow> LoadAddon env cfg rs deadline []"
| stopped: "\<not> (length (pg_InTree cfg) \<le> 0 \<and> length (pg_OutTree cfg) \<le> 0) \<Longrightarrow>
    load_step\<^sup>*\<^sup>* (startLoad (zip (pluginChannels env cfg) rs)) l \<Longrightarrow>
    getAddonsInfo deadline (length (pluginChannels env cfg)) (ld_Map l) = Some addons \<Longrightarrow>
    LoadAddon env cfg rs deadline addons"

section \<open>The states of a load\<close>

text \<open>
  Every name in the map and every name about to be written is one that some channel delivered, and what
  is stored under a name was delivered under it; a name that has been delivered stays on its way or in
  the map.
\<close>

definition load_ok :: "(Addon option \<times> string) list \<Rightarrow> loading \<Rightarrow> bool" where
  "load_ok ps l \<longleftrightarrow> gomap_wf (ld_Map l) \<and> set (ld_Waiting l) \<subseteq> set ps \<and>
     set (ld_Tested l) \<subseteq> addonOr ` set ps \<and>
     (\<forall>n a. gomap_get (ld_Map l) n = Some a \<longrightarrow> n = ao_Name a \<and> a \<in> addonOr ` set ps) \<and>
     (\<forall>p\<in>set ps. p \<in> set (ld_Waiting l) \<or> ao_Name (addonOr p) \<in> ao_Name ` set (ld_Tested l) \<or>
        gomap_get (ld_Map l) (ao_Name (addonOr p)) \<noteq> None)"

lemma load_ok_start: "load_ok ps (startLoad ps)"
  by (simp add: load_ok_def startLoad_def)

lemma load_ok_step:
  assumes "load_step l l'" and ok: "load_ok ps l"
  shows "load_ok ps l'"
  using assms(1)
proof cases
  case (tested_new xs p ys)
  with ok show ?thesis by (auto simp: load_ok_def)
next
  case (tested_known xs p ys)
  with ok show ?thesis by (auto simp: load_ok_def)
next
  case (written xs addon ys)
  with ok show ?thesis by (auto simp: load_ok_def)
qed

lemma load_ok_reachable: "load_step\<^sup>*\<^sup>* (startLoad ps) l \<Longrightarrow> load_ok ps l"
  by (induction rule: rtranclp_induct) (auto intro: load_ok_start load_ok_step)

lemma load_ok_get:
  assumes "load_ok ps l" and "gomap_get (ld_Map l) n = Some a"
  shows "n = ao_Name a" and "a \<in> addonOr ` set ps"
  using assms by (simp_all add: load_ok_def)

lemma load_ok_in:
  assumes "load_ok ps l" and "(n, a) \<in> set (ld_Map l)"
  shows "gomap_get (ld_Map l) n = Some a" and "n = ao_Name a" and "a \<in> addonOr ` set ps"
proof -
  show g: "gomap_get (ld_Map l) n = Some a" using assms by (simp add: load_ok_def gomap_get_Some_iff)
  show "n = ao_Name a" and "a \<in> addonOr ` set ps" using load_ok_get [OF assms(1) g] by simp_all
qed

text \<open>How many plugins the map can hold: one for each name that was delivered.\<close>

lemma map_names:
  assumes "load_ok ps l"
  shows "distinct (map fst (ld_Map l))" and "fst ` set (ld_Map l) \<subseteq> ao_Name ` addonOr ` set ps"
proof -
  show d: "distinct (map fst (ld_Map l))" using assms by (simp add: load_ok_def gomap_wf_def)
  show "fst ` set (ld_Map l) \<subseteq> ao_Name ` addonOr ` set ps"
    using load_ok_in [OF assms] by fastforce
qed

lemma length_map_le:
  assumes "load_ok ps l"
  shows "length (ld_Map l) \<le> card (ao_Name ` addonOr ` set ps)"
proof -
  note m = map_names [OF assms]
  have "length (ld_Map l) = card (fst ` set (ld_Map l))" using distinct_card [OF m(1)] by simp
  also have "\<dots> \<le> card (ao_Name ` addonOr ` set ps)" using m(2) by (simp add: card_mono)
  finally show ?thesis .
qed

lemma AddonList_delivered:
  assumes "load_ok ps l" and "a \<in> set (AddonList (ld_Map l))"
  shows "Some a \<in> fst ` set ps" and "\<not> isEmptyAddon a"
proof -
  from assms(2) obtain n where n: "(n, a) \<in> set (ld_Map l)" and "\<not> isEmptyAddon a" by (auto simp: AddonList_def)
  then show "\<not> isEmptyAddon a" by simp
  obtain p where p: "p \<in> set ps" "a = addonOr p" using load_ok_in(3) [OF assms(1) n] by blast
  have "isEmptyAddon (addonOr (None, r))" for r 
    by (simp add: addonOr_def randEmptyAddon_def isEmptyAddon_def strHasPrefix_def)
  with p \<open>\<not> isEmptyAddon a\<close> show "Some a \<in> fst ` set ps"
    by (force simp: addonOr_def image_iff split: prod.splits option.splits)
qed

lemma AddonList_names:
  assumes "load_ok ps l"
  shows "distinct (map ao_Name (AddonList (ld_Map l)))"
proof -
  have "map fst (ld_Map l) = map ao_Name (map snd (ld_Map l))"
    using load_ok_in(2) [OF assms] by auto
  then have "distinct (map ao_Name (map snd (ld_Map l)))" using map_names(1) [OF assms] by (simp del: map_map)
  then show ?thesis unfolding AddonList_def by (rule distinct_map_filter)
qed

text \<open>When all goroutines have ended and all names differ, the map has every plugin.\<close>

lemma finished_load:
  assumes ok: "load_ok ps l" and "ld_Waiting l = []" "ld_Tested l = []" and d: "distinct (map (ao_Name \<circ> addonOr) ps)"
  shows "length (ld_Map l) = length ps" and "set (map snd (ld_Map l)) = addonOr ` set ps"
proof -
  have names: "fst ` set (ld_Map l) = ao_Name ` addonOr ` set ps"
    using map_names(2) [OF ok] assms(1-3) by (force simp: load_ok_def gomap_get_None_iff)
  have "length (ld_Map l) = card (fst ` set (ld_Map l))" using distinct_card [OF map_names(1) [OF ok]] by simp
  also have "\<dots> = length ps" using distinct_card [OF d] by (simp add: names image_image comp_def)
  finally show "length (ld_Map l) = length ps" .
  show "set (map snd (ld_Map l)) = addonOr ` set ps"
  proof
    show "set (map snd (ld_Map l)) \<subseteq> addonOr ` set ps"
      using load_ok_in(3) [OF ok] by auto
    show "addonOr ` set ps \<subseteq> set (map snd (ld_Map l))"
    proof
      fix a assume "a \<in> addonOr ` set ps"
      then obtain p where p: "p \<in> set ps" "a = addonOr p" by auto
      with names obtain b where b: "(ao_Name a, b) \<in> set (ld_Map l)" by force
      then have "ao_Name b = ao_Name a" "b \<in> addonOr ` set ps"
        using load_ok_in(2,3) [OF ok b] by simp_all
      with p d have "b = a" by (auto simp: distinct_map inj_on_def)
      with b show "a \<in> set (map snd (ld_Map l))" by force
    qed
  qed
qed

text \<open>A load goes on until every goroutine has ended, and that is after two steps each at most.\<close>

lemma load_progress: "ld_Waiting l = [] \<and> ld_Tested l = [] \<longleftrightarrow> (\<nexists>l'. load_step l l')"
proof
  show "ld_Waiting l = [] \<and> ld_Tested l = [] \<Longrightarrow> \<nexists>l'. load_step l l'" by (auto elim: load_step.cases)
next
  assume stuck: "\<nexists>l'. load_step l l'"
  show "ld_Waiting l = [] \<and> ld_Tested l = []"
  proof (rule ccontr)
    assume "\<not> ?thesis"
    then consider p ps where "ld_Waiting l = [] @ p # ps" | a as where "ld_Tested l = [] @ a # as"
      by (auto simp: neq_Nil_conv)
    then show False
      using stuck load_step.intros by cases blast+
  qed
qed

lemma load_step_decreases:
  "load_step l l' \<Longrightarrow>
     2 * length (ld_Waiting l') + length (ld_Tested l') < 2 * length (ld_Waiting l) + length (ld_Tested l)"
  by (cases rule: load_step.cases) auto

text \<open>A goroutine that is not interrupted does what \<open>AppendAddon\<close> does.\<close>

lemma uninterrupted_append:
  assumes "ld_Waiting l = xs @ p # ys"
  shows "load_step\<^sup>*\<^sup>* l (l\<lparr>ld_Waiting := xs @ ys, ld_Map := AppendAddon p (ld_Map l)\<rparr>)"
proof (cases "gomap_get (ld_Map l) (ao_Name (addonOr p))")
  case None
  let ?l = "l\<lparr>ld_Waiting := xs @ ys, ld_Tested := addonOr p # ld_Tested l\<rparr>"
  have "load_step l ?l" by (rule tested_new [OF assms None])
  moreover have "load_step ?l (?l\<lparr>ld_Tested := [] @ ld_Tested l,
      ld_Map := gomap_put (ld_Map ?l) (ao_Name (addonOr p)) (addonOr p)\<rparr>)"
    by (rule written) simp
  ultimately show ?thesis using None by (simp add: AppendAddon_def)
next
  case (Some a)
  then have "load_step l (l\<lparr>ld_Waiting := xs @ ys\<rparr>)" by (intro tested_known [OF assms]) simp
  moreover have "AppendAddon p (ld_Map l) = ld_Map l" using Some by (simp add: AppendAddon_def)
  ultimately show ?thesis by simp
qed

section \<open>Property\<close>

text \<open>
  C28: however the goroutines of a load interleave, what it answers are plugins that some channel delivered,
  each name once. When all names differ, a load that has come to rest answers with exactly the
  plugins that were delivered, except those whose name is that of an empty placeholder, whatever the deadline. When two channels deliver plugins of one name, no
  state of the load has as many plugins as channels: it always waits for the deadline.
\<close>

theorem load_answers:
  assumes reach: "load_step\<^sup>*\<^sup>* (startLoad ps) l"
  shows "(\<forall>deadline addons. getAddonsInfo deadline (length ps) (ld_Map l) = Some addons \<longrightarrow>
            Some ` set addons \<subseteq> fst ` set ps \<and> distinct (map ao_Name addons)) \<and>
         (distinct (map (ao_Name \<circ> addonOr) ps) \<longrightarrow> (\<nexists>l'. load_step l l') \<longrightarrow>
            (\<exists>addons. \<forall>deadline. getAddonsInfo deadline (length ps) (ld_Map l) = Some addons \<and>
               set addons = {a. Some a \<in> fst ` set ps \<and> \<not> isEmptyAddon a})) \<and>
         (\<not> distinct (map (ao_Name \<circ> addonOr) ps) \<longrightarrow> getAddonsInfo False (length ps) (ld_Map l) = None)"
proof -
  note ok = load_ok_reachable [OF reach]
  have one: "Some ` set (AddonList (ld_Map l)) \<subseteq> fst ` set ps" "distinct (map ao_Name (AddonList (ld_Map l)))"
    using AddonList_delivered(1) [OF ok] AddonList_names [OF ok] by auto
  have two: "length (ld_Map l) = length ps \<and> set (AddonList (ld_Map l)) = {a. Some a \<in> fst ` set ps \<and> \<not> isEmptyAddon a}"
    if "distinct (map (ao_Name \<circ> addonOr) ps)" "\<nexists>l'. load_step l l'"
  proof -
    from that(2) have "ld_Waiting l = [] \<and> ld_Tested l = []" unfolding load_progress .
    then have fin: "length (ld_Map l) = length ps" "set (map snd (ld_Map l)) = addonOr ` set ps"
      using finished_load [OF ok _ _ that(1)] by simp_all
    have "a \<in> set (AddonList (ld_Map l))" if a: "Some a \<in> fst ` set ps" "\<not> isEmptyAddon a" for a
    proof -
      from a(1) have "a \<in> addonOr ` set ps" by (force simp: addonOr_def)
      with fin(2) a(2) show ?thesis by (auto simp: AddonList_def)
    qed
    with fin(1) AddonList_delivered [OF ok] show ?thesis by blast
  qed
  have three: "length (ld_Map l) \<noteq> length ps" if "\<not> distinct (map (ao_Name \<circ> addonOr) ps)"
    using length_map_le [OF ok] that card_distinct [of "map (ao_Name \<circ> addonOr) ps"]
      card_length [of "map (ao_Name \<circ> addonOr) ps"] by (auto simp: image_image comp_def)
  from one two three show ?thesis by (auto simp: getAddonsInfo_def split: if_splits)
qed

text \<open>What a plugin loads is a pointer to its data, never decoded JSON, and so are the answers of a load.\<close>

lemma LoadData_pointer:
  "LoadInTreeData env name = Inr (Some d) \<Longrightarrow> \<exists>uid v. d = PluginsData uid v"
  "LoadOutTreeData env url = Inr (Some d) \<Longrightarrow> \<exists>uid v. d = PluginsData uid v"
proof -
  have "loaderLoad env l = Inr (Some d) \<Longrightarrow> \<exists>uid v. d = PluginsData uid v" for l
    by (cases l) (auto simp: apiServerAddons_Load_def etcdAddons_Load_def bindR_def split: sum.splits if_splits)
  then show "LoadInTreeData env name = Inr (Some d) \<Longrightarrow> \<exists>uid v. d = PluginsData uid v"
    by (auto simp: LoadInTreeData_def split: option.splits)
  show "LoadOutTreeData env url = Inr (Some d) \<Longrightarrow> \<exists>uid v. d = PluginsData uid v"
    by (auto simp: LoadOutTreeData_def bindR_def split: sum.splits if_splits prod.splits)
qed

lemma getAddon_pointer: "getAddon env name url = Some a \<Longrightarrow> \<exists>uid v. ao_Properties a = Some (PluginsData uid v)"
  by (auto simp: getAddon_def dest: LoadData_pointer split: if_splits sum.splits option.splits)

lemma LoadAddon_pointers:
  assumes "LoadAddon env cfg rs deadline addons" and a: "a \<in> set addons"
  shows "\<exists>uid v. ao_Properties a = Some (PluginsData uid v)"
  using assms(1)
proof cases
  case no_plugins
  with a show ?thesis by simp
next
  case (stopped l)
  then have "addons = AddonList (ld_Map l)" by (auto simp: getAddonsInfo_def split: if_splits)
  with AddonList_delivered(1) [OF load_ok_reachable [OF stopped(2)]] a
  have "Some a \<in> set (pluginChannels env cfg)" by (force dest: set_zip_leftD)
  then show ?thesis by (auto simp: pluginChannels_def dest!: sym [of "Some a"] getAddon_pointer)
qed

text \<open>The same plugin configured in the tree and behind a URL: the load waits for its deadline.\<close>

definition pxEnv :: addon_env where
  "pxEnv = \<lparr>ae_ParseLabels = (\<lambda>s. Inr []), ae_ListPods = (\<lambda>opts. Inr [''10.0.0.1'']),
     ae_HttpGet = (\<lambda>url. Inr (200, Inr ''{}'')), ae_NewUid = ''u1'', ae_UnmarshalPluginsData = (\<lambda>s. Inr ([], JString s))\<rparr>"

definition pxPlugins :: Plugins where
  "pxPlugins = \<lparr>pg_InTree = [''etcd''], pg_OutTree = [(''etcd'', ''http://etcd'')]\<rparr>"

lemma px_channels: "pluginChannels pxEnv pxPlugins =
    [Some \<lparr>ao_Name = ''etcd'', ao_Properties = Some (PluginsData ''u1'' (podData [''10.0.0.1'']))\<rparr>,
     Some \<lparr>ao_Name = ''etcd'', ao_Properties = Some (PluginsData ''u1'' (JString ''{}''))\<rparr>]"
  by code_simp

lemma load_answers_witness:
  "\<exists>l. load_step\<^sup>*\<^sup>* (startLoad (zip (pluginChannels pxEnv pxPlugins) [''a'', ''b''])) l \<and> (\<nexists>l'. load_step l l') \<and>
     getAddonsInfo False 2 (ld_Map l) = None"
proof -
  let ?ps = "zip (pluginChannels pxEnv pxPlugins) [''a'', ''b'']" and ?c = "pluginChannels pxEnv pxPlugins"
  let ?l1 = "(startLoad ?ps)\<lparr>ld_Waiting := [] @ [(?c ! 1, ''b'')], ld_Map := AppendAddon (?c ! 0, ''a'') []\<rparr>"
  let ?l2 = "?l1\<lparr>ld_Waiting := [] @ [], ld_Map := AppendAddon (?c ! 1, ''b'') (ld_Map ?l1)\<rparr>"
  have "load_step\<^sup>*\<^sup>* (startLoad ?ps) ?l1"
    using uninterrupted_append [of "startLoad ?ps" "[]" "(?c ! 0, ''a'')"] by (simp add: startLoad_def px_channels)
  moreover have "load_step\<^sup>*\<^sup>* ?l1 ?l2" by (rule uninterrupted_append) simp
  ultimately have reach: "load_step\<^sup>*\<^sup>* (startLoad ?ps) ?l2" by (rule rtranclp_trans)
  have "\<nexists>l'. load_step ?l2 l'" unfolding load_progress [symmetric] by (simp add: startLoad_def)
  moreover have "length ?ps = 2" "\<not> distinct (map (ao_Name \<circ> addonOr) ?ps)"
    by (simp_all add: px_channels addonOr_def)
  then have "getAddonsInfo False 2 (ld_Map ?l2) = None" using load_answers [OF reach] by metis
  ultimately show ?thesis using reach by blast
qed

end
