(* ===== verification/ProxyProps.thy ===== *)
theory ProxyProps
  imports Proxy CoreProps Addons
begin

text \<open>
  The properties of a proxy, with what the core sends it: a cluster resource that the core hands over is
  stored by the proxy, and a proxy never recognises that its plugins are unchanged.
\<close>

section \<open>Storing a cluster resource\<close>

lemma SyncProxyClusterResource_stores:
  assumes kind: "api_kind (kClusterResource k) cr_Meta cr_Resource"
    and w: "creatable (kClusterResource k) cr_Meta" "writable (kClusterResource k) cr_Meta"
    and cr: "om_Namespace (cr_Meta cr) = ns" "om_Name (cr_Meta cr) = n"
    and g: "api_Get (kClusterResource k) s ns n = Inl NotFound \<or>
        (\<exists>x. api_Get (kClusterResource k) s ns n = Inr x \<and> om_DeletionTimestamp (cr_Meta x) = None)"
  obtains s' x where "SyncProxyClusterResource k cr s = (Inr (), s')"
    and "api_Get (kClusterResource k) s' ns n = Inr x" and "cr_Resource x = cr_Resource cr"
    and "\<And>ns' n'. (ns', n') \<noteq> (ns, n) \<Longrightarrow> api_Get (kClusterResource k) s' ns' n' = api_Get (kClusterResource k) s ns' n'"
proof -
  let ?a = "kClusterResource k"
  have "\<exists>s' x. SyncProxyClusterResource k cr s = (Inr (), s') \<and> api_Get ?a s' ns n = Inr x \<and>
      cr_Resource x = cr_Resource cr \<and> (\<forall>ns' n'. (ns', n') \<noteq> (ns, n) \<longrightarrow> api_Get ?a s' ns' n' = api_Get ?a s ns' n')"
  proof (cases "api_Get ?a s ns n")
    case (Inl e)
    let ?new = "newClusterResource cr"
    have new: "om_Namespace (cr_Meta ?new) = ns" "om_Name (cr_Meta ?new) = n" "cr_Resource ?new = cr_Resource cr"
      using cr by (simp_all add: newClusterResource_def)
    have nf: "api_Get ?a s ns n = Inl NotFound" using g Inl by auto
    then obtain x s' where c: "api_Create ?a ?new s = (Inr x, s')"
      using w(1) new unfolding creatable_def by metis
    have "SyncProxyClusterResource k cr s = (Inr (), s')"
      using nf c cr by (simp add: SyncProxyClusterResource_def bindS_def writeS_def)
    with api_kind.get_create [OF kind c] new show ?thesis by auto
  next
    case (Inr y)
    show ?thesis
    proof (cases "cr_Resource cr = cr_Resource y")
      case True
      then show ?thesis using Inr cr by (simp add: SyncProxyClusterResource_def)
    next
      case False
      let ?new = "y\<lparr>cr_Resource := cr_Resource cr\<rparr>"
      have key: "om_Namespace (cr_Meta ?new) = ns" "om_Name (cr_Meta ?new) = n" and live: "om_DeletionTimestamp (cr_Meta y) = None"
        using api_kind.get_key [OF kind Inr] g Inr by auto
      then obtain x s' where u: "api_Update ?a ?new s = (Inr x, s')"
        using w(2) Inr unfolding writable_def by metis
      have "SyncProxyClusterResource k cr s = (Inr (), s')"
        using Inr u cr False by (simp add: SyncProxyClusterResource_def bindS_def writeS_def)
      with api_kind.get_update [OF kind _ live _ u] api_kind.update_other [OF kind u] Inr key live
      show ?thesis by auto
    qed
  qed
  then show ?thesis using that by blast
qed

text \<open>A message of the core with one cluster resource: it is put into the namespace of its object.\<close>

definition movedTo :: "Unstructured \<Rightarrow> ClusterResource \<Rightarrow> ClusterResource" where
  "movedTo obj = cr_Meta_update (\<lambda>m. m\<lparr>om_Namespace := om_Namespace (un_Meta obj)\<rparr>)"

lemma movedTo_simps [simp]:
  "om_Namespace (cr_Meta (movedTo obj cr)) = om_Namespace (un_Meta obj)"
  "om_Name (cr_Meta (movedTo obj cr)) = om_Name (cr_Meta cr)" "cr_Resource (movedTo obj cr) = cr_Resource cr"
  by (simp_all add: movedTo_def)

lemma received_resource:
  assumes "jUnmarshalClusterResources j body = ([cr], None)" and "cr_Resource cr = Some raw"
    and "jUnmarshalObject j raw = Inr obj"
  shows "RecvSyncResourceResponse k j \<lparr>rp_Type = syncType event, rp_ClusterName = cl, rp_Body = body\<rparr> u =
    snd ((if event = SyncEventTypeDelete then DeleteProxyClusterResource k (movedTo obj cr)
          else SyncProxyClusterResource k (movedTo obj cr)) u)"
  using assms by (simp add: RecvSyncResourceResponse_def syncResponse_def syncResponseItem_def syncType_def
      GetClusterResourceObjectForRawExtension_def GetResourceForRawExtension_def bindR_def movedTo_def)

lemma sent_resource_is_stored:
  assumes sent: "sendClusterResourceToProxy j net SyncEventTypeUpdate inst g = (Inr (), g')"
    and codec: "\<And>body. jMarshalClusterResources j [inst] = Inr body \<Longrightarrow>
        \<exists>cr. jUnmarshalClusterResources j body = ([cr], None) \<and> om_Name (cr_Meta cr) = om_Name (cr_Meta inst) \<and>
          cr_Resource cr = cr_Resource inst"
    and obj: "cr_Resource inst = Some raw" "jUnmarshalObject j raw = Inr obj"
    and kind: "api_kind (kClusterResource k) cr_Meta cr_Resource"
    and w: "creatable (kClusterResource k) cr_Meta" "writable (kClusterResource k) cr_Meta"
    and t: "api_Get (kClusterResource k) t (om_Namespace (un_Meta obj)) (om_Name (cr_Meta inst)) = Inl NotFound \<or>
        (\<exists>x. api_Get (kClusterResource k) t (om_Namespace (un_Meta obj)) (om_Name (cr_Meta inst)) = Inr x \<and>
           om_DeletionTimestamp (cr_Meta x) = None)"
  shows "\<exists>c res. gl_Responses g' = gl_Responses g @ [(c, res)] \<and>
           rp_ClusterName res = ClusterName (om_Namespace (cr_Meta inst)) \<and>
           (\<exists>x. api_Get (kClusterResource k) (RecvSyncResourceResponse k j res t)
                   (om_Namespace (un_Meta obj)) (om_Name (cr_Meta inst)) = Inr x \<and> cr_Resource x = cr_Resource inst) \<and>
           (\<forall>ns n. (ns, n) \<noteq> (om_Namespace (un_Meta obj), om_Name (cr_Meta inst)) \<longrightarrow>
              api_Get (kClusterResource k) (RecvSyncResourceResponse k j res t) ns n
                = api_Get (kClusterResource k) t ns n) \<and>
           RecvSyncResourceResponse k j res (RecvSyncResourceResponse k j res t) = RecvSyncResourceResponse k j res t"
proof -
  let ?ns = "om_Namespace (un_Meta obj)" and ?n = "om_Name (cr_Meta inst)"
  let ?cl = "ClusterName (om_Namespace (cr_Meta inst))"
  from sent obtain body st where body: "jMarshalClusterResources j [inst] = Inr body"
    and g': "gl_Responses g' = gl_Responses g @ [(st, \<lparr>rp_Type = rpResourceUpdateOrCreate, rp_ClusterName = ?cl, rp_Body = body\<rparr>)]"
    by (auto simp: sendClusterResourceToProxy_def Let_def newSyncResourceResponse_def NewResourceResponse_def bindR_def liftE_def
        SendResourceToProxy_def bindS_Inr_iff split: if_splits sum.splits option.splits)
  let ?res = "\<lparr>rp_Type = rpResourceUpdateOrCreate, rp_ClusterName = ?cl, rp_Body = body\<rparr>"
  from codec [OF body] obtain cr where cr: "jUnmarshalClusterResources j body = ([cr], None)"
      "om_Name (cr_Meta cr) = ?n" "cr_Resource cr = cr_Resource inst" by blast
  define cr' where "cr' = movedTo obj cr"
  have cr': "om_Namespace (cr_Meta cr') = ?ns" "om_Name (cr_Meta cr') = ?n" "cr_Resource cr' = cr_Resource inst"
    by (simp_all add: cr'_def cr)
  have recv: "RecvSyncResourceResponse k j ?res u = snd (SyncProxyClusterResource k cr' u)" for u
    using received_resource [OF cr(1) _ obj(2), of k SyncEventTypeUpdate] cr(3) obj(1) by (simp add: syncType_def cr'_def)
  obtain t' x where t': "SyncProxyClusterResource k cr' t = (Inr (), t')" "api_Get (kClusterResource k) t' ?ns ?n = Inr x"
      "cr_Resource x = cr_Resource cr'"
      "\<And>ns n. (ns, n) \<noteq> (?ns, ?n) \<Longrightarrow> api_Get (kClusterResource k) t' ns n = api_Get (kClusterResource k) t ns n"
    using SyncProxyClusterResource_stores [OF kind w cr'(1,2) t] by blast
  have "SyncProxyClusterResource k cr' t' = (Inr (), t')"
    using t'(2,3) cr' by (simp add: SyncProxyClusterResource_def)
  with t' cr'(3) g' show ?thesis
    by (intro exI [of _ st] exI [of _ ?res]) (simp add: recv)
qed

text \<open>
  C6: a cluster resource travels unchanged: what the core sends for it, the proxy that receives the message
  stores, in the namespace of the object it holds, with the same resource, and no other cluster
  resource changes; the same message once more changes nothing. The decoder gives back the name and the
  resource that were encoded, and the server of the proxy lets the writes through.
\<close>

theorem handed_over_resource_is_stored:
  assumes sent: "sendClusterResourceToProxy j net SyncEventTypeUpdate inst g = (Inr (), g')"
    and codec: "\<And>body. jMarshalClusterResources j [inst] = Inr body \<Longrightarrow>
        \<exists>cr. jUnmarshalClusterResources j body = ([cr], None) \<and> om_Name (cr_Meta cr) = om_Name (cr_Meta inst) \<and>
          cr_Resource cr = cr_Resource inst"
    and obj: "cr_Resource inst = Some raw" "jUnmarshalObject j raw = Inr obj"
    and kind: "api_kind (kClusterResource k) cr_Meta cr_Resource"
    and w: "creatable (kClusterResource k) cr_Meta" "writable (kClusterResource k) cr_Meta"
    and t: "api_Get (kClusterResource k) t (om_Namespace (un_Meta obj)) (om_Name (cr_Meta inst)) = Inl NotFound \<or>
        (\<exists>x. api_Get (kClusterResource k) t (om_Namespace (un_Meta obj)) (om_Name (cr_Meta inst)) = Inr x \<and>
           om_DeletionTimestamp (cr_Meta x) = None)"
  shows "\<exists>c res. gl_Responses g' = gl_Responses g @ [(c, res)] \<and>
           rp_ClusterName res = ClusterName (om_Namespace (cr_Meta inst)) \<and>
           (\<exists>x. api_Get (kClusterResource k) (RecvSyncResourceResponse k j res t)
                   (om_Namespace (un_Meta obj)) (om_Name (cr_Meta inst)) = Inr x \<and> cr_Resource x = cr_Resource inst) \<and>
           (\<forall>ns n. (ns, n) \<noteq> (om_Namespace (un_Meta obj), om_Name (cr_Meta inst)) \<longrightarrow>
              api_Get (kClusterResource k) (RecvSyncResourceResponse k j res t) ns n
                = api_Get (kClusterResource k) t ns n) \<and>
           RecvSyncResourceResponse k j res (RecvSyncResourceResponse k j res t) = RecvSyncResourceResponse k j res t"
  by (rule sent_resource_is_stored [OF sent codec obj kind w t])

section \<open>The plugins of a heartbeat\<close>

text \<open>Decoded properties, which is what a decoder of messages makes.\<close>

definition decodedAddons :: "Addon list \<Rightarrow> bool" where
  "decodedAddons addons \<longleftrightarrow> (\<forall>a\<in>set addons. \<forall>p. ao_Properties a = Some p \<longrightarrow> (\<exists>v. p = Decoded v))"

lemma getAddonMap_get:
  assumes "gomap_get (getAddonMap addons) n = Some a"
  shows "a \<in> set addons"
proof -
  have "gomap_get (fold (\<lambda>item m. gomap_put m (ao_Name item) item) addons m) n = Some a \<Longrightarrow>
      a \<in> set addons \<or> gomap_get m n = Some a" for m
  proof (induction addons arbitrary: m)
    case (Cons b bs)
    from Cons.IH [of "gomap_put m (ao_Name b) b"] Cons.prems
    have "a \<in> set bs \<or> gomap_get (gomap_put m (ao_Name b) b) n = Some a" by simp
    then show ?case by (auto split: if_splits)
  qed simp
  from this [of "[]"] assms show ?thesis by (simp add: getAddonMap_def)
qed

lemma getAddonMap_has:
  assumes "a \<in> set addons"
  shows "gomap_get (getAddonMap addons) (ao_Name a) \<noteq> None"
proof -
  have "a \<in> set addons \<or> gomap_get m (ao_Name a) \<noteq> None \<Longrightarrow>
      gomap_get (fold (\<lambda>item m. gomap_put m (ao_Name item) item) addons m) (ao_Name a) \<noteq> None" for m
  proof (induction addons arbitrary: m)
    case (Cons b bs)
    from Cons.IH [of "gomap_put m (ao_Name b) b"] Cons.prems show ?case by (cases "a = b") auto
  qed simp
  with assms show ?thesis by (auto simp: getAddonMap_def)
qed

lemma loaded_ne_decoded:
  assumes loaded: "\<And>a. a \<in> set new \<Longrightarrow> \<exists>uid v. ao_Properties a = Some (PluginsData uid v)" and "decodedAddons old"
  shows "\<not> isEqualAddons new old"
proof
  assume eq: "isEqualAddons new old"
  then obtain a new' where new: "new = a # new'" by (cases new) (auto simp: isEqualAddons_def split: if_splits)
  then obtain b where b: "gomap_get (getAddonMap new) (ao_Name a) = Some b"
    using getAddonMap_has [of a new] by auto
  then have "gomap_get (getAddonMap old) (ao_Name a) = Some b"
    using eq by (auto simp: isEqualAddons_def gomap_eq_iff split: if_splits)
  with b show False
    using loaded [OF getAddonMap_get [OF b]] \<open>decodedAddons old\<close> getAddonMap_get [of old]
    by (fastforce simp: decodedAddons_def)
qed

text \<open>
  C38: a proxy never recognises that its plugins are unchanged: whatever the core has acknowledged, the next
  heartbeat carries everything that a load of the plugins answered. Loaded properties are pointers to
  plugin data, acknowledged ones are decoded JSON, and the comparison tells them apart.
\<close>

theorem heartbeat_always_sends_addons:
  assumes codec: "\<And>body hb. jUnmarshalHeartbeat j body = (hb, None) \<Longrightarrow> decodedAddons (hb_Addons hb)"
    and start: "\<And>l. gl_Heartbeat g = Some (Some l) \<Longrightarrow> decodedAddons (hb_Addons l)"
    and load: "LoadAddon env cfg rs deadline addons"
    and recv: "foldl (\<lambda>g res. snd (RecvHeartbeatResponse j res g)) g responses = g'"
  shows "hb_Addons (newHeartbeat (case gl_Heartbeat g' of None \<Rightarrow> None | Some l \<Rightarrow> l) addons healthy) = addons"
proof -
  have "\<forall>l. gl_Heartbeat g' = Some (Some l) \<longrightarrow> decodedAddons (hb_Addons l)"
    using recv start
  proof (induction responses arbitrary: g)
    case (Cons res responses)
    have "decodedAddons (hb_Addons l)" if "gl_Heartbeat (snd (RecvHeartbeatResponse j res g)) = Some (Some l)" for l
      using that Cons.prems(2) codec
      by (auto simp: RecvHeartbeatResponse_def SetLastHeartbeat_def retS_def split: if_splits prod.splits option.splits)
    with Cons.IH [of "snd (RecvHeartbeatResponse j res g)"] Cons.prems(1) show ?case by simp
  qed auto
  moreover have "\<not> isEqualAddons addons old" if "decodedAddons old" for old
    by (rule loaded_ne_decoded [OF LoadAddon_pointers [OF load] that])
  ultimately show ?thesis by (auto simp: newHeartbeat_def split: option.splits)
qed

section \<open>Witnesses\<close>

lemma mem_creatable: "creatable (kClusterResource memKube) cr_Meta" "writable (kClusterResource memKube) cr_Meta"
  by (auto simp: creatable_def writable_def memKube_def memApi_def memGet_def memCreate_def memUpdate_def keyOf_def Let_def
      split: option.splits)

lemma handed_over_resource_is_stored_witness:
  "\<exists>g' c res x. sendClusterResourceToProxy memCodec cxNet SyncEventTypeUpdate (cxInst (ClusterNamespace ''c1'') ''v2'') cxGlobals
       = (Inr (), g') \<and> gl_Responses g' = [(c, res)] \<and>
     api_Get (kClusterResource memKube) (RecvSyncResourceResponse memKube memCodec res emptyMem) ''team'' ''r'' = Inr x \<and>
     cr_Resource x = Some ''v2''"
proof -
  let ?i = "cxInst (ClusterNamespace ''c1'') ''v2''"
  have "fst (sendClusterResourceToProxy memCodec cxNet SyncEventTypeUpdate ?i cxGlobals) = Inr ()" by code_simp
  then obtain g' where sent: "sendClusterResourceToProxy memCodec cxNet SyncEventTypeUpdate ?i cxGlobals = (Inr (), g')"
    by (metis prod.collapse)
  have body: "jMarshalClusterResources memCodec [?i] = Inr (encodeResource ?i)" by (simp add: memCodec_def)
  have dec: "decodeResource (encodeResource ?i) = \<lparr>cr_Meta = zeroMeta\<lparr>om_Name := ''r'', om_Namespace := ClusterNamespace ''c1''\<rparr>,
      cr_Resource = Some ''v2'', cr_Status = zeroClusterResourceStatus\<rparr>" by code_simp
  have ne: "encodeResource ?i \<noteq> ''bad''" by code_simp
  have codec: "jUnmarshalClusterResources memCodec (encodeResource ?i) = ([decodeResource (encodeResource ?i)], None)"
    using ne by (simp add: memCodec_def orBad_def)
  have i: "om_Name (cr_Meta ?i) = ''r''" "cr_Resource ?i = Some ''v2''" by (simp_all add: cxInst_def)
  have obj: "jUnmarshalObject memCodec ''v2'' = Inr (memObject ''v2'')" by (simp add: memCodec_def)
  have ns: "om_Namespace (un_Meta (memObject ''v2'')) = ''team''" by (simp add: memObject_def)
  have t: "api_Get (kClusterResource memKube) emptyMem ''team'' ''r'' = Inl NotFound" by code_simp
  show ?thesis
    using handed_over_resource_is_stored [OF sent _ i(2) obj mem_cluster_resource_kind mem_creatable, of emptyMem]
      sent codec dec t body by (auto simp: i ns cxGlobals_def)
qed

lemma heartbeat_always_sends_addons_witness:
  "\<exists>addons. addons \<noteq> [] \<and> LoadAddon pxEnv (pxPlugins\<lparr>pg_OutTree := []\<rparr>) [''a''] True addons \<and>
     hb_Addons (newHeartbeat (Some memHeartbeat) addons True) = addons"
proof -
  let ?cfg = "pxPlugins\<lparr>pg_OutTree := []\<rparr>"
  let ?ps = "zip (pluginChannels pxEnv ?cfg) [''a'']"
  have c: "pluginChannels pxEnv ?cfg = [Some \<lparr>ao_Name = ''etcd'', ao_Properties = Some (PluginsData ''u1'' (podData [''10.0.0.1'']))\<rparr>]"
    by code_simp
  let ?a = "\<lparr>ao_Name = ''etcd'', ao_Properties = Some (PluginsData ''u1'' (podData [''10.0.0.1'']))\<rparr>"
  have reach: "load_step\<^sup>*\<^sup>* (startLoad ?ps) ((startLoad ?ps)\<lparr>ld_Waiting := [] @ [], ld_Map := AppendAddon (Some ?a, ''a'') []\<rparr>)"
    using uninterrupted_append [of "startLoad ?ps" "[]" "(Some ?a, ''a'')" "[]"] by (simp add: startLoad_def c)
  have "AddonList (AppendAddon (Some ?a, ''a'') []) = [?a]" by code_simp
  then have load: "LoadAddon pxEnv ?cfg [''a''] True [?a]"
    by (intro stopped [OF _ reach]) (simp_all add: pxPlugins_def getAddonsInfo_def)
  have "decodedAddons (hb_Addons memHeartbeat)" by (simp add: memHeartbeat_def decodedAddons_def)
  then have dec: "jUnmarshalHeartbeat memCodec body = (hb, None) \<Longrightarrow> decodedAddons (hb_Addons hb)"
      "gl_Heartbeat (hxGlobals\<lparr>gl_Heartbeat := Some (Some memHeartbeat)\<rparr>) = Some (Some l) \<Longrightarrow>
        decodedAddons (hb_Addons l)" for body hb l
    by (auto simp: memCodec_def orBad_def split: if_splits)
  have "hb_Addons (newHeartbeat (Some memHeartbeat) [?a] True) = [?a]"
    using heartbeat_always_sends_addons [of memCodec "hxGlobals\<lparr>gl_Heartbeat := Some (Some memHeartbeat)\<rparr>" _ _ _ _ _ "[]",
        OF dec load refl] by simp
  with load show ?thesis by blast
qed

end
