(* ===== verification/Monitor.thy ===== *)
theory Monitor
  imports CoreProps
begin

text \<open>
  The monitor of the core (\<open>pkg/core/monitor/monitor.go\<close>): one round of its endless loop over all
  clusters. An online cluster without a recent heartbeat goes offline, after the policies that may
  have scheduled to it and have a failover have been marked for a reschedule.
\<close>

section \<open>Operations\<close>

definition containsMap :: "(string, string) gomap \<Rightarrow> (string, string) gomap \<Rightarrow> bool" where
  "containsMap big sub \<longleftrightarrow> list_all (\<lambda>(k, v). gomap_get big k = Some v) sub"

definition clusterSetContainsCluster :: "ClusterSet \<Rightarrow> Cluster \<Rightarrow> bool" where
  "clusterSetContainsCluster clusterSet cluster \<longleftrightarrow>
     (if 0 < length (se_Clusters (cs_Spec clusterSet))
      then list_ex (\<lambda>c. tg_Name c = om_Name (cl_Meta cluster)) (se_Clusters (cs_Spec clusterSet))
      else if 0 < length (se_Selector (cs_Spec clusterSet))
      then containsMap (mapOr (om_Labels (cl_Meta cluster))) (se_Selector (cs_Spec clusterSet))
      else False)"

fun reScheduleItems ::
  "'s kube \<Rightarrow> MultiClusterResourceSchedulePolicySpec \<Rightarrow> Cluster \<Rightarrow> SchedulePolicy list \<Rightarrow> 's \<Rightarrow> bool" where
  "reScheduleItems k spec cluster [] s = False"
| "reScheduleItems k spec cluster (item # items) s =
     (if ps_ClusterSource spec = ClusterSourceTypeAssign then
        (if sp_Name item = om_Name (cl_Meta cluster) then True else reScheduleItems k spec cluster items s)
      else if ps_ClusterSource spec = ClusterSourceTypeClusterset then
        (case api_Get (kClusterSet k) s [] (ps_Clusterset spec) of
           Inl e \<Rightarrow> False
         | Inr clusterSet \<Rightarrow>
             if clusterSetContainsCluster clusterSet cluster then True
             else reScheduleItems k spec cluster items s)
      else reScheduleItems k spec cluster items s)"

definition shouldReSchedule ::
  "'s kube \<Rightarrow> MultiClusterResourceSchedulePolicy \<Rightarrow> Cluster \<Rightarrow> 's \<Rightarrow> bool" where
  "shouldReSchedule k policy cluster s =
     reScheduleItems k (po_Spec policy) cluster (ps_Policy (po_Spec policy)) s"

definition markPolicy ::
  "'s kube \<Rightarrow> Cluster \<Rightarrow> MultiClusterResourceSchedulePolicy \<Rightarrow> 's \<Rightarrow> 's" where
  "markPolicy k cluster policy s =
     (if length (ps_FailoverPolicy (po_Spec policy)) = 0 then s
      else if shouldReSchedule k policy cluster s
      then snd (api_Update (kSchedulePolicy k)
                  (policy\<lparr>po_Spec := (po_Spec policy)\<lparr>ps_Reschedule := True\<rparr>\<rparr>) s)
      else s)"

definition policyReSchedule :: "'s kube \<Rightarrow> Cluster \<Rightarrow> ('s, unit) step" where
  "policyReSchedule k cluster s =
     (case api_List (kSchedulePolicy k) s listAll of
        Inl e \<Rightarrow> if e = NotFound then (Inr (), s) else (Raise (ErrApi e), s)
      | Inr items \<Rightarrow> (Inr (), fold (markPolicy k cluster) items s))"

definition isStale :: "int \<Rightarrow> int \<Rightarrow> Cluster \<Rightarrow> bool" where
  "isStale onlineExpirationTime now cluster \<longleftrightarrow>
     onlineExpirationTime \<le> now - ct_LastReceiveHeartBeatTimestamp (cl_Status cluster) \<and>
     ct_Status (cl_Status cluster) = OnlineStatus"

text \<open>One cluster; errors are only logged.\<close>

definition checkStaleCluster :: "'s kube \<Rightarrow> int \<Rightarrow> clock \<Rightarrow> Cluster \<Rightarrow> 's \<Rightarrow> 's" where
  "checkStaleCluster k onlineExpirationTime ck cluster s =
     (if isStale onlineExpirationTime (ck_Insert ck) cluster
      then (case policyReSchedule k cluster s of
              (Inl e, s') \<Rightarrow> s'
            | (Inr _, s') \<Rightarrow> snd (OfflineCluster k (ck_Status ck) (ck_Condition ck) cluster s'))
      else s)"

text \<open>One round; every cluster is checked at a time of its own.\<close>

definition checkClusterStatus :: "'s kube \<Rightarrow> int \<Rightarrow> (nat \<Rightarrow> clock) \<Rightarrow> 's \<Rightarrow> 's" where
  "checkClusterStatus k onlineExpirationTime ck s =
     (case api_List (kCluster k) s listAll of
        Inl e \<Rightarrow> s
      | Inr items \<Rightarrow>
          fold (\<lambda>(i, cluster). checkStaleCluster k onlineExpirationTime (ck i) cluster)
            (zip [0..<length items] items) s)"

section \<open>The policies of a cluster\<close>

text \<open>When a policy may have scheduled to a cluster.\<close>

definition concerns :: "'s kube \<Rightarrow> 's \<Rightarrow> Cluster \<Rightarrow> MultiClusterResourceSchedulePolicySpec \<Rightarrow> bool" where
  "concerns k s cluster spec \<longleftrightarrow> ps_Policy spec \<noteq> [] \<and>
     (if ps_ClusterSource spec = ClusterSourceTypeAssign
      then om_Name (cl_Meta cluster) \<in> sp_Name ` set (ps_Policy spec)
      else ps_ClusterSource spec = ClusterSourceTypeClusterset \<and>
        (\<exists>cs. api_Get (kClusterSet k) s [] (ps_Clusterset spec) = Inr cs \<and> clusterSetContainsCluster cs cluster))"

lemma shouldReSchedule_iff: "shouldReSchedule k policy cluster s \<longleftrightarrow> concerns k s cluster (po_Spec policy)"
proof -
  have "reScheduleItems k spec cluster items s \<longleftrightarrow> items \<noteq> [] \<and>
      (if ps_ClusterSource spec = ClusterSourceTypeAssign
       then om_Name (cl_Meta cluster) \<in> sp_Name ` set items
       else ps_ClusterSource spec = ClusterSourceTypeClusterset \<and>
        (\<exists>cs. api_Get (kClusterSet k) s [] (ps_Clusterset spec) = Inr cs \<and> clusterSetContainsCluster cs cluster))"
    for spec items
    by (induction items) (auto split: sum.splits)
  then show ?thesis by (simp add: shouldReSchedule_def concerns_def)
qed

text \<open>A write of a policy changes no cluster and no cluster set.\<close>

definition policy_writes_apart :: "'s kube \<Rightarrow> bool" where
  "policy_writes_apart k \<longleftrightarrow>
     (\<forall>p s. api_Get (kClusterSet k) (snd (api_Update (kSchedulePolicy k) p s)) = api_Get (kClusterSet k) s \<and>
            api_Get (kCluster k) (snd (api_Update (kSchedulePolicy k) p s)) = api_Get (kCluster k) s)"

lemma markPolicy_apart:
  assumes "policy_writes_apart k"
  shows "api_Get (kClusterSet k) (fold (markPolicy k cluster) ps s) = api_Get (kClusterSet k) s"
    and "api_Get (kCluster k) (fold (markPolicy k cluster) ps s) = api_Get (kCluster k) s"
  using assms by (induction ps arbitrary: s) (auto simp: markPolicy_def policy_writes_apart_def)

definition policyKey :: "MultiClusterResourceSchedulePolicy \<Rightarrow> string \<times> string" where
  "policyKey p = (om_Namespace (po_Meta p), om_Name (po_Meta p))"

lemma markPolicy_other:
  assumes kind: "api_kind (kSchedulePolicy k) po_Meta po_Spec" and ne: "(ns, n) \<noteq> policyKey p"
  shows "api_Get (kSchedulePolicy k) (markPolicy k cluster p s) ns n = api_Get (kSchedulePolicy k) s ns n"
proof -
  let ?p = "p\<lparr>po_Spec := (po_Spec p)\<lparr>ps_Reschedule := True\<rparr>\<rparr>"
  obtain r s' where u: "api_Update (kSchedulePolicy k) ?p s = (r, s')" by fastforce
  have "api_Get (kSchedulePolicy k) s' ns n = api_Get (kSchedulePolicy k) s ns n"
  proof (cases r)
    case (Inl e)
    with u have "s' = s" by (simp add: api_kind.update_failed [OF kind])
    then show ?thesis by simp
  next
    case (Inr p2)
    with api_kind.update_other [OF kind, of ?p s p2 s' ns n] u ne show ?thesis by (auto simp: policyKey_def)
  qed
  with u show ?thesis by (simp add: markPolicy_def)
qed

lemma fold_markPolicy_other:
  assumes kind: "api_kind (kSchedulePolicy k) po_Meta po_Spec"
  shows "(ns, n) \<notin> policyKey ` set ps \<Longrightarrow>
    api_Get (kSchedulePolicy k) (fold (markPolicy k cluster) ps s) ns n = api_Get (kSchedulePolicy k) s ns n"
  by (induction ps arbitrary: s) (simp_all add: markPolicy_other [OF kind])

text \<open>What a check of a stale cluster writes: the policies first, then the status.\<close>

lemma check_writes:
  assumes laws: "api_status_kind (kCluster k) cl_Meta cl_Spec cl_Status" "policy_writes_apart k"
    and w: "status_writable (kCluster k) cl_Meta"
    and g: "api_Get (kCluster k) s [] name = Inr c" and stale: "isStale period (ck_Insert ck) c"
    and ps: "api_List (kSchedulePolicy k) s listAll = Inr ps"
  obtains c3 where "checkStaleCluster k period ck c s =
      snd (api_UpdateStatus (kCluster k)
        (c\<lparr>cl_Status := trimConditions (offlineStatus (ck_Status ck) (ck_Condition ck) (cl_Status c))\<rparr>)
        (fold (markPolicy k c) ps s))"
    and "api_Get (kCluster k) (checkStaleCluster k period ck c s) [] name = Inr c3"
    and "sameMeta (cl_Meta c3) (cl_Meta c)"
    and "cl_Status c3 = trimConditions (offlineStatus (ck_Status ck) (ck_Condition ck) (cl_Status c))"
proof -
  define s1 where "s1 = fold (markPolicy k c) ps s"
  let ?new = "c\<lparr>cl_Status := trimConditions (offlineStatus (ck_Status ck) (ck_Condition ck) (cl_Status c))\<rparr>"
  have g1: "api_Get (kCluster k) s1 [] name = Inr c" using g markPolicy_apart(2) [OF laws(2)] by (simp add: s1_def)
  obtain c3 s3 where u: "api_UpdateStatus (kCluster k) ?new s1 = (Inr c3, s3)"
    using w g1 api_kind.get_key [OF api_status_kind.axioms(1) [OF laws(1)] g]
    unfolding status_writable_def by force
  have "checkStaleCluster k period ck c s = s3"
    using stale ps u
    by (simp add: checkStaleCluster_def policyReSchedule_def s1_def [symmetric] OfflineCluster_def isStale_def
        UpdateClusterStatus_def writeS_def bindS_def)
  with api_status_kind.status_reads_back [OF laws(1) g1 _ u] u show ?thesis by (intro that) (simp_all add: s1_def)
qed

lemma fold_marks:
  assumes laws: "api_kind (kSchedulePolicy k) po_Meta po_Spec" "policy_writes_apart k"
    and w: "writable (kSchedulePolicy k) po_Meta"
    and ps: "\<forall>p\<in>set ps. api_Get (kSchedulePolicy k) s (om_Namespace (po_Meta p)) (om_Name (po_Meta p)) = Inr p"
      "\<forall>p\<in>set ps. om_DeletionTimestamp (po_Meta p) = None" "distinct (map policyKey ps)"
    and p: "p \<in> set ps" "ps_FailoverPolicy (po_Spec p) \<noteq> []" "concerns k s c (po_Spec p)"
  shows "\<exists>p'. api_Get (kSchedulePolicy k) (fold (markPolicy k c) ps s)
             (om_Namespace (po_Meta p)) (om_Name (po_Meta p)) = Inr p' \<and>
           po_Spec p' = (po_Spec p)\<lparr>ps_Reschedule := True\<rparr>"
proof -
  obtain as bs where split: "ps = as @ p # bs" using p(1) by (meson split_list)
  define t where "t = fold (markPolicy k c) as s"
  have "concerns k t c (po_Spec p)"
    using p(3) markPolicy_apart(1) [OF laws(2), of c as s] by (simp add: concerns_def t_def)
  moreover have stored: "api_Get (kSchedulePolicy k) t (om_Namespace (po_Meta p)) (om_Name (po_Meta p)) = Inr p"
    using fold_markPolicy_other [OF laws(1), of "om_Namespace (po_Meta p)" "om_Name (po_Meta p)" as c s] ps p(1)
    by (auto simp: split t_def policyKey_def)
  then obtain p2 t2 where u: "api_Update (kSchedulePolicy k) (p\<lparr>po_Spec := (po_Spec p)\<lparr>ps_Reschedule := True\<rparr>\<rparr>) t
      = (Inr p2, t2)" using w unfolding writable_def by force
  ultimately have "markPolicy k c p t = t2" using p(2) by (simp add: markPolicy_def shouldReSchedule_iff)
  then have "fold (markPolicy k c) ps s = fold (markPolicy k c) bs t2" by (simp add: split t_def)
  moreover have "policyKey p \<notin> policyKey ` set bs" using ps(3) by (simp add: split)
  ultimately have "api_Get (kSchedulePolicy k) (fold (markPolicy k c) ps s) (om_Namespace (po_Meta p)) (om_Name (po_Meta p))
      = api_Get (kSchedulePolicy k) t2 (om_Namespace (po_Meta p)) (om_Name (po_Meta p))"
    using fold_markPolicy_other [OF laws(1)] by (simp add: policyKey_def)
  with api_kind.get_update [OF laws(1) _ _ _ u] stored ps(2) p(1) show ?thesis by simp
qed

text \<open>
  C17: a check that finds an online cluster without a recent heartbeat stores it as offline, with one more
  condition that says so, and marks for a reschedule every policy that has a failover and lists the cluster
  or uses a cluster set that contains it. The server lets the writes through.
\<close>

theorem stale_cluster_goes_offline:
  assumes laws: "api_status_kind (kCluster k) cl_Meta cl_Spec cl_Status"
      "api_kind (kSchedulePolicy k) po_Meta po_Spec" "policy_writes_apart k"
    and writes: "status_writable (kCluster k) cl_Meta" "writable (kSchedulePolicy k) po_Meta"
    and g: "api_Get (kCluster k) s [] name = Inr c" and stale: "isStale period (ck_Insert ck) c"
    and ps: "api_List (kSchedulePolicy k) s listAll = Inr ps"
      "\<forall>p\<in>set ps. api_Get (kSchedulePolicy k) s (om_Namespace (po_Meta p)) (om_Name (po_Meta p)) = Inr p"
      "\<forall>p\<in>set ps. om_DeletionTimestamp (po_Meta p) = None" "distinct (map policyKey ps)"
    and apart: "\<And>c s ns n. api_Get (kSchedulePolicy k) (snd (api_UpdateStatus (kCluster k) c s)) ns n
        = api_Get (kSchedulePolicy k) s ns n"
  shows "(\<exists>c'. api_Get (kCluster k) (checkStaleCluster k period ck c s) [] name = Inr c' \<and>
            ct_Status (cl_Status c') = OfflineStatus \<and>
            (\<exists>cs. ct_Conditions (cl_Status c') = cs @ GenerateReadyCondition (ck_Condition ck) False False)) \<and>
         (\<forall>p\<in>set ps. ps_FailoverPolicy (po_Spec p) \<noteq> [] \<longrightarrow> concerns k s c (po_Spec p) \<longrightarrow>
            (\<exists>p'. api_Get (kSchedulePolicy k) (checkStaleCluster k period ck c s)
                   (om_Namespace (po_Meta p)) (om_Name (po_Meta p)) = Inr p' \<and>
               po_Spec p' = (po_Spec p)\<lparr>ps_Reschedule := True\<rparr>))"
proof -
  let ?new = "c\<lparr>cl_Status := trimConditions (offlineStatus (ck_Status ck) (ck_Condition ck) (cl_Status c))\<rparr>"
  obtain c3 where chk: "checkStaleCluster k period ck c s =
        snd (api_UpdateStatus (kCluster k) ?new (fold (markPolicy k c) ps s))"
      "api_Get (kCluster k) (checkStaleCluster k period ck c s) [] name = Inr c3" "cl_Status c3 = cl_Status ?new"
    by (rule check_writes [OF laws(1,3) writes(1) g stale ps(1)]) simp
  have "\<exists>cs. ct_Conditions (cl_Status c3) = cs @ GenerateReadyCondition (ck_Condition ck) False False"
    using trimConditions_keeps [of "offlineStatus (ck_Status ck) (ck_Condition ck) (cl_Status c)" "ct_Conditions (cl_Status c)"
        "GenerateReadyCondition (ck_Condition ck) False False"] chk(3)
    by (simp add: offlineStatus_def GenerateReadyCondition_def ConditionMaximumLength_def)
  moreover have "ct_Status (cl_Status c3) = OfflineStatus"
    using chk(3) by (simp add: trimConditions_other offlineStatus_def)
  ultimately show ?thesis
    using chk(2) fold_marks [OF laws(2,3) writes(2) ps(2-4)] by (simp add: chk(1) apart)
qed

lemma fresh_clusters_untouched:
  assumes "api_List (kCluster k) s listAll = Inr items"
    and "\<And>i c now. (i, c) \<in> set (zip [0..<length items] items) \<Longrightarrow> \<not> isStale period (ck_Insert (ck i)) c"
  shows "checkClusterStatus k period ck s = s"
proof -
  have "fold (\<lambda>(i, c). checkStaleCluster k period (ck i) c) xs s = s"
    if "\<forall>(i, c)\<in>set xs. \<not> isStale period (ck_Insert (ck i)) c" for xs
    using that by (induction xs) (auto simp: checkStaleCluster_def)
  from this [of "zip [0..<length items] items"] assms show ?thesis by (auto simp: checkClusterStatus_def)
qed

section \<open>Witness\<close>

definition nxCluster :: Cluster where
  "nxCluster = hxCluster\<lparr>cl_Status := zeroClusterStatus\<lparr>ct_Status := OnlineStatus, ct_LastReceiveHeartBeatTimestamp := 0\<rparr>\<rparr>"

definition nxPolicy :: MultiClusterResourceSchedulePolicy where
  "nxPolicy = \<lparr>po_Meta = zeroMeta\<lparr>om_Namespace := ''team'', om_Name := ''p''\<rparr>,
     po_Spec = \<lparr>ps_Resources = [], ps_ClusterSource = ClusterSourceTypeAssign, ps_Clusterset = [], ps_Replicas = 0,
       ps_ScheduleMode = [], ps_Reschedule = False, ps_Policy = [zeroSchedulePolicy\<lparr>sp_Name := ''c1''\<rparr>],
       ps_FailoverPolicy = [\<lparr>fo_Name = ''c2'', fo_Type = ClusterTypeClusters\<rparr>],
       ps_OutTreePolicy = \<lparr>op_Url = [], op_Properties = None\<rparr>\<rparr>,
     po_Status = \<lparr>ss_Status = False, ss_Message = [], ss_LastScheduleTime = None, ss_LastModifyTime = None\<rparr>\<rparr>"

definition nxMem :: mem where
  "nxMem = emptyMem\<lparr>mm_Clusters := [nxCluster], mm_SchedulePolicies := [nxPolicy]\<rparr>"

lemma mem_policy_kind: "api_kind (kSchedulePolicy memKube) po_Meta po_Spec"
  using policyStore.served.api_kind_axioms by (simp add: memKube_def)

lemma mem_policy_apart: "policy_writes_apart memKube"
  by (auto simp: policy_writes_apart_def memKube_def memApi_def memUpdate_def memGet_def Let_def fun_eq_iff
      split: option.splits)

lemma mem_writable: "status_writable (kCluster memKube) cl_Meta" "writable (kSchedulePolicy memKube) po_Meta"
  by (auto simp: status_writable_def writable_def memKube_def memApi_def memGet_def memUpdate_def memUpdateStatus_def
      keyOf_def Let_def split: option.splits)

lemma mem_apart:
  "api_Get (kSchedulePolicy memKube) (snd (api_UpdateStatus (kCluster memKube) c s)) ns n
     = api_Get (kSchedulePolicy memKube) s ns n"
  by (auto simp: memKube_def memApi_def memUpdateStatus_def memGet_def split: option.splits)

lemma nx_facts:
  "api_Get (kCluster memKube) nxMem [] ''c1'' = Inr nxCluster"
  "api_List (kSchedulePolicy memKube) nxMem listAll = Inr [nxPolicy]"
  "api_Get (kSchedulePolicy memKube) nxMem ''team'' ''p'' = Inr nxPolicy"
  "om_Namespace (po_Meta nxPolicy) = ''team''" "om_Name (po_Meta nxPolicy) = ''p''"
  "om_DeletionTimestamp (po_Meta nxPolicy) = None"
  "ps_FailoverPolicy (po_Spec nxPolicy) \<noteq> []" "concerns memKube nxMem nxCluster (po_Spec nxPolicy)"
  "isStale 5 (ck_Insert hxClock) nxCluster"
  by (simp_all add: memKube_def memApi_def memGet_def memList_def findObj_def keyOf_def nxMem_def nxCluster_def
      hxCluster_def nxPolicy_def zeroMeta_def listAll_def selects_def concerns_def zeroSchedulePolicy_def isStale_def
      hxClock_def)

lemma stale_cluster_goes_offline_witness:
  "\<exists>c' p'. api_Get (kCluster memKube) (checkStaleCluster memKube 5 hxClock nxCluster nxMem) [] ''c1'' = Inr c' \<and>
     ct_Status (cl_Status c') = OfflineStatus \<and>
     api_Get (kSchedulePolicy memKube) (checkStaleCluster memKube 5 hxClock nxCluster nxMem) ''team'' ''p'' = Inr p' \<and>
     ps_Reschedule (po_Spec p')"
  using stale_cluster_goes_offline [OF mem_cluster_status mem_policy_kind mem_policy_apart mem_writable nx_facts(1,9,2)
      _ _ _ mem_apart] nx_facts(3-8)
  by force

end
