(* ===== verification/Lifecycle.thy ===== *)
theory Lifecycle
  imports Monitor
begin

text \<open>
  The life of a cluster as the core stores it, seen from outside: whether it is online, its health and
  when it was last heard of. Registrations, heartbeats and checks of the monitor, which are spread over the
  handlers and the monitor of the core, are shown to be the steps of a state machine with these
  three fields.
\<close>

section \<open>The operations on one stored cluster\<close>

datatype cluster_event =
    Registered clock "ClusterAddonStatus list"
  | Beaten clock HeartbeatWithChangeRequest
  | Checked int clock

text \<open>The check of the monitor, of the cluster as the list request shows it.\<close>

definition runEvent :: "'s kube \<Rightarrow> codec \<Rightarrow> string \<Rightarrow> cluster_event \<Rightarrow> ('s, unit) step" where
  "runEvent k j name ev s =
     (case ev of
        Registered ck addons \<Rightarrow>
          registerClusterInKube k ck ((NewCluster name)\<lparr>cl_Status := zeroClusterStatus\<lparr>ct_Addons := addons\<rparr>\<rparr>) s
      | Beaten ck hb \<Rightarrow> updateClusterWithHeartbeat k j ck name hb s
      | Checked period ck \<Rightarrow>
          (case api_Get (kCluster k) s [] name of
             Inl e \<Rightarrow> (Inr (), s)
           | Inr cluster \<Rightarrow> (Inr (), checkStaleCluster k period ck cluster s)))"

section \<open>The state machine\<close>

record life =
  lf_Status :: string
  lf_Healthy :: bool
  lf_LastBeat :: int

definition lifeOf :: "Cluster \<Rightarrow> life" where
  "lifeOf c = \<lparr>lf_Status = ct_Status (cl_Status c), lf_Healthy = ct_Healthy (cl_Status c),
     lf_LastBeat = ct_LastReceiveHeartBeatTimestamp (cl_Status c)\<rparr>"

fun stepLife :: "cluster_event \<Rightarrow> life \<Rightarrow> life" where
  "stepLife (Registered ck addons) l = \<lparr>lf_Status = OnlineStatus, lf_Healthy = True, lf_LastBeat = ck_Status ck\<rparr>"
| "stepLife (Beaten ck hb) l = \<lparr>lf_Status = OnlineStatus, lf_Healthy = hb_Healthy hb, lf_LastBeat = ck_Status ck\<rparr>"
| "stepLife (Checked period ck) l =
     (if lf_Status l = OnlineStatus \<and> period \<le> ck_Insert ck - lf_LastBeat l
      then l\<lparr>lf_Status := OfflineStatus\<rparr> else l)"

section \<open>Each operation is a step\<close>

text \<open>The server answers the list of policies, and lets the writes of a status through.\<close>

definition monitored :: "'s kube \<Rightarrow> bool" where
  "monitored k \<longleftrightarrow> policy_writes_apart k \<and> status_writable (kCluster k) cl_Meta \<and>
     (\<forall>s. \<exists>ps. api_List (kSchedulePolicy k) s listAll = Inr ps)"

lemma check_status:
  assumes laws: "api_status_kind (kCluster k) cl_Meta cl_Spec cl_Status" and m: "monitored k"
    and g: "api_Get (kCluster k) s [] name = Inr c" and stale: "isStale period (ck_Insert ck) c"
  shows "\<exists>new. api_Get (kCluster k) (checkStaleCluster k period ck c s) [] name = Inr new \<and>
           sameMeta (cl_Meta new) (cl_Meta c) \<and>
           cl_Status new = trimConditions (offlineStatus (ck_Status ck) (ck_Condition ck) (cl_Status c))"
proof -
  obtain ps where "api_List (kSchedulePolicy k) s listAll = Inr ps" using m unfolding monitored_def by blast
  with check_writes [OF laws _ _ g stale] m show ?thesis unfolding monitored_def by metis
qed

lemma event_is_step:
  assumes laws: "api_status_kind (kCluster k) cl_Meta cl_Spec cl_Status" "monitored k"
    and g: "api_Get (kCluster k) s [] name = Inr c" "om_DeletionTimestamp (cl_Meta c) = None"
    and run: "runEvent k j name ev s = (Inr (), s')"
  shows "\<exists>c'. api_Get (kCluster k) s' [] name = Inr c' \<and> om_DeletionTimestamp (cl_Meta c') = None \<and>
           lifeOf c' = stepLife ev (lifeOf c) \<and>
           (length (ct_Conditions (cl_Status c)) \<le> 10 \<longrightarrow> length (ct_Conditions (cl_Status c')) \<le> 10)"
proof (cases ev)
  case (Registered ck addons)
  with registered_status [OF laws(1) g, of ck addons s'] run g(2) conditions_bounded show ?thesis
    by (auto simp: runEvent_def lifeOf_def trimConditions_other onlineStatus_def dest: sameMeta_fields(6))
next
  case (Beaten ck hb)
  with heartbeat_status [OF laws(1) g, of j ck hb s'] run g(2) conditions_bounded show ?thesis
    by (auto simp: runEvent_def lifeOf_def trimConditions_other heartbeatStatus_def Let_def dest: sameMeta_fields(6))
next
  case (Checked period ck)
  then have s': "s' = checkStaleCluster k period ck c s" using run g(1) by (simp add: runEvent_def)
  show ?thesis
  proof (cases "isStale period (ck_Insert ck) c")
    case True
    with check_status [OF laws g(1) True] g(2) conditions_bounded show ?thesis
      by (auto simp: s' Checked lifeOf_def isStale_def trimConditions_other offlineStatus_def dest: sameMeta_fields(6))
  next
    case False
    then have "s' = s" by (simp add: s' checkStaleCluster_def)
    with g False show ?thesis by (auto simp: Checked lifeOf_def isStale_def)
  qed
qed

section \<open>Property\<close>

text \<open>
  C7: the core implements the state machine: after any sequence of registrations, heartbeats and checks
  that end without an error, the stored cluster is in the state the machine reaches by the same steps,
  and it never has more than ten conditions. So a cluster is online exactly when a registration or a
  heartbeat came after the last check that found it stale.
\<close>

theorem cluster_life_refines:
  assumes laws: "api_status_kind (kCluster k) cl_Meta cl_Spec cl_Status" "monitored k"
    and g: "api_Get (kCluster k) s [] name = Inr c" "om_DeletionTimestamp (cl_Meta c) = None"
    and ten: "length (ct_Conditions (cl_Status c)) \<le> 10"
    and run: "forS (\<lambda>ev _. runEvent k j name ev) evs () s = (Inr (), s')"
  shows "\<exists>c'. api_Get (kCluster k) s' [] name = Inr c' \<and> lifeOf c' = fold stepLife evs (lifeOf c) \<and>
           length (ct_Conditions (cl_Status c')) \<le> 10"
  using g ten run
proof (induction evs arbitrary: s c)
  case (Cons ev evs)
  from Cons.prems(4) obtain s1 where s1: "runEvent k j name ev s = (Inr (), s1)"
      "forS (\<lambda>ev _. runEvent k j name ev) evs () s1 = (Inr (), s')"
    by (auto simp: bindS_Inr_iff)
  obtain c1 where c1: "api_Get (kCluster k) s1 [] name = Inr c1" "om_DeletionTimestamp (cl_Meta c1) = None"
      "lifeOf c1 = stepLife ev (lifeOf c)" "length (ct_Conditions (cl_Status c1)) \<le> 10"
    using event_is_step [OF laws Cons.prems(1,2) s1(1)] Cons.prems(3) by auto
  from Cons.IH [OF c1(1,2,4) s1(2)] c1(3) show ?case by simp
qed simp

section \<open>Witness\<close>

lemma mem_monitored: "monitored memKube"
  using mem_policy_apart mem_writable(1) by (auto simp: monitored_def memKube_def memApi_def memList_def)

text \<open>A registration at 5, a check at 6, and one at 100.\<close>

definition lxEvents :: "cluster_event list" where
  "lxEvents = [Registered hxClock [], Checked 10 (hxClock\<lparr>ck_Insert := 6\<rparr>), Checked 10 (hxClock\<lparr>ck_Insert := 100\<rparr>)]"

lemma cluster_life_refines_witness:
  "\<exists>c'. api_Get (kCluster memKube) (snd (forS (\<lambda>ev _. runEvent memKube memCodec ''c1'' ev) lxEvents () hxMem)) [] ''c1''
       = Inr c' \<and> lf_Status (lifeOf c') = OfflineStatus \<and> lf_LastBeat (lifeOf c') = 5"
proof -
  let ?r = "forS (\<lambda>ev _. runEvent memKube memCodec ''c1'' ev) lxEvents () hxMem"
  have "fst ?r = Inr ()" by code_simp
  then have run: "?r = (Inr (), snd ?r)" by (simp add: prod_eq_iff)
  have "length (ct_Conditions (cl_Status hxCluster)) \<le> 10" by (simp add: hxCluster_def zeroClusterStatus_def)
  from cluster_life_refines [OF mem_cluster_status mem_monitored hx_cluster this run] show ?thesis
    by (auto simp: lxEvents_def hxClock_def)
qed

end
