(* ===== verification/ClusterProps.thy ===== *)
theory ClusterProps
  imports ClusterControl CoreProps
begin

text \<open>The properties of the reconciler of clusters (\<open>pkg/controller/cluster\<close>).\<close>

section \<open>Names survive the writes\<close>

definition keeps_names :: "('s, 'o) api \<Rightarrow> ('o \<Rightarrow> ObjectMeta) \<Rightarrow> bool" where
  "keeps_names a meta \<longleftrightarrow>
     (\<forall>obj s o2 s'. api_Update a obj s = (Inr o2, s') \<or> api_UpdateStatus a obj s = (Inr o2, s') \<longrightarrow>
        om_Name (meta o2) = om_Name (meta obj))"

lemma keeps_names_update:
  "keeps_names a meta \<Longrightarrow> api_Update a obj s = (Inr o2, s') \<Longrightarrow> om_Name (meta o2) = om_Name (meta obj)"
  "keeps_names a meta \<Longrightarrow> api_UpdateStatus a obj s = (Inr o2, s') \<Longrightarrow> om_Name (meta o2) = om_Name (meta obj)"
  unfolding keeps_names_def by blast+

lemma finalizer_name:
  assumes "keeps_names (kCluster k) cl_Meta"
  shows "AddFinalizer cl_Meta cl_Meta_update (kCluster k) c s = (Inr c', s') \<Longrightarrow>
      om_Name (cl_Meta c') = om_Name (cl_Meta c)"
    and "RemoveFinalizer cl_Meta cl_Meta_update (kCluster k) c s = (Inr c', s') \<Longrightarrow>
      om_Name (cl_Meta c') = om_Name (cl_Meta c)"
  using keeps_names_update(1) [OF assms]
  by (force simp: AddFinalizer_def RemoveFinalizer_def setFinalizers_def split: if_splits prod.splits)+

lemma deleteCluster_name:
  assumes "keeps_names (kCluster k) cl_Meta" and "deleteCluster k c s = (Inr c', s')"
  shows "om_Name (cl_Meta c') = om_Name (cl_Meta c)"
  using assms finalizer_name(2) [OF assms(1)] by (auto simp: deleteCluster_def split: prod.splits option.splits if_splits)

lemma requeue5_done:
  assumes "requeue5 m f s = (Inr (doneResult, None), s')"
  obtains x t where "m s = (Inr x, t)" and "f x t = (Inr (doneResult, None), s')"
  using assms by (auto simp: requeue5_def doneResult_def requeueAfter_def split: prod.splits sum.splits fail.splits)

lemma createIfAbsent_exists:
  assumes kind: "api_kind a meta spec"
    and conflict: "\<And>s'. api_Create a obj s = (Inl AlreadyExists, s') \<Longrightarrow>
        \<exists>x. api_Get a s (om_Namespace (meta obj)) (om_Name (meta obj)) = Inr x"
    and run: "createIfAbsent a obj s = (Inr (), s')"
  shows "\<exists>x. api_Get a s' (om_Namespace (meta obj)) (om_Name (meta obj)) = Inr x"
proof (cases "api_Create a obj s")
  case (Pair r t)
  show ?thesis
  proof (cases r)
    case (Inl e)
    with run Pair have e: "e = AlreadyExists" "t = s'" by (cases e; simp add: createIfAbsent_def)+
    with Pair Inl have c: "api_Create a obj s = (Inl AlreadyExists, s')" by simp
    then have "s' = s" by (rule api_kind.create_failed [OF kind])
    with conflict [OF c] show ?thesis by simp
  next
    case (Inr o2)
    with run Pair have "api_Create a obj s = (Inr o2, s')" by (simp add: createIfAbsent_def)
    from api_kind.get_create [OF kind this] show ?thesis by simp
  qed
qed

section \<open>Properties\<close>

text \<open>
  C40: whenever a reconcile of a stored cluster ends without an error, the namespace of the cluster exists in
  the control plane. That is so also for a cluster that is being deleted: its namespace has been
  deleted before, and the reconcile goes on and creates it again.
\<close>

theorem reconcile_leaves_namespace:
  assumes names: "keeps_names (kCluster k) cl_Meta"
    and kind: "api_kind (kNamespace k) ns_Meta spec"
    and conflict: "\<And>obj t t'. api_Create (kNamespace k) obj t = (Inl AlreadyExists, t') \<Longrightarrow>
        \<exists>x. api_Get (kNamespace k) t (om_Namespace (ns_Meta obj)) (om_Name (ns_Meta obj)) = Inr x"
    and g: "api_Get (kCluster k) s [] name = Inr c" "om_Name (cl_Meta c) = name"
    and run: "reconcileCluster k j env tmpl name s = (Inr (doneResult, None), s')"
  shows "\<exists>x. api_Get (kNamespace k) s' [] (ClusterNamespace name) = Inr x"
proof -
  from run g(1) obtain c1 s1 c2 s2 c3 s3 u where
      1: "(if ShouldAddFinalizer cl_Meta c then AddFinalizer cl_Meta cl_Meta_update (kCluster k) c else retS c) s = (Inr c1, s1)"
    and 2: "(if om_DeletionTimestamp (cl_Meta c1) \<noteq> None then deleteCluster k c1 else retS c1) s1 = (Inr c2, s2)"
    and 3: "(if shouldDeploy c2
                    then bindS (writeS (api_UpdateStatus (kCluster k)
                           (c2\<lparr>cl_Status := (cl_Status c2)\<lparr>ct_Status := InitializingStatus\<rparr>\<rparr>)))
                           (\<lambda>cluster. bindS (deployProxy k j env tmpl cluster) (\<lambda>_. retS cluster))
                    else retS c2) s2 = (Inr c3, s3)"
    and 4: "createIfAbsent (kNamespace k) (GenerateNamespaceInControlPlane c3) s3 = (Inr u, s')"
    unfolding reconcileCluster_def
    by (auto elim!: requeue5_done simp: doneS_def retS_def)
  have "om_Name (cl_Meta c1) = name"
    using 1 g(2) finalizer_name(1) [OF names] by (auto simp: retS_def split: if_splits)
  then have "om_Name (cl_Meta c2) = name"
    using 2 deleteCluster_name [OF names] by (auto simp: retS_def split: if_splits)
  then have "om_Name (cl_Meta c3) = name"
    using 3 keeps_names_update(2) [OF names]
    by (fastforce simp: bindS_Inr_iff retS_def writeS_def split: if_splits prod.splits)
  with createIfAbsent_exists [OF kind conflict, of "GenerateNamespaceInControlPlane c3" s3] 4 show ?thesis
    by (simp add: GenerateNamespaceInControlPlane_def zeroMeta_def ClusterNamespace_def)
qed

section \<open>Witness\<close>

text \<open>A cluster that is being deleted, whose namespace is gone already.\<close>

definition kxCluster :: Cluster where
  "kxCluster = \<lparr>cl_Meta = zeroMeta\<lparr>om_Name := ''c1'', om_Finalizers := [FinalizerName], om_DeletionTimestamp := Some 9\<rparr>,
     cl_Spec = zeroClusterSpec, cl_Status = zeroClusterStatus\<rparr>"

definition kxMem :: mem where "kxMem = emptyMem\<lparr>mm_Clusters := [kxCluster]\<rparr>"

definition kxEnv :: "mem deploy_env" where
  "kxEnv = \<lparr>dParseCue = (\<lambda>n t. None), dOutputs = (\<lambda>fs. None), dLoadKubeconfig = (\<lambda>d. None),
     dConnect = (\<lambda>u c. Inl (ErrMsg ''refused''))\<rparr>"

lemma mem_keeps_names: "keeps_names (kCluster memKube) cl_Meta"
  by (auto simp: keeps_names_def memKube_def memApi_def memUpdate_def memUpdateStatus_def Let_def findObj_def keyOf_def
      find_Some_iff split: option.splits)

lemma mem_namespaces: "api_kind (kNamespace memKube) ns_Meta (\<lambda>_. ())"
  using namespaceStore.served.api_kind_axioms by (simp add: memKube_def)

lemma mem_conflict:
  "api_Create (kNamespace memKube) obj t = (Inl AlreadyExists, t') \<Longrightarrow>
     \<exists>x. api_Get (kNamespace memKube) t (om_Namespace (ns_Meta obj)) (om_Name (ns_Meta obj)) = Inr x"
  by (auto simp: memKube_def memApi_def memCreate_def memGet_def keyOf_def split: option.splits)

lemma reconcile_leaves_namespace_witness:
  "\<exists>s' x. reconcileCluster memKube memCodec kxEnv (''n'', ''t'') ''c1'' kxMem = (Inr (doneResult, None), s') \<and>
     api_Get (kNamespace memKube) kxMem [] (ClusterNamespace ''c1'') = Inl NotFound \<and>
     api_Get (kCluster memKube) s' [] ''c1'' = Inl NotFound \<and>
     api_Get (kNamespace memKube) s' [] (ClusterNamespace ''c1'') = Inr x"
proof -
  let ?r = "reconcileCluster memKube memCodec kxEnv (''n'', ''t'') ''c1'' kxMem"
  have "fst ?r = Inr (doneResult, None)" by code_simp
  then have run: "?r = (Inr (doneResult, None), snd ?r)" by (simp add: prod_eq_iff)
  have g: "api_Get (kCluster memKube) kxMem [] ''c1'' = Inr kxCluster" "om_Name (cl_Meta kxCluster) = ''c1''"
    by (simp_all add: memKube_def memApi_def memGet_def findObj_def keyOf_def kxMem_def kxCluster_def zeroMeta_def)
  have "api_Get (kNamespace memKube) kxMem [] (ClusterNamespace ''c1'') = Inl NotFound"
    "api_Get (kCluster memKube) (snd ?r) [] ''c1'' = Inl NotFound" by code_simp+
  moreover obtain x where "api_Get (kNamespace memKube) (snd ?r) [] (ClusterNamespace ''c1'') = Inr x"
    using reconcile_leaves_namespace [OF mem_keeps_names mem_namespaces _ g run] mem_conflict by blast
  ultimately show ?thesis using run by blast
qed

end
