(* ===== verification/Webhook.thy ===== *)
theory Webhook
  imports Naming ClusterResourceControl MemCodec
begin

text \<open>
  The validating webhooks (\<open>pkg/webhook\<close>, \<open>pkg/common/validation\<close>). What the decoder of
  controller-runtime makes of a request is part of the request; the test for path segments and the text
  of a \<open>GroupVersionKind\<close> are library functions and so parameters.
\<close>

section \<open>Requests and answers\<close>

record 'o admission_request =
  aq_Operation :: string
  aq_Object :: "go_error + 'o"
  aq_OldObject :: "go_error + 'o"

abbreviation opUpdate :: string where "opUpdate \<equiv> ''UPDATE''"

datatype admission_response = Allowed | Denied string | Errored int go_error

record webhook_env =
  wh_Codec :: codec
  wh_IsValidPathSegmentName :: "string \<Rightarrow> string list"
  wh_GvkString :: "GroupVersionKind \<Rightarrow> string"

abbreviation CueIsEmpty :: string where "CueIsEmpty \<equiv> ''cue is empty''"
abbreviation ResourceIsNil :: string where "ResourceIsNil \<equiv> ''resource field should not be nil''"
abbreviation ResourceRefIsNil :: string where "ResourceRefIsNil \<equiv> ''resourceRef field should not be nil''"
abbreviation NamePrefixedGVK :: string where "NamePrefixedGVK \<equiv> ''name must be prefixed with resourceGVK''"
abbreviation CanNotChangedGVK :: string where "CanNotChangedGVK \<equiv> ''can not changed resourceGVK''"
abbreviation ResourceMarshalFail :: string where "ResourceMarshalFail \<equiv> ''marshal resource failed''"
abbreviation CanNotChangedIdentity :: string where "CanNotChangedIdentity \<equiv> ''can not changed resource identity''"

section \<open>Names of cluster resources\<close>

definition clusterResourceNameMaxLength :: nat where "clusterResourceNameMaxLength = 100"

definition ValidateClusterResourceName :: "webhook_env \<Rightarrow> string \<Rightarrow> string list" where
  "ValidateClusterResourceName env name =
     (if clusterResourceNameMaxLength < length name
      then [''must be no more than '' @ strconvItoa (int clusterResourceNameMaxLength) @ '' characters'']
      else wh_IsValidPathSegmentName env name)"

fun stringsJoin :: "string list \<Rightarrow> string \<Rightarrow> string" where
  "stringsJoin [] sep = []"
| "stringsJoin [s] sep = s"
| "stringsJoin (s # ss) sep = s @ sep @ stringsJoin ss sep"

section \<open>The handlers\<close>

definition handleClusterResource :: "webhook_env \<Rightarrow> ClusterResource admission_request \<Rightarrow> admission_response" where
  "handleClusterResource env req =
     (case aq_Object req of
        Inl e \<Rightarrow> Errored 400 e
      | Inr clusterResource \<Rightarrow>
          (let name = om_Name (cr_Meta clusterResource); errs = ValidateClusterResourceName env name in
           if 0 < length errs
           then Denied (''invalid clusterResource name('' @ name @ ''): '' @ stringsJoin errs '';'')
           else Allowed))"

definition handleAggregateRule :: "MultiClusterResourceAggregateRule admission_request \<Rightarrow> admission_response" where
  "handleAggregateRule req =
     (case aq_Object req of
        Inl e \<Rightarrow> Errored 400 e
      | Inr aggregateRule \<Rightarrow> if length (ar_Cue aggregateRule) \<le> 0 then Denied CueIsEmpty else Allowed)"

text \<open>
  \<open>String\<close> of a nil reference and \<open>MarshalJSON\<close> of a nil extension panic. The second test of the last
  condition compares the old namespace with itself.
\<close>

definition objectOf :: "codec \<Rightarrow> raw option \<Rightarrow> Unstructured res" where
  "objectOf j raw = (case raw of None \<Rightarrow> Crash NilDereference | Some r \<Rightarrow> GetResourceForRawExtension j r)"

definition marshalFail :: "codec \<Rightarrow> 'a res \<Rightarrow> 'a res" where
  "marshalFail j r =
     (case r of
        Inl (Err e) \<Rightarrow> Raise (ErrMsg (ResourceMarshalFail @ '', error:'' @ jErrorText j e))
      | _ \<Rightarrow> r)"

definition updateValidate :: "webhook_env \<Rightarrow> MultiClusterResource \<Rightarrow> MultiClusterResource \<Rightarrow> unit res" where
  "updateValidate env oldMultiClusterResource multiClusterResource =
     (case (rs_ResourceRef (mr_Spec oldMultiClusterResource), rs_ResourceRef (mr_Spec multiClusterResource)) of
        (Some oldRef, Some ref) \<Rightarrow>
          if wh_GvkString env oldRef \<noteq> wh_GvkString env ref then Raise (ErrMsg CanNotChangedGVK)
          else bindR (marshalFail (wh_Codec env)
                        (objectOf (wh_Codec env) (rs_Resource (mr_Spec oldMultiClusterResource)))) (\<lambda>oldResource.
               bindR (marshalFail (wh_Codec env)
                        (objectOf (wh_Codec env) (rs_Resource (mr_Spec multiClusterResource)))) (\<lambda>newResource.
                 if om_Name (un_Meta oldResource) \<noteq> om_Name (un_Meta newResource) \<or>
                    om_Namespace (un_Meta oldResource) \<noteq> om_Namespace (un_Meta oldResource)
                 then Raise (ErrMsg CanNotChangedIdentity)
                 else Inr ()))
      | _ \<Rightarrow> Crash NilDereference)"

text \<open>What the handler answers, when it does not panic.\<close>

definition handleMultiClusterResource ::
  "webhook_env \<Rightarrow> MultiClusterResource admission_request \<Rightarrow> admission_response res" where
  "handleMultiClusterResource env req =
     (case aq_Object req of
        Inl e \<Rightarrow> Inr (Errored 400 e)
      | Inr multiClusterResource \<Rightarrow>
          if rs_Resource (mr_Spec multiClusterResource) = None then Inr (Denied ResourceIsNil)
          else if rs_ResourceRef (mr_Spec multiClusterResource) = None then Inr (Denied ResourceRefIsNil)
          else bindR (GvkLabelString (rs_ResourceRef (mr_Spec multiClusterResource))) (\<lambda>prefix.
            if \<not> strHasPrefix (om_Name (mr_Meta multiClusterResource)) prefix then Inr (Denied NamePrefixedGVK)
            else if aq_Operation req = opUpdate
            then (case aq_OldObject req of
                    Inl e \<Rightarrow> Inr (Errored 400 e)
                  | Inr oldMultiClusterResource \<Rightarrow>
                      (case updateValidate env oldMultiClusterResource multiClusterResource of
                         Inr _ \<Rightarrow> Inr Allowed
                       | Inl (Err (ErrMsg m)) \<Rightarrow> Inr (Denied m)
                       | Inl (Err e) \<Rightarrow> Inr (Denied (jErrorText (wh_Codec env) e))
                       | Inl f \<Rightarrow> Inl f))
            else Inr Allowed))"

section \<open>Properties\<close>

text \<open>An object that passes the checks of every operation.\<close>

definition wellNamed :: "MultiClusterResource \<Rightarrow> bool" where
  "wellNamed r \<longleftrightarrow> rs_Resource (mr_Spec r) \<noteq> None \<and>
     (\<exists>gvk p. rs_ResourceRef (mr_Spec r) = Some gvk \<and> GvkLabelString (Some gvk) = Inr p \<and>
        strHasPrefix (om_Name (mr_Meta r)) p)"

text \<open>
  C29: an update is let through exactly when the new object is well named and keeps the kind and the name of
  the resource of the old one. The namespace of the resource does not matter, although it is meant to. An
  old object without a reference or a resource makes the handler panic.
\<close>

theorem update_admission:
  assumes op: "aq_Operation req = opUpdate" and new: "aq_Object req = Inr new" and old: "aq_OldObject req = Inr old"
  shows "(handleMultiClusterResource env req = Inr Allowed \<longleftrightarrow>
            wellNamed new \<and>
            (\<exists>g0 g1 r0 r1 o0 o1. rs_ResourceRef (mr_Spec old) = Some g0 \<and> rs_ResourceRef (mr_Spec new) = Some g1 \<and>
               wh_GvkString env g0 = wh_GvkString env g1 \<and>
               rs_Resource (mr_Spec old) = Some r0 \<and> rs_Resource (mr_Spec new) = Some r1 \<and>
               jUnmarshalObject (wh_Codec env) r0 = Inr o0 \<and> jUnmarshalObject (wh_Codec env) r1 = Inr o1 \<and>
               om_Name (un_Meta o0) = om_Name (un_Meta o1))) \<and>
         (wellNamed new \<longrightarrow> rs_ResourceRef (mr_Spec old) = None \<or>
            rs_Resource (mr_Spec old) = None \<and>
            map_option (wh_GvkString env) (rs_ResourceRef (mr_Spec old)) =
              map_option (wh_GvkString env) (rs_ResourceRef (mr_Spec new)) \<longrightarrow>
            handleMultiClusterResource env req = Crash NilDereference)"
proof -
  have h: "handleMultiClusterResource env req =
      (case updateValidate env old new of
         Inr _ \<Rightarrow> Inr Allowed
       | Inl (Err (ErrMsg m)) \<Rightarrow> Inr (Denied m)
       | Inl (Err e) \<Rightarrow> Inr (Denied (jErrorText (wh_Codec env) e))
       | Inl f \<Rightarrow> Inl f)" if "wellNamed new"
    using that op new old by (auto simp: handleMultiClusterResource_def wellNamed_def bindR_def)
  have bad: "\<not> wellNamed new \<Longrightarrow> handleMultiClusterResource env req \<noteq> Inr Allowed"
    using new by (auto simp: handleMultiClusterResource_def wellNamed_def bindR_def split: sum.splits)
  have allowed: "updateValidate env old new = Inr () \<longleftrightarrow>
      (\<exists>g0 g1 r0 r1 o0 o1. rs_ResourceRef (mr_Spec old) = Some g0 \<and> rs_ResourceRef (mr_Spec new) = Some g1 \<and>
         wh_GvkString env g0 = wh_GvkString env g1 \<and>
         rs_Resource (mr_Spec old) = Some r0 \<and> rs_Resource (mr_Spec new) = Some r1 \<and>
         jUnmarshalObject (wh_Codec env) r0 = Inr o0 \<and> jUnmarshalObject (wh_Codec env) r1 = Inr o1 \<and>
         om_Name (un_Meta o0) = om_Name (un_Meta o1))"
    by (auto simp: updateValidate_def objectOf_def marshalFail_def GetResourceForRawExtension_def bindR_def liftE_def
        split: option.splits sum.splits)
  have panics: "updateValidate env old new = Crash NilDereference"
    if "wellNamed new" "rs_ResourceRef (mr_Spec old) = None \<or> rs_Resource (mr_Spec old) = None \<and>
        map_option (wh_GvkString env) (rs_ResourceRef (mr_Spec old)) =
          map_option (wh_GvkString env) (rs_ResourceRef (mr_Spec new))"
    using that by (auto simp: updateValidate_def objectOf_def marshalFail_def bindR_def wellNamed_def split: option.splits)
  show ?thesis
  proof (intro conjI impI)
    show "handleMultiClusterResource env req = Inr Allowed \<longleftrightarrow> wellNamed new \<and>
        (\<exists>g0 g1 r0 r1 o0 o1. rs_ResourceRef (mr_Spec old) = Some g0 \<and> rs_ResourceRef (mr_Spec new) = Some g1 \<and>
           wh_GvkString env g0 = wh_GvkString env g1 \<and>
           rs_Resource (mr_Spec old) = Some r0 \<and> rs_Resource (mr_Spec new) = Some r1 \<and>
           jUnmarshalObject (wh_Codec env) r0 = Inr o0 \<and> jUnmarshalObject (wh_Codec env) r1 = Inr o1 \<and>
           om_Name (un_Meta o0) = om_Name (un_Meta o1))"
      unfolding allowed [symmetric]
      using h bad by (cases "wellNamed new") (auto split: sum.splits fail.splits go_error.splits)
  qed (simp add: h panics)
qed

section \<open>Witness\<close>

text \<open>A resource moves from one namespace to another.\<close>

definition wxEnv :: webhook_env where
  "wxEnv = \<lparr>wh_Codec = memCodec\<lparr>jUnmarshalObject := (\<lambda>raw. Inr (un_Meta_update
       (\<lambda>m. m\<lparr>om_Namespace := raw\<rparr>) (memObject raw)))\<rparr>,
     wh_IsValidPathSegmentName = (\<lambda>s. []), wh_GvkString = gvk_Kind\<rparr>"

definition wxResource :: "raw \<Rightarrow> MultiClusterResource" where
  "wxResource raw = \<lparr>mr_Meta = zeroMeta\<lparr>om_Name := ''v1.pod.web''\<rparr>,
     mr_Spec = \<lparr>rs_Resource = Some raw,
       rs_ResourceRef = Some \<lparr>gvk_Group = [], gvk_Version = ''v1'', gvk_Kind = ''Pod''\<rparr>,
       rs_ReplicasField = [], rs_Workload = False\<rparr>, mr_Status = []\<rparr>"

lemma update_admission_witness:
  "handleMultiClusterResource wxEnv
     \<lparr>aq_Operation = opUpdate, aq_Object = Inr (wxResource ''prod''), aq_OldObject = Inr (wxResource ''test'')\<rparr>
   = Inr Allowed"
proof -
  let ?req = "\<lparr>aq_Operation = opUpdate, aq_Object = Inr (wxResource ''prod''), aq_OldObject = Inr (wxResource ''test'')\<rparr>"
  have "GvkLabelString (Some \<lparr>gvk_Group = [], gvk_Version = ''v1'', gvk_Kind = ''Pod''\<rparr>) = Inr ''v1.pod''"
    by code_simp
  then have "wellNamed (wxResource ''prod'')"
    by (simp add: wellNamed_def wxResource_def zeroMeta_def strHasPrefix_def)
  with update_admission [of ?req "wxResource ''prod''" "wxResource ''test''" wxEnv] show ?thesis
    by (simp add: wxEnv_def wxResource_def memObject_def)
qed

end
