(* ===== verification/Pipeline.thy ===== *)
theory Pipeline
  imports BindingType BindingProps ProxyProps
begin

text \<open>
  The way of a resource through the whole program: from the policy to the binding, from the binding to the
  cluster resources, over the stream to the proxy and from its cluster resource to the object; and the
  way back, when the cluster resource is deleted.
\<close>

section \<open>From the scheduler to the binding controller\<close>

text \<open>A binding without the overrides that the scheduler has computed.\<close>

definition bareResource :: "MultiClusterResourceBindingResource \<Rightarrow> string \<times> string \<times> string list" where
  "bareResource r = (br_Name r, br_Namespace r, map bc_Name (br_Clusters r))"

definition bareBinding :: "MultiClusterResourceBinding \<Rightarrow> ObjectMeta \<times> (string \<times> string \<times> string list) list" where
  "bareBinding b = (bd_Meta b, map bareResource (bd_Resources b))"

lemma syncOne_bare:
  assumes "bd_Meta b = bd_Meta b'" "br_Name r = br_Name r'" "br_Namespace r = br_Namespace r'" "bc_Name c = bc_Name c'"
  shows "syncOne k b r c m s = syncOne k b' r' c' m s"
proof -
  have "createOne k b r c mcr = createOne k b' r' c' mcr" and "updateOne k b r c mcr cr = updateOne k b' r' c' mcr cr" for mcr cr
    unfolding createOne_def updateOne_def Binding.newClusterResource_def assms by simp_all
  then show ?thesis by (simp only: syncOne_def assms)
qed

lemma syncOne_all_bare:
  assumes "bd_Meta b = bd_Meta b'" "br_Name r = br_Name r'" "br_Namespace r = br_Namespace r'"
  shows "map bc_Name cs = map bc_Name cs' \<Longrightarrow> forS (syncOne k b r) cs = forS (syncOne k b' r') cs'"
proof (induction cs arbitrary: cs')
  case (Cons c cs)
  then obtain c' ds where cs': "cs' = c' # ds" "bc_Name c = bc_Name c'" "map bc_Name cs = map bc_Name ds"
    by (cases cs') auto
  have "syncOne k b r c = syncOne k b' r' c'" by (intro ext syncOne_bare assms cs'(2))
  with Cons.IH [OF cs'(3)] show ?case unfolding cs'(1) by (intro ext) simp
qed (simp add: ext)

lemma sync_all_bare:
  assumes "bd_Meta b = bd_Meta b'"
  shows "map bareResource rs = map bareResource rs' \<Longrightarrow>
    forS (\<lambda>r. forS (syncOne k b r) (br_Clusters r)) rs = forS (\<lambda>r. forS (syncOne k b' r) (br_Clusters r)) rs'"
proof (induction rs arbitrary: rs')
  case (Cons r rs)
  then obtain r' ts where rs': "rs' = r' # ts" "bareResource r = bareResource r'" "map bareResource rs = map bareResource ts"
    by (cases rs') auto
  have "forS (syncOne k b r) (br_Clusters r) = forS (syncOne k b' r') (br_Clusters r')"
    using rs'(2) assms by (intro syncOne_all_bare) (simp_all add: bareResource_def)
  with Cons.IH [OF rs'(3)] show ?case unfolding rs'(1) by (intro ext) simp
qed (simp add: ext)

text \<open>
  C10: the replicas and the namespaces that the scheduler computes never reach a cluster: the controller of the
  bindings works alike on any two bindings that list the same clusters for the same resources, whatever
  overrides the clusters have. Only \<open>MultiClusterResourceOverride\<close>s are applied.
\<close>

theorem computed_overrides_are_ignored:
  assumes "bareBinding b = bareBinding b'"
  shows "SyncClusterResourceWithBinding k b = SyncClusterResourceWithBinding k b'"
proof -
  have m: "bd_Meta b = bd_Meta b'" and rs: "map bareResource (bd_Resources b) = map bareResource (bd_Resources b')"
    using assms by (simp_all add: bareBinding_def)
  have "bd_Resources b = [] \<longleftrightarrow> bd_Resources b' = []" using rs by auto
  then have "Binding.syncClusterResource k items b = Binding.syncClusterResource k items b'" for items
    using sync_all_bare [OF m rs, of k] by (simp add: Binding.syncClusterResource_def)
  then show ?thesis
    by (simp add: SyncClusterResourceWithBinding_def getClusterResourceListForBinding_def m)
qed


text \<open>Bindings of the scheduler name no namespace: the resources are looked up in that of the manager.\<close>

lemma syncOne_missing:
  "getMultiClusterResourceForName k s (br_Name r) (br_Namespace r) = Inl e \<Longrightarrow> syncOne k b r c m s = (Inr m, s)"
  by (simp add: syncOne_def)

lemma sync_missing:
  assumes "\<And>r. r \<in> set (bd_Resources b) \<Longrightarrow> \<exists>e. getMultiClusterResourceForName k s (br_Name r) (br_Namespace r) = Inl e"
  shows "Binding.syncClusterResource k [] b s = (Inr (), s)"
proof -
  have "forS (syncOne k b r) (br_Clusters r) m s = (Inr m, s)" if "r \<in> set (bd_Resources b)" for r m
    using assms [OF that] by (intro forS_noop) (auto intro: syncOne_missing)
  then have "forS (\<lambda>r. forS (syncOne k b r) (br_Clusters r)) (bd_Resources b) ([], None) s = (Inr ([], None), s)"
    by (rule forS_noop)
  then show ?thesis by (simp add: Binding.syncClusterResource_def changeClusterResourceListToMap_def)
qed

text \<open>
  C25: a policy in another namespace than the manager's has no effect: its schedule ends without an error and its
  binding is stored, but the controller of the bindings looks the resources up in the namespace of the
  manager and, when they are not there, creates nothing and reports nothing.
\<close>

theorem scheduled_elsewhere_creates_nothing:
  assumes laws: "binding_laws k" and p: "typed_policy policy" and choose: "chooseBinding k s policy = Inr (Some b)"
    and live: "\<And>x. api_Get (kBinding k) s (om_Namespace (bd_Meta b)) (om_Name (bd_Meta b)) = Inr x \<Longrightarrow>
                 om_DeletionTimestamp (bd_Meta x) = None"
    and run: "doSchedule k now policy s = (Inr (doneResult, None), s')"
    and missing: "\<And>r. r \<in> set (ps_Resources (po_Spec policy)) \<Longrightarrow>
        \<exists>e. api_Get (kMultiClusterResource k) s' ManagerNamespace (pr_Name r) = Inl e"
  shows "\<exists>x. api_Get (kBinding k) s' (policyNamespace policy) (Scheduler @ ''-'' @ om_Name (po_Meta policy)) = Inr x \<and>
           map br_Name (bd_Resources x) = map pr_Name (ps_Resources (po_Spec policy)) \<and>
           Binding.syncClusterResource k [] x s' = (Inr (), s')"
proof -
  from doSchedule_writes [OF laws choose live run] obtain x where
    x: "api_Get (kBinding k) s' (om_Namespace (bd_Meta b)) (om_Name (bd_Meta b)) = Inr x" "bd_Resources x = bd_Resources b"
    by blast
  have t: "typed_binding k s policy b" by (rule chooseBinding_typed [OF p choose])
  then have meta: "bd_Meta b = bd_Meta (addBindingMeta k policy)" and names: "map br_Name (bd_Resources b) = map pr_Name (ps_Resources (po_Spec policy))"
    and ns: "\<And>r. r \<in> set (bd_Resources b) \<Longrightarrow> br_Namespace r = []"
    by (auto simp: typed_binding_def list_all_iff) (metis MultiClusterResourceBinding.select_convs(1) MultiClusterResourceBinding.surjective MultiClusterResourceBinding.update_convs(2))
  have "\<exists>e. getMultiClusterResourceForName k s' (br_Name r) (br_Namespace r) = Inl e" if r: "r \<in> set (bd_Resources x)" for r
  proof -
    have "br_Name r \<in> set (map br_Name (bd_Resources b))" using r x(2) by auto
    then obtain q where "q \<in> set (ps_Resources (po_Spec policy))" "br_Name r = pr_Name q" unfolding names by auto
    with missing ns r x(2) show ?thesis by (simp add: getMultiClusterResourceForName_def)
  qed
  then have "Binding.syncClusterResource k [] x s' = (Inr (), s')" by (rule sync_missing)
  with x names meta show ?thesis by (auto simp: addBindingMeta_def)
qed

section \<open>Witnesses\<close>

lemma computed_overrides_are_ignored_witness:
  "\<exists>b b'. map br_Clusters (bd_Resources b) \<noteq> map br_Clusters (bd_Resources b') \<and>
     SyncClusterResourceWithBinding memKube b = SyncClusterResourceWithBinding memKube b'"
proof (intro exI conjI)
  let ?b = "bxBinding [bxBindingResource ''web'' [''c1'']]"
  let ?b' = "bxBinding [(bxBindingResource ''web'' [''c1''])\<lparr>br_Clusters :=
     [appendOverride ''/spec/replicas'' ''7'' (bindingCluster ''c1'')]\<rparr>]"
  show "map br_Clusters (bd_Resources ?b) \<noteq> map br_Clusters (bd_Resources ?b')"
    by (simp add: bxBinding_def bxBindingResource_def appendOverride_def bindingCluster_def)
  show "SyncClusterResourceWithBinding memKube ?b = SyncClusterResourceWithBinding memKube ?b'"
    by (rule computed_overrides_are_ignored)
       (simp add: bareBinding_def bareResource_def bxBinding_def bxBindingResource_def appendOverride_def bindingCluster_def)
qed

lemma scheduled_elsewhere_creates_nothing_witness:
  "let s' = snd (doSchedule memKube 7 (exFederation 20) exStored) in
   \<exists>x. api_Get (kBinding memKube) s' ''ns'' ''multiclusterresourceschedulepolicy-p'' = Inr x \<and>
     map br_Name (bd_Resources x) = [''web''] \<and> Binding.syncClusterResource memKube [] x s' = (Inr (), s')"
proof -
  let ?s' = "snd (doSchedule memKube 7 (exFederation 20) exStored)"
  have t: "typed_policy (exFederation 20)"
    by (simp add: typed_policy_def typed_entry_def exFederation_def exPolicy_def exPolicies_def in_int64_def)
  have "case chooseBinding memKube exStored (exFederation 20) of Inl e \<Rightarrow> False | Inr b \<Rightarrow> b \<noteq> None" by code_simp
  then obtain b where b: "chooseBinding memKube exStored (exFederation 20) = Inr (Some b)" by (auto split: sum.splits)
  have "fst (doSchedule memKube 7 (exFederation 20) exStored) = Inr (doneResult, None)" by code_simp
  then have run: "doSchedule memKube 7 (exFederation 20) exStored = (Inr (doneResult, None), ?s')" by (metis prod.collapse)
  have live: "om_DeletionTimestamp (bd_Meta x) = None"
    if "api_Get (kBinding memKube) exStored (om_Namespace (bd_Meta b)) (om_Name (bd_Meta b)) = Inr x" for x
    using that by (simp add: memKube_def memApi_def memGet_def findObj_def exStored_def exMem_def emptyMem_def)
  have missing: "api_Get (kMultiClusterResource memKube) ?s' ManagerNamespace ''web'' = Inl NotFound" by code_simp
  have pol: "ps_Resources (po_Spec (exFederation 20)) = [\<lparr>pr_Name = ''web''\<rparr>]" "policyNamespace (exFederation 20) = ''ns''"
      "Scheduler @ ''-'' @ om_Name (po_Meta (exFederation 20)) = ''multiclusterresourceschedulepolicy-p''"
    by (simp_all add: exFederation_def exPolicy_def exMeta_def Scheduler_def)
  from scheduled_elsewhere_creates_nothing [OF mem_binding_laws t b live run] missing pol show ?thesis by (simp add: Let_def)
qed

end
