(* ===== verification/Delivery.thy ===== *)
theory Delivery
  imports Pipeline
begin

text \<open>
  The whole way, over two servers and the stream between them: from a binding in the core to the object in the
  cluster of a proxy, and from the deletion of a cluster resource in the core to that of the object.
\<close>

section \<open>Parts of the way\<close>

text \<open>A reconcile of a cluster resource, of which only what it leaves is followed.\<close>

definition reconciledOnce :: "('s, 'c) process \<Rightarrow> string \<Rightarrow> string \<Rightarrow> 's \<times> 'c globals \<Rightarrow> 's \<times> 'c globals" where
  "reconciledOnce p ns n w = snd (reconcileClusterResource p ns n w)"

definition reconciledTwice :: "('s, 'c) process \<Rightarrow> string \<Rightarrow> string \<Rightarrow> 's \<times> 'c globals \<Rightarrow> 's \<times> 'c globals" where
  "reconciledTwice p ns n w = reconciledOnce p ns n (reconciledOnce p ns n w)"

text \<open>The namespaces a process looks at: those of the clusters in the core, the others in a proxy.\<close>

definition looksAt :: "('s, 'c) process \<Rightarrow> string \<Rightarrow> bool" where
  "looksAt p ns \<longleftrightarrow> pc_IsControlPlane p = strHasPrefix ns ClusterNamespaceInControlPlanePrefix"

text \<open>What both need of a server: the laws, and that it lets the writes through.\<close>

definition cluster_resource_server :: "'s kube \<Rightarrow> bool" where
  "cluster_resource_server k \<longleftrightarrow>
     finalized_object cr_Meta cr_Meta_update (kClusterResource k) cr_Resource cr_Status \<and>
     creatable (kClusterResource k) cr_Meta \<and> writable (kClusterResource k) cr_Meta \<and> deletable (kClusterResource k) cr_Meta"

lemma server_kind:
  assumes "cluster_resource_server k"
  shows "finalized_object cr_Meta cr_Meta_update (kClusterResource k) cr_Resource cr_Status"
    and "api_kind (kClusterResource k) cr_Meta cr_Resource"
    and "api_delete_kind (kClusterResource k) cr_Meta cr_Resource cr_Status"
    and "creatable (kClusterResource k) cr_Meta" "writable (kClusterResource k) cr_Meta" "deletable (kClusterResource k) cr_Meta"
  using assms by (auto simp: cluster_resource_server_def finalized_object_def api_delete_kind_def api_status_kind_def)

lemma apartD:
  assumes "apart a b"
  shows "api_Create a obj s = (r, s') \<Longrightarrow> api_Get b s' = api_Get b s" "api_Update a obj s = (r, s') \<Longrightarrow> api_Get b s' = api_Get b s"
    "api_UpdateStatus a obj s = (r, s') \<Longrightarrow> api_Get b s' = api_Get b s" "api_Delete a obj s = (e, s') \<Longrightarrow> api_Get b s' = api_Get b s"
  using assms unfolding apart_def by (metis snd_conv)+

text \<open>The first reconcile of a fresh cluster resource adds the finalizer and does nothing else.\<close>

lemma first_reconcile:
  fixes b :: "('s, 'o) api"
  assumes laws: "cluster_resource_server (pc_Kube p)" and at: "looksAt p ns"
    and g: "api_Get (kClusterResource (pc_Kube p)) s ns n = Inr x" and x: "freshWith info x"
  obtains y s' where "reconciledOnce p ns n (s, g) = (s', g)"
    and "api_Get (kClusterResource (pc_Kube p)) s' ns n = Inr y" and "cr_Resource y = info"
    and "om_Finalizers (cr_Meta y) = [FinalizerName]" and "om_DeletionTimestamp (cr_Meta y) = None"
    and "apart (kClusterResource (pc_Kube p)) b \<Longrightarrow> api_Get b s' = api_Get b s"
proof -
  let ?a = "kClusterResource (pc_Kube p)"
  note srv = server_kind [OF laws]
  have new: "ShouldAddFinalizer cr_Meta x" using x by (simp add: ShouldAddFinalizer_def freshWith_def)
  obtain y s' where y: "AddFinalizer cr_Meta cr_Meta_update ?a x s = (Inr y, s')" "api_Get ?a s' ns n = Inr y"
      "cr_Resource y = cr_Resource x" "om_Finalizers (cr_Meta y) = om_Finalizers (cr_Meta x) @ [FinalizerName]"
      "om_DeletionTimestamp (cr_Meta y) = None"
    using finalized_object.added [OF srv(1) g new srv(5)] by blast
  have run: "reconciledOnce p ns n (s, g) = (s', g)"
    using at g new y(1) by (simp add: reconciledOnce_def reconcileClusterResource_def looksAt_def)
  have "api_Get b s' = api_Get b s" if "apart ?a b"
    using y(1) new apartD(2) [OF that] by (auto simp: AddFinalizer_def ShouldAddFinalizer_def split: prod.splits)
  with that run y x show ?thesis by (simp add: freshWith_def)
qed

text \<open>A message decodes to what was encoded: the name and the resource.\<close>

definition carries :: "codec \<Rightarrow> string \<Rightarrow> string \<Rightarrow> raw \<Rightarrow> bool" where
  "carries j ns n raw \<longleftrightarrow>
     (\<forall>inst. om_Namespace (cr_Meta inst) = ns \<longrightarrow> om_Name (cr_Meta inst) = n \<longrightarrow> cr_Resource inst = Some raw \<longrightarrow>
        (\<exists>body cr. body \<noteq> [] \<and> jMarshalClusterResources j [inst] = Inr body \<and>
           jUnmarshalClusterResources j body = ([cr], None) \<and> om_Name (cr_Meta cr) = n \<and> cr_Resource cr = Some raw))"

text \<open>The message that the core has sent, for one that took it.\<close>

definition deliveredTo :: "codec \<Rightarrow> 'c Stream \<Rightarrow> sync_event \<Rightarrow> string \<Rightarrow> string \<Rightarrow> raw \<Rightarrow> 'c globals \<Rightarrow> 'c globals \<Rightarrow> Response \<Rightarrow> bool" where
  "deliveredTo j st event cluster n raw g g' rp \<longleftrightarrow>
     gl_Responses g' = gl_Responses g @ [(st_Stream st, rp)] \<and> rp_Type rp = syncType event \<and> rp_ClusterName rp = cluster \<and>
     (\<exists>cr. jUnmarshalClusterResources j (rp_Body rp) = ([cr], None) \<and> om_Name (cr_Meta cr) = n \<and> cr_Resource cr = Some raw)"

lemma core_sends:
  assumes cl: "cluster \<noteq> []" "\<not> strContains cluster ClusterNamespaceInControlPlanePrefix"
    and inst: "om_Namespace (cr_Meta inst) = ClusterNamespace cluster" "om_Name (cr_Meta inst) = n" "cr_Resource inst = Some raw"
    and stream: "FindStream (gl_Table g) cluster = Some st" "\<And>m. nt_SendResponse net (st_Stream st) m = None"
    and codec: "carries j (ClusterNamespace cluster) n raw"
  obtains rp g' where "sendClusterResourceToProxy j net event inst g = (Inr (), g')"
    and "deliveredTo j st event cluster n raw g g' rp"
proof -
  from codec inst obtain body cr where body: "body \<noteq> []" "jMarshalClusterResources j [inst] = Inr body"
      "jUnmarshalClusterResources j body = ([cr], None)" "om_Name (cr_Meta cr) = n" "cr_Resource cr = Some raw"
    unfolding carries_def by blast
  let ?rp = "\<lparr>rp_Type = syncType event, rp_ClusterName = cluster, rp_Body = body\<rparr>"
  have "sendClusterResourceToProxy j net event inst g = (Inr (), g\<lparr>gl_Responses := gl_Responses g @ [(st_Stream st, ?rp)]\<rparr>)"
    by (rule sendClusterResource_sent [OF cl inst(1) stream(1) body(2,1) refl stream(2)])
  moreover have "deliveredTo j st event cluster n raw g (g\<lparr>gl_Responses := gl_Responses g @ [(st_Stream st, ?rp)]\<rparr>) ?rp"
    using body by (simp add: deliveredTo_def)
  ultimately show ?thesis by (rule that)
qed

definition receives :: "sync_event \<Rightarrow> 's kube \<Rightarrow> ClusterResource \<Rightarrow> ('s, unit) step" where
  "receives event k cr =
     (if event = SyncEventTypeDelete then DeleteProxyClusterResource k cr else SyncProxyClusterResource k cr)"

lemma delivered_received:
  fixes k :: "'s kube"
  assumes "deliveredTo j st event cluster n raw g g' rp" and "jUnmarshalObject j raw = Inr obj"
  obtains cr where "om_Namespace (cr_Meta cr) = om_Namespace (un_Meta obj)" "om_Name (cr_Meta cr) = n" "cr_Resource cr = Some raw"
    and "\<And>u. RecvSyncResourceResponse k j rp u = snd (receives event k cr u)"
proof -
  from assms(1) obtain cr where cr: "jUnmarshalClusterResources j (rp_Body rp) = ([cr], None)" "om_Name (cr_Meta cr) = n"
      "cr_Resource cr = Some raw" and ty: "rp_Type rp = syncType event" "rp_ClusterName rp = cluster"
    unfolding deliveredTo_def by blast
  have "rp = \<lparr>rp_Type = syncType event, rp_ClusterName = cluster, rp_Body = rp_Body rp\<rparr>" using ty by simp
  then have "RecvSyncResourceResponse k j rp u = snd (receives event k (movedTo obj cr) u)" for u
    using received_resource [OF cr(1,3) assms(2)] unfolding receives_def by metis
  with cr show ?thesis by (intro that [of "movedTo obj cr"]) simp_all
qed

text \<open>What a proxy stores for a cluster resource it does not have.\<close>

lemma stores_fresh:
  fixes b :: "('s, 'o) api"
  assumes laws: "cluster_resource_server k" and cr: "om_Namespace (cr_Meta cr) = ns" "om_Name (cr_Meta cr) = n" "cr_Resource cr = Some raw"
    and none: "api_Get (kClusterResource k) t ns n = Inl NotFound"
  obtains x where "api_Get (kClusterResource k) (snd (SyncProxyClusterResource k cr t)) ns n = Inr x" and "freshWith (Some raw) x"
    and "apart (kClusterResource k) b \<Longrightarrow> api_Get b (snd (SyncProxyClusterResource k cr t)) = api_Get b t"
proof -
  let ?new = "ClusterResourceControl.newClusterResource cr"
  note srv = server_kind [OF laws]
  have new: "om_Namespace (cr_Meta ?new) = ns" "om_Name (cr_Meta ?new) = n" "freshWith (Some raw) ?new"
    using cr by (simp_all add: ClusterResourceControl.newClusterResource_def freshWith_def zeroMeta_def)
  from srv(4) none new(1,2) obtain x t' where c: "api_Create (kClusterResource k) ?new t = (Inr x, t')"
    unfolding creatable_def by metis
  have run: "SyncProxyClusterResource k cr t = (Inr (), t')"
    using none c cr by (simp add: SyncProxyClusterResource_def bindS_def writeS_def)
  have x: "sameMeta (cr_Meta x) (cr_Meta ?new)" "cr_Resource x = cr_Resource ?new" "api_Get (kClusterResource k) t' ns n = Inr x"
    using api_kind.get_create [OF srv(2) c, of ns n] new(1,2) by simp_all
  have "freshWith (Some raw) x" using new(3) x(2) sameMeta_fields [OF x(1)] by (simp add: freshWith_def)
  moreover have "api_Get b t' = api_Get b t" if "apart (kClusterResource k) b" by (rule apartD(1) [OF that c])
  ultimately show ?thesis using that x(3) run by simp
qed

text \<open>
  What a process sends to its server for the object of a cluster resource: the object as it is in the resource, owned by
  the cluster resource; only the annotations may differ.
\<close>

definition requested :: "'s kube \<Rightarrow> string \<Rightarrow> string \<Rightarrow> Unstructured \<Rightarrow> Unstructured \<Rightarrow> bool" where
  "requested k ns n obj w \<longleftrightarrow>
     un_GVK w = un_GVK obj \<and> un_Object w = un_Object obj \<and>
     (\<exists>m annotations. om_Namespace m = ns \<and> om_Name m = n \<and>
        un_Meta w = (un_Meta obj)\<lparr>om_OwnerReferences := [kControllerRef k m ''ClusterResource''], om_Annotations := annotations\<rparr>)"

lemma requested_meta:
  "requested k ns n obj w \<Longrightarrow> om_Namespace (un_Meta w) = om_Namespace (un_Meta obj) \<and> om_Name (un_Meta w) = om_Name (un_Meta obj)"
  by (auto simp: requested_def)

lemma requested_object:
  assumes "GetClusterResourceObjectForRawExtension k j cr = Inr o1" and "cr_Resource cr = Some raw"
    and "jUnmarshalObject j raw = Inr obj" and "om_Namespace (cr_Meta cr) = ns" "om_Name (cr_Meta cr) = n"
  shows "requested k ns n obj o1" and "requested k ns n obj (annotated j o1)"
proof -
  have o1: "o1 = un_Meta_update (\<lambda>m. m\<lparr>om_OwnerReferences := [kControllerRef k (cr_Meta cr) ''ClusterResource'']\<rparr>) obj"
    using assms(1-3) by (simp add: GetClusterResourceObjectForRawExtension_def GetResourceForRawExtension_def liftE_def)
  have "un_Meta o1 = (un_Meta obj)\<lparr>om_OwnerReferences := [kControllerRef k (cr_Meta cr) ''ClusterResource''],
      om_Annotations := om_Annotations (un_Meta o1)\<rparr>" by (simp add: o1)
  then have "\<exists>annotations. un_Meta o1 = (un_Meta obj)\<lparr>om_OwnerReferences := [kControllerRef k (cr_Meta cr) ''ClusterResource''],
      om_Annotations := annotations\<rparr>" by blast
  moreover have "un_GVK o1 = un_GVK obj" "un_Object o1 = un_Object obj" by (simp_all add: o1)
  ultimately show r: "requested k ns n obj o1" using assms(4,5) unfolding requested_def by blast
  have "un_GVK (annotated j o1) = un_GVK o1" "un_Object (annotated j o1) = un_Object o1"
    "\<exists>b. un_Meta (annotated j o1) = (un_Meta o1)\<lparr>om_Annotations := b\<rparr>"
    by (auto simp: annotated_def setAnnotations_def split: sum.splits intro: exI [of _ "om_Annotations (un_Meta o1)"])
  with r show "requested k ns n obj (annotated j o1)" unfolding requested_def by fastforce
qed

text \<open>
  The object that a process has created: it was not there, the server accepted a request for it, and what is there now is
  the answer of the server.
\<close>

definition createdThere :: "'s kube \<Rightarrow> string \<Rightarrow> string \<Rightarrow> Unstructured \<Rightarrow> 's \<Rightarrow> bool" where
  "createdThere k ns n obj t \<longleftrightarrow>
     (let a = kObject k (un_GVK obj); ons = om_Namespace (un_Meta obj); name = om_Name (un_Meta obj) in
      \<exists>w x u u'. requested k ns n obj w \<and> api_Get a u ons name = Inl NotFound \<and> api_Create a w u = (Inr x, u') \<and>
        api_Get a t ons name = Inr x)"

text \<open>The reconcile of a proxy that creates the object. Its report to the core may fail.\<close>

lemma status_apart:
  assumes "apart (kClusterResource (pc_Kube p)) b"
  shows "api_Get b (fst (snd (updateClusterResourceStatus p inst status (s, h)))) = api_Get b s"
proof -
  obtain r h' where "sendStatusToControlPlane (pc_Codec p) (pc_Net p) (pc_ClusterName p) (inst\<lparr>cr_Status := status\<rparr>) h = (r, h')"
    by (cases "sendStatusToControlPlane (pc_Codec p) (pc_Net p) (pc_ClusterName p) (inst\<lparr>cr_Status := status\<rparr>) h")
  then show ?thesis
    by (cases r) (auto simp: updateClusterResourceStatus_def Let_def onServer_def writeS_def bindS_def
        split: prod.splits sum.splits dest: apartD(3) [OF assms])
qed

lemma second_reconcile:
  assumes proxy: "\<not> pc_IsControlPlane p" "looksAt p ns" and kind: "api_kind (kClusterResource (pc_Kube p)) cr_Meta cr_Resource"
    and g: "api_Get (kClusterResource (pc_Kube p)) s ns n = Inr y" "cr_Resource y = Some raw"
      "om_Finalizers (cr_Meta y) = [FinalizerName]" "om_DeletionTimestamp (cr_Meta y) = None"
    and obj: "jUnmarshalObject (pc_Codec p) raw = Inr obj"
    and objects: "object_kind (kObject (pc_Kube p) (un_GVK obj))"
      "creatable (kObject (pc_Kube p) (un_GVK obj)) un_Meta"
      "apart (kClusterResource (pc_Kube p)) (kObject (pc_Kube p) (un_GVK obj))"
    and none: "api_Get (kObject (pc_Kube p) (un_GVK obj)) s (om_Namespace (un_Meta obj)) (om_Name (un_Meta obj)) = Inl NotFound"
  shows "createdThere (pc_Kube p) ns n obj (fst (reconciledOnce p ns n (s, h)))"
proof -
  let ?j = "pc_Codec p" and ?o = "kObject (pc_Kube p) (un_GVK obj)"
  obtain o1 where o1: "GetClusterResourceObjectForRawExtension (pc_Kube p) ?j y = Inr o1" "un_GVK o1 = un_GVK obj"
    using g(2) obj by (simp add: GetClusterResourceObjectForRawExtension_def GetResourceForRawExtension_def liftE_def)
  have w: "requested (pc_Kube p) ns n obj (annotated ?j o1)" "requested (pc_Kube p) ns n obj o1"
    using requested_object [OF o1(1) g(2) obj] api_kind.get_key [OF kind g(1)] by simp_all
  note meta = requested_meta [OF w(1)] requested_meta [OF w(2)]
  from objects(2) none meta obtain o2 s1 where c: "api_Create ?o (annotated ?j o1) s = (Inr o2, s1)"
    unfolding creatable_def by metis
  have o2: "api_Get ?o s1 (om_Namespace (un_Meta obj)) (om_Name (un_Meta obj)) = Inr o2"
    using object_kind.created [OF objects(1) c] meta by simp
  have sync: "syncResource (pc_Kube p) ?j y s = (Inr (), s1)"
    using o1 none c meta by (simp add: syncResource_def createResource_def)
  have "fst (reconciledOnce p ns n (s, h)) = fst (snd (updateClusterResourceStatusWithPhaseComplete p y (s1, h)))"
    using proxy g sync
    by (simp add: reconciledOnce_def reconcileClusterResource_def looksAt_def ShouldAddFinalizer_def syncClusterResource_def
        syncProxyClusterResource_def syncResourceAndUpdateStatus_def requeueS_def doneS_def
        split: prod.splits sum.splits fail.splits)
  moreover have "api_Get ?o (fst (snd (updateClusterResourceStatusWithPhaseComplete p y (s1, h)))) = api_Get ?o s1"
    by (simp add: updateClusterResourceStatusWithPhaseComplete_def status_apart [OF objects(3)])
  ultimately show ?thesis using o2 w(1) none c unfolding createdThere_def Let_def by metis
qed

text \<open>The two reconciles of a fresh cluster resource in the core: the second one sends it.\<close>

lemma core_pushes:
  assumes laws: "cluster_resource_server (pc_Kube core)" and at: "pc_IsControlPlane core" "cluster \<noteq> []"
      "\<not> strContains cluster ClusterNamespaceInControlPlanePrefix"
    and x: "api_Get (kClusterResource (pc_Kube core)) s (ClusterNamespace cluster) n = Inr x" "freshWith (Some raw) x"
    and codec: "carries (pc_Codec core) (ClusterNamespace cluster) n raw"
    and stream: "FindStream (gl_Table g) cluster = Some st" "\<And>m. nt_SendResponse (pc_Net core) (st_Stream st) m = None"
  obtains rp g' where "g' = snd (reconciledTwice core (ClusterNamespace cluster) n (s, g))"
    and "deliveredTo (pc_Codec core) st SyncEventTypeUpdate cluster n raw g g' rp"
proof -
  let ?cns = "ClusterNamespace cluster" and ?k = "pc_Kube core"
  have core: "looksAt core ?cns" using at(1) by (simp add: looksAt_def ClusterNamespace_def)
  obtain y s2 where y: "reconciledOnce core ?cns n (s, g) = (s2, g)" "api_Get (kClusterResource ?k) s2 ?cns n = Inr y"
      "cr_Resource y = Some raw" "om_Finalizers (cr_Meta y) = [FinalizerName]" "om_DeletionTimestamp (cr_Meta y) = None"
    using first_reconcile [OF laws core x, where b = "kCluster ?k" and g = g] by blast
  have key: "om_Namespace (cr_Meta y) = ?cns" "om_Name (cr_Meta y) = n"
    using api_kind.get_key [OF server_kind(2) [OF laws] y(2)] by simp_all
  obtain rp g' where sent: "sendClusterResourceToProxy (pc_Codec core) (pc_Net core) SyncEventTypeUpdate y g = (Inr (), g')"
    and del: "deliveredTo (pc_Codec core) st SyncEventTypeUpdate cluster n raw g g' rp"
    using core_sends [OF at(2,3) key y(3) stream codec] by blast
  have "reconcileClusterResource core ?cns n (s2, g) = (Inr (doneResult, None), (s2, g'))"
    using core at(1) y sent
    by (simp add: reconcileClusterResource_def looksAt_def ShouldAddFinalizer_def syncClusterResource_def
        syncCoreClusterResource_def)
  then have "g' = snd (reconciledTwice core ?cns n (s, g))"
    by (simp add: reconciledTwice_def y(1)) (simp add: reconciledOnce_def)
  with del show ?thesis by (rule that [rotated])
qed

text \<open>The receipt of the message in the proxy and two reconciles there: the second one creates the object.\<close>

lemma proxy_creates:
  assumes del: "deliveredTo (pc_Codec proxy) st SyncEventTypeUpdate cluster n raw g g' rp"
    and obj: "jUnmarshalObject (pc_Codec proxy) raw = Inr obj" "ons = om_Namespace (un_Meta obj)"
    and at: "\<not> pc_IsControlPlane proxy" "\<not> strHasPrefix ons ClusterNamespaceInControlPlanePrefix"
    and servers: "cluster_resource_server (pc_Kube proxy)" "object_kind (kObject (pc_Kube proxy) (un_GVK obj))"
      "creatable (kObject (pc_Kube proxy) (un_GVK obj)) un_Meta"
      "apart (kClusterResource (pc_Kube proxy)) (kObject (pc_Kube proxy) (un_GVK obj))"
    and none: "api_Get (kClusterResource (pc_Kube proxy)) t ons n = Inl NotFound"
      "api_Get (kObject (pc_Kube proxy) (un_GVK obj)) t ons (om_Name (un_Meta obj)) = Inl NotFound"
  shows "createdThere (pc_Kube proxy) ons n obj
           (fst (reconciledTwice proxy ons n (RecvSyncResourceResponse (pc_Kube proxy) (pc_Codec proxy) rp t, h)))"
proof -
  let ?kp = "pc_Kube proxy" and ?a = "kClusterResource (pc_Kube proxy)" and ?o = "kObject (pc_Kube proxy) (un_GVK obj)"
  obtain cr where "om_Namespace (cr_Meta cr) = om_Namespace (un_Meta obj)" and "om_Name (cr_Meta cr) = n" and "cr_Resource cr = Some raw"
    and "\<And>u. RecvSyncResourceResponse ?kp (pc_Codec proxy) rp u = snd (receives SyncEventTypeUpdate ?kp cr u)"
    using delivered_received [OF del obj(1), of ?kp] by blast
  then have cr: "om_Namespace (cr_Meta cr) = ons" "om_Name (cr_Meta cr) = n" "cr_Resource cr = Some raw"
      "RecvSyncResourceResponse ?kp (pc_Codec proxy) rp t = snd (SyncProxyClusterResource ?kp cr t)"
    using obj(2) by (simp_all add: receives_def)
  obtain z where z: "api_Get ?a (snd (SyncProxyClusterResource ?kp cr t)) ons n = Inr z" "freshWith (Some raw) z"
      "api_Get ?o (snd (SyncProxyClusterResource ?kp cr t)) = api_Get ?o t"
    using stores_fresh [OF servers(1) cr(1-3) none(1), of ?o] servers(4) by blast
  have proxy: "looksAt proxy ons" using at by (simp add: looksAt_def)
  obtain y t2 where y: "reconciledOnce proxy ons n (snd (SyncProxyClusterResource ?kp cr t), h) = (t2, h)"
      "api_Get ?a t2 ons n = Inr y" "cr_Resource y = Some raw" "om_Finalizers (cr_Meta y) = [FinalizerName]"
      "om_DeletionTimestamp (cr_Meta y) = None" "api_Get ?o t2 = api_Get ?o (snd (SyncProxyClusterResource ?kp cr t))"
    using first_reconcile [OF servers(1) proxy z(1,2), where b = ?o and g = h] servers(4) by blast
  have "createdThere ?kp ons n obj (fst (reconciledOnce proxy ons n (t2, h)))"
    using second_reconcile [OF at(1) proxy server_kind(2) [OF servers(1)] y(2-5) obj(1), of h] servers(2-4) none(2) z(3) y(6)
    by (simp add: obj(2))
  then show ?thesis by (simp add: reconciledTwice_def cr(4) y(1))
qed

section \<open>From the binding to the object\<close>

text \<open>
  C1: the resource of a binding reaches the cluster: one synchronisation of a fresh binding, two reconciles
  of the cluster resource in the core, the message on the stream of the cluster, its receipt and two
  reconciles in the proxy, and the proxy has sent its server a request to create the object, with exactly the
  contents of the resource of the binding after the overrides, and the object there is what the server made of
  this request, whatever it has defaulted, pruned or added. Both servers let the writes through, the stream takes its
  messages and the codec is faithful to this resource.
\<close>

theorem binding_reaches_object:
  fixes core :: "('s, 'c) process" and proxy :: "('t, 'd) process"
  defines "k \<equiv> pc_Kube core" and "objects \<equiv> kObject (pc_Kube proxy)"
  assumes binding: "creation_laws k" "\<And>p. p \<in> set (pairs b) \<Longrightarrow> targetOf k s b p = Inr (loc p, info p)"
      "distinct (map loc (pairs b))"
      "\<And>p. p \<in> set (pairs b) \<Longrightarrow> api_Get (kClusterResource k) s (fst (loc p)) (snd (loc p)) = Inl NotFound"
    and pair: "p \<in> set (pairs b)" "loc p = (ClusterNamespace cluster, n)" "info p = Some raw"
    and obj: "jUnmarshalObject (pc_Codec proxy) raw = Inr obj" "ons = om_Namespace (un_Meta obj)"
      "carries (pc_Codec proxy) (ClusterNamespace cluster) n raw" "pc_Codec core = pc_Codec proxy"
    and at: "pc_IsControlPlane core" "cluster \<noteq> []" "\<not> strContains cluster ClusterNamespaceInControlPlanePrefix"
      "\<not> pc_IsControlPlane proxy" "\<not> strHasPrefix ons ClusterNamespaceInControlPlanePrefix"
    and servers: "cluster_resource_server k" "cluster_resource_server (pc_Kube proxy)"
      "object_kind (objects (un_GVK obj))" "creatable (objects (un_GVK obj)) un_Meta"
      "apart (kClusterResource (pc_Kube proxy)) (objects (un_GVK obj))"
    and stream: "FindStream (gl_Table g) cluster = Some st" "\<And>m. nt_SendResponse (pc_Net core) (st_Stream st) m = None"
    and none: "api_Get (kClusterResource (pc_Kube proxy)) t ons n = Inl NotFound"
      "api_Get (objects (un_GVK obj)) t ons (om_Name (un_Meta obj)) = Inl NotFound"
  shows "\<exists>s' g' rp. Binding.syncClusterResource k [] b s = (Inr (), s') \<and>
           g' = snd (reconciledTwice core (ClusterNamespace cluster) n (s', g)) \<and>
           gl_Responses g' = gl_Responses g @ [(st_Stream st, rp)] \<and> rp_ClusterName rp = cluster \<and>
           createdThere (pc_Kube proxy) ons n obj
             (fst (reconciledTwice proxy ons n (RecvSyncResourceResponse (pc_Kube proxy) (pc_Codec proxy) rp t, h)))"
proof -
  let ?cns = "ClusterNamespace cluster"
  from forS_fresh [OF binding(1-4)] obtain s' where
    "forS (\<lambda>(r, c). syncOne k b r c) (pairs b) ([], None) s = (Inr ([], None), s')"
    "\<forall>p\<in>set (pairs b). \<exists>x. api_Get (kClusterResource k) s' (fst (loc p)) (snd (loc p)) = Inr x \<and> freshWith (info p) x"
    by blast
  moreover have "bd_Resources b \<noteq> []" using pair(1) by (auto simp: pairs_def)
  ultimately have sync: "Binding.syncClusterResource k [] b s = (Inr (), s')"
    and "\<exists>x. api_Get (kClusterResource k) s' ?cns n = Inr x \<and> freshWith (Some raw) x"
    using pair by (auto simp: Binding.syncClusterResource_def changeClusterResourceListToMap_def forS_pairs pairs_def [symmetric])
  then obtain x where x: "api_Get (kClusterResource (pc_Kube core)) s' ?cns n = Inr x" "freshWith (Some raw) x"
    by (auto simp: k_def)
  obtain rp g' where g': "g' = snd (reconciledTwice core ?cns n (s', g))"
    and del: "deliveredTo (pc_Codec proxy) st SyncEventTypeUpdate cluster n raw g g' rp"
    using core_pushes [OF servers(1) [unfolded k_def] at(1-3) x obj(3) [folded obj(4)] stream, unfolded obj(4)] by blast
  show ?thesis
    using sync g' del proxy_creates [OF del obj(1,2) at(4,5) servers(2-5) [unfolded objects_def] none [unfolded objects_def], of h]
    by (intro exI [of _ s'] exI [of _ g'] exI [of _ rp]) (simp add: deliveredTo_def objects_def)
qed

text \<open>The reconcile of the core for a cluster resource being deleted: it is sent, and then it is gone.\<close>

lemma core_lets_go:
  assumes laws: "cluster_resource_server (pc_Kube core)" and at: "pc_IsControlPlane core" "cluster \<noteq> []"
      "\<not> strContains cluster ClusterNamespaceInControlPlanePrefix"
    and inst: "api_Get (kClusterResource (pc_Kube core)) s (ClusterNamespace cluster) n = Inr inst"
      "om_DeletionTimestamp (cr_Meta inst) \<noteq> None" "om_Finalizers (cr_Meta inst) = [FinalizerName]" "cr_Resource inst = Some raw"
    and codec: "carries (pc_Codec core) (ClusterNamespace cluster) n raw"
    and stream: "FindStream (gl_Table g) cluster = Some st" "\<And>m. nt_SendResponse (pc_Net core) (st_Stream st) m = None"
  obtains rp s' g' where "reconciledOnce core (ClusterNamespace cluster) n (s, g) = (s', g')"
    and "api_Get (kClusterResource (pc_Kube core)) s' (ClusterNamespace cluster) n = Inl NotFound"
    and "deliveredTo (pc_Codec core) st SyncEventTypeDelete cluster n raw g g' rp"
proof -
  let ?cns = "ClusterNamespace cluster" and ?k = "pc_Kube core"
  note srv = server_kind [OF laws]
  have key: "om_Namespace (cr_Meta inst) = ?cns" "om_Name (cr_Meta inst) = n" using api_kind.get_key [OF srv(2) inst(1)] by simp_all
  obtain rp g' where sent: "sendClusterResourceToProxy (pc_Codec core) (pc_Net core) SyncEventTypeDelete inst g = (Inr (), g')"
    and del: "deliveredTo (pc_Codec core) st SyncEventTypeDelete cluster n raw g g' rp"
    using core_sends [OF at(2,3) key inst(4) stream codec] by blast
  obtain i2 s' where rem: "RemoveFinalizer cr_Meta cr_Meta_update (kClusterResource ?k) inst s = (Inr i2, s')"
    and gone: "api_Get (kClusterResource ?k) s' ?cns n = Inl NotFound"
    using finalized_object.removed [OF srv(1) inst(1-3) srv(5)] by blast
  have "reconciledOnce core ?cns n (s, g) = (s', g')"
    using at(1) inst sent rem
    by (simp add: reconciledOnce_def reconcileClusterResource_def ShouldAddFinalizer_def removeClusterResource_def
        deleteClusterResource_def ClusterNamespace_def)
  then show ?thesis using gone del by (rule that)
qed

text \<open>
  The object that a process has deleted: it was there, the server accepted a request to delete it, and now it is gone
  or, where finalizers or a graceful deletion keep it, marked.
\<close>

definition deletedThere :: "'s kube \<Rightarrow> string \<Rightarrow> string \<Rightarrow> Unstructured \<Rightarrow> 's \<Rightarrow> bool" where
  "deletedThere k ns n obj t \<longleftrightarrow>
     (let a = kObject k (un_GVK obj); ons = om_Namespace (un_Meta obj); name = om_Name (un_Meta obj) in
      \<exists>w x u u'. requested k ns n obj w \<and> api_Get a u ons name = Inr x \<and> api_Delete a w u = (None, u') \<and>
        going (api_Get a t ons name))"

text \<open>The reconcile of the proxy for a cluster resource being deleted: first the object goes, then the resource.\<close>

lemma proxy_lets_go:
  assumes laws: "cluster_resource_server (pc_Kube p)" and at: "\<not> pc_IsControlPlane p" "\<not> strHasPrefix ns ClusterNamespaceInControlPlanePrefix"
    and y: "api_Get (kClusterResource (pc_Kube p)) s ns n = Inr y" "om_DeletionTimestamp (cr_Meta y) \<noteq> None"
      "om_Finalizers (cr_Meta y) = [FinalizerName]" "cr_Resource y = Some raw" "rt_Phase (cr_Status y) \<noteq> phTerminating"
    and obj: "jUnmarshalObject (pc_Codec p) raw = Inr obj" "o' = kObject (pc_Kube p) (un_GVK obj)"
    and objects: "object_kind o'" "deletable o' un_Meta"
      "apart (kClusterResource (pc_Kube p)) o'" "apart o' (kClusterResource (pc_Kube p))"
    and x: "api_Get o' s (om_Namespace (un_Meta obj)) (om_Name (un_Meta obj)) = Inr x"
  shows "deletedThere (pc_Kube p) ns n obj (fst (reconciledOnce p ns n (s, h)))"
    and "api_Get (kClusterResource (pc_Kube p)) (fst (reconciledOnce p ns n (s, h))) ns n = Inl NotFound"
proof -
  let ?k = "pc_Kube p" and ?a = "kClusterResource (pc_Kube p)"
  note srv = server_kind [OF laws]
  obtain o1 where o1: "GetClusterResourceObjectForRawExtension ?k (pc_Codec p) y = Inr o1" "un_GVK o1 = un_GVK obj"
    using y(4) obj by (simp add: GetClusterResourceObjectForRawExtension_def GetResourceForRawExtension_def liftE_def)
  have w: "requested ?k ns n obj o1"
    using requested_object(1) [OF o1(1) y(4) obj(1)] api_kind.get_key [OF srv(2) y(1)] by simp
  note meta = requested_meta [OF w]
  from objects(2) x meta obtain t where d: "api_Delete o' o1 s = (None, t)" unfolding deletable_def by metis
  have gone: "going (api_Get o' t (om_Namespace (un_Meta obj)) (om_Name (un_Meta obj)))"
    using object_kind.deleted [OF objects(1) d] x meta by simp
  have y2: "api_Get ?a t ns n = Inr y" using apartD(4) [OF objects(4) d] y(1) by simp
  obtain y3 u where rem: "RemoveFinalizer cr_Meta cr_Meta_update ?a y t = (Inr y3, u)" and gone': "api_Get ?a u ns n = Inl NotFound"
    using finalized_object.removed [OF srv(1) y2 y(2,3) srv(5)] by blast
  have "api_Get o' u = api_Get o' t"
    using rem y(3) apartD(2) [OF objects(3)] by (auto simp: RemoveFinalizer_def split: prod.splits)
  moreover have "reconciledOnce p ns n (s, h) = (u, h)"
    using at y o1 d rem
    by (simp add: reconciledOnce_def reconcileClusterResource_def ShouldAddFinalizer_def removeClusterResource_def
        deleteClusterResource_def deleteResource_def obj(2))
  ultimately have "going (api_Get o' (fst (reconciledOnce p ns n (s, h))) (om_Namespace (un_Meta obj)) (om_Name (un_Meta obj)))"
    and *: "api_Get ?a (fst (reconciledOnce p ns n (s, h))) ns n = Inl NotFound" using gone gone' by simp_all
  with w x d show "deletedThere ?k ns n obj (fst (reconciledOnce p ns n (s, h)))"
    unfolding deletedThere_def Let_def obj(2) by metis
  show "api_Get ?a (fst (reconciledOnce p ns n (s, h))) ns n = Inl NotFound" by fact
qed

section \<open>From the deletion in the core to that of the object\<close>

text \<open>
  C2: the deletion of a cluster resource reaches the cluster: the reconcile in the core sends the deletion and only
  then lets the cluster resource go; the proxy that receives it deletes its own cluster resource, and the
  next reconcile there has the server delete the object before it lets the cluster resource go. In the end both
  cluster resources are gone, and the object is gone or being deleted, as its kind and its finalizers have it.
  The servers let the writes through and the stream takes the message.
\<close>

theorem deletion_reaches_object:
  fixes core :: "('s, 'c) process" and proxy :: "('t, 'd) process"
  defines "k \<equiv> pc_Kube core" and "objects \<equiv> kObject (pc_Kube proxy)"
  assumes inst: "api_Get (kClusterResource k) s (ClusterNamespace cluster) n = Inr inst"
      "om_DeletionTimestamp (cr_Meta inst) \<noteq> None" "om_Finalizers (cr_Meta inst) = [FinalizerName]" "cr_Resource inst = Some raw"
    and obj: "jUnmarshalObject (pc_Codec proxy) raw = Inr obj" "ons = om_Namespace (un_Meta obj)"
      "carries (pc_Codec proxy) (ClusterNamespace cluster) n raw" "pc_Codec core = pc_Codec proxy"
    and at: "pc_IsControlPlane core" "cluster \<noteq> []" "\<not> strContains cluster ClusterNamespaceInControlPlanePrefix"
      "\<not> pc_IsControlPlane proxy" "\<not> strHasPrefix ons ClusterNamespaceInControlPlanePrefix"
    and servers: "cluster_resource_server k" "cluster_resource_server (pc_Kube proxy)"
      "object_kind (objects (un_GVK obj))" "deletable (objects (un_GVK obj)) un_Meta"
      "apart (kClusterResource (pc_Kube proxy)) (objects (un_GVK obj))" "apart (objects (un_GVK obj)) (kClusterResource (pc_Kube proxy))"
    and stream: "FindStream (gl_Table g) cluster = Some st" "\<And>m. nt_SendResponse (pc_Net core) (st_Stream st) m = None"
    and there: "api_Get (kClusterResource (pc_Kube proxy)) t ons n = Inr y" "om_Finalizers (cr_Meta y) = [FinalizerName]"
      "cr_Resource y = Some raw" "rt_Phase (cr_Status y) \<noteq> phTerminating"
      "api_Get (objects (un_GVK obj)) t ons (om_Name (un_Meta obj)) = Inr x"
  shows "\<exists>s' g' rp. reconciledOnce core (ClusterNamespace cluster) n (s, g) = (s', g') \<and>
           api_Get (kClusterResource k) s' (ClusterNamespace cluster) n = Inl NotFound \<and>
           gl_Responses g' = gl_Responses g @ [(st_Stream st, rp)] \<and> rp_Type rp = rpResourceDelete \<and>
           (let w = reconciledOnce proxy ons n (RecvSyncResourceResponse (pc_Kube proxy) (pc_Codec proxy) rp t, h) in
            deletedThere (pc_Kube proxy) ons n obj (fst w) \<and>
            api_Get (kClusterResource (pc_Kube proxy)) (fst w) ons n = Inl NotFound)"
proof -
  let ?cns = "ClusterNamespace cluster" and ?a = "kClusterResource (pc_Kube proxy)" and ?o = "objects (un_GVK obj)"
  let ?kp = "pc_Kube proxy" and ?j = "pc_Codec proxy"
  obtain rp s' g' where core: "reconciledOnce core ?cns n (s, g) = (s', g')" "api_Get (kClusterResource k) s' ?cns n = Inl NotFound"
    and del: "deliveredTo ?j st SyncEventTypeDelete cluster n raw g g' rp"
    using core_lets_go [OF servers(1) [unfolded k_def] at(1-3) inst [unfolded k_def] obj(3) [folded obj(4)] stream, unfolded obj(4)]
    unfolding k_def by blast
  obtain cr where "om_Namespace (cr_Meta cr) = om_Namespace (un_Meta obj)" and cr2: "om_Name (cr_Meta cr) = n"
    and "\<And>u. RecvSyncResourceResponse ?kp ?j rp u = snd (receives SyncEventTypeDelete ?kp cr u)"
    using delivered_received [OF del obj(1), of ?kp] by blast
  then have cr: "om_Namespace (cr_Meta cr) = ons" "om_Name (cr_Meta cr) = n"
      "RecvSyncResourceResponse ?kp ?j rp t = snd (DeleteProxyClusterResource ?kp cr t)"
    using obj(2) by (simp_all add: receives_def)
  note srv = server_kind [OF servers(2)]
  from srv(6) there(1) cr obtain t1 where d: "api_Delete ?a cr t = (None, t1)" unfolding deletable_def by metis
  have t1: "RecvSyncResourceResponse ?kp ?j rp t = t1"
    using cr there(1) d by (simp add: DeleteProxyClusterResource_def deleteS_def)
  obtain y1 where y1: "api_Get ?a t1 ons n = Inr y1" "om_DeletionTimestamp (cr_Meta y1) \<noteq> None"
      "om_Finalizers (cr_Meta y1) = [FinalizerName]" "cr_Resource y1 = Some raw" "rt_Phase (cr_Status y1) \<noteq> phTerminating"
    using api_delete_kind.delete_marks [OF srv(3) d] there cr by auto
  have x1: "api_Get ?o t1 (om_Namespace (un_Meta obj)) (om_Name (un_Meta obj)) = Inr x"
    using apartD(4) [OF servers(5) d] there(5) obj(2) by simp
  note gone = proxy_lets_go [OF servers(2) at(4,5) y1 obj(1) _ servers(3-6) x1, of h]
  show ?thesis using core del t1 gone
    by (intro exI [of _ s'] exI [of _ g'] exI [of _ rp]) (simp add: deliveredTo_def syncType_def objects_def obj(2) Let_def)
qed

section \<open>Witnesses\<close>

lemma mem_cluster_resource_server: "cluster_resource_server memKube"
proof -
  have "finalized_object cr_Meta cr_Meta_update (kClusterResource memKube) cr_Resource cr_Status"
    using clusterResourceLife.finalized_object_axioms by (simp add: memKube_def)
  moreover have "deletable (kClusterResource memKube) cr_Meta"
    by (auto simp: deletable_def memKube_def memApi_def memGet_def memDelete_def keyOf_def split: option.splits)
  ultimately show ?thesis using mem_creatable by (simp add: cluster_resource_server_def)
qed

text \<open>The proxy of the witnesses has the server that defaults and protects the objects it stores.\<close>

definition dxProxy :: "(mem, nat) process" where "dxProxy = (cxProcess False)\<lparr>pc_Kube := admittingKube\<rparr>"

lemma admitting_resources: "kClusterResource admittingKube = kClusterResource memKube"
  by (simp add: admittingKube_def)

lemma admitting_server: "cluster_resource_server admittingKube"
  using mem_cluster_resource_server by (simp add: cluster_resource_server_def admitting_resources)

lemma admitting_objects:
  "creatable (kObject admittingKube gvk) un_Meta" "deletable (kObject admittingKube gvk) un_Meta"
  by (auto simp: admittingKube_def memKube_def creatable_def deletable_def memApi_def memGet_def memCreate_def memDelete_def
      keyOf_def split: option.splits)

lemma admitting_apart:
  "apart (kClusterResource admittingKube) (kObject admittingKube gvk)" "apart (kObject admittingKube gvk) (kClusterResource admittingKube)"
  by (auto simp: apart_def admittingKube_def memKube_def memApi_def memGet_def memCreate_def memUpdate_def memUpdateStatus_def
      memDelete_def objectsOf_def Let_def fun_eq_iff split: option.splits)

definition dxName :: string where "dxName = ''b.apps.v1.deployment''"

lemma mem_carries: "carries memCodec (ClusterNamespace ''c1'') dxName ''v2''"
proof -
  let ?body = "dxName @ ''|'' @ ClusterNamespace ''c1'' @ ''|'' @ ''v2''"
  have "decodeResource ?body = \<lparr>cr_Meta = zeroMeta\<lparr>om_Name := dxName, om_Namespace := ClusterNamespace ''c1''\<rparr>,
      cr_Resource = Some ''v2'', cr_Status = zeroClusterResourceStatus\<rparr>" and "?body \<noteq> ''bad''" by code_simp+
  then show ?thesis by (auto simp: carries_def memCodec_def encodeResource_def orBad_def)
qed

lemma binding_reaches_object_witness:
  "\<exists>s' rp w x. Binding.syncClusterResource memKube [] (bxBinding [bxBindingResource ''web'' [''c1'', ''c2'']]) (bxMem []) = (Inr (), s') \<and>
     requested admittingKube ''team'' dxName (memObject ''v2'') w \<and> un_Object w = [(''spec'', JString ''v2'')] \<and>
     api_Get (kObject admittingKube (un_GVK (memObject ''v2'')))
       (fst (reconciledTwice dxProxy ''team'' dxName (RecvSyncResourceResponse admittingKube memCodec rp emptyMem, cxGlobals)))
       ''team'' ''web'' = Inr x"
proof -
  let ?b = "bxBinding [bxBindingResource ''web'' [''c1'', ''c2'']]" and ?obj = "memObject ''v2''"
  have target: "targetOf memKube (bxMem []) ?b p = Inr (bxLoc p, (\<lambda>_. Some ''v2'') p)" if "p \<in> set (pairs ?b)" for p
    using that bx_target by blast
  have dist: "distinct (map bxLoc (pairs ?b))"
    by (simp add: pairs_def bxBinding_def bxBindingResource_def bxLoc_def ClusterNamespace_def)
  have free: "api_Get (kClusterResource memKube) (bxMem []) (fst (bxLoc p)) (snd (bxLoc p)) = Inl NotFound" for p
    by (simp add: memKube_def memApi_def memGet_def findObj_def bxMem_def)
  let ?p = "hd (pairs ?b)"
  have p: "?p \<in> set (pairs ?b)" "bxLoc ?p = (ClusterNamespace ''c1'', dxName)"
    by (simp_all add: pairs_def bxBinding_def bxBindingResource_def bxLoc_def dxName_def)
  have obj: "jUnmarshalObject memCodec ''v2'' = Inr ?obj" "om_Namespace (un_Meta ?obj) = ''team''" "om_Name (un_Meta ?obj) = ''web''"
      "un_Object ?obj = [(''spec'', JString ''v2'')]"
    by (simp_all add: memCodec_def memObject_def)
  have at: "\<not> strContains ''c1'' ClusterNamespaceInControlPlanePrefix" "\<not> strHasPrefix ''team'' ClusterNamespaceInControlPlanePrefix"
    by code_simp+
  have stream: "FindStream (gl_Table cxGlobals) ''c1'' = Some (streamFor 1 0 ''c1'' 7)"
    by (simp add: cxGlobals_def FindStream_def gomap_get_def)
  have none: "api_Get (kClusterResource admittingKube) emptyMem ''team'' dxName = Inl NotFound"
      "api_Get (kObject admittingKube gvk) emptyMem ''team'' ''web'' = Inl NotFound" for gvk
    by (simp_all add: admittingKube_def memKube_def memApi_def memGet_def findObj_def emptyMem_def objectsOf_def)
  have pc: "pc_Kube (cxProcess c) = memKube" "pc_Codec (cxProcess c) = memCodec" "pc_Net (cxProcess c) = cxNet"
      "pc_IsControlPlane (cxProcess c) = c" "pc_Kube dxProxy = admittingKube" "pc_Codec dxProxy = memCodec" "\<not> pc_IsControlPlane dxProxy"
    for c by (simp_all add: cxProcess_def dxProxy_def)
  have net: "nt_SendResponse cxNet c m = None" for c m by (simp add: cxNet_def)
  from binding_reaches_object [where core = "cxProcess True" and proxy = dxProxy and h = cxGlobals, unfolded pc,
      OF mem_creation_laws target dist free p refl obj(1) obj(2) [symmetric] mem_carries refl TrueI _ at(1) _ at(2) mem_cluster_resource_server
      admitting_server admitted_objects admitting_objects(1) admitting_apart(1) stream net none(1)] none(2) obj(3)
  obtain s' rp where run: "Binding.syncClusterResource memKube [] ?b (bxMem []) = (Inr (), s')"
      "createdThere admittingKube ''team'' dxName ?obj
        (fst (reconciledTwice dxProxy ''team'' dxName (RecvSyncResourceResponse admittingKube memCodec rp emptyMem, cxGlobals)))"
    using pc(7) by (auto simp: obj)
  from run(2) obtain w x where "requested admittingKube ''team'' dxName ?obj w"
      "api_Get (kObject admittingKube (un_GVK ?obj))
        (fst (reconciledTwice dxProxy ''team'' dxName (RecvSyncResourceResponse admittingKube memCodec rp emptyMem, cxGlobals)))
        ''team'' ''web'' = Inr x"
    unfolding createdThere_def Let_def obj by blast
  moreover from this(1) have "un_Object w = [(''spec'', JString ''v2'')]" using obj(4) by (simp add: requested_def)
  ultimately show ?thesis using run(1) by blast
qed

definition dxInst :: "string \<Rightarrow> int option \<Rightarrow> ClusterResource" where
  "dxInst ns t = \<lparr>cr_Meta = zeroMeta\<lparr>om_Name := dxName, om_Namespace := ns, om_Finalizers := [FinalizerName],
     om_DeletionTimestamp := t\<rparr>, cr_Resource = Some ''v2'', cr_Status = zeroClusterResourceStatus\<rparr>"

text \<open>The object of the witness is protected: the deletion only marks it.\<close>

lemma deletion_reaches_object_witness:
  "\<exists>s' g' rp. reconciledOnce (cxProcess True) (ClusterNamespace ''c1'') dxName (cxMem [dxInst (ClusterNamespace ''c1'') (Some 7)] [], cxGlobals) = (s', g') \<and>
     api_Get (kClusterResource memKube) s' (ClusterNamespace ''c1'') dxName = Inl NotFound \<and>
     deletedThere admittingKube ''team'' dxName (memObject ''v2'')
       (fst (reconciledOnce dxProxy ''team'' dxName
          (RecvSyncResourceResponse admittingKube memCodec rp (cxMem [dxInst ''team'' None] [admitted (memObject ''v2'')]), cxGlobals)))"
proof -
  let ?obj = "memObject ''v2''" and ?s = "cxMem [dxInst (ClusterNamespace ''c1'') (Some 7)] []"
    and ?t = "cxMem [dxInst ''team'' None] [admitted (memObject ''v2'')]"
  have obj: "jUnmarshalObject memCodec ''v2'' = Inr ?obj" "om_Namespace (un_Meta ?obj) = ''team''" "om_Name (un_Meta ?obj) = ''web''"
      "un_GVK ?obj = cxDeployment"
    by (simp_all add: memCodec_def memObject_def cxDeployment_def)
  have at: "\<not> strContains ''c1'' ClusterNamespaceInControlPlanePrefix" "\<not> strHasPrefix ''team'' ClusterNamespaceInControlPlanePrefix"
    by code_simp+
  have stream: "FindStream (gl_Table cxGlobals) ''c1'' = Some (streamFor 1 0 ''c1'' 7)"
    by (simp add: cxGlobals_def FindStream_def gomap_get_def)
  have inst: "api_Get (kClusterResource memKube) (cxMem [dxInst ns d] objs) ns dxName = Inr (dxInst ns d)" for ns d objs
    by (simp add: memKube_def memApi_def memGet_def findObj_def keyOf_def cxMem_def dxInst_def)
  have dx: "om_DeletionTimestamp (cr_Meta (dxInst ns d)) = d" "om_Finalizers (cr_Meta (dxInst ns d)) = [FinalizerName]"
      "cr_Resource (dxInst ns d) = Some ''v2''" "rt_Phase (cr_Status (dxInst ns d)) \<noteq> phTerminating" for ns d
    by (simp_all add: dxInst_def zeroClusterResourceStatus_def)
  have there: "api_Get (kObject admittingKube cxDeployment) ?t ''team'' ''web'' = Inr (admitted ?obj)"
    by (simp add: cx_get(3)) (simp add: memKube_def memApi_def memGet_def findObj_def keyOf_def cxMem_def objectsOf_def memObject_def gomap_get_def)
  have pc: "pc_Kube (cxProcess c) = memKube" "pc_Codec (cxProcess c) = memCodec" "pc_Net (cxProcess c) = cxNet"
      "pc_IsControlPlane (cxProcess c) = c" "pc_Kube dxProxy = admittingKube" "pc_Codec dxProxy = memCodec" "\<not> pc_IsControlPlane dxProxy"
    for c by (simp_all add: cxProcess_def dxProxy_def)
  have net: "nt_SendResponse cxNet c m = None" for c m by (simp add: cxNet_def)
  from deletion_reaches_object [where core = "cxProcess True" and proxy = dxProxy and h = cxGlobals, unfolded pc,
      OF inst _ dx(2,3) obj(1) obj(2) [symmetric] mem_carries refl TrueI _ at(1) _ at(2) mem_cluster_resource_server
      admitting_server admitted_objects admitting_objects(2) admitting_apart stream net inst [folded admitting_resources] dx(2-4)
      there [folded obj(3,4)]]
  obtain s' g' rp where "reconciledOnce (cxProcess True) (ClusterNamespace ''c1'') dxName (?s, cxGlobals) = (s', g')"
    "api_Get (kClusterResource memKube) s' (ClusterNamespace ''c1'') dxName = Inl NotFound"
    "deletedThere admittingKube ''team'' dxName ?obj
       (fst (reconciledOnce dxProxy ''team'' dxName (RecvSyncResourceResponse admittingKube memCodec rp ?t, cxGlobals)))"
    unfolding obj dx Let_def using pc(7) by blast
  then show ?thesis by blast
qed

end
