(* ===== verification/Startup.thy ===== *)
theory Startup
  imports Proxy ClusterControl
begin

text \<open>
  How the two processes start: the flags and the configuration made from them, the search for a kube
  configuration, the scheme, the set-up of the controllers and of the webhooks, the wait for the webhook's
  secret, and the two \<open>main\<close> functions (\<open>cmd/core/main.go\<close>, \<open>cmd/proxy/main.go\<close>). Controller-runtime, the
  network and the file system are parameters; a start is recorded as the list of what has been started,
  with the settings it was given. \<open>logrus.Fatalf\<close> and \<open>os.Exit(1)\<close> end the process; they are the error of
  the step. A serving goroutine that fails later is not followed.
\<close>

section \<open>Durations\<close>

text \<open>
  \<open>time.Duration.String\<close>: \<open>fmtFrac v prec\<close> is the fraction \<open>v / 10 ^ prec\<close> without trailing zeros, with its point.
  The sign of a micro second is two bytes of UTF-8.
\<close>

definition zeroPadded :: "nat \<Rightarrow> nat \<Rightarrow> string" where
  "zeroPadded prec v = replicate (prec - length (natDigits v)) (CHR ''0'') @ natDigits v"

definition dropTrailing :: "char \<Rightarrow> string \<Rightarrow> string" where
  "dropTrailing c s = rev (dropWhile (\<lambda>d. d = c) (rev s))"

definition fmtFrac :: "nat \<Rightarrow> nat \<Rightarrow> string" where
  "fmtFrac v prec =
     (let f = v mod 10 ^ prec in if f = 0 then [] else CHR ''.'' # dropTrailing (CHR ''0'') (zeroPadded prec f))"

definition durationString :: "int \<Rightarrow> string" where
  "durationString d =
     (let u = nat \<bar>d\<bar>; sign = (if d < 0 then ''-'' else []) in
      if u = 0 then ''0s''
      else if u < 1000 then sign @ natDigits u @ ''ns''
      else if u < 1000000 then sign @ natDigits (u div 1000) @ fmtFrac u 3 @ [CHR 0xC2, CHR 0xB5, CHR ''s'']
      else if u < 1000000000 then sign @ natDigits (u div 1000000) @ fmtFrac u 6 @ ''ms''
      else let total = u div 1000000000; s = natDigits (total mod 60) @ fmtFrac u 9 @ ''s'' in
        sign @ (if total < 60 then s
                else if total < 3600 then natDigits (total div 60) @ ''m'' @ s
                else natDigits (total div 3600) @ ''h'' @ natDigits (total div 60 mod 60) @ ''m'' @ s))"

section \<open>Flags and configurations\<close>

record core_flags =
  cf_masterURL :: string
  cf_lisPort :: int
  cf_heartbeatExpirePeriod :: int
  cf_clusterStatusCheckPeriod :: int
  cf_onlineExpirationTime :: int
  cf_metricsAddr :: string
  cf_probeAddr :: string
  cf_certDir :: string
  cf_webhookPort :: int
  cf_tmplStr :: string

definition coreFlagDefaults :: core_flags where
  "coreFlagDefaults = \<lparr>cf_masterURL = [], cf_lisPort = 8080, cf_heartbeatExpirePeriod = 30,
     cf_clusterStatusCheckPeriod = 60, cf_onlineExpirationTime = 90, cf_metricsAddr = '':9000'',
     cf_probeAddr = '':9001'', cf_certDir = ''/k8s-webhook-server/serving-certs'', cf_webhookPort = 9443,
     cf_tmplStr = []\<rparr>"

record CoreConfiguration =
  cc_HeartbeatExpirePeriod :: int
  cc_OnlineExpirationTime :: int
  cc_ClusterStatusCheckPeriod :: int

definition coreDefaultConfiguration :: CoreConfiguration where
  "coreDefaultConfiguration =
     \<lparr>cc_HeartbeatExpirePeriod = 0, cc_OnlineExpirationTime = 0, cc_ClusterStatusCheckPeriod = 0\<rparr>"

definition coreConfiguration :: "core_flags \<Rightarrow> CoreConfiguration" where
  "coreConfiguration fl =
     coreDefaultConfiguration\<lparr>cc_HeartbeatExpirePeriod := seconds (cf_heartbeatExpirePeriod fl),
       cc_ClusterStatusCheckPeriod := seconds (cf_clusterStatusCheckPeriod fl),
       cc_OnlineExpirationTime := seconds (cf_onlineExpirationTime fl)\<rparr>"

record proxy_flags =
  pf_heartbeatPeriod :: int
  pf_coreAddress :: string
  pf_clusterName :: string
  pf_addonPath :: string
  pf_metricsAddr :: string
  pf_probeAddr :: string
  pf_addonLoadTimeout :: int

definition proxyFlagDefaults :: proxy_flags where
  "proxyFlagDefaults = \<lparr>pf_heartbeatPeriod = 30, pf_coreAddress = [], pf_clusterName = [], pf_addonPath = [],
     pf_metricsAddr = '':9000'', pf_probeAddr = '':9001'', pf_addonLoadTimeout = 3\<rparr>"

record ProxyConfiguration =
  px_HeartbeatPeriod :: int
  px_ClusterName :: string
  px_CoreAddress :: string
  px_AddonPath :: string
  px_AddonLoadTimeout :: int

definition proxyDefaultConfiguration :: ProxyConfiguration where
  "proxyDefaultConfiguration =
     \<lparr>px_HeartbeatPeriod = 0, px_ClusterName = [], px_CoreAddress = [], px_AddonPath = [], px_AddonLoadTimeout = 0\<rparr>"

definition proxyConfiguration :: "proxy_flags \<Rightarrow> ProxyConfiguration" where
  "proxyConfiguration fl =
     proxyDefaultConfiguration\<lparr>px_HeartbeatPeriod := seconds (pf_heartbeatPeriod fl),
       px_ClusterName := pf_clusterName fl, px_CoreAddress := pf_coreAddress fl,
       px_AddonPath := pf_addonPath fl, px_AddonLoadTimeout := seconds (pf_addonLoadTimeout fl)\<rparr>"

text \<open>The package variable \<open>ProxyConfig\<close>; both of its clients talk to the server of the cluster.\<close>

record 's DefaultConfig =
  dc_Cfg :: ProxyConfiguration
  dc_ProxyClient :: "'s kube"
  dc_ControllerClient :: "'s kube"

definition NewProxyConfig :: "ProxyConfiguration \<Rightarrow> 's kube \<Rightarrow> 's kube \<Rightarrow> 's DefaultConfig" where
  "NewProxyConfig c proxyClient controllerClient =
     \<lparr>dc_Cfg = c, dc_ProxyClient = proxyClient, dc_ControllerClient = controllerClient\<rparr>"

section \<open>Paths\<close>

text \<open>\<open>filepath.Clean\<close> and \<open>filepath.Join\<close> on a Unix system: the elements of a path, without empty ones and dots.\<close>

fun splitPath :: "string \<Rightarrow> string list" where
  "splitPath [] = [[]]"
| "splitPath (c # s) =
     (if c = CHR ''/'' then [] # splitPath s
      else case splitPath s of [] \<Rightarrow> [[c]] | e # es \<Rightarrow> (c # e) # es)"

fun joinPath :: "string list \<Rightarrow> string" where
  "joinPath [] = []"
| "joinPath [e] = e"
| "joinPath (e # es) = e @ ''/'' @ joinPath es"

definition cleanElement :: "bool \<Rightarrow> string \<Rightarrow> string list \<Rightarrow> string list" where
  "cleanElement rooted e stack =
     (if e = [] \<or> e = ''.'' then stack
      else if e = ''..''
      then (case stack of
              [] \<Rightarrow> if rooted then [] else [''..'']
            | d # ds \<Rightarrow> if d = ''..'' then ''..'' # stack else ds)
      else e # stack)"

definition filepathClean :: "string \<Rightarrow> string" where
  "filepathClean p =
     (let rooted = (p \<noteq> [] \<and> hd p = CHR ''/'');
          s = joinPath (rev (fold (cleanElement rooted) (splitPath p) [])) in
      if rooted then CHR ''/'' # s else if s = [] then ''.'' else s)"

definition filepathJoin :: "string list \<Rightarrow> string" where
  "filepathJoin elem =
     (case dropWhile (\<lambda>e. e = []) elem of [] \<Rightarrow> [] | es \<Rightarrow> filepathClean (joinPath es))"

section \<open>The kube configuration\<close>

text \<open>The environment variable, the configurations of client-go and the home directory of the user.\<close>

record 'r kube_env =
  ke_KUBECONFIG :: string
  ke_BuildConfigFromFlags :: "string \<Rightarrow> string \<Rightarrow> go_error + 'r"
  ke_InClusterConfig :: "go_error + 'r"
  ke_CurrentHome :: "go_error + string"

definition GetKubeConfig :: "'r kube_env \<Rightarrow> string \<Rightarrow> 'r res" where
  "GetKubeConfig ke masterURL =
     (let notFound = Raise (ErrMsg ''could not locate a kubeconfig'') in
      if 0 < length (ke_KUBECONFIG ke) then liftE (ke_BuildConfigFromFlags ke masterURL (ke_KUBECONFIG ke))
      else case ke_InClusterConfig ke of
        Inr c \<Rightarrow> Inr c
      | Inl _ \<Rightarrow>
          (case ke_CurrentHome ke of
             Inl _ \<Rightarrow> notFound
           | Inr home \<Rightarrow>
               (case ke_BuildConfigFromFlags ke [] (filepathJoin [home, ''.kube'', ''config'']) of
                  Inr c \<Rightarrow> Inr c
                | Inl _ \<Rightarrow> notFound)))"

section \<open>The scheme and the controllers\<close>

text \<open>The kinds that \<open>addKnownTypes\<close> adds to the scheme of both processes; the lists of each are left out.\<close>

definition knownTypes :: "string list" where
  "knownTypes = [''Cluster'', ''ClusterSet'', ''NamespaceMapping'', ''ClusterResource'', ''AggregatedResource'',
     ''MultiClusterResourceAggregatePolicy'', ''MultiClusterResourceAggregateRule'', ''MultiClusterResource'',
     ''MultiClusterResourceBinding'', ''MultiClusterResourceSchedulePolicy'', ''MultiClusterResourceOverride'']"

record Args =
  ag_IsControlPlane :: bool
  ag_TmplNamespacedName :: "string \<times> string"

text \<open>
  What the set-up functions construct, with what they take from the arguments, and what they hand to the
  manager: the kind to reconcile and the other kinds to watch.
\<close>

datatype reconciler =
    ClusterSetReconciler
  | NamespaceMappingReconciler
  | ClusterReconciler "string \<times> string"
  | BindingReconciler
  | MultiClusterResourceReconciler
  | ClusterResourceReconciler bool
  | SchedulePolicyReconciler

record controller =
  ct_For :: string
  ct_Watches :: "string list"
  ct_Reconciler :: reconciler

definition setupClusterSet :: "Args \<Rightarrow> controller" where
  "setupClusterSet args = \<lparr>ct_For = ''ClusterSet'', ct_Watches = [], ct_Reconciler = ClusterSetReconciler\<rparr>"

definition setupNamespaceMapping :: "Args \<Rightarrow> controller" where
  "setupNamespaceMapping args =
     \<lparr>ct_For = ''NamespaceMapping'', ct_Watches = [], ct_Reconciler = NamespaceMappingReconciler\<rparr>"

definition setupCluster :: "Args \<Rightarrow> controller" where
  "setupCluster args =
     \<lparr>ct_For = ''Cluster'', ct_Watches = [], ct_Reconciler = ClusterReconciler (ag_TmplNamespacedName args)\<rparr>"

definition setupBinding :: "Args \<Rightarrow> controller" where
  "setupBinding args =
     \<lparr>ct_For = ''MultiClusterResourceBinding'', ct_Watches = [''MultiClusterResourceOverride''],
      ct_Reconciler = BindingReconciler\<rparr>"

definition setupMultiClusterResource :: "Args \<Rightarrow> controller" where
  "setupMultiClusterResource args =
     \<lparr>ct_For = ''MultiClusterResource'', ct_Watches = [], ct_Reconciler = MultiClusterResourceReconciler\<rparr>"

definition setupClusterResource :: "Args \<Rightarrow> controller" where
  "setupClusterResource args =
     \<lparr>ct_For = ''ClusterResource'', ct_Watches = [],
      ct_Reconciler = ClusterResourceReconciler (ag_IsControlPlane args)\<rparr>"

definition setupSchedulePolicy :: "Args \<Rightarrow> controller" where
  "setupSchedulePolicy args =
     \<lparr>ct_For = ''MultiClusterResourceSchedulePolicy'', ct_Watches = [], ct_Reconciler = SchedulePolicyReconciler\<rparr>"

definition setupFunctions :: "Args \<Rightarrow> (Args \<Rightarrow> controller) list" where
  "setupFunctions args =
     (if \<not> ag_IsControlPlane args then [setupClusterResource]
      else [setupClusterSet, setupNamespaceMapping, setupCluster, setupBinding, setupMultiClusterResource,
            setupClusterResource, setupSchedulePolicy])"

section \<open>The webhooks\<close>

datatype admission_handler = ClusterResourceAdmission | AggregateRuleAdmission | MultiClusterResourceAdmission

definition webhookPaths :: "(string \<times> admission_handler) list" where
  "webhookPaths =
     [(''/validating-v1alpha1-clusterresource'', ClusterResourceAdmission),
      (''/validating-v1alpha1-multiclusterresourceaggregaterules'', AggregateRuleAdmission),
      (''/validating-v1alpha1-multiclusterresource'', MultiClusterResourceAdmission)]"

section \<open>The wait for the webhook's secret\<close>

text \<open>
  What the walk over the directory meets: a file that is gone when it is to be looked at, a file with its
  size, a directory with its size and, if its names can be read, its entries in lexical order.
\<close>

datatype fs_node = Gone | Plain int | Dir int "fs_node list option"

text \<open>
  \<open>filepath.Walk\<close> with the function of the source, which takes the size of \<open>info\<close> without a look at the
  error: \<open>info\<close> is nil for a file that is gone.
\<close>

fun walkSecret :: "fs_node \<Rightarrow> unit res" and walkSecrets :: "fs_node list \<Rightarrow> unit res" where
  "walkSecret Gone = Crash NilDereference"
| "walkSecret (Plain n) = (if n = 0 then Raise (ErrMsg ''secret is not ready'') else Inr ())"
| "walkSecret (Dir n names) =
     (if n = 0 then Raise (ErrMsg ''secret is not ready'')
      else case names of None \<Rightarrow> Inr () | Some nodes \<Rightarrow> walkSecrets nodes)"
| "walkSecrets [] = Inr ()"
| "walkSecrets (node # nodes) = bindR (walkSecret node) (\<lambda>_. walkSecrets nodes)"

text \<open>
  What one round of the loop sees, after it has slept: the time since the start, whether \<open>os.Stat\<close> says
  that the directory does not exist, whether opening it fails, whether reading one name from it gives
  \<open>io.EOF\<close>, and the walk.
\<close>

record secret_poll =
  sp_Elapsed :: int
  sp_NotExist :: bool
  sp_OpenFails :: bool
  sp_Empty :: bool
  sp_Tree :: fs_node

definition secretReady :: "secret_poll \<Rightarrow> bool res" where
  "secretReady p =
     (if sp_OpenFails p then Inr False
      else if sp_Empty p then Inr False
      else case walkSecret (sp_Tree p) of
             Inr _ \<Rightarrow> Inr True
           | Inl (Err e) \<Rightarrow> Inr False
           | Inl f \<Rightarrow> Inl f)"

text \<open>One round: the answer of the function, or none when the loop goes on.\<close>

definition secretRound :: "int \<Rightarrow> secret_poll \<Rightarrow> unit res option" where
  "secretRound timeout p =
     (if sp_Elapsed p > timeout
      then Some (Raise (ErrFmt ''getting webhook secret timeout after %s'' [durationString timeout]))
      else if \<not> sp_NotExist p
      then (case secretReady p of
              Inl f \<Rightarrow> Some (Inl f)
            | Inr ready \<Rightarrow> if ready then Some (Inr ()) else None)
      else None)"

partial_function (option) waitWebhookSecretVolume :: "int \<Rightarrow> (nat \<Rightarrow> secret_poll) \<Rightarrow> nat \<Rightarrow> unit res option" where
  "waitWebhookSecretVolume timeout polls i =
     (case secretRound timeout (polls i) of
        Some r \<Rightarrow> Some r
      | None \<Rightarrow> waitWebhookSecretVolume timeout polls (Suc i))"

declare waitWebhookSecretVolume.simps [code]

section \<open>The start of the core\<close>

text \<open>What a process has started, in order.\<close>

datatype start_event =
    Listening string
  | Serving CoreConfiguration
  | Webhook string admission_handler
  | Monitoring CoreConfiguration
  | Controlling reconciler
  | Checking string
  | Registered
  | Receiving
  | Managing

text \<open>
  The calls of a start that can fail: the network, client-go, the manager of controller-runtime, which
  completes a controller, adds the checks and runs.
\<close>

record manager_options =
  mo_MetricsBindAddress :: string
  mo_CertDir :: string
  mo_Port :: int
  mo_HealthProbeBindAddress :: string

record 'r start_env =
  se_Listen :: "string \<Rightarrow> go_error option"
  se_KubeEnv :: "'r kube_env"
  se_Clientset :: "'r \<Rightarrow> go_error option"
  se_GetConfig :: "go_error + 'r"
  se_NewManager :: "'r \<Rightarrow> manager_options \<Rightarrow> go_error option"
  se_SplitMetaNamespaceKey :: "string \<Rightarrow> go_error + string \<times> string"
  se_Polls :: "string \<Rightarrow> nat \<Rightarrow> secret_poll"
  se_Complete :: "string list \<Rightarrow> controller \<Rightarrow> go_error option"
  se_AddCheck :: "string \<Rightarrow> go_error option"
  se_Start :: "go_error option"

type_synonym 'a start = "(start_event list, 'a) step"

definition started :: "start_event \<Rightarrow> unit start" where "started ev evs = (Inr (), evs @ [ev])"

text \<open>A call that answers with an error, and one whose error ends the process with a message made of it.\<close>

definition call :: "go_error option \<Rightarrow> ('s, unit) step" where
  "call r = liftS (case r of None \<Rightarrow> Inr () | Some e \<Rightarrow> Raise e)"

definition orFatal :: "('s, 'a) step \<Rightarrow> (go_error \<Rightarrow> go_error) \<Rightarrow> ('s, 'a) step" where
  "orFatal m message s = (case m s of (Inl (Err e), s') \<Rightarrow> (Raise (message e), s') | r \<Rightarrow> r)"

definition setupControllers :: "'r start_env \<Rightarrow> Args \<Rightarrow> unit start" where
  "setupControllers env args =
     forS (\<lambda>setupFunc _.
         bindS (call (se_Complete env knownTypes (setupFunc args))) (\<lambda>_.
           started (Controlling (ct_Reconciler (setupFunc args)))))
       (setupFunctions args) ()"

definition registerWebhooks :: "unit start" where
  "registerWebhooks = forS (\<lambda>(path, handler) _. started (Webhook path handler)) webhookPaths ()"

definition addCheck :: "'r start_env \<Rightarrow> string \<Rightarrow> string \<Rightarrow> unit start" where
  "addCheck env name message =
     bindS (orFatal (call (se_AddCheck env name)) (\<lambda>e. ErrMsg message)) (\<lambda>_. started (Checking name))"

definition startManager :: "'r start_env \<Rightarrow> codec \<Rightarrow> unit start" where
  "startManager env j =
     bindS (started Managing) (\<lambda>_.
       orFatal (call (se_Start env)) (\<lambda>e. ErrFmt ''failed running manager: %s'' [jErrorText j e]))"

definition coreManagerOptions :: "core_flags \<Rightarrow> manager_options" where
  "coreManagerOptions fl =
     \<lparr>mo_MetricsBindAddress = cf_metricsAddr fl, mo_CertDir = cf_certDir fl, mo_Port = cf_webhookPort fl,
      mo_HealthProbeBindAddress = cf_probeAddr fl\<rparr>"

definition coreMain :: "'r start_env \<Rightarrow> codec \<Rightarrow> core_flags \<Rightarrow> unit start" where
  "coreMain env j fl =
     (let addr = '':'' @ strconvItoa (cf_lisPort fl); cfg = coreConfiguration fl in
      bindS (orFatal (call (se_Listen env addr)) (\<lambda>e.
               ErrFmt ''listen port %d error: %s'' [strconvItoa (cf_lisPort fl), jErrorText j e])) (\<lambda>_.
      bindS (started (Listening addr)) (\<lambda>_.
      bindS (orFatal (liftS (GetKubeConfig (se_KubeEnv env) (cf_masterURL fl))) (\<lambda>e.
               ErrFmt ''failed connect kube-apiserver: %s'' [jErrorText j e])) (\<lambda>kubeCfg.
      bindS (orFatal (call (se_Clientset env kubeCfg)) (\<lambda>e.
               ErrFmt ''failed get multicluster client set: %s'' [jErrorText j e])) (\<lambda>_.
      bindS (started (Serving cfg)) (\<lambda>_.
      bindS (liftS (liftE (se_GetConfig env))) (\<lambda>restCfg.
      bindS (orFatal (call (se_NewManager env restCfg (coreManagerOptions fl))) (\<lambda>e.
               ErrFmt ''failed create manager: %s'' [jErrorText j e])) (\<lambda>_.
      bindS (orFatal (liftS (liftE (se_SplitMetaNamespaceKey env (cf_tmplStr fl)))) (\<lambda>e.
               ErrFmt ''--cue-template-config-map args must format be namespace/name, but got %s'' [cf_tmplStr fl]))
        (\<lambda>tmpl. let args = \<lparr>ag_IsControlPlane = True, ag_TmplNamespacedName = tmpl\<rparr> in
      bindS registerWebhooks (\<lambda>_.
      bindS (liftS (case waitWebhookSecretVolume (seconds 90) (se_Polls env (cf_certDir fl)) 0 of
                      None \<Rightarrow> Inl Diverge
                    | Some r \<Rightarrow> r)) (\<lambda>_.
      bindS (started (Monitoring cfg)) (\<lambda>_.
      bindS (orFatal (setupControllers env args) (\<lambda>e.
               ErrFmt ''failed to create controller: %s'' [jErrorText j e])) (\<lambda>_.
      bindS (addCheck env ''healthz'' ''failed to setup health check'') (\<lambda>_.
      bindS (addCheck env ''readyz'' ''failed to setup ready check'') (\<lambda>_.
        startManager env j)))))))))))))))"

section \<open>The start of a proxy\<close>

text \<open>The process that the configuration describes; \<open>net\<close> is the network at an address of the core.\<close>

definition proxyProcess :: "'s DefaultConfig \<Rightarrow> codec \<Rightarrow> (string \<Rightarrow> 'c net) \<Rightarrow> ('s, 'c) process" where
  "proxyProcess dc j net =
     \<lparr>pc_Kube = dc_ProxyClient dc, pc_Codec = j, pc_Net = net (px_CoreAddress (dc_Cfg dc)),
      pc_IsControlPlane = False, pc_ClusterName = px_ClusterName (dc_Cfg dc)\<rparr>"

definition proxyManagerOptions :: "proxy_flags \<Rightarrow> manager_options" where
  "proxyManagerOptions fl =
     \<lparr>mo_MetricsBindAddress = pf_metricsAddr fl, mo_CertDir = [], mo_Port = 0,
      mo_HealthProbeBindAddress = pf_probeAddr fl\<rparr>"

definition prepareProxy :: "'r start_env \<Rightarrow> codec \<Rightarrow> proxy_flags \<Rightarrow> unit start" where
  "prepareProxy env j fl =
     (let args = \<lparr>ag_IsControlPlane = False, ag_TmplNamespacedName = ([], [])\<rparr> in
      bindS (liftS (liftE (se_GetConfig env))) (\<lambda>restCfg.
      bindS (orFatal (call (se_NewManager env restCfg (proxyManagerOptions fl))) (\<lambda>e.
               ErrFmt ''failed create manager: %s'' [jErrorText j e])) (\<lambda>_.
      bindS (orFatal (setupControllers env args) (\<lambda>e.
               ErrFmt ''failed to create controller: %s'' [jErrorText j e])) (\<lambda>_.
        orFatal (call (se_Clientset env restCfg)) (\<lambda>e.
               ErrFmt ''failed get proxyClient, clusterName:%s'' [px_ClusterName (proxyConfiguration fl)])))))"

definition runProxy :: "'r start_env \<Rightarrow> codec \<Rightarrow> unit start" where
  "runProxy env j =
     bindS (started Registered) (\<lambda>_.
     bindS (started Receiving) (\<lambda>_.
     bindS (addCheck env ''healthz'' ''failed to setup health check'') (\<lambda>_.
     bindS (addCheck env ''readyz'' ''failed to setup ready check'') (\<lambda>_.
       startManager env j))))"

definition proxyMain ::
  "'r start_env \<Rightarrow> codec \<Rightarrow> 's kube \<Rightarrow> (string \<Rightarrow> 'c net) \<Rightarrow> (go_error + Addon list) \<Rightarrow> proxy_flags \<Rightarrow>
   (start_event list \<times> 'c globals, unit) step" where
  "proxyMain env j k net loaded fl =
     (let cfg = proxyConfiguration fl; p = proxyProcess (NewProxyConfig cfg k k) j net in
      bindS (onServer (prepareProxy env j fl)) (\<lambda>_.
      bindS (onGlobals (GetConnection (pc_Net p))) (\<lambda>stream.
        if stream = None then liftS (Raise (ErrFmt ''failed get connection %s'' [px_CoreAddress cfg]))
        else bindS (onGlobals (orFatal (sendRegister p (px_AddonPath cfg) loaded) (\<lambda>e.
                 ErrFmt ''failed send register request, cluster: %s'' [jErrorText j e]))) (\<lambda>_.
               onServer (runProxy env j)))))"

end
