(* ===== verification/StartupProps.thy ===== *)
theory StartupProps
  imports Startup
begin

text \<open>
  What a start promises: the order in which the core starts its parts and what it waits for, that the
  wait for the secret ends, and that a proxy registers once and never again.
\<close>

section \<open>The wait for the secret\<close>

fun someGone :: "fs_node \<Rightarrow> bool" where
  "someGone Gone \<longleftrightarrow> True"
| "someGone (Plain n) \<longleftrightarrow> False"
| "someGone (Dir n names) \<longleftrightarrow> (case names of None \<Rightarrow> False | Some nodes \<Rightarrow> list_ex someGone nodes)"

lemma walk_fails:
  "walkSecret node = Inl f \<Longrightarrow> (\<exists>e. f = Err e) \<or> f = Panic NilDereference \<and> someGone node"
  "walkSecrets nodes = Inl f \<Longrightarrow> (\<exists>e. f = Err e) \<or> f = Panic NilDereference \<and> list_ex someGone nodes"
  by (induction node and nodes rule: walkSecret_walkSecrets.induct)
     (auto simp: bindR_Inl_iff split: if_splits option.splits)

lemma wait_skips:
  "(\<And>i. i < n \<Longrightarrow> secretRound timeout (polls i) = None) \<Longrightarrow>
   waitWebhookSecretVolume timeout polls 0 = waitWebhookSecretVolume timeout polls n"
proof (induction n)
  case (Suc n)
  then have "waitWebhookSecretVolume timeout polls 0 = waitWebhookSecretVolume timeout polls n" by simp
  also have "\<dots> = waitWebhookSecretVolume timeout polls (Suc n)"
    using Suc.prems [of n] by (subst waitWebhookSecretVolume.simps) simp
  finally show ?case .
qed simp

lemma wait_at:
  "(\<And>i. i < n \<Longrightarrow> secretRound timeout (polls i) = None) \<Longrightarrow> secretRound timeout (polls n) = Some r \<Longrightarrow>
   waitWebhookSecretVolume timeout polls 0 = Some r"
  by (subst wait_skips [of n]) (auto simp: waitWebhookSecretVolume.simps)

lemma secretRound_answers:
  assumes "secretRound timeout p = Some r"
  shows "r = Inr () \<and> sp_Elapsed p \<le> timeout \<and> \<not> sp_NotExist p \<and> secretReady p = Inr True \<or>
         (\<exists>e. r = Raise e) \<and> timeout < sp_Elapsed p \<or>
         r = Crash NilDereference \<and> sp_Elapsed p \<le> timeout \<and> someGone (sp_Tree p)"
  using assms walk_fails(1) [of "sp_Tree p"]
  by (auto simp: secretRound_def secretReady_def split: if_splits sum.splits fail.splits)

lemma wait_finds:
  assumes "waitWebhookSecretVolume timeout polls i = Some (Inr ())"
  shows "\<exists>n\<ge>i. sp_Elapsed (polls n) \<le> timeout \<and> secretReady (polls n) = Inr True"
proof -
  have "r = Inr () \<longrightarrow> (\<exists>n\<ge>i. sp_Elapsed (polls n) \<le> timeout \<and> secretReady (polls n) = Inr True)"
    if "waitWebhookSecretVolume timeout polls i = Some r" for r
    using that
  proof (induction timeout polls i r rule: waitWebhookSecretVolume.raw_induct [rotated, consumes 1, case_names step])
    case (step wait timeout polls i r)
    show ?case
    proof (cases "secretRound timeout (polls i)")
      case None
      then have "wait timeout polls (Suc i) = Some r" using step(2) by simp
      from step(1) [OF this] show ?thesis by (meson Suc_leD)
    next
      case (Some q)
      then show ?thesis using step(2) secretRound_answers [OF Some] by auto
    qed
  qed
  with assms show ?thesis by blast
qed

text \<open>
  C23: the wait for the secret of the webhook ends: when a round takes at least the interval, it answers in
  round \<open>timeout / interval\<close> at the latest, counted from zero. It succeeds only with a readable directory that has
  a file and no empty one, fails only after the timeout, and panics only when a file goes away
  while the walk is at it.
\<close>

theorem wait_for_secret_ends:
  assumes "0 < interval" and "0 \<le> timeout" and rounds: "\<And>i. interval * (int i + 1) \<le> sp_Elapsed (polls i)"
  shows "\<exists>n r. int n \<le> timeout div interval \<and> waitWebhookSecretVolume timeout polls 0 = Some r \<and>
           (r = Inr () \<and> sp_Elapsed (polls n) \<le> timeout \<and> \<not> sp_NotExist (polls n) \<and> secretReady (polls n) = Inr True \<or>
            (\<exists>e. r = Raise e) \<and> timeout < sp_Elapsed (polls n) \<or>
            r = Crash NilDereference \<and> sp_Elapsed (polls n) \<le> timeout \<and> someGone (sp_Tree (polls n)))"
proof -
  let ?N = "nat (timeout div interval)" and ?stops = "\<lambda>i. secretRound timeout (polls i) \<noteq> None"
  have N: "int ?N = timeout div interval" using assms(1,2) by (simp add: pos_imp_zdiv_nonneg_iff)
  have "timeout = interval * (timeout div interval) + timeout mod interval" by simp
  moreover have "timeout mod interval < interval" using assms(1) by simp
  moreover have "interval * (timeout div interval + 1) = interval * (timeout div interval) + interval"
    by (simp add: algebra_simps)
  ultimately have "timeout < interval * (int ?N + 1)" unfolding N by linarith
  then have "timeout < sp_Elapsed (polls ?N)" using rounds [of ?N] by linarith
  then have "?stops ?N" by (simp add: secretRound_def)
  define n where "n = (LEAST i. ?stops i)"
  have n: "?stops n" "n \<le> ?N" using \<open>?stops ?N\<close> unfolding n_def by (auto intro: LeastI Least_le)
  have before: "secretRound timeout (polls i) = None" if "i < n" for i using that not_less_Least unfolding n_def by blast
  from n(1) obtain r where r: "secretRound timeout (polls n) = Some r" by auto
  have "int n \<le> timeout div interval" using n(2) N by linarith
  with wait_at [where polls = polls and n = n, OF before r] secretRound_answers [OF r] show ?thesis by blast
qed

section \<open>The order of a start\<close>

text \<open>
  A part of a start emits a list of events: whatever happens, it adds a prefix of the list, and the whole
  list when it succeeds.
\<close>

definition emits :: "'a start \<Rightarrow> start_event list \<Rightarrow> bool" where
  "emits m full \<longleftrightarrow> (\<forall>evs r evs'. m evs = (r, evs') \<longrightarrow>
     (\<exists>p. evs' = evs @ p \<and> prefix p full \<and> (\<forall>x. r = Inr x \<longrightarrow> p = full)))"

named_theorems emits_rules \<open>what the parts of a start emit\<close>

lemma emits_started [emits_rules]: "emits (started ev) [ev]"
  by (simp add: emits_def started_def)

lemma emits_liftS [emits_rules]: "emits (liftS r) []"
  by (simp add: emits_def)

lemma emits_retS [emits_rules]: "emits (retS x) []"
  by (simp add: emits_def)

lemma emits_call [emits_rules]: "emits (call r) []"
  by (simp add: call_def emits_liftS)

lemma emits_orFatal [emits_rules]: "emits m full \<Longrightarrow> emits (orFatal m f) full"
  unfolding emits_def orFatal_def by (fastforce split: prod.splits sum.splits fail.splits)

lemma emits_bindS:
  assumes m: "emits m xs" and f: "\<And>x. emits (f x) ys"
  shows "emits (bindS m f) (xs @ ys)"
  unfolding emits_def
proof (intro allI impI)
  fix evs r evs' assume run: "bindS m f evs = (r, evs')"
  obtain r1 evs1 where r1: "m evs = (r1, evs1)" by fastforce
  with m obtain p where p: "evs1 = evs @ p" "prefix p xs" "\<And>x. r1 = Inr x \<Longrightarrow> p = xs" unfolding emits_def by blast
  show "\<exists>p. evs' = evs @ p \<and> prefix p (xs @ ys) \<and> (\<forall>x. r = Inr x \<longrightarrow> p = xs @ ys)"
  proof (cases r1)
    case (Inl e)
    with r1 run p show ?thesis by (auto simp: prefix_append)
  next
    case (Inr x)
    with r1 run have "f x evs1 = (r, evs')" by simp
    with f [of x] obtain q where "evs' = evs1 @ q" "prefix q ys" "\<And>x. r = Inr x \<Longrightarrow> q = ys" unfolding emits_def by blast
    with p Inr show ?thesis by (intro exI [of _ "xs @ q"]) auto
  qed
qed

lemma emits_after [emits_rules]: "emits m [] \<Longrightarrow> (\<And>x. emits (f x) ys) \<Longrightarrow> emits (bindS m f) ys"
  using emits_bindS [of m "[]" f ys] by simp

lemma emits_then [emits_rules]: "(\<And>x. emits (f x) ys) \<Longrightarrow> emits (bindS (started ev) f) (ev # ys)"
  using emits_bindS [OF emits_started] by simp

lemma emits_forS [emits_rules]:
  assumes "\<And>x. x \<in> set xs \<Longrightarrow> emits (f x ()) (g x)"
  shows "emits (forS f xs ()) (concat (map g xs))"
  using assms
proof (induction xs)
  case (Cons x xs)
  have "emits (forS f xs u) (concat (map g xs))" for u using Cons by (cases u) simp
  then show ?case using emits_bindS [of "f x ()" "g x" "forS f xs"] Cons.prems by simp
qed (simp add: emits_retS)

lemma emits_stop: "emits (bindS (liftS (Inl e)) f) []"
  by (simp add: emits_def bindS_def)

text \<open>What a core starts before and after the wait for the secret; \<open>tmpl\<close> is the name of the template.\<close>

definition beforeSecret :: "core_flags \<Rightarrow> start_event list" where
  "beforeSecret fl =
     [Listening ('':'' @ strconvItoa (cf_lisPort fl)), Serving (coreConfiguration fl),
      Webhook ''/validating-v1alpha1-clusterresource'' ClusterResourceAdmission,
      Webhook ''/validating-v1alpha1-multiclusterresourceaggregaterules'' AggregateRuleAdmission,
      Webhook ''/validating-v1alpha1-multiclusterresource'' MultiClusterResourceAdmission]"

definition afterSecret :: "core_flags \<Rightarrow> string \<times> string \<Rightarrow> start_event list" where
  "afterSecret fl tmpl =
     [Monitoring (coreConfiguration fl), Controlling ClusterSetReconciler, Controlling NamespaceMappingReconciler,
      Controlling (ClusterReconciler tmpl), Controlling BindingReconciler, Controlling MultiClusterResourceReconciler,
      Controlling (ClusterResourceReconciler True), Controlling SchedulePolicyReconciler,
      Checking ''healthz'', Checking ''readyz'', Managing]"

lemma emits_setup [emits_rules]:
  "emits (setupControllers env args) (map (\<lambda>f. Controlling (ct_Reconciler (f args))) (setupFunctions args))"
proof -
  have "emits (setupControllers env args) (concat (map (\<lambda>f. [Controlling (ct_Reconciler (f args))]) (setupFunctions args)))"
    unfolding setupControllers_def by (intro emits_forS emits_after emits_call emits_started)
  then show ?thesis by (simp add: concat_map_singleton)
qed

lemma emits_webhooks: "emits registerWebhooks (map (\<lambda>(path, h). Webhook path h) webhookPaths)"
proof -
  have "emits registerWebhooks (concat (map (\<lambda>(path, h). [Webhook path h]) webhookPaths))"
    unfolding registerWebhooks_def by (intro emits_forS) (auto simp: emits_started)
  then show ?thesis by (simp add: webhookPaths_def)
qed

lemma emits_addCheck: "emits (addCheck env name message) [Checking name]"
  unfolding addCheck_def by (intro emits_after emits_orFatal emits_call emits_started)

lemma emits_startManager: "emits (startManager env j) [Managing]"
  unfolding startManager_def by (intro emits_then emits_orFatal emits_call)

lemma emits_value:
  "(\<And>x. v = Inr x \<Longrightarrow> emits (f x) ys) \<Longrightarrow> emits (bindS (liftS v) f) ys"
  by (cases v) (auto simp: emits_def bindS_def)

lemma orFatal_liftS: "orFatal (liftS v) message = liftS (case v of Inl (Err e) \<Rightarrow> Raise (message e) | _ \<Rightarrow> v)"
  by (auto simp: orFatal_def fun_eq_iff split: sum.splits fail.splits)

text \<open>What a core starts, when nothing fails.\<close>

definition secretFound :: "'r start_env \<Rightarrow> core_flags \<Rightarrow> bool" where
  "secretFound env fl \<longleftrightarrow> waitWebhookSecretVolume (seconds 90) (se_Polls env (cf_certDir fl)) 0 = Some (Inr ())"

definition coreTrace :: "'r start_env \<Rightarrow> core_flags \<Rightarrow> start_event list" where
  "coreTrace env fl = beforeSecret fl @
     (case se_SplitMetaNamespaceKey env (cf_tmplStr fl) of Inl e \<Rightarrow> [] | Inr tmpl \<Rightarrow> afterSecret fl tmpl)"

lemma coreMain_emits:
  assumes T: "secretFound env fl \<Longrightarrow> T = afterSecret fl"
  shows "emits (coreMain env j fl)
     (beforeSecret fl @ (case se_SplitMetaNamespaceKey env (cf_tmplStr fl) of Inl e \<Rightarrow> [] | Inr tmpl \<Rightarrow> T tmpl))"
proof -
  let ?split = "se_SplitMetaNamespaceKey env (cf_tmplStr fl)" and ?args = "\<lambda>tmpl. \<lparr>ag_IsControlPlane = True, ag_TmplNamespacedName = tmpl\<rparr>"
  let ?wait = "case waitWebhookSecretVolume (seconds 90) (se_Polls env (cf_certDir fl)) 0 of None \<Rightarrow> Inl Diverge | Some r \<Rightarrow> r"
  let ?rest = "\<lambda>tmpl. bindS (started (Monitoring (coreConfiguration fl))) (\<lambda>_.
      bindS (orFatal (setupControllers env (?args tmpl)) (\<lambda>e. ErrFmt ''failed to create controller: %s'' [jErrorText j e])) (\<lambda>_.
      bindS (addCheck env ''healthz'' ''failed to setup health check'') (\<lambda>_.
      bindS (addCheck env ''readyz'' ''failed to setup ready check'') (\<lambda>_. startManager env j))))"
  have rest: "emits (?rest tmpl) (afterSecret fl tmpl)" for tmpl
  proof -
    let ?cs = "map (\<lambda>f. Controlling (ct_Reconciler (f (?args tmpl)))) (setupFunctions (?args tmpl))"
    have "emits (?rest tmpl) (Monitoring (coreConfiguration fl) # ?cs @ [Checking ''healthz''] @ [Checking ''readyz''] @ [Managing])"
      by (intro emits_then emits_bindS emits_orFatal emits_setup emits_addCheck emits_startManager)
    then show ?thesis
      by (simp add: afterSecret_def setupFunctions_def setupClusterSet_def setupNamespaceMapping_def setupCluster_def
          setupBinding_def setupMultiClusterResource_def setupClusterResource_def setupSchedulePolicy_def)
  qed
  have "emits (bindS (liftS ?wait) (\<lambda>_. ?rest tmpl)) (T tmpl)" for tmpl
    by (rule emits_value) (use rest T in \<open>auto simp: secretFound_def split: option.splits\<close>)
  then have hooks: "emits (bindS registerWebhooks (\<lambda>_. bindS (liftS ?wait) (\<lambda>_. ?rest tmpl)))
      (map (\<lambda>(path, h). Webhook path h) webhookPaths @ T tmpl)" for tmpl
    by (intro emits_bindS emits_webhooks)
  let ?after = "map (\<lambda>(path, h). Webhook path h) webhookPaths @ (case ?split of Inl e \<Rightarrow> [] | Inr tmpl \<Rightarrow> T tmpl)"
  let ?all = "Listening ('':'' @ strconvItoa (cf_lisPort fl)) # Serving (coreConfiguration fl) # ?after"
  have "emits (coreMain env j fl) ?all"
    unfolding coreMain_def Let_def orFatal_liftS
    by (rule emits_after [OF emits_orFatal [OF emits_call]], rule emits_then, rule emits_after [OF emits_liftS],
        rule emits_after [OF emits_orFatal [OF emits_call]], rule emits_then, rule emits_after [OF emits_liftS],
        rule emits_after [OF emits_orFatal [OF emits_call]], rule emits_value)
       (use hooks in \<open>auto simp: liftE_def split: sum.splits\<close>)
  then show ?thesis by (simp add: beforeSecret_def webhookPaths_def)
qed

lemma emits_run: "emits m full \<Longrightarrow> m [] = (r, evs) \<Longrightarrow> prefix evs full \<and> (\<forall>x. r = Inr x \<longrightarrow> evs = full)"
  unfolding emits_def by (metis append_Nil)

text \<open>
  C24: a core starts its parts in one order, of which a failed start has done a prefix: it listens and
  serves the proxies first and registers the webhooks; the monitor, the seven controllers, the checks
  and the manager come only after the secret of the webhook has been found, within 90 seconds.
\<close>

theorem core_start_order:
  assumes "coreMain env j fl [] = (r, evs)"
  shows "prefix evs (coreTrace env fl) \<and> (r = Inr () \<longrightarrow> evs = coreTrace env fl) \<and>
         (prefix evs (beforeSecret fl) \<or>
          (\<exists>i. sp_Elapsed (se_Polls env (cf_certDir fl) i) \<le> 90 * Second \<and>
               secretReady (se_Polls env (cf_certDir fl) i) = Inr True))"
proof -
  from emits_run [OF coreMain_emits [OF refl] assms]
  have all: "prefix evs (coreTrace env fl)" "r = Inr () \<Longrightarrow> evs = coreTrace env fl" by (auto simp: coreTrace_def)
  show ?thesis
  proof (cases "secretFound env fl")
    case True
    moreover have "seconds 90 = 90 * Second" by (simp add: seconds_def Second_def wrap64_def)
    ultimately show ?thesis using all wait_finds [of "seconds 90" "se_Polls env (cf_certDir fl)" 0]
      by (auto simp: secretFound_def)
  next
    case False
    then have "prefix evs (beforeSecret fl)"
      using emits_run [OF coreMain_emits [where T = "\<lambda>_. []"] assms] by (auto split: sum.splits)
    with all show ?thesis by blast
  qed
qed

section \<open>What a proxy sends\<close>

text \<open>The requests that a part of a proxy adds have a type of a given set, and the heartbeat is left alone.\<close>

definition requested :: "string set \<Rightarrow> 'c globals \<Rightarrow> 'c globals \<Rightarrow> bool" where
  "requested types g g' \<longleftrightarrow> gl_Heartbeat g' = gl_Heartbeat g \<and>
     (\<exists>rs. gl_Requests g' = gl_Requests g @ rs \<and> (\<forall>r\<in>set rs. rq_Type (snd r) \<in> types))"

definition requests :: "string set \<Rightarrow> ('s \<times> 'c globals, 'a) step \<Rightarrow> bool" where
  "requests types m \<longleftrightarrow> (\<forall>w r w'. m w = (r, w') \<longrightarrow> requested types (snd w) (snd w'))"

named_theorems requests_rules \<open>what the parts of a proxy request\<close>

lemma requested_refl [simp]: "requested types g g"
  by (simp add: requested_def)

lemma requested_trans: "requested types g g1 \<Longrightarrow> requested types g1 g2 \<Longrightarrow> requested types g g2"
  unfolding requested_def by (auto; fastforce)

lemma requested_mono: "requested types g g' \<Longrightarrow> types \<subseteq> types' \<Longrightarrow> requested types' g g'"
  unfolding requested_def by blast

lemma requestsI: "(\<And>w r w'. m w = (r, w') \<Longrightarrow> requested types (snd w) (snd w')) \<Longrightarrow> requests types m"
  unfolding requests_def by blast

lemma requestsD: "requests types m \<Longrightarrow> m w = (r, w') \<Longrightarrow> requested types (snd w) (snd w')"
  unfolding requests_def by blast

lemma requests_pure [requests_rules]: "requests types (retS x)" "requests types (liftS r)" "requests types doneS"
  by (simp_all add: requests_def doneS_def)

lemma requests_onServer [requests_rules]: "requests types (onServer m)"
  by (auto simp: requests_def onServer_def split: prod.splits)

lemma requests_if [requests_rules]: "requests types m \<Longrightarrow> requests types m' \<Longrightarrow> requests types (if b then m else m')"
  by simp

lemma requests_chain:
  assumes m: "requests types m" "m w = (r1, w1)" and f: "\<And>x. requests types (f x)"
    and w': "(\<exists>x. f x w1 = (r, w')) \<or> w' = w1"
  shows "requested types (snd w) (snd w')"
  using requestsD [OF m] w' requestsD [OF f] requested_trans by (elim disjE exE) blast+

lemma requests_bindS [requests_rules]:
  assumes "requests types m" and "\<And>x. requests types (f x)"
  shows "requests types (bindS m f)"
proof (rule requestsI)
  fix w r w' assume run: "bindS m f w = (r, w')"
  obtain r1 w1 where m: "m w = (r1, w1)" by (cases "m w")
  with run have "(\<exists>x. f x w1 = (r, w')) \<or> w' = w1" by (cases r1) auto
  with requests_chain [OF assms(1) m assms(2)] show "requested types (snd w) (snd w')" .
qed

lemma requests_requeueS [requests_rules]:
  assumes "requests types m" and "\<And>x. requests types (f x)"
  shows "requests types (requeueS m f)"
proof (rule requestsI)
  fix w r w' assume run: "requeueS m f w = (r, w')"
  obtain r1 w1 where m: "m w = (r1, w1)" by (cases "m w")
  with run have "(\<exists>x. f x w1 = (r, w')) \<or> w' = w1"
    by (auto simp: requeueS_def split: sum.splits fail.splits)
  with requests_chain [OF assms(1) m assms(2)] show "requested types (snd w) (snd w')" .
qed

lemma onGlobals_simps:
  "onGlobals (bindS m f) = bindS (onGlobals m) (\<lambda>x. onGlobals (f x))" "onGlobals (liftS r) = liftS r"
  by (auto simp: onGlobals_def bindS_def fun_eq_iff split: prod.splits sum.splits)

lemma retS_liftS: "retS x = liftS (Inr x)"
  by (simp add: retS_def liftS_def fun_eq_iff)

lemma requests_GetConnection [requests_rules]: "requests types (onGlobals (GetConnection net))"
  by (rule requestsI)
     (auto simp: onGlobals_def GetConnection_def requested_def split: if_splits sum.splits)

lemma requests_sendOn: "rq_Type rq \<in> types \<Longrightarrow> requests types (onGlobals (sendOn net c rq))"
  by (rule requestsI) (auto simp: onGlobals_def sendOn_def requested_def split: option.splits)

lemma requests_onConnection [requests_rules]:
  assumes "rq_Type rq \<in> types"
  shows "requests types (onGlobals (case stream of None \<Rightarrow> liftS r | Some c \<Rightarrow> sendOn net c rq))"
  using assms by (cases stream) (auto simp: onGlobals_simps intro: requests_rules requests_sendOn)

lemma requests_SendSync: "rq_Type rq \<in> types \<Longrightarrow> requests types (onGlobals (SendSyncResourceRequest net rq))"
  unfolding SendSyncResourceRequest_def onGlobals_simps by (intro requests_rules)

lemma requests_sendStatus [requests_rules]:
  "requests {rqResource} (onGlobals (sendStatusToControlPlane j net clusterName resource))"
proof (cases "newUpdateClusterResourceStatusRequest j [resource] clusterName")
  case (Inl e)
  then have "sendStatusToControlPlane j net clusterName resource = liftS (Inl e)"
    by (simp add: sendStatusToControlPlane_def bindS_def fun_eq_iff)
  then show ?thesis by (simp add: onGlobals_simps requests_pure)
next
  case (Inr rq)
  then have "rq_Type rq = rqResource"
    by (auto simp: newUpdateClusterResourceStatusRequest_def NewResourceRequest_def bindR_Inr_iff split: if_splits)
  then show ?thesis using Inr by (simp add: sendStatusToControlPlane_def requests_SendSync)
qed

lemma requests_updateStatus [requests_rules]: "requests {rqResource} (updateClusterResourceStatus p inst status)"
  unfolding updateClusterResourceStatus_def Let_def by (intro requests_rules)

lemma requests_complete [requests_rules]: "requests {rqResource} (updateClusterResourceStatusWithPhaseComplete p inst)"
  unfolding updateClusterResourceStatusWithPhaseComplete_def by (intro requests_rules)

lemma requests_createError [requests_rules]:
  "requests {rqResource} (updateClusterResourceStatusWithCreateErrorMessage p m inst)"
  unfolding updateClusterResourceStatusWithCreateErrorMessage_def by (intro requests_rules)

lemma requests_sync [requests_rules]: "requests {rqResource} (syncResourceAndUpdateStatus p inst)"
proof (rule requestsI)
  fix w r w' assume run: "syncResourceAndUpdateStatus p inst w = (r, w')"
  let ?m = "onServer (syncResource (pc_Kube p) (pc_Codec p) inst)"
  let ?f = "\<lambda>x :: go_error + unit. case x of Inl e \<Rightarrow> bindS (updateClusterResourceStatusWithCreateErrorMessage p (jErrorText (pc_Codec p) e) inst)
      (\<lambda>_. liftS (Raise e)) | Inr _ \<Rightarrow> updateClusterResourceStatusWithPhaseComplete p inst"
  obtain r1 w1 where m: "?m w = (r1, w1)" by (cases "?m w")
  have f: "requests {rqResource} (?f x)" for x by (cases x) (auto intro: requests_rules)
  have "(\<exists>x. ?f x w1 = (r, w')) \<or> w' = w1"
  proof (cases "\<exists>q. r1 = Inl q \<and> (\<forall>e. q \<noteq> Err e)")
    case True
    then have "w' = w1" using run m by (auto simp: syncResourceAndUpdateStatus_def split: fail.splits)
    then show ?thesis by simp
  next
    case False
    then have "r1 = Inr () \<or> (\<exists>e. r1 = Raise e)" by (cases r1) auto
    then show ?thesis
    proof (elim disjE exE)
      assume "r1 = Inr ()"
      then have "?f (Inr ()) w1 = (r, w')" using run m by (simp add: syncResourceAndUpdateStatus_def)
      then show ?thesis by (intro disjI1 exI)
    next
      fix e assume "r1 = Raise e"
      then have "?f (Inl e) w1 = (r, w')" using run m by (simp add: syncResourceAndUpdateStatus_def)
      then show ?thesis by (intro disjI1 exI)
    qed
  qed
  with requests_chain [OF requests_onServer m f] show "requested {rqResource} (snd w) (snd w')" .
qed

lemma requests_reconcile [requests_rules]:
  assumes p: "\<not> pc_IsControlPlane p"
  shows "requests {rqResource} (reconcileClusterResource p ns n)"
proof (rule requestsI)
  fix w r w' assume run: "reconcileClusterResource p ns n w = (r, w')"
  let ?k = "kClusterResource (pc_Kube p)"
  have parts: "requests {rqResource} (requeueS (onServer (AddFinalizer cr_Meta cr_Meta_update ?k inst)) (\<lambda>_. doneS))"
      "requests {rqResource} (removeClusterResource p inst)" "requests {rqResource} (syncClusterResource p inst)" for inst
    using p unfolding removeClusterResource_def deleteClusterResource_def syncClusterResource_def syncProxyClusterResource_def
    by (auto intro!: requests_rules)
  show "requested {rqResource} (snd w) (snd w')"
  proof (cases "api_Get ?k (fst w) ns n")
    case (Inl e)
    with run have "w' = w" by (auto simp: reconcileClusterResource_def split: if_splits)
    then show ?thesis by simp
  next
    case (Inr inst)
    from run consider "w' = w"
      | "requeueS (onServer (AddFinalizer cr_Meta cr_Meta_update ?k inst)) (\<lambda>_. doneS) w = (r, w')"
      | "removeClusterResource p inst w = (r, w')" | "syncClusterResource p inst w = (r, w')"
      by (auto simp: reconcileClusterResource_def Inr split: if_splits)
    then show ?thesis
      by cases (simp, erule requestsD [OF parts(1)], erule requestsD [OF parts(2)], erule requestsD [OF parts(3)])
  qed
qed

lemma requested_heartbeatRound: "requested {rqHeartbeat} g (heartbeatRound p addonPath loaded healthz g)"
proof -
  let ?body = "jMarshalHeartbeat (pc_Codec p)
      (newHeartbeat (case gl_Heartbeat g of None \<Rightarrow> None | Some l \<Rightarrow> l)
         (getHeartbeatAddons addonPath loaded) (snd (GetClusterHealthStatus healthz)))"
  let ?rq = "GenerateRequest rqHeartbeat ?body (pc_ClusterName p) (pc_Codec p)"
  let ?m = "bindS (liftS ?rq) (\<lambda>request. bindS (GetConnection (pc_Net p)) (\<lambda>stream.
      case stream of None \<Rightarrow> retS () | Some c \<Rightarrow> sendOn (pc_Net p) c request))"
  have "requests {rqHeartbeat} (onGlobals ?m :: (unit \<times> 'a globals, unit) step)"
  proof (cases ?rq)
    case (Inr request)
    then have "rq_Type request = rqHeartbeat" by (auto simp: GenerateRequest_def bindR_Inr_iff split: sum.splits)
    then show ?thesis unfolding Inr step_simps(2) onGlobals_simps retS_liftS
      by (intro requests_bindS requests_GetConnection requests_onConnection) simp
  qed (simp add: onGlobals_simps bindS_def requests_def)
  moreover obtain r g' where run: "?m g = (r, g')" by (cases "?m g")
  ultimately have "requested {rqHeartbeat} g g'" using requestsD [of _ "onGlobals ?m" "((), g)" r "((), g')"] by simp
  then show ?thesis unfolding heartbeatRound_def run by simp
qed

section \<open>A proxy registers once\<close>

text \<open>
  What a running proxy does after its registration, in any order: it receives one of \<open>answers\<close> or loses the
  stream, sends a heartbeat once the loop runs, and reconciles a cluster resource; the server's state also changes by others.
\<close>

inductive proxy_step ::
  "('s, 'c) process \<Rightarrow> string \<Rightarrow> Response set \<Rightarrow> 's \<times> 'c globals \<Rightarrow> 's \<times> 'c globals \<Rightarrow> bool"
  for p addonPath answers where
  received: "(\<And>c res. recv c = Inr res \<Longrightarrow> res \<in> answers) \<Longrightarrow> RecvResponse p recv w = (Inr (), w') \<Longrightarrow>
    proxy_step p addonPath answers w w'"
| beat: "gl_Heartbeat g \<noteq> None \<Longrightarrow>
    proxy_step p addonPath answers (s, g) (s, heartbeatRound p addonPath loaded healthz g)"
| reconciled: "reconcileClusterResource p ns n w = (Inr r, w') \<Longrightarrow> proxy_step p addonPath answers w w'"
| moved: "proxy_step p addonPath answers (s, g) (s', g)"

definition proxy_runs ::
  "('s, 'c) process \<Rightarrow> string \<Rightarrow> Response set \<Rightarrow> 's \<times> 'c globals \<Rightarrow> 's \<times> 'c globals \<Rightarrow> bool" where
  "proxy_runs p addonPath answers = (proxy_step p addonPath answers)\<^sup>*\<^sup>*"

text \<open>Receiving sends nothing, and only a successful registration starts the loop of the heartbeats.\<close>

lemma RecvResponse_requests:
  assumes "RecvResponse p recv w = (Inr (), w')"
  shows "gl_Requests (snd w') = gl_Requests (snd w)"
    and "gl_Heartbeat (snd w) = None \<Longrightarrow> (\<And>c res. recv c = Inr res \<Longrightarrow> rp_Type res \<noteq> rpRegisterSuccess) \<Longrightarrow>
         gl_Heartbeat (snd w') = None"
proof -
  obtain s g where w: "w = (s, g)" by (cases w)
  obtain c g1 where conn: "GetConnection (pc_Net p) g = (Inr c, g1)" and g1: "gl_Requests g1 = gl_Requests g" "gl_Heartbeat g1 = gl_Heartbeat g"
    by (cases "gl_Initialized g"; cases "nt_Dial (pc_Net p)") (simp_all add: GetConnection_def)
  have dispatch: "gl_Requests g' = gl_Requests g1 \<and>
      (rp_Type res \<noteq> rpRegisterSuccess \<longrightarrow> gl_Heartbeat g1 = None \<longrightarrow> gl_Heartbeat g' = None)"
    if "dispatchResponse p res (s, g1) = (Inr (), (s', g'))" for res s' g'
    using that by (auto simp: dispatchResponse_def Let_def RecvRegisterResponse_def HeartbeatStart_def onGlobals_def
        RecvHeartbeatResponse_def SetLastHeartbeat_def retS_def split: if_splits prod.splits option.splits)
  have "gl_Requests (snd w') = gl_Requests g \<and> ((\<forall>c res. recv c = Inr res \<longrightarrow> rp_Type res \<noteq> rpRegisterSuccess) \<longrightarrow>
      gl_Heartbeat g = None \<longrightarrow> gl_Heartbeat (snd w') = None)"
  proof (cases "\<exists>d res. c = Some d \<and> recv d = Inr res")
    case True
    then obtain d res where d: "c = Some d" "recv d = Inr res" by blast
    then have "dispatchResponse p res (s, g1) = (Inr (), w')" using assms conn by (simp add: RecvResponse_def w)
    with dispatch [of res "fst w'" "snd w'"] g1 d show ?thesis by auto
  next
    case False
    then have "w' = (s, SetEmptyConnection g1)"
      using assms conn by (auto simp: RecvResponse_def w split: option.splits sum.splits)
    then show ?thesis using g1 by (simp add: SetEmptyConnection_def)
  qed
  then show "gl_Requests (snd w') = gl_Requests (snd w)"
    and "gl_Heartbeat (snd w) = None \<Longrightarrow> (\<And>c res. recv c = Inr res \<Longrightarrow> rp_Type res \<noteq> rpRegisterSuccess) \<Longrightarrow>
         gl_Heartbeat (snd w') = None"
    by (auto simp: w)
qed

text \<open>What has been asked for since the registration.\<close>

definition laterTypes :: "bool \<Rightarrow> string set" where
  "laterTypes lost = (if lost then {rqResource} else {rqHeartbeat, rqResource})"

definition since :: "bool \<Rightarrow> 'c globals \<Rightarrow> 'c globals \<Rightarrow> bool" where
  "since lost g g' \<longleftrightarrow>
     (\<exists>rs. gl_Requests g' = gl_Requests g @ rs \<and>
        (\<forall>r\<in>set rs. rq_Type (snd r) \<in> laterTypes lost)) \<and>
     (lost \<longrightarrow> gl_Heartbeat g = None \<longrightarrow> gl_Heartbeat g' = None)"

lemma since_refl: "since lost g g"
  by (simp add: since_def)

lemma since_trans:
  assumes "since lost g g1" and "since lost g1 g2"
  shows "since lost g g2"
proof -
  from assms(1) obtain rs where rs: "gl_Requests g1 = gl_Requests g @ rs" "\<forall>r\<in>set rs. rq_Type (snd r) \<in> laterTypes lost"
    and h: "lost \<longrightarrow> gl_Heartbeat g = None \<longrightarrow> gl_Heartbeat g1 = None" unfolding since_def by (elim conjE exE) simp
  from assms(2) obtain ts where ts: "gl_Requests g2 = gl_Requests g1 @ ts" "\<forall>r\<in>set ts. rq_Type (snd r) \<in> laterTypes lost"
    and h': "lost \<longrightarrow> gl_Heartbeat g1 = None \<longrightarrow> gl_Heartbeat g2 = None" unfolding since_def by (elim conjE exE) simp
  have "gl_Requests g2 = gl_Requests g @ (rs @ ts)" "\<forall>r\<in>set (rs @ ts). rq_Type (snd r) \<in> laterTypes lost"
    using rs ts by auto
  then show ?thesis using h h' unfolding since_def by blast
qed

lemma since_requested:
  assumes "requested types g g'" and "types \<subseteq> laterTypes lost"
  shows "since lost g g'"
proof -
  from assms(1) obtain rs where "gl_Heartbeat g' = gl_Heartbeat g" "gl_Requests g' = gl_Requests g @ rs" "\<forall>r\<in>set rs. rq_Type (snd r) \<in> types"
    unfolding requested_def by blast
  with assms(2) show ?thesis unfolding since_def by (metis subsetD)
qed

lemma proxy_step_since:
  assumes "proxy_step p addonPath answers w w'" and "\<not> pc_IsControlPlane p"
    and lost: "lost \<Longrightarrow> rpRegisterSuccess \<notin> rp_Type ` answers" "lost \<Longrightarrow> gl_Heartbeat (snd w) = None"
  shows "since lost (snd w) (snd w')"
  using assms(1)
proof (cases rule: proxy_step.cases)
  case (received recv)
  have "gl_Heartbeat (snd w') = None" if lost
  proof (rule RecvResponse_requests(2) [OF received(2) assms(4) [OF that]])
    show "rp_Type res \<noteq> rpRegisterSuccess" if "recv c = Inr res" for c res
      using imageI [OF received(1) [OF that], of rp_Type] assms(3) [OF \<open>lost\<close>] by metis
  qed
  with RecvResponse_requests(1) [OF received(2)] show ?thesis by (simp add: since_def)
next
  case (beat g s loaded healthz)
  then show ?thesis using lost requested_heartbeatRound [of g p addonPath loaded healthz]
    by (auto intro!: since_requested simp: laterTypes_def)
next
  case (reconciled ns n r)
  from requestsD [OF requests_reconcile [OF assms(2)] this] show ?thesis by (rule since_requested) (simp add: laterTypes_def)
next
  case (moved s g s')
  then show ?thesis by (simp add: since_refl)
qed

lemma proxy_runs_since:
  assumes "proxy_runs p addonPath answers w w'" and "\<not> pc_IsControlPlane p"
    and "lost \<Longrightarrow> rpRegisterSuccess \<notin> rp_Type ` answers" "lost \<Longrightarrow> gl_Heartbeat (snd w) = None"
  shows "since lost (snd w) (snd w')"
  using assms(1) unfolding proxy_runs_def
proof (induction rule: rtranclp_induct)
  case (step u v)
  have "gl_Heartbeat (snd u) = None" if lost using step.IH assms(4) that by (simp add: since_def)
  then have "since lost (snd u) (snd v)" by (intro proxy_step_since [OF step(2) assms(2)] assms(3)) auto
  with step.IH show ?case by (rule since_trans)
qed (rule since_refl)

text \<open>What \<open>main\<close> has done when the registration is out.\<close>

lemma prepareProxy_emits: "emits (prepareProxy env j fl) [Controlling (ClusterResourceReconciler False)]"
proof -
  let ?args = "\<lparr>ag_IsControlPlane = False, ag_TmplNamespacedName = ([], [])\<rparr>"
  let ?cs = "map (\<lambda>f. Controlling (ct_Reconciler (f ?args))) (setupFunctions ?args)"
  have "emits (prepareProxy env j fl) (?cs @ [])"
    unfolding prepareProxy_def Let_def
    by (rule emits_after [OF emits_liftS], rule emits_after [OF emits_orFatal [OF emits_call]],
        rule emits_bindS [OF emits_orFatal [OF emits_setup]], rule emits_orFatal [OF emits_call])
  then show ?thesis by (simp add: setupFunctions_def setupClusterResource_def)
qed

lemma proxyMain_registered:
  fixes g0 :: "'c globals" and k :: "'s kube"
  assumes run: "proxyMain env j k net loaded fl ([], g0) = (r, (evs, g))" and reg: "Registered \<in> set evs"
    and p: "p = proxyProcess (NewProxyConfig (proxyConfiguration fl) k k) j net"
  shows "\<exists>u g1. GetConnection (pc_Net p) g0 = (Inr u, g1) \<and> sendRegister p (pf_addonPath fl) loaded g1 = (Inr (), g)"
proof -
  have path: "px_AddonPath (proxyConfiguration fl) = pf_addonPath fl" by (simp add: proxyConfiguration_def)
  obtain r1 evs1 where prep: "prepareProxy env j fl [] = (r1, evs1)" by (cases "prepareProxy env j fl []")
  from emits_run [OF prepareProxy_emits this] have "set evs1 \<subseteq> {Controlling (ClusterResourceReconciler False)}"
    using set_mono_prefix by fastforce
  then have no: "Registered \<notin> set evs1" by auto
  obtain u g1 where conn: "GetConnection (pc_Net p) g0 = (Inr u, g1)"
    by (cases "gl_Initialized g0"; cases "nt_Dial (pc_Net p)") (auto simp: GetConnection_def)
  obtain r2 g2 where send: "sendRegister p (pf_addonPath fl) loaded g1 = (r2, g2)"
    by (cases "sendRegister p (pf_addonPath fl) loaded g1")
  note run' = run [unfolded proxyMain_def Let_def p [symmetric] path]
  have "r1 = Inr ()" using run' prep no reg by (cases r1) auto
  moreover from this have "u \<noteq> None" using run' prep conn no reg by (auto split: if_splits)
  moreover from calculation have "r2 = Inr ()"
    using run' prep conn send no reg by (cases r2) (auto simp: orFatal_def onGlobals_def bindS_def split: fail.splits)
  ultimately have "snd (onServer (runProxy env j) (evs1, g2)) = (evs, g)"
    using run' prep conn send by (auto simp: orFatal_def)
  then have "g = g2" by (auto simp: onServer_def split: prod.splits)
  with conn send \<open>r2 = Inr ()\<close> show ?thesis by blast
qed

lemma sendRegister_sends:
  assumes "sendRegister p addonPath loaded g = (Inr (), g')"
  shows "\<exists>c rq g1. GetConnection (pc_Net p) g = (Inr (Some c), g1) \<and> rq_Type rq = rqRegister \<and>
           sendOn (pc_Net p) c rq g1 = (Inr (), g')"
proof -
  from assms obtain c g1 where c: "GetConnection (pc_Net p) g = (Inr (Some c), g1)"
    by (auto simp: sendRegister_def bindS_Inr_iff split: option.splits)
  with assms obtain addons rq where
    "GenerateRequest rqRegister (jMarshalRegister (pc_Codec p) addons) (pc_ClusterName p) (pc_Codec p) = Inr rq"
    "sendOn (pc_Net p) c rq g1 = (Inr (), g')"
    by (auto simp: sendRegister_def bindS_Inr_iff)
  moreover from this(1) have "rq_Type rq = rqRegister" by (auto simp: GenerateRequest_def split: sum.splits)
  ultimately show ?thesis using c by blast
qed

text \<open>
  C22: a proxy registers once: of all it sends, before and after \<open>main\<close> has gone on, whatever the core answers
  and however often the stream is lost and dialled again, only the first request is a registration. If its
  answer is lost no heartbeat is ever sent: everything after it is a report of a cluster resource.
\<close>

theorem registers_once:
  assumes main: "proxyMain env j k net loaded fl ([], g0) = (r, (evs, g))" "Registered \<in> set evs"
    and fresh: "gl_Requests g0 = []" "gl_Heartbeat g0 = None"
    and p: "p = proxyProcess (NewProxyConfig (proxyConfiguration fl) k k) j net"
    and run: "proxy_runs p (pf_addonPath fl) answers (s, g) (s', g')"
  shows "\<exists>c rq rs. gl_Requests g' = (c, rq) # rs \<and> rq_Type rq = rqRegister \<and>
           (\<forall>r\<in>set rs. rq_Type (snd r) \<in> {rqHeartbeat, rqResource}) \<and>
           (rpRegisterSuccess \<in> rp_Type ` answers \<or> (\<forall>r\<in>set rs. rq_Type (snd r) = rqResource))"
proof -
  from proxyMain_registered [OF main p] obtain u g1 where conn: "GetConnection (pc_Net p) g0 = (Inr u, g1)"
    and send: "sendRegister p (pf_addonPath fl) loaded g1 = (Inr (), g)" by blast
  have g1: "gl_Requests g1 = []" "gl_Heartbeat g1 = None"
    using conn fresh by (auto simp: GetConnection_def split: if_splits sum.splits)
  obtain c rq where g: "gl_Requests g = [(c, rq)]" "rq_Type rq = rqRegister" "gl_Heartbeat g = None"
    using sendRegister_sends [OF send] g1
    by (auto simp: GetConnection_def sendOn_def split: if_splits sum.splits option.splits)
  have core: "\<not> pc_IsControlPlane p" by (simp add: p proxyProcess_def)
  have any: "since False g g'" using proxy_runs_since [OF run core, of False] by simp
  have lost: "since True g g'" if "rpRegisterSuccess \<notin> rp_Type ` answers"
    using proxy_runs_since [OF run core, of True] that g(3) by simp
  from any g obtain rs where rs: "gl_Requests g' = (c, rq) # rs" "\<forall>r\<in>set rs. rq_Type (snd r) \<in> {rqHeartbeat, rqResource}"
    by (auto simp: since_def laterTypes_def)
  moreover have "\<forall>r\<in>set rs. rq_Type (snd r) = rqResource" if "rpRegisterSuccess \<notin> rp_Type ` answers"
    using lost [OF that] rs(1) g(1) by (auto simp: since_def laterTypes_def)
  ultimately show ?thesis using g(2) by blast
qed

section \<open>Witnesses\<close>

text \<open>A place to start in: a secret that is filled in the second round, and a core that answers the dial.\<close>

definition sxPoll :: "nat \<Rightarrow> secret_poll" where
  "sxPoll i = \<lparr>sp_Elapsed = int (i + 1) * (2 * Second), sp_NotExist = (i = 0), sp_OpenFails = False, sp_Empty = False,
     sp_Tree = Dir 40 (Some [Plain 1100, Plain 1700])\<rparr>"

definition sxEnv :: "unit start_env" where
  "sxEnv = \<lparr>se_Listen = (\<lambda>addr. None),
     se_KubeEnv = \<lparr>ke_KUBECONFIG = [], ke_BuildConfigFromFlags = (\<lambda>url path. Inl (ErrMsg ''no such file'')),
       ke_InClusterConfig = Inr (), ke_CurrentHome = Inr ''/root''\<rparr>,
     se_Clientset = (\<lambda>c. None), se_GetConfig = Inr (), se_NewManager = (\<lambda>c opts. None),
     se_SplitMetaNamespaceKey = (\<lambda>s. Inr ([], s)), se_Polls = (\<lambda>dir. sxPoll),
     se_Complete = (\<lambda>known c. if set (ct_For c # ct_Watches c) \<subseteq> set known then None else Some (ErrMsg ''no kind is registered'')),
     se_AddCheck = (\<lambda>name. None), se_Start = None\<rparr>"

definition sxNet :: "nat net" where
  "sxNet = \<lparr>nt_Dial = Inr 1, nt_SendResponse = (\<lambda>c r. None), nt_SendRequest = (\<lambda>c r. None)\<rparr>"

definition sxGlobals :: "nat globals" where
  "sxGlobals = \<lparr>gl_Table = [], gl_Initialized = False, gl_Stream = None, gl_Heartbeat = None, gl_Responses = [],
     gl_Requests = []\<rparr>"

definition sxFlags :: proxy_flags where "sxFlags = proxyFlagDefaults\<lparr>pf_clusterName := ''c1''\<rparr>"

lemma wait_for_secret_ends_witness:
  "\<exists>n r. int n \<le> 45 \<and> waitWebhookSecretVolume (90 * Second) sxPoll 0 = Some r \<and>
     (r = Inr () \<and> sp_Elapsed (sxPoll n) \<le> 90 * Second \<and> \<not> sp_NotExist (sxPoll n) \<and> secretReady (sxPoll n) = Inr True \<or>
      (\<exists>e. r = Raise e) \<and> 90 * Second < sp_Elapsed (sxPoll n) \<or>
      r = Crash NilDereference \<and> sp_Elapsed (sxPoll n) \<le> 90 * Second \<and> someGone (sp_Tree (sxPoll n)))"
  using wait_for_secret_ends [of "2 * Second" "90 * Second" sxPoll] by (simp add: sxPoll_def Second_def)

lemma core_start_order_witness:
  "fst (coreMain sxEnv memCodec coreFlagDefaults []) = Inr () \<and>
   snd (coreMain sxEnv memCodec coreFlagDefaults []) = coreTrace sxEnv coreFlagDefaults \<and>
   Controlling SchedulePolicyReconciler \<in> set (coreTrace sxEnv coreFlagDefaults)"
proof -
  have wait: "waitWebhookSecretVolume (seconds 90) sxPoll 0 = Some (Inr ())"
    by (simp add: waitWebhookSecretVolume.simps secretRound_def secretReady_def sxPoll_def seconds_def Second_def wrap64_def)
  have controllers: "setupControllers sxEnv \<lparr>ag_IsControlPlane = True, ag_TmplNamespacedName = ([], [])\<rparr> evs =
      (Inr (), evs @ map (\<lambda>f. Controlling (ct_Reconciler (f \<lparr>ag_IsControlPlane = True, ag_TmplNamespacedName = ([], [])\<rparr>)))
        (setupFunctions \<lparr>ag_IsControlPlane = True, ag_TmplNamespacedName = ([], [])\<rparr>))" for evs
    by (simp add: setupControllers_def setupFunctions_def call_def started_def sxEnv_def knownTypes_def
        setupClusterSet_def setupNamespaceMapping_def setupCluster_def bindS_def
        setupBinding_def setupMultiClusterResource_def setupClusterResource_def setupSchedulePolicy_def)
  have env: "se_Listen sxEnv a = None" "GetKubeConfig (se_KubeEnv sxEnv) url = Inr ()" "se_Clientset sxEnv c = None"
      "se_GetConfig sxEnv = Inr ()" "se_NewManager sxEnv c opts = None" "se_SplitMetaNamespaceKey sxEnv str = Inr ([], str)"
      "se_Polls sxEnv dir = sxPoll" "se_AddCheck sxEnv str = None" "se_Start sxEnv = None" for a url c opts str dir
    by (simp_all add: sxEnv_def GetKubeConfig_def Let_def)
  have "fst (coreMain sxEnv memCodec coreFlagDefaults []) = Inr ()"
    unfolding coreMain_def Let_def env
    by (simp add: env wait controllers call_def started_def orFatal_def bindS_def registerWebhooks_def webhookPaths_def
        addCheck_def startManager_def coreFlagDefaults_def liftE_def)
  then have run: "coreMain sxEnv memCodec coreFlagDefaults [] = (Inr (), snd (coreMain sxEnv memCodec coreFlagDefaults []))"
    by (metis prod.collapse)
  have "Controlling SchedulePolicyReconciler \<in> set (coreTrace sxEnv coreFlagDefaults)"
    by (simp add: coreTrace_def afterSecret_def sxEnv_def)
  with core_start_order [OF run] show ?thesis using run by (metis fst_conv)
qed

lemma registers_once_witness:
  "\<exists>evs g (g' :: nat globals). proxyMain sxEnv memCodec memKube (\<lambda>addr. sxNet) (Inr []) sxFlags ([], sxGlobals) = (Inr (), (evs, g)) \<and>
     gl_Stream g' = None \<and> (\<exists>c rq rs. gl_Requests g' = (c, rq) # rs \<and> rq_Type rq = rqRegister)"
proof -
  let ?p = "proxyProcess (NewProxyConfig (proxyConfiguration sxFlags) memKube memKube) memCodec (\<lambda>addr. sxNet)"
  let ?main = "proxyMain sxEnv memCodec memKube (\<lambda>addr. sxNet) (Inr []) sxFlags ([], sxGlobals)"
  have "fst ?main = Inr ()" "Registered \<in> set (fst (snd ?main))" "gl_Initialized (snd (snd ?main))" "gl_Stream (snd (snd ?main)) = Some 1"
    by code_simp+
  then obtain evs g where main: "?main = (Inr (), (evs, g))" "Registered \<in> set evs" "gl_Initialized g" "gl_Stream g = Some 1"
    by (metis prod.collapse)
  have "RecvResponse ?p (\<lambda>c. Inl (ErrMsg ''EOF'')) (emptyMem, g) = (Inr (), (emptyMem, SetEmptyConnection g))"
    using main(3,4) by (simp add: RecvResponse_def GetConnection_def)
  then have "proxy_step ?p (pf_addonPath sxFlags) {} (emptyMem, g) (emptyMem, SetEmptyConnection g)"
    by (intro received [where recv = "\<lambda>c. Inl (ErrMsg ''EOF'')"]) simp_all
  then have "proxy_runs ?p (pf_addonPath sxFlags) {} (emptyMem, g) (emptyMem, SetEmptyConnection g)"
    by (simp add: proxy_runs_def)
  from registers_once [OF main(1,2) _ _ refl this]
  have "\<exists>c rq rs. gl_Requests (SetEmptyConnection g) = (c, rq) # rs \<and> rq_Type rq = rqRegister"
    by (auto simp: sxGlobals_def)
  moreover have "gl_Stream (SetEmptyConnection g) = None" by (simp add: SetEmptyConnection_def)
  ultimately show ?thesis using main(1) by blast
qed

end
