(* ===== verification/GoMemory.thy ===== *)
theory GoMemory
  imports Prelude
begin

text \<open>
  Go values that hold references, in a memory of cells: what the generated deep copies work on. A
  pointer refers to a cell with one value, a slice to one with its elements, a map to one with its entries.
  The statements that the deep copies are made of are one function each, and what a deep copy promises is
  stated and proved for every one of them.
\<close>

section \<open>Values, memory, contents\<close>

datatype gval = Scalar string | NilRef | PtrTo nat | SliceOf nat | MapOf nat | Struct "(string \<times> gval) list"

datatype gcell = Elems "gval list" | Entries "(string, string) gomap"

record gmem =
  next_addr :: nat
  cell :: "nat \<Rightarrow> gcell"

text \<open>What a value holds when every reference is followed.\<close>

datatype content = CScalar string | CNil | CPtr content | CSlice "content list" | CMap "(string, string) gomap"
  | CStruct "(string \<times> content) list"

text \<open>A value holds a content, through cells of a given region only.\<close>

fun holds :: "(nat \<Rightarrow> gcell) \<Rightarrow> (nat \<Rightarrow> bool) \<Rightarrow> gval \<Rightarrow> content \<Rightarrow> bool" where
  "holds h R v (CScalar s) \<longleftrightarrow> v = Scalar s"
| "holds h R v CNil \<longleftrightarrow> v = NilRef"
| "holds h R v (CPtr t) \<longleftrightarrow> (\<exists>a x. v = PtrTo a \<and> R a \<and> h a = Elems [x] \<and> holds h R x t)"
| "holds h R v (CSlice ts) \<longleftrightarrow> (\<exists>a xs. v = SliceOf a \<and> R a \<and> h a = Elems xs \<and> list_all2 (holds h R) xs ts)"
| "holds h R v (CMap kv) \<longleftrightarrow>
     (\<exists>a es. v = MapOf a \<and> R a \<and> h a = Entries es \<and> gomap_wf es \<and> gomap_get es = gomap_get kv)"
| "holds h R v (CStruct ts) \<longleftrightarrow> (\<exists>fs. v = Struct fs \<and> list_all2 (\<lambda>f t. fst f = fst t \<and> holds h R (snd f) (snd t)) fs ts)"

lemma holds_mono:
  "holds h R v t \<Longrightarrow> (\<And>a. R a \<Longrightarrow> h' a = h a \<and> R' a) \<Longrightarrow> holds h' R' v t"
proof (induction t arbitrary: v)
  case (CPtr t)
  then show ?case by fastforce
next
  case (CSlice ts)
  from CSlice.prems(1) obtain a xs where "v = SliceOf a" "R a" "h a = Elems xs" "list_all2 (holds h R) xs ts" by auto
  moreover from this(4) have "list_all2 (holds h' R') xs ts"
    using CSlice.IH CSlice.prems(2) by (auto simp: list_all2_conv_all_nth)
  ultimately show ?case using CSlice.prems(2) by auto
next
  case (CStruct ts)
  then show ?case by (auto simp: list_all2_conv_all_nth prod_set_simps) (metis nth_mem snds.intros prod.collapse)+
qed auto

section \<open>The statements of a deep copy\<close>

type_synonym copier = "gval \<Rightarrow> gmem \<Rightarrow> gval \<times> gmem"

definition alloc :: "gcell \<Rightarrow> gmem \<Rightarrow> nat \<times> gmem" where
  "alloc c m = (next_addr m, m\<lparr>next_addr := next_addr m + 1, cell := (cell m)(next_addr m := c)\<rparr>)"

text \<open>An assignment: \<open>out.F = in.F\<close>.\<close>

definition assign :: copier where "assign v m = (v, m)"

text \<open>\<open>if in.F != nil { *out = new(T); copy *in into **out }\<close>.\<close>

definition newPtr :: "copier \<Rightarrow> copier" where
  "newPtr c v m =
     (case v of
        PtrTo a \<Rightarrow>
          (case cell m a of
             Elems [x] \<Rightarrow> (case c x m of (y, m1) \<Rightarrow> case alloc (Elems [y]) m1 of (b, m2) \<Rightarrow> (PtrTo b, m2))
           | _ \<Rightarrow> (v, m))
      | _ \<Rightarrow> (v, m))"

text \<open>\<open>if in.F != nil { *out = make([]T, len( *in)); for i := range *in { copy ( *in)[i] into ( *out)[i] } }\<close>.\<close>

fun copyElems :: "copier \<Rightarrow> gval list \<Rightarrow> gmem \<Rightarrow> gval list \<times> gmem" where
  "copyElems c [] m = ([], m)"
| "copyElems c (x # xs) m = (case c x m of (y, m1) \<Rightarrow> case copyElems c xs m1 of (ys, m2) \<Rightarrow> (y # ys, m2))"

definition makeSlice :: "copier \<Rightarrow> copier" where
  "makeSlice c v m =
     (case v of
        SliceOf a \<Rightarrow>
          (case cell m a of
             Elems xs \<Rightarrow> (case copyElems c xs m of (ys, m1) \<Rightarrow> case alloc (Elems ys) m1 of (b, m2) \<Rightarrow> (SliceOf b, m2))
           | _ \<Rightarrow> (v, m))
      | _ \<Rightarrow> (v, m))"

text \<open>\<open>*out = make(map[string]string, len( *in)); for key, val := range *in { ( *out)[key] = val }\<close>; the range of nil is empty.\<close>

definition copyMap :: copier where
  "copyMap v m =
     (let entries = (case v of MapOf a \<Rightarrow> (case cell m a of Entries es \<Rightarrow> es | _ \<Rightarrow> []) | _ \<Rightarrow> []) in
      case alloc (Entries (fold (\<lambda>(k, x) out. gomap_put out k x) entries [])) m of (b, m1) \<Rightarrow> (MapOf b, m1))"

text \<open>The same under \<open>if in.F != nil\<close>.\<close>

definition makeMap :: copier where
  "makeMap v m = (if v = NilRef then (v, m) else copyMap v m)"

text \<open>\<open>*out = *in\<close>, and then one statement for each of the given fields.\<close>

definition getField :: "string \<Rightarrow> gval \<Rightarrow> gval" where
  "getField f v = (case v of Struct fs \<Rightarrow> (case map_of fs f of Some x \<Rightarrow> x | None \<Rightarrow> NilRef) | _ \<Rightarrow> NilRef)"

definition setField :: "string \<Rightarrow> gval \<Rightarrow> gval \<Rightarrow> gval" where
  "setField f x v = (case v of Struct fs \<Rightarrow> Struct (map (\<lambda>(g, y). (g, if g = f then x else y)) fs) | _ \<Rightarrow> v)"

fun copyFields :: "(string \<times> copier) list \<Rightarrow> gval \<Rightarrow> gval \<Rightarrow> gmem \<Rightarrow> gval \<times> gmem" where
  "copyFields [] from to m = (to, m)"
| "copyFields ((f, c) # cs) from to m =
     (case c (getField f from) m of (x, m1) \<Rightarrow> copyFields cs from (setField f x to) m1)"

definition copyStruct :: "(string \<times> copier) list \<Rightarrow> copier" where
  "copyStruct cs v m = copyFields cs v v m"

text \<open>
  \<open>DeepCopyObject\<close> hands the pointer on as an interface, unless it is nil: a nil interface is \<open>None\<close>, which is not
  an interface that holds a nil pointer.
\<close>

definition asObject :: "copier \<Rightarrow> gval \<Rightarrow> gmem \<Rightarrow> gval option \<times> gmem" where
  "asObject c v m = (case c v m of (w, m') \<Rightarrow> if w \<noteq> NilRef then (Some w, m') else (None, m'))"

section \<open>Types\<close>

text \<open>The type declarations, as far as a copy has to know them; a type of a library is known by its name.\<close>

datatype gtype = GScalar | GLibrary string | GPtr gtype | GSlice gtype | GMap | GStruct "(string \<times> gtype) list"

fun has_type :: "(string \<Rightarrow> content \<Rightarrow> bool) \<Rightarrow> gtype \<Rightarrow> content \<Rightarrow> bool" where
  "has_type E GScalar t \<longleftrightarrow> (\<exists>s. t = CScalar s)"
| "has_type E (GLibrary n) t \<longleftrightarrow> E n t"
| "has_type E (GPtr T) t \<longleftrightarrow> t = CNil \<or> (\<exists>u. t = CPtr u \<and> has_type E T u)"
| "has_type E (GSlice T) t \<longleftrightarrow> t = CNil \<or> (\<exists>ts. t = CSlice ts \<and> list_all (has_type E T) ts)"
| "has_type E GMap t \<longleftrightarrow> t = CNil \<or> (\<exists>kv. t = CMap kv)"
| "has_type E (GStruct Ts) t \<longleftrightarrow> (\<exists>ts. t = CStruct ts \<and> list_all2 (\<lambda>T u. fst T = fst u \<and> has_type E (snd T) (snd u)) Ts ts)"

text \<open>Types without references: an assignment copies their values.\<close>

fun flat :: "gtype \<Rightarrow> bool" where
  "flat GScalar \<longleftrightarrow> True"
| "flat (GStruct Ts) \<longleftrightarrow> list_all (\<lambda>T. flat (snd T)) Ts"
| "flat _ \<longleftrightarrow> False"

lemma flat_holds: "flat T \<Longrightarrow> has_type E T t \<Longrightarrow> holds h R v t \<Longrightarrow> holds h' R' v t"
proof (induction T arbitrary: t v)
  case (GStruct Ts)
  from GStruct.prems obtain ts fs where ts: "t = CStruct ts" "v = Struct fs" "length Ts = length ts" "length fs = length ts"
    and all: "\<And>i. i < length ts \<Longrightarrow> fst (Ts ! i) = fst (ts ! i) \<and> has_type E (snd (Ts ! i)) (snd (ts ! i)) \<and>
        flat (snd (Ts ! i)) \<and> fst (fs ! i) = fst (ts ! i) \<and> holds h R (snd (fs ! i)) (snd (ts ! i))"
    by (auto simp: list_all2_conv_all_nth list_all_length)
  have "holds h' R' (snd (fs ! i)) (snd (ts ! i))" if "i < length ts" for i
    using GStruct.IH [of "Ts ! i" "snd (Ts ! i)"] all [OF that] that ts(3) by (metis nth_mem prod_set_simps(2) insertI1 prod.collapse)
  then show ?case using ts all by (auto simp: list_all2_conv_all_nth)
qed auto

section \<open>What a deep copy promises\<close>

text \<open>The memory has grown: the cells that were there are as they were.\<close>

definition grown :: "gmem \<Rightarrow> gmem \<Rightarrow> bool" where
  "grown m m' \<longleftrightarrow> next_addr m \<le> next_addr m' \<and> (\<forall>a < next_addr m. cell m' a = cell m a)"

abbreviation allocated :: "gmem \<Rightarrow> nat \<Rightarrow> bool" where "allocated m \<equiv> (\<lambda>a. a < next_addr m)"

abbreviation between :: "gmem \<Rightarrow> gmem \<Rightarrow> nat \<Rightarrow> bool" where
  "between m m' \<equiv> (\<lambda>a. next_addr m \<le> a \<and> a < next_addr m')"

text \<open>
  A copier makes deep copies of the contents of a kind: the copy holds what the original holds, through new
  cells only, and no cell that was there is written.
\<close>

definition deepCopies :: "copier \<Rightarrow> (content \<Rightarrow> bool) \<Rightarrow> bool" where
  "deepCopies c D \<longleftrightarrow>
     (\<forall>m v t. D t \<longrightarrow> holds (cell m) (allocated m) v t \<longrightarrow>
        grown m (snd (c v m)) \<and> holds (cell (snd (c v m))) (between m (snd (c v m))) (fst (c v m)) t)"

lemma deepCopiesE:
  assumes "deepCopies c D" "D t" "holds (cell m) (allocated m) v t"
  obtains w m' where "c v m = (w, m')" "grown m m'" "holds (cell m') (between m m') w t"
  using assms unfolding deepCopies_def by (metis prod.collapse)

lemma deepCopiesD:
  "deepCopies c D \<Longrightarrow> D t \<Longrightarrow> holds (cell m) (allocated m) v t \<Longrightarrow> c v m = (w, m') \<Longrightarrow>
     grown m m' \<and> holds (cell m') (between m m') w t"
  unfolding deepCopies_def by (metis fst_conv snd_conv)

lemma deepCopiesI:
  assumes "\<And>m v t. D t \<Longrightarrow> holds (cell m) (allocated m) v t \<Longrightarrow>
    \<exists>w m'. c v m = (w, m') \<and> grown m m' \<and> holds (cell m') (between m m') w t"
  shows "deepCopies c D"
  unfolding deepCopies_def by (metis assms fst_conv snd_conv)

named_theorems copies \<open>the statements of a deep copy make deep copies\<close>

lemma grown_refl [simp]: "grown m m" by (simp add: grown_def)

lemma grown_trans: "grown m m1 \<Longrightarrow> grown m1 m2 \<Longrightarrow> grown m m2" by (auto simp: grown_def)

lemma holds_grown: "holds (cell m) (allocated m) v t \<Longrightarrow> grown m m' \<Longrightarrow> holds (cell m') (allocated m') v t"
  by (erule holds_mono) (auto simp: grown_def)

lemma holds_later:
  "holds (cell m1) (between m0 m1) v t \<Longrightarrow> grown m1 m2 \<Longrightarrow> holds (cell m2) (between m0 m2) v t"
  by (erule holds_mono) (auto simp: grown_def)

lemma holds_earlier: "holds h (between m1 m2) v t \<Longrightarrow> grown m0 m1 \<Longrightarrow> holds h (between m0 m2) v t"
  by (erule holds_mono) (auto simp: grown_def)

lemma alloc_grown: "alloc c m = (b, m') \<Longrightarrow> grown m m' \<and> next_addr m \<le> b \<and> b < next_addr m' \<and> cell m' b = c"
  by (auto simp: alloc_def grown_def)

lemma assign_copies [copies]: "flat T \<Longrightarrow> deepCopies assign (has_type E T)"
  by (rule deepCopiesI) (auto simp: assign_def intro: flat_holds)

lemma newPtr_copies [copies]:
  assumes "deepCopies c (has_type E T)"
  shows "deepCopies (newPtr c) (has_type E (GPtr T))"
proof (rule deepCopiesI)
  fix m v t
  assume t: "has_type E (GPtr T) t" and v: "holds (cell m) (allocated m) v t"
  show "\<exists>w m'. newPtr c v m = (w, m') \<and> grown m m' \<and> holds (cell m') (between m m') w t"
  proof (cases "t = CNil")
    case False
    with t v obtain u a x where u: "t = CPtr u" "has_type E T u" "v = PtrTo a" "cell m a = Elems [x]"
      "holds (cell m) (allocated m) x u" by auto
    obtain y m1 where y: "c x m = (y, m1)" "grown m m1" "holds (cell m1) (between m m1) y u"
      by (rule deepCopiesE [OF assms u(2,5)])
    obtain b m2 where b: "alloc (Elems [y]) m1 = (b, m2)" by (cases "alloc (Elems [y]) m1")
    from alloc_grown [OF b] y grown_trans show ?thesis
      by (auto simp: u newPtr_def y(1) b grown_def intro!: exI holds_later [OF y(3)])
  qed (use v in \<open>simp add: newPtr_def\<close>)
qed

lemma copyElems_copies:
  assumes "deepCopies c D"
  shows "list_all2 (holds (cell m) (allocated m)) xs ts \<Longrightarrow> list_all D ts \<Longrightarrow>
    \<exists>ys m'. copyElems c xs m = (ys, m') \<and> grown m m' \<and> list_all2 (holds (cell m') (between m m')) ys ts"
proof (induction ts arbitrary: xs m)
  case (Cons t ts)
  then obtain x xs' where xs: "xs = x # xs'" "holds (cell m) (allocated m) x t"
    "list_all2 (holds (cell m) (allocated m)) xs' ts" by (auto simp: list_all2_Cons2)
  obtain y m1 where y: "c x m = (y, m1)" "grown m m1" "holds (cell m1) (between m m1) y t"
    using deepCopiesE [OF assms _ xs(2)] Cons.prems(2) by auto
  from xs(3) y(2) have "list_all2 (holds (cell m1) (allocated m1)) xs' ts" by (auto elim: list_all2_mono holds_grown)
  from Cons.IH [OF this] Cons.prems(2) obtain ys m2 where ys: "copyElems c xs' m1 = (ys, m2)" "grown m1 m2"
    "list_all2 (holds (cell m2) (between m1 m2)) ys ts" by auto
  have "list_all2 (holds (cell m2) (between m m2)) ys ts" using ys(3) by (rule list_all2_mono) (rule holds_earlier [OF _ y(2)])
  then show ?case using y ys grown_trans [OF y(2) ys(2)] holds_later [OF y(3) ys(2)] by (simp add: xs(1))
qed simp

lemma makeSlice_copies [copies]:
  assumes "deepCopies c (has_type E T)"
  shows "deepCopies (makeSlice c) (has_type E (GSlice T))"
proof (rule deepCopiesI)
  fix m v t
  assume t: "has_type E (GSlice T) t" and v: "holds (cell m) (allocated m) v t"
  show "\<exists>w m'. makeSlice c v m = (w, m') \<and> grown m m' \<and> holds (cell m') (between m m') w t"
  proof (cases "t = CNil")
    case False
    with t v obtain ts a xs where u: "t = CSlice ts" "list_all (has_type E T) ts" "v = SliceOf a" "cell m a = Elems xs"
      "list_all2 (holds (cell m) (allocated m)) xs ts" by auto
    from copyElems_copies [OF assms u(5,2)] obtain ys m1 where y: "copyElems c xs m = (ys, m1)" "grown m m1"
      "list_all2 (holds (cell m1) (between m m1)) ys ts" by blast
    obtain b m2 where b: "alloc (Elems ys) m1 = (b, m2)" by (cases "alloc (Elems ys) m1")
    have "list_all2 (holds (cell m2) (between m m2)) ys ts"
      using y(3) by (rule list_all2_mono) (use alloc_grown [OF b] holds_later in blast)
    with alloc_grown [OF b] y(2) show ?thesis
      by (auto simp: u makeSlice_def y(1) b grown_def)
  qed (use v in \<open>simp add: makeSlice_def\<close>)
qed

lemma makeMap_copies [copies]: "deepCopies makeMap (has_type E GMap)"
proof (rule deepCopiesI)
  fix m v t
  assume t: "has_type E GMap t" and v: "holds (cell m) (allocated m) v t"
  show "\<exists>w m'. makeMap v m = (w, m') \<and> grown m m' \<and> holds (cell m') (between m m') w t"
  proof (cases "t = CNil")
    case False
    with t v obtain kv a es where u: "t = CMap kv" "v = MapOf a" "cell m a = Entries es" "gomap_wf es"
      "gomap_get es = gomap_get kv" by auto
    let ?es = "fold (\<lambda>(k, x) out. gomap_put out k x) es []"
    have "gomap_wf (fold (\<lambda>(k, x) out. gomap_put out k x) xs out)" if "gomap_wf out" for xs out :: "(string, string) gomap"
      using that by (induction xs arbitrary: out) auto
    moreover have "gomap_get ?es = gomap_get kv"
      using u(5) by (intro ext) (simp add: gomap_get_fold_put [OF u(4)] split: option.splits)
    moreover obtain b m1 where b: "alloc (Entries ?es) m = (b, m1)" by (cases "alloc (Entries ?es) m")
    ultimately show ?thesis using alloc_grown [OF b] by (auto simp: u makeMap_def copyMap_def b)
  qed (use v in \<open>simp add: makeMap_def\<close>)
qed

lemma map_of_nth_distinct: "distinct (map fst fs) \<Longrightarrow> i < length fs \<Longrightarrow> map_of fs (fst (fs ! i)) = Some (snd (fs ! i))"
  by (metis map_of_eq_Some_iff nth_mem prod.collapse)

lemma copyFields_copies:
  assumes names: "distinct (map fst ts)" "map fst fs = map fst ts"
  shows "list_all (\<lambda>(f, c). \<exists>t. (f, t) \<in> set ts \<and> (\<exists>D. D t \<and> deepCopies c D)) cs \<Longrightarrow>
    (\<And>i. i < length ts \<Longrightarrow> holds (cell m) (allocated m) (snd (fs ! i)) (snd (ts ! i))) \<Longrightarrow> map fst os = map fst ts \<Longrightarrow>
    \<exists>os' m'. copyFields cs (Struct fs) (Struct os) m = (Struct os', m') \<and> grown m m' \<and> map fst os' = map fst ts \<and>
      (\<forall>i < length ts. if fst (ts ! i) \<in> fst ` set cs then holds (cell m') (between m m') (snd (os' ! i)) (snd (ts ! i))
                      else os' ! i = os ! i)"
proof (induction cs arbitrary: m os)
  case (Cons fc cs)
  obtain f c where fc: "fc = (f, c)" by (cases fc)
  from Cons.prems(1) obtain t D where t: "(f, t) \<in> set ts" "D t" "deepCopies c D" by (auto simp: fc)
  from t(1) obtain j where j: "j < length ts" "ts ! j = (f, t)" by (auto simp: in_set_conv_nth)
  have len: "length fs = length ts" "length os = length ts"
    using names(2) Cons.prems(3) by (metis length_map)+
  have nth: "fst (fs ! i) = fst (ts ! i)" "fst (os ! i) = fst (ts ! i)" if "i < length ts" for i
    using names(2) Cons.prems(3) that len by (metis nth_map)+
  have x: "getField f (Struct fs) = snd (fs ! j)"
    using map_of_nth_distinct [of fs j] names j len nth(1) [OF j(1)] by (simp add: getField_def)
  obtain y m1 where y: "c (snd (fs ! j)) m = (y, m1)" "grown m m1" "holds (cell m1) (between m m1) y t"
    by (rule deepCopiesE [OF t(3,2)]) (use Cons.prems(2) [OF j(1)] j(2) in auto)
  let ?os = "map (\<lambda>(g, z). (g, if g = f then y else z)) os"
  have "map fst ?os = map fst ts" using Cons.prems(3) by (simp add: comp_def case_prod_beta)
  moreover have "holds (cell m1) (allocated m1) (snd (fs ! i)) (snd (ts ! i))" if "i < length ts" for i
    using holds_grown [OF Cons.prems(2) [OF that] y(2)] .
  ultimately obtain os' m2 where rest: "copyFields cs (Struct fs) (Struct ?os) m1 = (Struct os', m2)" "grown m1 m2"
      "map fst os' = map fst ts"
      "\<And>i. i < length ts \<Longrightarrow> if fst (ts ! i) \<in> fst ` set cs then holds (cell m2) (between m1 m2) (snd (os' ! i)) (snd (ts ! i))
                      else os' ! i = ?os ! i"
    using Cons.IH [of m1 ?os] Cons.prems(1) by (auto simp: fc)
  have "if fst (ts ! i) \<in> fst ` set (fc # cs) then holds (cell m2) (between m m2) (snd (os' ! i)) (snd (ts ! i))
        else os' ! i = os ! i" if i: "i < length ts" for i
  proof (cases "fst (ts ! i) \<in> fst ` set cs")
    case True
    with rest(4) [OF i] holds_earlier [OF _ y(2)] show ?thesis by auto
  next
    case False
    then have os': "os' ! i = (fst (ts ! i), if fst (ts ! i) = f then y else snd (os ! i))"
      using rest(4) [OF i] i len nth(2) [OF i] by (simp add: case_prod_beta)
    show ?thesis
    proof (cases "fst (ts ! i) = f")
      case True
      with names(1) i j have "i = j" by (metis distinct_conv_nth fst_conv length_map nth_map)
      with os' True j holds_later [OF y(3) rest(2)] show ?thesis by (simp add: fc)
    next
      case False
      with os' \<open>fst (ts ! i) \<notin> fst ` set cs\<close> nth(2) [OF i] show ?thesis by (auto simp: fc prod_eq_iff)
    qed
  qed
  then show ?case
    using rest(1-3) grown_trans [OF y(2) rest(2)] by (simp add: fc x y(1) setField_def)
qed simp

text \<open>A struct is copied when every field with references has its statement.\<close>

lemma copyStruct_copies [copies]:
  assumes "distinct (map fst Ts)" and "list_all (\<lambda>(f, c). f \<in> set (map fst Ts)) cs" and "distinct (map fst cs)"
    and all: "list_all (\<lambda>(f, T). case map_of cs f of None \<Rightarrow> flat T | Some c \<Rightarrow> deepCopies c (has_type E T)) Ts"
  shows "deepCopies (copyStruct cs) (has_type E (GStruct Ts))"
proof (rule deepCopiesI)
  fix m v t
  assume "has_type E (GStruct Ts) t" and "holds (cell m) (allocated m) v t"
  then obtain ts fs where t: "t = CStruct ts" "v = Struct fs" and len: "length Ts = length ts" "length fs = length ts"
    and nth: "\<And>i. i < length ts \<Longrightarrow> fst (Ts ! i) = fst (ts ! i) \<and> has_type E (snd (Ts ! i)) (snd (ts ! i)) \<and>
        fst (fs ! i) = fst (ts ! i) \<and> holds (cell m) (allocated m) (snd (fs ! i)) (snd (ts ! i))"
    by (auto simp: list_all2_conv_all_nth)
  have names: "map fst Ts = map fst ts" "map fst fs = map fst ts" using len nth by (auto intro: nth_equalityI)
  have stmt: "case map_of cs (fst (ts ! i)) of None \<Rightarrow> flat (snd (Ts ! i)) | Some c \<Rightarrow> deepCopies c (has_type E (snd (Ts ! i)))"
    if "i < length ts" for i using all nth that len by (auto simp: list_all_length case_prod_beta)
  have "\<exists>t. (f, t) \<in> set ts \<and> (\<exists>D. D t \<and> deepCopies c D)" if "(f, c) \<in> set cs" for f c
  proof -
    from assms(2) that have "f \<in> set (map fst ts)" by (auto simp: list_all_iff simp flip: names(1))
    then obtain i where i: "i < length ts" "fst (ts ! i) = f" by (metis in_set_conv_nth length_map nth_map)
    moreover have "map_of cs f = Some c" using assms(3) that by simp
    ultimately have "deepCopies c (has_type E (snd (Ts ! i)))" using stmt [OF i(1)] by simp
    with nth [OF i(1)] i show ?thesis by (metis nth_mem prod.collapse)
  qed
  then have "list_all (\<lambda>(f, c). \<exists>t. (f, t) \<in> set ts \<and> (\<exists>D. D t \<and> deepCopies c D)) cs" by (auto simp: list_all_iff)
  from copyFields_copies [OF _ names(2) this, of m fs] names assms(1) nth obtain os m' where
    os: "copyStruct cs v m = (Struct os, m')" "grown m m'" "map fst os = map fst ts"
      "\<And>i. i < length ts \<Longrightarrow> if fst (ts ! i) \<in> fst ` set cs then holds (cell m') (between m m') (snd (os ! i)) (snd (ts ! i))
                      else os ! i = fs ! i"
    by (auto simp: t copyStruct_def)
  have "holds (cell m') (between m m') (snd (os ! i)) (snd (ts ! i))" if i: "i < length ts" for i
  proof (cases "fst (ts ! i) \<in> fst ` set cs")
    case False
    then have "map_of cs (fst (ts ! i)) = None" by (simp add: map_of_eq_None_iff)
    with stmt [OF i] flat_holds nth [OF i] os(4) [OF i] False show ?thesis by fastforce
  qed (use os(4) [OF i] in simp)
  moreover have "length os = length ts" "\<And>i. i < length ts \<Longrightarrow> fst (os ! i) = fst (ts ! i)"
    using os(3) by (metis length_map, metis length_map nth_map)
  ultimately show "\<exists>w m'. copyStruct cs v m = (w, m') \<and> grown m m' \<and> holds (cell m') (between m m') w t"
    using os(1,2) by (auto simp: t list_all2_conv_all_nth)
qed

text \<open>Types of libraries are copied by the functions of the libraries, which are parameters.\<close>

type_synonym library = "string \<Rightarrow> copier"

definition library_copies :: "library \<Rightarrow> (string \<Rightarrow> content \<Rightarrow> bool) \<Rightarrow> bool" where
  "library_copies ext E \<longleftrightarrow> (\<forall>n. deepCopies (ext n) (E n))"

lemma library_copiesD [copies]: "library_copies ext E \<Longrightarrow> deepCopies (ext n) (has_type E (GLibrary n))"
  by (simp add: library_copies_def deepCopies_def)

end
