(* ===== verification/ApiTypes.thy ===== *)
theory ApiTypes
  imports GoMemory
begin

text \<open>
  The Go types of \<open>pkg/apis\<close> with their fields, as far as a deep copy has to know them: strings, numbers and
  booleans are scalars, embedded metadata and raw extensions are types of a library. The time of the
  API machinery counts as one of them; the location it points to is never written.
\<close>

section \<open>Structs of strings from the API machinery\<close>

definition TypeMeta_type :: gtype where
  "TypeMeta_type = GStruct [(''Kind'', GScalar), (''APIVersion'', GScalar)]"

definition GroupVersionKind_type :: gtype where
  "GroupVersionKind_type = GStruct [(''Group'', GScalar), (''Version'', GScalar), (''Kind'', GScalar)]"

section \<open>The custom resources and their parts\<close>

definition Condition_type :: gtype where
  "Condition_type = GStruct [(''Timestamp'', GLibrary ''Time''), (''Message'', GScalar), (''Reason'', GScalar),
     (''Type'', GScalar)]"

definition JSONPatch_type :: gtype where
  "JSONPatch_type = GStruct [(''Op'', GScalar), (''Value'', GLibrary ''JSON''), (''Path'', GScalar)]"

definition MultiClusterResourceClusterStatus_type :: gtype where
  "MultiClusterResourceClusterStatus_type = GStruct [(''Name'', GScalar), (''Resource'', GScalar),
     (''ObservedReceiveGeneration'', GScalar), (''Phase'', GScalar), (''Message'', GScalar),
     (''Binding'', GScalar)]"

definition AggregatedResourceClusters_type :: gtype where
  "AggregatedResourceClusters_type = GStruct [(''Name'', GScalar), (''ResourceName'', GScalar),
     (''Result'', GLibrary ''RawExtension'')]"

definition AggregatedResourceStatusClusters_type :: gtype where
  "AggregatedResourceStatusClusters_type = GStruct [(''Name'', GScalar), (''ResourceName'', GScalar),
     (''UpdateTime'', GPtr (GLibrary ''Time'')), (''Status'', GScalar)]"

definition AggregatedResourceStatus_type :: gtype where
  "AggregatedResourceStatus_type = GStruct [(''Clusters'', GSlice AggregatedResourceStatusClusters_type)]"

definition AggregatedResource_type :: gtype where
  "AggregatedResource_type = GStruct [(''TypeMeta'', TypeMeta_type), (''ObjectMeta'', GLibrary ''ObjectMeta''),
     (''Clusters'', GPtr AggregatedResourceClusters_type), (''Aggregation'', GLibrary ''RawExtension''),
     (''Status'', AggregatedResourceStatus_type)]"

definition AggregatedResourceList_type :: gtype where
  "AggregatedResourceList_type = GStruct [(''TypeMeta'', TypeMeta_type), (''ListMeta'', GLibrary ''ListMeta''),
     (''Items'', GSlice AggregatedResource_type)]"

definition ClusterSecretRef_type :: gtype where
  "ClusterSecretRef_type = GStruct [(''Type'', GScalar), (''Name'', GScalar), (''Namespace'', GScalar),
     (''Field'', GScalar)]"

definition ClusterAddon_type :: gtype where
  "ClusterAddon_type = GStruct [(''Type'', GScalar), (''Name'', GScalar), (''Url'', GScalar),
     (''Configuration'', GPtr (GLibrary ''RawExtension''))]"

definition ClusterSpec_type :: gtype where
  "ClusterSpec_type = GStruct [(''ApiServer'', GScalar), (''SecretRef'', ClusterSecretRef_type),
     (''Addons'', GSlice ClusterAddon_type), (''Configuration'', GPtr (GLibrary ''RawExtension''))]"

definition ClusterAddonStatus_type :: gtype where
  "ClusterAddonStatus_type = GStruct [(''Name'', GScalar), (''Info'', GPtr (GLibrary ''RawExtension''))]"

definition ClusterStatus_type :: gtype where
  "ClusterStatus_type = GStruct [(''Addons'', GSlice ClusterAddonStatus_type),
     (''Conditions'', GSlice Condition_type), (''LastReceiveHeartBeatTimestamp'', GLibrary ''Time''),
     (''LastUpdateTimestamp'', GLibrary ''Time''), (''Healthy'', GScalar), (''Status'', GScalar)]"

definition Cluster_type :: gtype where
  "Cluster_type = GStruct [(''TypeMeta'', TypeMeta_type), (''ObjectMeta'', GLibrary ''ObjectMeta''),
     (''Spec'', ClusterSpec_type), (''Status'', ClusterStatus_type)]"

definition ClusterList_type :: gtype where
  "ClusterList_type = GStruct [(''TypeMeta'', TypeMeta_type), (''ListMeta'', GLibrary ''ListMeta''),
     (''Items'', GSlice Cluster_type)]"

definition ClusterResourceSpec_type :: gtype where
  "ClusterResourceSpec_type = GStruct [(''Resource'', GPtr (GLibrary ''RawExtension''))]"

definition ClusterResourceStatus_type :: gtype where
  "ClusterResourceStatus_type = GStruct [(''ObservedReceiveGeneration'', GScalar), (''Phase'', GScalar),
     (''Message'', GScalar)]"

definition ClusterResource_type :: gtype where
  "ClusterResource_type = GStruct [(''TypeMeta'', TypeMeta_type), (''ObjectMeta'', GLibrary ''ObjectMeta''),
     (''Spec'', ClusterResourceSpec_type), (''Status'', ClusterResourceStatus_type)]"

definition ClusterResourceList_type :: gtype where
  "ClusterResourceList_type = GStruct [(''TypeMeta'', TypeMeta_type), (''ListMeta'', GLibrary ''ListMeta''),
     (''Items'', GSlice ClusterResource_type)]"

definition ClusterSetSelector_type :: gtype where
  "ClusterSetSelector_type = GStruct [(''Labels'', GMap)]"

definition ClusterSetTarget_type :: gtype where
  "ClusterSetTarget_type = GStruct [(''Name'', GScalar), (''Role'', GScalar)]"

definition ClusterSetSpec_type :: gtype where
  "ClusterSetSpec_type = GStruct [(''Selector'', ClusterSetSelector_type),
     (''Clusters'', GSlice ClusterSetTarget_type), (''Policy'', GScalar)]"

definition ClusterSet_type :: gtype where
  "ClusterSet_type = GStruct [(''TypeMeta'', TypeMeta_type), (''ObjectMeta'', GLibrary ''ObjectMeta''),
     (''Spec'', ClusterSetSpec_type)]"

definition ClusterSetList_type :: gtype where
  "ClusterSetList_type = GStruct [(''TypeMeta'', TypeMeta_type), (''ListMeta'', GLibrary ''ListMeta''),
     (''Items'', GSlice ClusterSet_type)]"

definition MultiClusterResourceSpec_type :: gtype where
  "MultiClusterResourceSpec_type = GStruct [(''Resource'', GPtr (GLibrary ''RawExtension'')),
     (''ResourceRef'', GPtr GroupVersionKind_type), (''ReplicasField'', GScalar), (''Workload'', GScalar)]"

definition MultiClusterResourceStatus_type :: gtype where
  "MultiClusterResourceStatus_type = GStruct [(''ClusterStatus'', GSlice MultiClusterResourceClusterStatus_type)]"

definition MultiClusterResource_type :: gtype where
  "MultiClusterResource_type = GStruct [(''TypeMeta'', TypeMeta_type),
     (''ObjectMeta'', GLibrary ''ObjectMeta''), (''Spec'', MultiClusterResourceSpec_type),
     (''Status'', MultiClusterResourceStatus_type)]"

definition MultiClusterResourceAggregatePolicyClusters_type :: gtype where
  "MultiClusterResourceAggregatePolicyClusters_type = GStruct [(''Type'', GScalar),
     (''Clusters'', GSlice GScalar), (''Clusterset'', GScalar)]"

definition MultiClusterResourceAggregatePolicyLimitRuleMatch_type :: gtype where
  "MultiClusterResourceAggregatePolicyLimitRuleMatch_type = GStruct [(''Regexp'', GScalar),
     (''List'', GSlice GScalar)]"

definition MultiClusterResourceAggregatePolicyLimitRule_type :: gtype where
  "MultiClusterResourceAggregatePolicyLimitRule_type = GStruct [(''Namespaces'', GScalar),
     (''NameMatch'', MultiClusterResourceAggregatePolicyLimitRuleMatch_type)]"

definition MultiClusterResourceAggregatePolicyLimit_type :: gtype where
  "MultiClusterResourceAggregatePolicyLimit_type = GStruct [
     (''Requests'', GSlice MultiClusterResourceAggregatePolicyLimitRule_type),
     (''Ignores'', GSlice MultiClusterResourceAggregatePolicyLimitRule_type)]"

definition MultiClusterResourceAggregatePolicySpec_type :: gtype where
  "MultiClusterResourceAggregatePolicySpec_type = GStruct [(''AggregateRules'', GSlice GScalar),
     (''Clusters'', GPtr MultiClusterResourceAggregatePolicyClusters_type), (''Policy'', GScalar),
     (''Limit'', GPtr MultiClusterResourceAggregatePolicyLimit_type)]"

definition MultiClusterResourceAggregatePolicyStatus_type :: gtype where
  "MultiClusterResourceAggregatePolicyStatus_type = GStruct [(''Status'', GScalar), (''Message'', GScalar)]"

definition MultiClusterResourceAggregatePolicy_type :: gtype where
  "MultiClusterResourceAggregatePolicy_type = GStruct [(''TypeMeta'', TypeMeta_type),
     (''ObjectMeta'', GLibrary ''ObjectMeta''), (''Spec'', MultiClusterResourceAggregatePolicySpec_type),
     (''Status'', MultiClusterResourceAggregatePolicyStatus_type)]"

definition MultiClusterResourceAggregatePolicyList_type :: gtype where
  "MultiClusterResourceAggregatePolicyList_type = GStruct [(''TypeMeta'', TypeMeta_type),
     (''ListMeta'', GLibrary ''ListMeta''), (''Items'', GSlice MultiClusterResourceAggregatePolicy_type)]"

definition MultiClusterResourceAggregateRuleRule_type :: gtype where
  "MultiClusterResourceAggregateRuleRule_type = GStruct [(''Cue'', GScalar)]"

definition MultiClusterResourceAggregateRuleSpec_type :: gtype where
  "MultiClusterResourceAggregateRuleSpec_type = GStruct [(''ResourceRef'', GPtr GroupVersionKind_type),
     (''Rule'', MultiClusterResourceAggregateRuleRule_type)]"

definition MultiClusterResourceAggregateRuleStatus_type :: gtype where
  "MultiClusterResourceAggregateRuleStatus_type = GStruct []"

definition MultiClusterResourceAggregateRule_type :: gtype where
  "MultiClusterResourceAggregateRule_type = GStruct [(''TypeMeta'', TypeMeta_type),
     (''ObjectMeta'', GLibrary ''ObjectMeta''), (''Spec'', MultiClusterResourceAggregateRuleSpec_type),
     (''Status'', MultiClusterResourceAggregateRuleStatus_type)]"

definition MultiClusterResourceAggregateRuleList_type :: gtype where
  "MultiClusterResourceAggregateRuleList_type = GStruct [(''TypeMeta'', TypeMeta_type),
     (''ListMeta'', GLibrary ''ListMeta''), (''Items'', GSlice MultiClusterResourceAggregateRule_type)]"

definition MultiClusterResourceBindingCluster_type :: gtype where
  "MultiClusterResourceBindingCluster_type = GStruct [(''Name'', GScalar)]"

definition MultiClusterResourceBindingResource_type :: gtype where
  "MultiClusterResourceBindingResource_type = GStruct [(''Name'', GScalar), (''Namespace'', GScalar),
     (''Clusters'', GSlice MultiClusterResourceBindingCluster_type)]"

definition MultiClusterResourceBindingSpec_type :: gtype where
  "MultiClusterResourceBindingSpec_type = GStruct [
     (''Resources'', GSlice MultiClusterResourceBindingResource_type)]"

definition MultiClusterResourceBindingStatus_type :: gtype where
  "MultiClusterResourceBindingStatus_type = GStruct [
     (''ClusterStatus'', GSlice MultiClusterResourceClusterStatus_type)]"

definition MultiClusterResourceBinding_type :: gtype where
  "MultiClusterResourceBinding_type = GStruct [(''TypeMeta'', TypeMeta_type),
     (''ObjectMeta'', GLibrary ''ObjectMeta''), (''Spec'', MultiClusterResourceBindingSpec_type),
     (''Status'', MultiClusterResourceBindingStatus_type)]"

definition MultiClusterResourceBindingList_type :: gtype where
  "MultiClusterResourceBindingList_type = GStruct [(''TypeMeta'', TypeMeta_type),
     (''ListMeta'', GLibrary ''ListMeta''), (''Items'', GSlice MultiClusterResourceBinding_type)]"

definition MultiClusterResourceList_type :: gtype where
  "MultiClusterResourceList_type = GStruct [(''TypeMeta'', TypeMeta_type),
     (''ListMeta'', GLibrary ''ListMeta''), (''Items'', GSlice MultiClusterResource_type)]"

definition MultiClusterResourceOverrideResources_type :: gtype where
  "MultiClusterResourceOverrideResources_type = GStruct [(''Names'', GSlice GScalar)]"

definition MultiClusterResourceOverrideClusters_type :: gtype where
  "MultiClusterResourceOverrideClusters_type = GStruct [(''Names'', GSlice GScalar),
     (''Overrides'', GSlice JSONPatch_type)]"

definition MultiClusterResourceOverrideSpec_type :: gtype where
  "MultiClusterResourceOverrideSpec_type = GStruct [
     (''Resources'', GPtr MultiClusterResourceOverrideResources_type),
     (''Clusters'', GSlice MultiClusterResourceOverrideClusters_type)]"

definition MultiClusterResourceOverride_type :: gtype where
  "MultiClusterResourceOverride_type = GStruct [(''TypeMeta'', TypeMeta_type),
     (''ObjectMeta'', GLibrary ''ObjectMeta''), (''Spec'', GPtr MultiClusterResourceOverrideSpec_type)]"

definition MultiClusterResourceOverrideList_type :: gtype where
  "MultiClusterResourceOverrideList_type = GStruct [(''TypeMeta'', TypeMeta_type),
     (''ListMeta'', GLibrary ''ListMeta''), (''Items'', GSlice MultiClusterResourceOverride_type)]"

definition SchedulePolicyResource_type :: gtype where
  "SchedulePolicyResource_type = GStruct [(''Name'', GScalar)]"

definition SchedulePolicy_type :: gtype where
  "SchedulePolicy_type = GStruct [(''Name'', GScalar), (''Role'', GScalar), (''Weight'', GScalar),
     (''Min'', GScalar), (''Max'', GScalar)]"

definition ScheduleFailoverPolicy_type :: gtype where
  "ScheduleFailoverPolicy_type = GStruct [(''Name'', GScalar), (''Type'', GScalar)]"

definition ScheduleOutTreePolicy_type :: gtype where
  "ScheduleOutTreePolicy_type = GStruct [(''Url'', GScalar), (''Properties'', GPtr (GLibrary ''RawExtension''))]"

definition MultiClusterResourceSchedulePolicySpec_type :: gtype where
  "MultiClusterResourceSchedulePolicySpec_type = GStruct [(''Resources'', GSlice SchedulePolicyResource_type),
     (''ClusterSource'', GScalar), (''Clusterset'', GScalar), (''Replicas'', GScalar),
     (''ScheduleMode'', GScalar), (''Reschedule'', GScalar), (''Policy'', GSlice SchedulePolicy_type),
     (''FailoverPolicy'', GSlice ScheduleFailoverPolicy_type), (''OutTreePolicy'', ScheduleOutTreePolicy_type)]"

definition ScheduleStatus_type :: gtype where
  "ScheduleStatus_type = GStruct [(''Status'', GScalar), (''Message'', GScalar),
     (''LastScheduleTime'', GPtr (GLibrary ''Time'')), (''LastModifyTime'', GPtr (GLibrary ''Time''))]"

definition MultiClusterResourceSchedulePolicyStatus_type :: gtype where
  "MultiClusterResourceSchedulePolicyStatus_type = GStruct [(''Schedule'', ScheduleStatus_type)]"

definition MultiClusterResourceSchedulePolicy_type :: gtype where
  "MultiClusterResourceSchedulePolicy_type = GStruct [(''TypeMeta'', TypeMeta_type),
     (''ObjectMeta'', GLibrary ''ObjectMeta''), (''Spec'', MultiClusterResourceSchedulePolicySpec_type),
     (''Status'', MultiClusterResourceSchedulePolicyStatus_type)]"

definition MultiClusterResourceSchedulePolicyList_type :: gtype where
  "MultiClusterResourceSchedulePolicyList_type = GStruct [(''TypeMeta'', TypeMeta_type),
     (''ListMeta'', GLibrary ''ListMeta''), (''Items'', GSlice MultiClusterResourceSchedulePolicy_type)]"

definition NamespaceMappingRule_type :: gtype where
  "NamespaceMappingRule_type = GMap"

definition NamespaceMappingSpec_type :: gtype where
  "NamespaceMappingSpec_type = GStruct [(''Mapping'', NamespaceMappingRule_type)]"

definition NamespaceMapping_type :: gtype where
  "NamespaceMapping_type = GStruct [(''TypeMeta'', TypeMeta_type), (''ObjectMeta'', GLibrary ''ObjectMeta''),
     (''Spec'', NamespaceMappingSpec_type)]"

definition NamespaceMappingList_type :: gtype where
  "NamespaceMappingList_type = GStruct [(''TypeMeta'', TypeMeta_type), (''ListMeta'', GLibrary ''ListMeta''),
     (''Items'', GSlice ClusterSet_type)]"

definition ResourceAggregatePolicySpec_type :: gtype where
  "ResourceAggregatePolicySpec_type = GStruct [(''ResourceRef'', GPtr GroupVersionKind_type),
     (''Limit'', GPtr MultiClusterResourceAggregatePolicyLimit_type)]"

definition ResourceAggregatePolicyStatus_type :: gtype where
  "ResourceAggregatePolicyStatus_type = GStruct []"

definition ResourceAggregatePolicy_type :: gtype where
  "ResourceAggregatePolicy_type = GStruct [(''TypeMeta'', TypeMeta_type),
     (''ObjectMeta'', GLibrary ''ObjectMeta''), (''Spec'', ResourceAggregatePolicySpec_type),
     (''Status'', ResourceAggregatePolicyStatus_type)]"

definition ResourceAggregatePolicyList_type :: gtype where
  "ResourceAggregatePolicyList_type = GStruct [(''TypeMeta'', TypeMeta_type),
     (''ListMeta'', GLibrary ''ListMeta''), (''Items'', GSlice ResourceAggregatePolicy_type)]"

lemmas type_defs =
  TypeMeta_type_def GroupVersionKind_type_def Condition_type_def JSONPatch_type_def
  MultiClusterResourceClusterStatus_type_def AggregatedResourceClusters_type_def
  AggregatedResourceStatusClusters_type_def AggregatedResourceStatus_type_def AggregatedResource_type_def
  AggregatedResourceList_type_def ClusterSecretRef_type_def ClusterAddon_type_def ClusterSpec_type_def
  ClusterAddonStatus_type_def ClusterStatus_type_def Cluster_type_def ClusterList_type_def
  ClusterResourceSpec_type_def ClusterResourceStatus_type_def ClusterResource_type_def
  ClusterResourceList_type_def ClusterSetSelector_type_def ClusterSetTarget_type_def ClusterSetSpec_type_def
  ClusterSet_type_def ClusterSetList_type_def MultiClusterResourceSpec_type_def
  MultiClusterResourceStatus_type_def MultiClusterResource_type_def
  MultiClusterResourceAggregatePolicyClusters_type_def
  MultiClusterResourceAggregatePolicyLimitRuleMatch_type_def
  MultiClusterResourceAggregatePolicyLimitRule_type_def MultiClusterResourceAggregatePolicyLimit_type_def
  MultiClusterResourceAggregatePolicySpec_type_def MultiClusterResourceAggregatePolicyStatus_type_def
  MultiClusterResourceAggregatePolicy_type_def MultiClusterResourceAggregatePolicyList_type_def
  MultiClusterResourceAggregateRuleRule_type_def MultiClusterResourceAggregateRuleSpec_type_def
  MultiClusterResourceAggregateRuleStatus_type_def MultiClusterResourceAggregateRule_type_def
  MultiClusterResourceAggregateRuleList_type_def MultiClusterResourceBindingCluster_type_def
  MultiClusterResourceBindingResource_type_def MultiClusterResourceBindingSpec_type_def
  MultiClusterResourceBindingStatus_type_def MultiClusterResourceBinding_type_def
  MultiClusterResourceBindingList_type_def MultiClusterResourceList_type_def
  MultiClusterResourceOverrideResources_type_def MultiClusterResourceOverrideClusters_type_def
  MultiClusterResourceOverrideSpec_type_def MultiClusterResourceOverride_type_def
  MultiClusterResourceOverrideList_type_def SchedulePolicyResource_type_def SchedulePolicy_type_def
  ScheduleFailoverPolicy_type_def ScheduleOutTreePolicy_type_def
  MultiClusterResourceSchedulePolicySpec_type_def ScheduleStatus_type_def
  MultiClusterResourceSchedulePolicyStatus_type_def MultiClusterResourceSchedulePolicy_type_def
  MultiClusterResourceSchedulePolicyList_type_def NamespaceMappingRule_type_def NamespaceMappingSpec_type_def
  NamespaceMapping_type_def NamespaceMappingList_type_def ResourceAggregatePolicySpec_type_def
  ResourceAggregatePolicyStatus_type_def ResourceAggregatePolicy_type_def ResourceAggregatePolicyList_type_def

end
