(* ===== verification/DeepCopy.thy ===== *)
theory DeepCopy
  imports ApiTypes
begin

text \<open>
  The generated deep copies (\<open>zz_generated.deepcopy.go\<close> of both API packages): for every type \<open>DeepCopyInto\<close>, which
  starts with \<open>*out = *in\<close> and has one statement for each field that holds references, \<open>DeepCopy\<close>, which
  allocates the copy, and for the objects \<open>DeepCopyObject\<close>. The copies of library types are a parameter.
\<close>

section \<open>The functions\<close>

definition Condition_DeepCopyInto :: "library \<Rightarrow> copier" where
  "Condition_DeepCopyInto ext = copyStruct [(''Timestamp'', ext ''Time'')]"

definition Condition_DeepCopy :: "library \<Rightarrow> copier" where
  "Condition_DeepCopy ext = newPtr (Condition_DeepCopyInto ext)"

definition JSONPatch_DeepCopyInto :: "library \<Rightarrow> copier" where
  "JSONPatch_DeepCopyInto ext = copyStruct [(''Value'', ext ''JSON'')]"

definition JSONPatch_DeepCopy :: "library \<Rightarrow> copier" where
  "JSONPatch_DeepCopy ext = newPtr (JSONPatch_DeepCopyInto ext)"

definition MultiClusterResourceClusterStatus_DeepCopyInto :: "library \<Rightarrow> copier" where
  "MultiClusterResourceClusterStatus_DeepCopyInto ext = copyStruct []"

definition MultiClusterResourceClusterStatus_DeepCopy :: "library \<Rightarrow> copier" where
  "MultiClusterResourceClusterStatus_DeepCopy ext = newPtr (MultiClusterResourceClusterStatus_DeepCopyInto ext)"

definition AggregatedResourceClusters_DeepCopyInto :: "library \<Rightarrow> copier" where
  "AggregatedResourceClusters_DeepCopyInto ext = copyStruct [(''Result'', ext ''RawExtension'')]"

definition AggregatedResourceClusters_DeepCopy :: "library \<Rightarrow> copier" where
  "AggregatedResourceClusters_DeepCopy ext = newPtr (AggregatedResourceClusters_DeepCopyInto ext)"

definition AggregatedResourceStatusClusters_DeepCopyInto :: "library \<Rightarrow> copier" where
  "AggregatedResourceStatusClusters_DeepCopyInto ext = copyStruct [(''UpdateTime'', newPtr (ext ''Time''))]"

definition AggregatedResourceStatusClusters_DeepCopy :: "library \<Rightarrow> copier" where
  "AggregatedResourceStatusClusters_DeepCopy ext = newPtr (AggregatedResourceStatusClusters_DeepCopyInto ext)"

definition AggregatedResourceStatus_DeepCopyInto :: "library \<Rightarrow> copier" where
  "AggregatedResourceStatus_DeepCopyInto ext = copyStruct [
     (''Clusters'', makeSlice (AggregatedResourceStatusClusters_DeepCopyInto ext))]"

definition AggregatedResourceStatus_DeepCopy :: "library \<Rightarrow> copier" where
  "AggregatedResourceStatus_DeepCopy ext = newPtr (AggregatedResourceStatus_DeepCopyInto ext)"

definition AggregatedResource_DeepCopyInto :: "library \<Rightarrow> copier" where
  "AggregatedResource_DeepCopyInto ext = copyStruct [(''TypeMeta'', assign),
     (''ObjectMeta'', ext ''ObjectMeta''),
     (''Clusters'', newPtr (AggregatedResourceClusters_DeepCopyInto ext)),
     (''Aggregation'', ext ''RawExtension''), (''Status'', AggregatedResourceStatus_DeepCopyInto ext)]"

definition AggregatedResource_DeepCopy :: "library \<Rightarrow> copier" where
  "AggregatedResource_DeepCopy ext = newPtr (AggregatedResource_DeepCopyInto ext)"

definition AggregatedResource_DeepCopyObject :: "library \<Rightarrow> gval \<Rightarrow> gmem \<Rightarrow> gval option \<times> gmem" where
  "AggregatedResource_DeepCopyObject ext = asObject (AggregatedResource_DeepCopy ext)"

definition AggregatedResourceList_DeepCopyInto :: "library \<Rightarrow> copier" where
  "AggregatedResourceList_DeepCopyInto ext = copyStruct [(''TypeMeta'', assign),
     (''ListMeta'', ext ''ListMeta''), (''Items'', makeSlice (AggregatedResource_DeepCopyInto ext))]"

definition AggregatedResourceList_DeepCopy :: "library \<Rightarrow> copier" where
  "AggregatedResourceList_DeepCopy ext = newPtr (AggregatedResourceList_DeepCopyInto ext)"

definition AggregatedResourceList_DeepCopyObject :: "library \<Rightarrow> gval \<Rightarrow> gmem \<Rightarrow> gval option \<times> gmem" where
  "AggregatedResourceList_DeepCopyObject ext = asObject (AggregatedResourceList_DeepCopy ext)"

definition ClusterSecretRef_DeepCopyInto :: "library \<Rightarrow> copier" where
  "ClusterSecretRef_DeepCopyInto ext = copyStruct []"

definition ClusterSecretRef_DeepCopy :: "library \<Rightarrow> copier" where
  "ClusterSecretRef_DeepCopy ext = newPtr (ClusterSecretRef_DeepCopyInto ext)"

definition ClusterAddon_DeepCopyInto :: "library \<Rightarrow> copier" where
  "ClusterAddon_DeepCopyInto ext = copyStruct [(''Configuration'', newPtr (ext ''RawExtension''))]"

definition ClusterAddon_DeepCopy :: "library \<Rightarrow> copier" where
  "ClusterAddon_DeepCopy ext = newPtr (ClusterAddon_DeepCopyInto ext)"

definition ClusterSpec_DeepCopyInto :: "library \<Rightarrow> copier" where
  "ClusterSpec_DeepCopyInto ext = copyStruct [(''SecretRef'', assign),
     (''Addons'', makeSlice (ClusterAddon_DeepCopyInto ext)), (''Configuration'', newPtr (ext ''RawExtension''))]"

definition ClusterSpec_DeepCopy :: "library \<Rightarrow> copier" where
  "ClusterSpec_DeepCopy ext = newPtr (ClusterSpec_DeepCopyInto ext)"

definition ClusterAddonStatus_DeepCopyInto :: "library \<Rightarrow> copier" where
  "ClusterAddonStatus_DeepCopyInto ext = copyStruct [(''Info'', newPtr (ext ''RawExtension''))]"

definition ClusterAddonStatus_DeepCopy :: "library \<Rightarrow> copier" where
  "ClusterAddonStatus_DeepCopy ext = newPtr (ClusterAddonStatus_DeepCopyInto ext)"

definition ClusterStatus_DeepCopyInto :: "library \<Rightarrow> copier" where
  "ClusterStatus_DeepCopyInto ext = copyStruct [(''Addons'', makeSlice (ClusterAddonStatus_DeepCopyInto ext)),
     (''Conditions'', makeSlice (Condition_DeepCopyInto ext)),
     (''LastReceiveHeartBeatTimestamp'', ext ''Time''), (''LastUpdateTimestamp'', ext ''Time'')]"

definition ClusterStatus_DeepCopy :: "library \<Rightarrow> copier" where
  "ClusterStatus_DeepCopy ext = newPtr (ClusterStatus_DeepCopyInto ext)"

definition Cluster_DeepCopyInto :: "library \<Rightarrow> copier" where
  "Cluster_DeepCopyInto ext = copyStruct [(''TypeMeta'', assign), (''ObjectMeta'', ext ''ObjectMeta''),
     (''Spec'', ClusterSpec_DeepCopyInto ext), (''Status'', ClusterStatus_DeepCopyInto ext)]"

definition Cluster_DeepCopy :: "library \<Rightarrow> copier" where
  "Cluster_DeepCopy ext = newPtr (Cluster_DeepCopyInto ext)"

definition Cluster_DeepCopyObject :: "library \<Rightarrow> gval \<Rightarrow> gmem \<Rightarrow> gval option \<times> gmem" where
  "Cluster_DeepCopyObject ext = asObject (Cluster_DeepCopy ext)"

definition ClusterList_DeepCopyInto :: "library \<Rightarrow> copier" where
  "ClusterList_DeepCopyInto ext = copyStruct [(''TypeMeta'', assign), (''ListMeta'', ext ''ListMeta''),
     (''Items'', makeSlice (Cluster_DeepCopyInto ext))]"

definition ClusterList_DeepCopy :: "library \<Rightarrow> copier" where
  "ClusterList_DeepCopy ext = newPtr (ClusterList_DeepCopyInto ext)"

definition ClusterList_DeepCopyObject :: "library \<Rightarrow> gval \<Rightarrow> gmem \<Rightarrow> gval option \<times> gmem" where
  "ClusterList_DeepCopyObject ext = asObject (ClusterList_DeepCopy ext)"

definition ClusterResourceSpec_DeepCopyInto :: "library \<Rightarrow> copier" where
  "ClusterResourceSpec_DeepCopyInto ext = copyStruct [(''Resource'', newPtr (ext ''RawExtension''))]"

definition ClusterResourceSpec_DeepCopy :: "library \<Rightarrow> copier" where
  "ClusterResourceSpec_DeepCopy ext = newPtr (ClusterResourceSpec_DeepCopyInto ext)"

definition ClusterResourceStatus_DeepCopyInto :: "library \<Rightarrow> copier" where
  "ClusterResourceStatus_DeepCopyInto ext = copyStruct []"

definition ClusterResourceStatus_DeepCopy :: "library \<Rightarrow> copier" where
  "ClusterResourceStatus_DeepCopy ext = newPtr (ClusterResourceStatus_DeepCopyInto ext)"

definition ClusterResource_DeepCopyInto :: "library \<Rightarrow> copier" where
  "ClusterResource_DeepCopyInto ext = copyStruct [(''TypeMeta'', assign), (''ObjectMeta'', ext ''ObjectMeta''),
     (''Spec'', ClusterResourceSpec_DeepCopyInto ext), (''Status'', assign)]"

definition ClusterResource_DeepCopy :: "library \<Rightarrow> copier" where
  "ClusterResource_DeepCopy ext = newPtr (ClusterResource_DeepCopyInto ext)"

definition ClusterResource_DeepCopyObject :: "library \<Rightarrow> gval \<Rightarrow> gmem \<Rightarrow> gval option \<times> gmem" where
  "ClusterResource_DeepCopyObject ext = asObject (ClusterResource_DeepCopy ext)"

definition ClusterResourceList_DeepCopyInto :: "library \<Rightarrow> copier" where
  "ClusterResourceList_DeepCopyInto ext = copyStruct [(''TypeMeta'', assign), (''ListMeta'', ext ''ListMeta''),
     (''Items'', makeSlice (ClusterResource_DeepCopyInto ext))]"

definition ClusterResourceList_DeepCopy :: "library \<Rightarrow> copier" where
  "ClusterResourceList_DeepCopy ext = newPtr (ClusterResourceList_DeepCopyInto ext)"

definition ClusterResourceList_DeepCopyObject :: "library \<Rightarrow> gval \<Rightarrow> gmem \<Rightarrow> gval option \<times> gmem" where
  "ClusterResourceList_DeepCopyObject ext = asObject (ClusterResourceList_DeepCopy ext)"

definition ClusterSetSelector_DeepCopyInto :: "library \<Rightarrow> copier" where
  "ClusterSetSelector_DeepCopyInto ext = copyStruct [(''Labels'', makeMap)]"

definition ClusterSetSelector_DeepCopy :: "library \<Rightarrow> copier" where
  "ClusterSetSelector_DeepCopy ext = newPtr (ClusterSetSelector_DeepCopyInto ext)"

definition ClusterSetTarget_DeepCopyInto :: "library \<Rightarrow> copier" where
  "ClusterSetTarget_DeepCopyInto ext = copyStruct []"

definition ClusterSetTarget_DeepCopy :: "library \<Rightarrow> copier" where
  "ClusterSetTarget_DeepCopy ext = newPtr (ClusterSetTarget_DeepCopyInto ext)"

definition ClusterSetSpec_DeepCopyInto :: "library \<Rightarrow> copier" where
  "ClusterSetSpec_DeepCopyInto ext = copyStruct [(''Selector'', ClusterSetSelector_DeepCopyInto ext),
     (''Clusters'', makeSlice assign)]"

definition ClusterSetSpec_DeepCopy :: "library \<Rightarrow> copier" where
  "ClusterSetSpec_DeepCopy ext = newPtr (ClusterSetSpec_DeepCopyInto ext)"

definition ClusterSet_DeepCopyInto :: "library \<Rightarrow> copier" where
  "ClusterSet_DeepCopyInto ext = copyStruct [(''TypeMeta'', assign), (''ObjectMeta'', ext ''ObjectMeta''),
     (''Spec'', ClusterSetSpec_DeepCopyInto ext)]"

definition ClusterSet_DeepCopy :: "library \<Rightarrow> copier" where
  "ClusterSet_DeepCopy ext = newPtr (ClusterSet_DeepCopyInto ext)"

definition ClusterSet_DeepCopyObject :: "library \<Rightarrow> gval \<Rightarrow> gmem \<Rightarrow> gval option \<times> gmem" where
  "ClusterSet_DeepCopyObject ext = asObject (ClusterSet_DeepCopy ext)"

definition ClusterSetList_DeepCopyInto :: "library \<Rightarrow> copier" where
  "ClusterSetList_DeepCopyInto ext = copyStruct [(''TypeMeta'', assign), (''ListMeta'', ext ''ListMeta''),
     (''Items'', makeSlice (ClusterSet_DeepCopyInto ext))]"

definition ClusterSetList_DeepCopy :: "library \<Rightarrow> copier" where
  "ClusterSetList_DeepCopy ext = newPtr (ClusterSetList_DeepCopyInto ext)"

definition ClusterSetList_DeepCopyObject :: "library \<Rightarrow> gval \<Rightarrow> gmem \<Rightarrow> gval option \<times> gmem" where
  "ClusterSetList_DeepCopyObject ext = asObject (ClusterSetList_DeepCopy ext)"

definition MultiClusterResourceSpec_DeepCopyInto :: "library \<Rightarrow> copier" where
  "MultiClusterResourceSpec_DeepCopyInto ext = copyStruct [(''Resource'', newPtr (ext ''RawExtension'')),
     (''ResourceRef'', newPtr assign)]"

definition MultiClusterResourceSpec_DeepCopy :: "library \<Rightarrow> copier" where
  "MultiClusterResourceSpec_DeepCopy ext = newPtr (MultiClusterResourceSpec_DeepCopyInto ext)"

definition MultiClusterResourceStatus_DeepCopyInto :: "library \<Rightarrow> copier" where
  "MultiClusterResourceStatus_DeepCopyInto ext = copyStruct [(''ClusterStatus'', makeSlice assign)]"

definition MultiClusterResourceStatus_DeepCopy :: "library \<Rightarrow> copier" where
  "MultiClusterResourceStatus_DeepCopy ext = newPtr (MultiClusterResourceStatus_DeepCopyInto ext)"

definition MultiClusterResource_DeepCopyInto :: "library \<Rightarrow> copier" where
  "MultiClusterResource_DeepCopyInto ext = copyStruct [(''TypeMeta'', assign),
     (''ObjectMeta'', ext ''ObjectMeta''), (''Spec'', MultiClusterResourceSpec_DeepCopyInto ext),
     (''Status'', MultiClusterResourceStatus_DeepCopyInto ext)]"

definition MultiClusterResource_DeepCopy :: "library \<Rightarrow> copier" where
  "MultiClusterResource_DeepCopy ext = newPtr (MultiClusterResource_DeepCopyInto ext)"

definition MultiClusterResource_DeepCopyObject :: "library \<Rightarrow> gval \<Rightarrow> gmem \<Rightarrow> gval option \<times> gmem" where
  "MultiClusterResource_DeepCopyObject ext = asObject (MultiClusterResource_DeepCopy ext)"

definition MultiClusterResourceAggregatePolicyClusters_DeepCopyInto :: "library \<Rightarrow> copier" where
  "MultiClusterResourceAggregatePolicyClusters_DeepCopyInto ext = copyStruct [(''Clusters'', makeSlice assign)]"

definition MultiClusterResourceAggregatePolicyClusters_DeepCopy :: "library \<Rightarrow> copier" where
  "MultiClusterResourceAggregatePolicyClusters_DeepCopy ext = newPtr (MultiClusterResourceAggregatePolicyClusters_DeepCopyInto ext)"

definition MultiClusterResourceAggregatePolicyLimitRuleMatch_DeepCopyInto :: "library \<Rightarrow> copier" where
  "MultiClusterResourceAggregatePolicyLimitRuleMatch_DeepCopyInto ext = copyStruct [(''List'', makeSlice assign)]"

definition MultiClusterResourceAggregatePolicyLimitRuleMatch_DeepCopy :: "library \<Rightarrow> copier" where
  "MultiClusterResourceAggregatePolicyLimitRuleMatch_DeepCopy ext = newPtr (MultiClusterResourceAggregatePolicyLimitRuleMatch_DeepCopyInto ext)"

definition MultiClusterResourceAggregatePolicyLimitRule_DeepCopyInto :: "library \<Rightarrow> copier" where
  "MultiClusterResourceAggregatePolicyLimitRule_DeepCopyInto ext = copyStruct [
     (''NameMatch'', MultiClusterResourceAggregatePolicyLimitRuleMatch_DeepCopyInto ext)]"

definition MultiClusterResourceAggregatePolicyLimitRule_DeepCopy :: "library \<Rightarrow> copier" where
  "MultiClusterResourceAggregatePolicyLimitRule_DeepCopy ext = newPtr (MultiClusterResourceAggregatePolicyLimitRule_DeepCopyInto ext)"

definition MultiClusterResourceAggregatePolicyLimit_DeepCopyInto :: "library \<Rightarrow> copier" where
  "MultiClusterResourceAggregatePolicyLimit_DeepCopyInto ext = copyStruct [
     (''Requests'', makeSlice (MultiClusterResourceAggregatePolicyLimitRule_DeepCopyInto ext)),
     (''Ignores'', makeSlice (MultiClusterResourceAggregatePolicyLimitRule_DeepCopyInto ext))]"

definition MultiClusterResourceAggregatePolicyLimit_DeepCopy :: "library \<Rightarrow> copier" where
  "MultiClusterResourceAggregatePolicyLimit_DeepCopy ext = newPtr (MultiClusterResourceAggregatePolicyLimit_DeepCopyInto ext)"

definition MultiClusterResourceAggregatePolicySpec_DeepCopyInto :: "library \<Rightarrow> copier" where
  "MultiClusterResourceAggregatePolicySpec_DeepCopyInto ext = copyStruct [
     (''AggregateRules'', makeSlice assign),
     (''Clusters'', newPtr (MultiClusterResourceAggregatePolicyClusters_DeepCopyInto ext)),
     (''Limit'', newPtr (MultiClusterResourceAggregatePolicyLimit_DeepCopyInto ext))]"

definition MultiClusterResourceAggregatePolicySpec_DeepCopy :: "library \<Rightarrow> copier" where
  "MultiClusterResourceAggregatePolicySpec_DeepCopy ext = newPtr (MultiClusterResourceAggregatePolicySpec_DeepCopyInto ext)"

definition MultiClusterResourceAggregatePolicyStatus_DeepCopyInto :: "library \<Rightarrow> copier" where
  "MultiClusterResourceAggregatePolicyStatus_DeepCopyInto ext = copyStruct []"

definition MultiClusterResourceAggregatePolicyStatus_DeepCopy :: "library \<Rightarrow> copier" where
  "MultiClusterResourceAggregatePolicyStatus_DeepCopy ext = newPtr (MultiClusterResourceAggregatePolicyStatus_DeepCopyInto ext)"

definition MultiClusterResourceAggregatePolicy_DeepCopyInto :: "library \<Rightarrow> copier" where
  "MultiClusterResourceAggregatePolicy_DeepCopyInto ext = copyStruct [(''TypeMeta'', assign),
     (''ObjectMeta'', ext ''ObjectMeta''),
     (''Spec'', MultiClusterResourceAggregatePolicySpec_DeepCopyInto ext), (''Status'', assign)]"

definition MultiClusterResourceAggregatePolicy_DeepCopy :: "library \<Rightarrow> copier" where
  "MultiClusterResourceAggregatePolicy_DeepCopy ext = newPtr (MultiClusterResourceAggregatePolicy_DeepCopyInto ext)"

definition MultiClusterResourceAggregatePolicy_DeepCopyObject :: "library \<Rightarrow> gval \<Rightarrow> gmem \<Rightarrow> gval option \<times> gmem" where
  "MultiClusterResourceAggregatePolicy_DeepCopyObject ext = asObject (MultiClusterResourceAggregatePolicy_DeepCopy ext)"

definition MultiClusterResourceAggregatePolicyList_DeepCopyInto :: "library \<Rightarrow> copier" where
  "MultiClusterResourceAggregatePolicyList_DeepCopyInto ext = copyStruct [(''TypeMeta'', assign),
     (''ListMeta'', ext ''ListMeta''),
     (''Items'', makeSlice (MultiClusterResourceAggregatePolicy_DeepCopyInto ext))]"

definition MultiClusterResourceAggregatePolicyList_DeepCopy :: "library \<Rightarrow> copier" where
  "MultiClusterResourceAggregatePolicyList_DeepCopy ext = newPtr (MultiClusterResourceAggregatePolicyList_DeepCopyInto ext)"

definition MultiClusterResourceAggregatePolicyList_DeepCopyObject :: "library \<Rightarrow> gval \<Rightarrow> gmem \<Rightarrow> gval option \<times> gmem" where
  "MultiClusterResourceAggregatePolicyList_DeepCopyObject ext = asObject (MultiClusterResourceAggregatePolicyList_DeepCopy ext)"

definition MultiClusterResourceAggregateRuleRule_DeepCopyInto :: "library \<Rightarrow> copier" where
  "MultiClusterResourceAggregateRuleRule_DeepCopyInto ext = copyStruct []"

definition MultiClusterResourceAggregateRuleRule_DeepCopy :: "library \<Rightarrow> copier" where
  "MultiClusterResourceAggregateRuleRule_DeepCopy ext = newPtr (MultiClusterResourceAggregateRuleRule_DeepCopyInto ext)"

definition MultiClusterResourceAggregateRuleSpec_DeepCopyInto :: "library \<Rightarrow> copier" where
  "MultiClusterResourceAggregateRuleSpec_DeepCopyInto ext = copyStruct [(''ResourceRef'', newPtr assign),
     (''Rule'', assign)]"

definition MultiClusterResourceAggregateRuleSpec_DeepCopy :: "library \<Rightarrow> copier" where
  "MultiClusterResourceAggregateRuleSpec_DeepCopy ext = newPtr (MultiClusterResourceAggregateRuleSpec_DeepCopyInto ext)"

definition MultiClusterResourceAggregateRuleStatus_DeepCopyInto :: "library \<Rightarrow> copier" where
  "MultiClusterResourceAggregateRuleStatus_DeepCopyInto ext = copyStruct []"

definition MultiClusterResourceAggregateRuleStatus_DeepCopy :: "library \<Rightarrow> copier" where
  "MultiClusterResourceAggregateRuleStatus_DeepCopy ext = newPtr (MultiClusterResourceAggregateRuleStatus_DeepCopyInto ext)"

definition MultiClusterResourceAggregateRule_DeepCopyInto :: "library \<Rightarrow> copier" where
  "MultiClusterResourceAggregateRule_DeepCopyInto ext = copyStruct [(''TypeMeta'', assign),
     (''ObjectMeta'', ext ''ObjectMeta''), (''Spec'', MultiClusterResourceAggregateRuleSpec_DeepCopyInto ext),
     (''Status'', assign)]"

definition MultiClusterResourceAggregateRule_DeepCopy :: "library \<Rightarrow> copier" where
  "MultiClusterResourceAggregateRule_DeepCopy ext = newPtr (MultiClusterResourceAggregateRule_DeepCopyInto ext)"

definition MultiClusterResourceAggregateRule_DeepCopyObject :: "library \<Rightarrow> gval \<Rightarrow> gmem \<Rightarrow> gval option \<times> gmem" where
  "MultiClusterResourceAggregateRule_DeepCopyObject ext = asObject (MultiClusterResourceAggregateRule_DeepCopy ext)"

definition MultiClusterResourceAggregateRuleList_DeepCopyInto :: "library \<Rightarrow> copier" where
  "MultiClusterResourceAggregateRuleList_DeepCopyInto ext = copyStruct [(''TypeMeta'', assign),
     (''ListMeta'', ext ''ListMeta''),
     (''Items'', makeSlice (MultiClusterResourceAggregateRule_DeepCopyInto ext))]"

definition MultiClusterResourceAggregateRuleList_DeepCopy :: "library \<Rightarrow> copier" where
  "MultiClusterResourceAggregateRuleList_DeepCopy ext = newPtr (MultiClusterResourceAggregateRuleList_DeepCopyInto ext)"

definition MultiClusterResourceAggregateRuleList_DeepCopyObject :: "library \<Rightarrow> gval \<Rightarrow> gmem \<Rightarrow> gval option \<times> gmem" where
  "MultiClusterResourceAggregateRuleList_DeepCopyObject ext = asObject (MultiClusterResourceAggregateRuleList_DeepCopy ext)"

definition MultiClusterResourceBindingCluster_DeepCopyInto :: "library \<Rightarrow> copier" where
  "MultiClusterResourceBindingCluster_DeepCopyInto ext = copyStruct []"

definition MultiClusterResourceBindingCluster_DeepCopy :: "library \<Rightarrow> copier" where
  "MultiClusterResourceBindingCluster_DeepCopy ext = newPtr (MultiClusterResourceBindingCluster_DeepCopyInto ext)"

definition MultiClusterResourceBindingResource_DeepCopyInto :: "library \<Rightarrow> copier" where
  "MultiClusterResourceBindingResource_DeepCopyInto ext = copyStruct [(''Clusters'', makeSlice assign)]"

definition MultiClusterResourceBindingResource_DeepCopy :: "library \<Rightarrow> copier" where
  "MultiClusterResourceBindingResource_DeepCopy ext = newPtr (MultiClusterResourceBindingResource_DeepCopyInto ext)"

definition MultiClusterResourceBindingSpec_DeepCopyInto :: "library \<Rightarrow> copier" where
  "MultiClusterResourceBindingSpec_DeepCopyInto ext = copyStruct [
     (''Resources'', makeSlice (MultiClusterResourceBindingResource_DeepCopyInto ext))]"

definition MultiClusterResourceBindingSpec_DeepCopy :: "library \<Rightarrow> copier" where
  "MultiClusterResourceBindingSpec_DeepCopy ext = newPtr (MultiClusterResourceBindingSpec_DeepCopyInto ext)"

definition MultiClusterResourceBindingStatus_DeepCopyInto :: "library \<Rightarrow> copier" where
  "MultiClusterResourceBindingStatus_DeepCopyInto ext = copyStruct [(''ClusterStatus'', makeSlice assign)]"

definition MultiClusterResourceBindingStatus_DeepCopy :: "library \<Rightarrow> copier" where
  "MultiClusterResourceBindingStatus_DeepCopy ext = newPtr (MultiClusterResourceBindingStatus_DeepCopyInto ext)"

definition MultiClusterResourceBinding_DeepCopyInto :: "library \<Rightarrow> copier" where
  "MultiClusterResourceBinding_DeepCopyInto ext = copyStruct [(''TypeMeta'', assign),
     (''ObjectMeta'', ext ''ObjectMeta''), (''Spec'', MultiClusterResourceBindingSpec_DeepCopyInto ext),
     (''Status'', MultiClusterResourceBindingStatus_DeepCopyInto ext)]"

definition MultiClusterResourceBinding_DeepCopy :: "library \<Rightarrow> copier" where
  "MultiClusterResourceBinding_DeepCopy ext = newPtr (MultiClusterResourceBinding_DeepCopyInto ext)"

definition MultiClusterResourceBinding_DeepCopyObject :: "library \<Rightarrow> gval \<Rightarrow> gmem \<Rightarrow> gval option \<times> gmem" where
  "MultiClusterResourceBinding_DeepCopyObject ext = asObject (MultiClusterResourceBinding_DeepCopy ext)"

definition MultiClusterResourceBindingList_DeepCopyInto :: "library \<Rightarrow> copier" where
  "MultiClusterResourceBindingList_DeepCopyInto ext = copyStruct [(''TypeMeta'', assign),
     (''ListMeta'', ext ''ListMeta''), (''Items'', makeSlice (MultiClusterResourceBinding_DeepCopyInto ext))]"

definition MultiClusterResourceBindingList_DeepCopy :: "library \<Rightarrow> copier" where
  "MultiClusterResourceBindingList_DeepCopy ext = newPtr (MultiClusterResourceBindingList_DeepCopyInto ext)"

definition MultiClusterResourceBindingList_DeepCopyObject :: "library \<Rightarrow> gval \<Rightarrow> gmem \<Rightarrow> gval option \<times> gmem" where
  "MultiClusterResourceBindingList_DeepCopyObject ext = asObject (MultiClusterResourceBindingList_DeepCopy ext)"

definition MultiClusterResourceList_DeepCopyInto :: "library \<Rightarrow> copier" where
  "MultiClusterResourceList_DeepCopyInto ext = copyStruct [(''TypeMeta'', assign),
     (''ListMeta'', ext ''ListMeta''), (''Items'', makeSlice (MultiClusterResource_DeepCopyInto ext))]"

definition MultiClusterResourceList_DeepCopy :: "library \<Rightarrow> copier" where
  "MultiClusterResourceList_DeepCopy ext = newPtr (MultiClusterResourceList_DeepCopyInto ext)"

definition MultiClusterResourceList_DeepCopyObject :: "library \<Rightarrow> gval \<Rightarrow> gmem \<Rightarrow> gval option \<times> gmem" where
  "MultiClusterResourceList_DeepCopyObject ext = asObject (MultiClusterResourceList_DeepCopy ext)"

definition MultiClusterResourceOverrideResources_DeepCopyInto :: "library \<Rightarrow> copier" where
  "MultiClusterResourceOverrideResources_DeepCopyInto ext = copyStruct [(''Names'', makeSlice assign)]"

definition MultiClusterResourceOverrideResources_DeepCopy :: "library \<Rightarrow> copier" where
  "MultiClusterResourceOverrideResources_DeepCopy ext = newPtr (MultiClusterResourceOverrideResources_DeepCopyInto ext)"

definition MultiClusterResourceOverrideClusters_DeepCopyInto :: "library \<Rightarrow> copier" where
  "MultiClusterResourceOverrideClusters_DeepCopyInto ext = copyStruct [(''Names'', makeSlice assign),
     (''Overrides'', makeSlice (JSONPatch_DeepCopyInto ext))]"

definition MultiClusterResourceOverrideClusters_DeepCopy :: "library \<Rightarrow> copier" where
  "MultiClusterResourceOverrideClusters_DeepCopy ext = newPtr (MultiClusterResourceOverrideClusters_DeepCopyInto ext)"

definition MultiClusterResourceOverrideSpec_DeepCopyInto :: "library \<Rightarrow> copier" where
  "MultiClusterResourceOverrideSpec_DeepCopyInto ext = copyStruct [
     (''Resources'', newPtr (MultiClusterResourceOverrideResources_DeepCopyInto ext)),
     (''Clusters'', makeSlice (MultiClusterResourceOverrideClusters_DeepCopyInto ext))]"

definition MultiClusterResourceOverrideSpec_DeepCopy :: "library \<Rightarrow> copier" where
  "MultiClusterResourceOverrideSpec_DeepCopy ext = newPtr (MultiClusterResourceOverrideSpec_DeepCopyInto ext)"

definition MultiClusterResourceOverride_DeepCopyInto :: "library \<Rightarrow> copier" where
  "MultiClusterResourceOverride_DeepCopyInto ext = copyStruct [(''TypeMeta'', assign),
     (''ObjectMeta'', ext ''ObjectMeta''),
     (''Spec'', newPtr (MultiClusterResourceOverrideSpec_DeepCopyInto ext))]"

definition MultiClusterResourceOverride_DeepCopy :: "library \<Rightarrow> copier" where
  "MultiClusterResourceOverride_DeepCopy ext = newPtr (MultiClusterResourceOverride_DeepCopyInto ext)"

definition MultiClusterResourceOverride_DeepCopyObject :: "library \<Rightarrow> gval \<Rightarrow> gmem \<Rightarrow> gval option \<times> gmem" where
  "MultiClusterResourceOverride_DeepCopyObject ext = asObject (MultiClusterResourceOverride_DeepCopy ext)"

definition MultiClusterResourceOverrideList_DeepCopyInto :: "library \<Rightarrow> copier" where
  "MultiClusterResourceOverrideList_DeepCopyInto ext = copyStruct [(''TypeMeta'', assign),
     (''ListMeta'', ext ''ListMeta''), (''Items'', makeSlice (MultiClusterResourceOverride_DeepCopyInto ext))]"

definition MultiClusterResourceOverrideList_DeepCopy :: "library \<Rightarrow> copier" where
  "MultiClusterResourceOverrideList_DeepCopy ext = newPtr (MultiClusterResourceOverrideList_DeepCopyInto ext)"

definition MultiClusterResourceOverrideList_DeepCopyObject :: "library \<Rightarrow> gval \<Rightarrow> gmem \<Rightarrow> gval option \<times> gmem" where
  "MultiClusterResourceOverrideList_DeepCopyObject ext = asObject (MultiClusterResourceOverrideList_DeepCopy ext)"

definition SchedulePolicyResource_DeepCopyInto :: "library \<Rightarrow> copier" where
  "SchedulePolicyResource_DeepCopyInto ext = copyStruct []"

definition SchedulePolicyResource_DeepCopy :: "library \<Rightarrow> copier" where
  "SchedulePolicyResource_DeepCopy ext = newPtr (SchedulePolicyResource_DeepCopyInto ext)"

definition SchedulePolicy_DeepCopyInto :: "library \<Rightarrow> copier" where
  "SchedulePolicy_DeepCopyInto ext = copyStruct []"

definition SchedulePolicy_DeepCopy :: "library \<Rightarrow> copier" where
  "SchedulePolicy_DeepCopy ext = newPtr (SchedulePolicy_DeepCopyInto ext)"

definition ScheduleFailoverPolicy_DeepCopyInto :: "library \<Rightarrow> copier" where
  "ScheduleFailoverPolicy_DeepCopyInto ext = copyStruct []"

definition ScheduleFailoverPolicy_DeepCopy :: "library \<Rightarrow> copier" where
  "ScheduleFailoverPolicy_DeepCopy ext = newPtr (ScheduleFailoverPolicy_DeepCopyInto ext)"

definition ScheduleOutTreePolicy_DeepCopyInto :: "library \<Rightarrow> copier" where
  "ScheduleOutTreePolicy_DeepCopyInto ext = copyStruct [(''Properties'', newPtr (ext ''RawExtension''))]"

definition ScheduleOutTreePolicy_DeepCopy :: "library \<Rightarrow> copier" where
  "ScheduleOutTreePolicy_DeepCopy ext = newPtr (ScheduleOutTreePolicy_DeepCopyInto ext)"

definition MultiClusterResourceSchedulePolicySpec_DeepCopyInto :: "library \<Rightarrow> copier" where
  "MultiClusterResourceSchedulePolicySpec_DeepCopyInto ext = copyStruct [(''Resources'', makeSlice assign),
     (''Policy'', makeSlice assign), (''FailoverPolicy'', makeSlice assign),
     (''OutTreePolicy'', ScheduleOutTreePolicy_DeepCopyInto ext)]"

definition MultiClusterResourceSchedulePolicySpec_DeepCopy :: "library \<Rightarrow> copier" where
  "MultiClusterResourceSchedulePolicySpec_DeepCopy ext = newPtr (MultiClusterResourceSchedulePolicySpec_DeepCopyInto ext)"

definition ScheduleStatus_DeepCopyInto :: "library \<Rightarrow> copier" where
  "ScheduleStatus_DeepCopyInto ext = copyStruct [(''LastScheduleTime'', newPtr (ext ''Time'')),
     (''LastModifyTime'', newPtr (ext ''Time''))]"

definition ScheduleStatus_DeepCopy :: "library \<Rightarrow> copier" where
  "ScheduleStatus_DeepCopy ext = newPtr (ScheduleStatus_DeepCopyInto ext)"

definition MultiClusterResourceSchedulePolicyStatus_DeepCopyInto :: "library \<Rightarrow> copier" where
  "MultiClusterResourceSchedulePolicyStatus_DeepCopyInto ext = copyStruct [
     (''Schedule'', ScheduleStatus_DeepCopyInto ext)]"

definition MultiClusterResourceSchedulePolicyStatus_DeepCopy :: "library \<Rightarrow> copier" where
  "MultiClusterResourceSchedulePolicyStatus_DeepCopy ext = newPtr (MultiClusterResourceSchedulePolicyStatus_DeepCopyInto ext)"

definition MultiClusterResourceSchedulePolicy_DeepCopyInto :: "library \<Rightarrow> copier" where
  "MultiClusterResourceSchedulePolicy_DeepCopyInto ext = copyStruct [(''TypeMeta'', assign),
     (''ObjectMeta'', ext ''ObjectMeta''), (''Spec'', MultiClusterResourceSchedulePolicySpec_DeepCopyInto ext),
     (''Status'', MultiClusterResourceSchedulePolicyStatus_DeepCopyInto ext)]"

definition MultiClusterResourceSchedulePolicy_DeepCopy :: "library \<Rightarrow> copier" where
  "MultiClusterResourceSchedulePolicy_DeepCopy ext = newPtr (MultiClusterResourceSchedulePolicy_DeepCopyInto ext)"

definition MultiClusterResourceSchedulePolicy_DeepCopyObject :: "library \<Rightarrow> gval \<Rightarrow> gmem \<Rightarrow> gval option \<times> gmem" where
  "MultiClusterResourceSchedulePolicy_DeepCopyObject ext = asObject (MultiClusterResourceSchedulePolicy_DeepCopy ext)"

definition MultiClusterResourceSchedulePolicyList_DeepCopyInto :: "library \<Rightarrow> copier" where
  "MultiClusterResourceSchedulePolicyList_DeepCopyInto ext = copyStruct [(''TypeMeta'', assign),
     (''ListMeta'', ext ''ListMeta''),
     (''Items'', makeSlice (MultiClusterResourceSchedulePolicy_DeepCopyInto ext))]"

definition MultiClusterResourceSchedulePolicyList_DeepCopy :: "library \<Rightarrow> copier" where
  "MultiClusterResourceSchedulePolicyList_DeepCopy ext = newPtr (MultiClusterResourceSchedulePolicyList_DeepCopyInto ext)"

definition MultiClusterResourceSchedulePolicyList_DeepCopyObject :: "library \<Rightarrow> gval \<Rightarrow> gmem \<Rightarrow> gval option \<times> gmem" where
  "MultiClusterResourceSchedulePolicyList_DeepCopyObject ext = asObject (MultiClusterResourceSchedulePolicyList_DeepCopy ext)"

definition NamespaceMappingRule_DeepCopyInto :: "library \<Rightarrow> copier" where
  "NamespaceMappingRule_DeepCopyInto ext = copyMap"

definition NamespaceMappingRule_DeepCopy :: "library \<Rightarrow> copier" where
  "NamespaceMappingRule_DeepCopy ext v m = (if v = NilRef then (NilRef, m) else NamespaceMappingRule_DeepCopyInto ext v m)"

definition NamespaceMappingSpec_DeepCopyInto :: "library \<Rightarrow> copier" where
  "NamespaceMappingSpec_DeepCopyInto ext = copyStruct [(''Mapping'', makeMap)]"

definition NamespaceMappingSpec_DeepCopy :: "library \<Rightarrow> copier" where
  "NamespaceMappingSpec_DeepCopy ext = newPtr (NamespaceMappingSpec_DeepCopyInto ext)"

definition NamespaceMapping_DeepCopyInto :: "library \<Rightarrow> copier" where
  "NamespaceMapping_DeepCopyInto ext = copyStruct [(''TypeMeta'', assign),
     (''ObjectMeta'', ext ''ObjectMeta''), (''Spec'', NamespaceMappingSpec_DeepCopyInto ext)]"

definition NamespaceMapping_DeepCopy :: "library \<Rightarrow> copier" where
  "NamespaceMapping_DeepCopy ext = newPtr (NamespaceMapping_DeepCopyInto ext)"

definition NamespaceMapping_DeepCopyObject :: "library \<Rightarrow> gval \<Rightarrow> gmem \<Rightarrow> gval option \<times> gmem" where
  "NamespaceMapping_DeepCopyObject ext = asObject (NamespaceMapping_DeepCopy ext)"

definition NamespaceMappingList_DeepCopyInto :: "library \<Rightarrow> copier" where
  "NamespaceMappingList_DeepCopyInto ext = copyStruct [(''TypeMeta'', assign),
     (''ListMeta'', ext ''ListMeta''), (''Items'', makeSlice (ClusterSet_DeepCopyInto ext))]"

definition NamespaceMappingList_DeepCopy :: "library \<Rightarrow> copier" where
  "NamespaceMappingList_DeepCopy ext = newPtr (NamespaceMappingList_DeepCopyInto ext)"

definition NamespaceMappingList_DeepCopyObject :: "library \<Rightarrow> gval \<Rightarrow> gmem \<Rightarrow> gval option \<times> gmem" where
  "NamespaceMappingList_DeepCopyObject ext = asObject (NamespaceMappingList_DeepCopy ext)"

definition ResourceAggregatePolicySpec_DeepCopyInto :: "library \<Rightarrow> copier" where
  "ResourceAggregatePolicySpec_DeepCopyInto ext = copyStruct [(''ResourceRef'', newPtr assign),
     (''Limit'', newPtr (MultiClusterResourceAggregatePolicyLimit_DeepCopyInto ext))]"

definition ResourceAggregatePolicySpec_DeepCopy :: "library \<Rightarrow> copier" where
  "ResourceAggregatePolicySpec_DeepCopy ext = newPtr (ResourceAggregatePolicySpec_DeepCopyInto ext)"

definition ResourceAggregatePolicyStatus_DeepCopyInto :: "library \<Rightarrow> copier" where
  "ResourceAggregatePolicyStatus_DeepCopyInto ext = copyStruct []"

definition ResourceAggregatePolicyStatus_DeepCopy :: "library \<Rightarrow> copier" where
  "ResourceAggregatePolicyStatus_DeepCopy ext = newPtr (ResourceAggregatePolicyStatus_DeepCopyInto ext)"

definition ResourceAggregatePolicy_DeepCopyInto :: "library \<Rightarrow> copier" where
  "ResourceAggregatePolicy_DeepCopyInto ext = copyStruct [(''TypeMeta'', assign),
     (''ObjectMeta'', ext ''ObjectMeta''), (''Spec'', ResourceAggregatePolicySpec_DeepCopyInto ext),
     (''Status'', assign)]"

definition ResourceAggregatePolicy_DeepCopy :: "library \<Rightarrow> copier" where
  "ResourceAggregatePolicy_DeepCopy ext = newPtr (ResourceAggregatePolicy_DeepCopyInto ext)"

definition ResourceAggregatePolicy_DeepCopyObject :: "library \<Rightarrow> gval \<Rightarrow> gmem \<Rightarrow> gval option \<times> gmem" where
  "ResourceAggregatePolicy_DeepCopyObject ext = asObject (ResourceAggregatePolicy_DeepCopy ext)"

definition ResourceAggregatePolicyList_DeepCopyInto :: "library \<Rightarrow> copier" where
  "ResourceAggregatePolicyList_DeepCopyInto ext = copyStruct [(''TypeMeta'', assign),
     (''ListMeta'', ext ''ListMeta''), (''Items'', makeSlice (ResourceAggregatePolicy_DeepCopyInto ext))]"

definition ResourceAggregatePolicyList_DeepCopy :: "library \<Rightarrow> copier" where
  "ResourceAggregatePolicyList_DeepCopy ext = newPtr (ResourceAggregatePolicyList_DeepCopyInto ext)"

definition ResourceAggregatePolicyList_DeepCopyObject :: "library \<Rightarrow> gval \<Rightarrow> gmem \<Rightarrow> gval option \<times> gmem" where
  "ResourceAggregatePolicyList_DeepCopyObject ext = asObject (ResourceAggregatePolicyList_DeepCopy ext)"

section \<open>All of them\<close>

text \<open>Every copy with the type of what it takes.\<close>

definition generatedCopies :: "library \<Rightarrow> (gtype \<times> copier) list" where
  "generatedCopies ext =
    [(GPtr Condition_type, Condition_DeepCopy ext),
     (GPtr JSONPatch_type, JSONPatch_DeepCopy ext),
     (GPtr MultiClusterResourceClusterStatus_type, MultiClusterResourceClusterStatus_DeepCopy ext),
     (GPtr AggregatedResourceClusters_type, AggregatedResourceClusters_DeepCopy ext),
     (GPtr AggregatedResourceStatusClusters_type, AggregatedResourceStatusClusters_DeepCopy ext),
     (GPtr AggregatedResourceStatus_type, AggregatedResourceStatus_DeepCopy ext),
     (GPtr AggregatedResource_type, AggregatedResource_DeepCopy ext),
     (GPtr AggregatedResourceList_type, AggregatedResourceList_DeepCopy ext),
     (GPtr ClusterSecretRef_type, ClusterSecretRef_DeepCopy ext),
     (GPtr ClusterAddon_type, ClusterAddon_DeepCopy ext),
     (GPtr ClusterSpec_type, ClusterSpec_DeepCopy ext),
     (GPtr ClusterAddonStatus_type, ClusterAddonStatus_DeepCopy ext),
     (GPtr ClusterStatus_type, ClusterStatus_DeepCopy ext),
     (GPtr Cluster_type, Cluster_DeepCopy ext),
     (GPtr ClusterList_type, ClusterList_DeepCopy ext),
     (GPtr ClusterResourceSpec_type, ClusterResourceSpec_DeepCopy ext),
     (GPtr ClusterResourceStatus_type, ClusterResourceStatus_DeepCopy ext),
     (GPtr ClusterResource_type, ClusterResource_DeepCopy ext),
     (GPtr ClusterResourceList_type, ClusterResourceList_DeepCopy ext),
     (GPtr ClusterSetSelector_type, ClusterSetSelector_DeepCopy ext),
     (GPtr ClusterSetTarget_type, ClusterSetTarget_DeepCopy ext),
     (GPtr ClusterSetSpec_type, ClusterSetSpec_DeepCopy ext),
     (GPtr ClusterSet_type, ClusterSet_DeepCopy ext),
     (GPtr ClusterSetList_type, ClusterSetList_DeepCopy ext),
     (GPtr MultiClusterResourceSpec_type, MultiClusterResourceSpec_DeepCopy ext),
     (GPtr MultiClusterResourceStatus_type, MultiClusterResourceStatus_DeepCopy ext),
     (GPtr MultiClusterResource_type, MultiClusterResource_DeepCopy ext),
     (GPtr MultiClusterResourceAggregatePolicyClusters_type, MultiClusterResourceAggregatePolicyClusters_DeepCopy ext),
     (GPtr MultiClusterResourceAggregatePolicyLimitRuleMatch_type, MultiClusterResourceAggregatePolicyLimitRuleMatch_DeepCopy ext),
     (GPtr MultiClusterResourceAggregatePolicyLimitRule_type, MultiClusterResourceAggregatePolicyLimitRule_DeepCopy ext),
     (GPtr MultiClusterResourceAggregatePolicyLimit_type, MultiClusterResourceAggregatePolicyLimit_DeepCopy ext),
     (GPtr MultiClusterResourceAggregatePolicySpec_type, MultiClusterResourceAggregatePolicySpec_DeepCopy ext),
     (GPtr MultiClusterResourceAggregatePolicyStatus_type, MultiClusterResourceAggregatePolicyStatus_DeepCopy ext),
     (GPtr MultiClusterResourceAggregatePolicy_type, MultiClusterResourceAggregatePolicy_DeepCopy ext),
     (GPtr MultiClusterResourceAggregatePolicyList_type, MultiClusterResourceAggregatePolicyList_DeepCopy ext),
     (GPtr MultiClusterResourceAggregateRuleRule_type, MultiClusterResourceAggregateRuleRule_DeepCopy ext),
     (GPtr MultiClusterResourceAggregateRuleSpec_type, MultiClusterResourceAggregateRuleSpec_DeepCopy ext),
     (GPtr MultiClusterResourceAggregateRuleStatus_type, MultiClusterResourceAggregateRuleStatus_DeepCopy ext),
     (GPtr MultiClusterResourceAggregateRule_type, MultiClusterResourceAggregateRule_DeepCopy ext),
     (GPtr MultiClusterResourceAggregateRuleList_type, MultiClusterResourceAggregateRuleList_DeepCopy ext),
     (GPtr MultiClusterResourceBindingCluster_type, MultiClusterResourceBindingCluster_DeepCopy ext),
     (GPtr MultiClusterResourceBindingResource_type, MultiClusterResourceBindingResource_DeepCopy ext),
     (GPtr MultiClusterResourceBindingSpec_type, MultiClusterResourceBindingSpec_DeepCopy ext),
     (GPtr MultiClusterResourceBindingStatus_type, MultiClusterResourceBindingStatus_DeepCopy ext),
     (GPtr MultiClusterResourceBinding_type, MultiClusterResourceBinding_DeepCopy ext),
     (GPtr MultiClusterResourceBindingList_type, MultiClusterResourceBindingList_DeepCopy ext),
     (GPtr MultiClusterResourceList_type, MultiClusterResourceList_DeepCopy ext),
     (GPtr MultiClusterResourceOverrideResources_type, MultiClusterResourceOverrideResources_DeepCopy ext),
     (GPtr MultiClusterResourceOverrideClusters_type, MultiClusterResourceOverrideClusters_DeepCopy ext),
     (GPtr MultiClusterResourceOverrideSpec_type, MultiClusterResourceOverrideSpec_DeepCopy ext),
     (GPtr MultiClusterResourceOverride_type, MultiClusterResourceOverride_DeepCopy ext),
     (GPtr MultiClusterResourceOverrideList_type, MultiClusterResourceOverrideList_DeepCopy ext),
     (GPtr SchedulePolicyResource_type, SchedulePolicyResource_DeepCopy ext),
     (GPtr SchedulePolicy_type, SchedulePolicy_DeepCopy ext),
     (GPtr ScheduleFailoverPolicy_type, ScheduleFailoverPolicy_DeepCopy ext),
     (GPtr ScheduleOutTreePolicy_type, ScheduleOutTreePolicy_DeepCopy ext),
     (GPtr MultiClusterResourceSchedulePolicySpec_type, MultiClusterResourceSchedulePolicySpec_DeepCopy ext),
     (GPtr ScheduleStatus_type, ScheduleStatus_DeepCopy ext),
     (GPtr MultiClusterResourceSchedulePolicyStatus_type, MultiClusterResourceSchedulePolicyStatus_DeepCopy ext),
     (GPtr MultiClusterResourceSchedulePolicy_type, MultiClusterResourceSchedulePolicy_DeepCopy ext),
     (GPtr MultiClusterResourceSchedulePolicyList_type, MultiClusterResourceSchedulePolicyList_DeepCopy ext),
     (NamespaceMappingRule_type, NamespaceMappingRule_DeepCopy ext),
     (GPtr NamespaceMappingSpec_type, NamespaceMappingSpec_DeepCopy ext),
     (GPtr NamespaceMapping_type, NamespaceMapping_DeepCopy ext),
     (GPtr NamespaceMappingList_type, NamespaceMappingList_DeepCopy ext),
     (GPtr ResourceAggregatePolicySpec_type, ResourceAggregatePolicySpec_DeepCopy ext),
     (GPtr ResourceAggregatePolicyStatus_type, ResourceAggregatePolicyStatus_DeepCopy ext),
     (GPtr ResourceAggregatePolicy_type, ResourceAggregatePolicy_DeepCopy ext),
     (GPtr ResourceAggregatePolicyList_type, ResourceAggregatePolicyList_DeepCopy ext)]"

definition generatedObjects :: "library \<Rightarrow> (gtype \<times> (gval \<Rightarrow> gmem \<Rightarrow> gval option \<times> gmem)) list" where
  "generatedObjects ext =
    [(GPtr AggregatedResource_type, AggregatedResource_DeepCopyObject ext),
     (GPtr AggregatedResourceList_type, AggregatedResourceList_DeepCopyObject ext),
     (GPtr Cluster_type, Cluster_DeepCopyObject ext),
     (GPtr ClusterList_type, ClusterList_DeepCopyObject ext),
     (GPtr ClusterResource_type, ClusterResource_DeepCopyObject ext),
     (GPtr ClusterResourceList_type, ClusterResourceList_DeepCopyObject ext),
     (GPtr ClusterSet_type, ClusterSet_DeepCopyObject ext),
     (GPtr ClusterSetList_type, ClusterSetList_DeepCopyObject ext),
     (GPtr MultiClusterResource_type, MultiClusterResource_DeepCopyObject ext),
     (GPtr MultiClusterResourceAggregatePolicy_type, MultiClusterResourceAggregatePolicy_DeepCopyObject ext),
     (GPtr MultiClusterResourceAggregatePolicyList_type, MultiClusterResourceAggregatePolicyList_DeepCopyObject ext),
     (GPtr MultiClusterResourceAggregateRule_type, MultiClusterResourceAggregateRule_DeepCopyObject ext),
     (GPtr MultiClusterResourceAggregateRuleList_type, MultiClusterResourceAggregateRuleList_DeepCopyObject ext),
     (GPtr MultiClusterResourceBinding_type, MultiClusterResourceBinding_DeepCopyObject ext),
     (GPtr MultiClusterResourceBindingList_type, MultiClusterResourceBindingList_DeepCopyObject ext),
     (GPtr MultiClusterResourceList_type, MultiClusterResourceList_DeepCopyObject ext),
     (GPtr MultiClusterResourceOverride_type, MultiClusterResourceOverride_DeepCopyObject ext),
     (GPtr MultiClusterResourceOverrideList_type, MultiClusterResourceOverrideList_DeepCopyObject ext),
     (GPtr MultiClusterResourceSchedulePolicy_type, MultiClusterResourceSchedulePolicy_DeepCopyObject ext),
     (GPtr MultiClusterResourceSchedulePolicyList_type, MultiClusterResourceSchedulePolicyList_DeepCopyObject ext),
     (GPtr NamespaceMapping_type, NamespaceMapping_DeepCopyObject ext),
     (GPtr NamespaceMappingList_type, NamespaceMappingList_DeepCopyObject ext),
     (GPtr ResourceAggregatePolicy_type, ResourceAggregatePolicy_DeepCopyObject ext),
     (GPtr ResourceAggregatePolicyList_type, ResourceAggregatePolicyList_DeepCopyObject ext)]"

lemmas copy_defs =
  Condition_DeepCopyInto_def JSONPatch_DeepCopyInto_def MultiClusterResourceClusterStatus_DeepCopyInto_def
  AggregatedResourceClusters_DeepCopyInto_def AggregatedResourceStatusClusters_DeepCopyInto_def
  AggregatedResourceStatus_DeepCopyInto_def AggregatedResource_DeepCopyInto_def
  AggregatedResourceList_DeepCopyInto_def ClusterSecretRef_DeepCopyInto_def ClusterAddon_DeepCopyInto_def
  ClusterSpec_DeepCopyInto_def ClusterAddonStatus_DeepCopyInto_def ClusterStatus_DeepCopyInto_def
  Cluster_DeepCopyInto_def ClusterList_DeepCopyInto_def ClusterResourceSpec_DeepCopyInto_def
  ClusterResourceStatus_DeepCopyInto_def ClusterResource_DeepCopyInto_def ClusterResourceList_DeepCopyInto_def
  ClusterSetSelector_DeepCopyInto_def ClusterSetTarget_DeepCopyInto_def ClusterSetSpec_DeepCopyInto_def
  ClusterSet_DeepCopyInto_def ClusterSetList_DeepCopyInto_def MultiClusterResourceSpec_DeepCopyInto_def
  MultiClusterResourceStatus_DeepCopyInto_def MultiClusterResource_DeepCopyInto_def
  MultiClusterResourceAggregatePolicyClusters_DeepCopyInto_def
  MultiClusterResourceAggregatePolicyLimitRuleMatch_DeepCopyInto_def
  MultiClusterResourceAggregatePolicyLimitRule_DeepCopyInto_def
  MultiClusterResourceAggregatePolicyLimit_DeepCopyInto_def
  MultiClusterResourceAggregatePolicySpec_DeepCopyInto_def
  MultiClusterResourceAggregatePolicyStatus_DeepCopyInto_def
  MultiClusterResourceAggregatePolicy_DeepCopyInto_def MultiClusterResourceAggregatePolicyList_DeepCopyInto_def
  MultiClusterResourceAggregateRuleRule_DeepCopyInto_def MultiClusterResourceAggregateRuleSpec_DeepCopyInto_def
  MultiClusterResourceAggregateRuleStatus_DeepCopyInto_def MultiClusterResourceAggregateRule_DeepCopyInto_def
  MultiClusterResourceAggregateRuleList_DeepCopyInto_def MultiClusterResourceBindingCluster_DeepCopyInto_def
  MultiClusterResourceBindingResource_DeepCopyInto_def MultiClusterResourceBindingSpec_DeepCopyInto_def
  MultiClusterResourceBindingStatus_DeepCopyInto_def MultiClusterResourceBinding_DeepCopyInto_def
  MultiClusterResourceBindingList_DeepCopyInto_def MultiClusterResourceList_DeepCopyInto_def
  MultiClusterResourceOverrideResources_DeepCopyInto_def MultiClusterResourceOverrideClusters_DeepCopyInto_def
  MultiClusterResourceOverrideSpec_DeepCopyInto_def MultiClusterResourceOverride_DeepCopyInto_def
  MultiClusterResourceOverrideList_DeepCopyInto_def SchedulePolicyResource_DeepCopyInto_def
  SchedulePolicy_DeepCopyInto_def ScheduleFailoverPolicy_DeepCopyInto_def
  ScheduleOutTreePolicy_DeepCopyInto_def MultiClusterResourceSchedulePolicySpec_DeepCopyInto_def
  ScheduleStatus_DeepCopyInto_def MultiClusterResourceSchedulePolicyStatus_DeepCopyInto_def
  MultiClusterResourceSchedulePolicy_DeepCopyInto_def MultiClusterResourceSchedulePolicyList_DeepCopyInto_def
  NamespaceMappingRule_DeepCopyInto_def NamespaceMappingSpec_DeepCopyInto_def NamespaceMapping_DeepCopyInto_def
  NamespaceMappingList_DeepCopyInto_def ResourceAggregatePolicySpec_DeepCopyInto_def
  ResourceAggregatePolicyStatus_DeepCopyInto_def ResourceAggregatePolicy_DeepCopyInto_def
  ResourceAggregatePolicyList_DeepCopyInto_def Condition_DeepCopy_def JSONPatch_DeepCopy_def
  MultiClusterResourceClusterStatus_DeepCopy_def AggregatedResourceClusters_DeepCopy_def
  AggregatedResourceStatusClusters_DeepCopy_def AggregatedResourceStatus_DeepCopy_def
  AggregatedResource_DeepCopy_def AggregatedResourceList_DeepCopy_def ClusterSecretRef_DeepCopy_def
  ClusterAddon_DeepCopy_def ClusterSpec_DeepCopy_def ClusterAddonStatus_DeepCopy_def ClusterStatus_DeepCopy_def
  Cluster_DeepCopy_def ClusterList_DeepCopy_def ClusterResourceSpec_DeepCopy_def
  ClusterResourceStatus_DeepCopy_def ClusterResource_DeepCopy_def ClusterResourceList_DeepCopy_def
  ClusterSetSelector_DeepCopy_def ClusterSetTarget_DeepCopy_def ClusterSetSpec_DeepCopy_def
  ClusterSet_DeepCopy_def ClusterSetList_DeepCopy_def MultiClusterResourceSpec_DeepCopy_def
  MultiClusterResourceStatus_DeepCopy_def MultiClusterResource_DeepCopy_def
  MultiClusterResourceAggregatePolicyClusters_DeepCopy_def
  MultiClusterResourceAggregatePolicyLimitRuleMatch_DeepCopy_def
  MultiClusterResourceAggregatePolicyLimitRule_DeepCopy_def
  MultiClusterResourceAggregatePolicyLimit_DeepCopy_def MultiClusterResourceAggregatePolicySpec_DeepCopy_def
  MultiClusterResourceAggregatePolicyStatus_DeepCopy_def MultiClusterResourceAggregatePolicy_DeepCopy_def
  MultiClusterResourceAggregatePolicyList_DeepCopy_def MultiClusterResourceAggregateRuleRule_DeepCopy_def
  MultiClusterResourceAggregateRuleSpec_DeepCopy_def MultiClusterResourceAggregateRuleStatus_DeepCopy_def
  MultiClusterResourceAggregateRule_DeepCopy_def MultiClusterResourceAggregateRuleList_DeepCopy_def
  MultiClusterResourceBindingCluster_DeepCopy_def MultiClusterResourceBindingResource_DeepCopy_def
  MultiClusterResourceBindingSpec_DeepCopy_def MultiClusterResourceBindingStatus_DeepCopy_def
  MultiClusterResourceBinding_DeepCopy_def MultiClusterResourceBindingList_DeepCopy_def
  MultiClusterResourceList_DeepCopy_def MultiClusterResourceOverrideResources_DeepCopy_def
  MultiClusterResourceOverrideClusters_DeepCopy_def MultiClusterResourceOverrideSpec_DeepCopy_def
  MultiClusterResourceOverride_DeepCopy_def MultiClusterResourceOverrideList_DeepCopy_def
  SchedulePolicyResource_DeepCopy_def SchedulePolicy_DeepCopy_def ScheduleFailoverPolicy_DeepCopy_def
  ScheduleOutTreePolicy_DeepCopy_def MultiClusterResourceSchedulePolicySpec_DeepCopy_def
  ScheduleStatus_DeepCopy_def MultiClusterResourceSchedulePolicyStatus_DeepCopy_def
  MultiClusterResourceSchedulePolicy_DeepCopy_def MultiClusterResourceSchedulePolicyList_DeepCopy_def
  NamespaceMappingRule_DeepCopy_def NamespaceMappingSpec_DeepCopy_def NamespaceMapping_DeepCopy_def
  NamespaceMappingList_DeepCopy_def ResourceAggregatePolicySpec_DeepCopy_def
  ResourceAggregatePolicyStatus_DeepCopy_def ResourceAggregatePolicy_DeepCopy_def
  ResourceAggregatePolicyList_DeepCopy_def

lemmas object_defs =
  AggregatedResource_DeepCopyObject_def AggregatedResourceList_DeepCopyObject_def Cluster_DeepCopyObject_def
  ClusterList_DeepCopyObject_def ClusterResource_DeepCopyObject_def ClusterResourceList_DeepCopyObject_def
  ClusterSet_DeepCopyObject_def ClusterSetList_DeepCopyObject_def MultiClusterResource_DeepCopyObject_def
  MultiClusterResourceAggregatePolicy_DeepCopyObject_def
  MultiClusterResourceAggregatePolicyList_DeepCopyObject_def
  MultiClusterResourceAggregateRule_DeepCopyObject_def MultiClusterResourceAggregateRuleList_DeepCopyObject_def
  MultiClusterResourceBinding_DeepCopyObject_def MultiClusterResourceBindingList_DeepCopyObject_def
  MultiClusterResourceList_DeepCopyObject_def MultiClusterResourceOverride_DeepCopyObject_def
  MultiClusterResourceOverrideList_DeepCopyObject_def MultiClusterResourceSchedulePolicy_DeepCopyObject_def
  MultiClusterResourceSchedulePolicyList_DeepCopyObject_def NamespaceMapping_DeepCopyObject_def
  NamespaceMappingList_DeepCopyObject_def ResourceAggregatePolicy_DeepCopyObject_def
  ResourceAggregatePolicyList_DeepCopyObject_def

end
