(* ===== verification/DeepCopyProps.thy ===== *)
theory DeepCopyProps
  imports DeepCopy
begin

text \<open>
  Every generated deep copy of the API types is one: what is written through the copy never shows in the
  original, and the other way round. A field with references that a copy forgets would be shared.
\<close>

section \<open>All copies are deep\<close>

lemma rule_copies [copies]: "deepCopies (NamespaceMappingRule_DeepCopy ext) (has_type E GMap)"
proof -
  have "NamespaceMappingRule_DeepCopy ext = makeMap"
    by (intro HOL.ext) (simp add: NamespaceMappingRule_DeepCopy_def NamespaceMappingRule_DeepCopyInto_def makeMap_def)
  then show ?thesis using makeMap_copies by simp
qed

lemma generated_copies:
  assumes "library_copies ext E"
  shows "list_all (\<lambda>(T, c). deepCopies c (has_type E T)) (generatedCopies ext)"
  using assms by (simp add: generatedCopies_def copies type_defs copy_defs)

text \<open>
  C3: whatever type of the API and whatever value of it: the copy that \<open>DeepCopy\<close> returns holds the same
  contents through cells of its own; whatever is then written to these cells leaves the contents of the
  original, and whatever is written to the cells that were there before leaves those of the copy. The copies of
  the library types are asked to do the same.
\<close>

theorem deep_copies_are_separate:
  assumes library: "library_copies ext E" and copy: "(T, copy) \<in> set (generatedCopies ext)"
    and v: "has_type E T t" "holds (cell m) (allocated m) v t" and run: "copy v m = (w, m')"
  shows "holds (cell m') (between m m') w t \<and>
         (\<forall>h. (\<forall>a. \<not> between m m' a \<longrightarrow> h a = cell m' a) \<longrightarrow> holds h (allocated m) v t) \<and>
         (\<forall>h. (\<forall>a. \<not> allocated m a \<longrightarrow> h a = cell m' a) \<longrightarrow> holds h (between m m') w t)"
proof -
  have deep: "deepCopies copy (has_type E T)" using generated_copies [OF library] copy by (auto simp: list_all_iff)
  have grown: "grown m m'" and w: "holds (cell m') (between m m') w t"
    using deepCopiesD [OF deep v run] by auto
  moreover have "holds h (allocated m) v t" if "\<forall>a. \<not> between m m' a \<longrightarrow> h a = cell m' a" for h
    using grown that by (intro holds_mono [OF v(2)]) (auto simp: grown_def)
  moreover have "holds h (between m m') w t" if "\<forall>a. \<not> allocated m a \<longrightarrow> h a = cell m' a" for h
    using that by (intro holds_mono [OF w]) auto
  ultimately show ?thesis by blast
qed

text \<open>\<open>DeepCopyObject\<close> is the copy of its type, and nil only for nil.\<close>

definition objectCopies :: "(gval \<Rightarrow> gmem \<Rightarrow> gval option \<times> gmem) \<Rightarrow> (content \<Rightarrow> bool) \<Rightarrow> bool" where
  "objectCopies copy D \<longleftrightarrow>
     (\<forall>m v t. D t \<longrightarrow> holds (cell m) (allocated m) v t \<longrightarrow>
        (case copy v m of
           (None, m') \<Rightarrow> v = NilRef
         | (Some w, m') \<Rightarrow> v \<noteq> NilRef \<and> grown m m' \<and> holds (cell m') (between m m') w t))"

lemma asObject_copies [copies]:
  assumes "deepCopies c (has_type E (GPtr T))"
  shows "objectCopies (asObject c) (has_type E (GPtr T))"
  unfolding objectCopies_def
proof (intro allI impI)
  fix m v t
  assume t: "has_type E (GPtr T) t" "holds (cell m) (allocated m) v t"
  obtain w m' where w: "c v m = (w, m')" "grown m m'" "holds (cell m') (between m m') w t"
    by (rule deepCopiesE [OF assms t])
  from t w(3) have "w = NilRef \<longleftrightarrow> v = NilRef" by auto
  with w show "case asObject c v m of (None, m') \<Rightarrow> v = NilRef
      | (Some w, m') \<Rightarrow> v \<noteq> NilRef \<and> grown m m' \<and> holds (cell m') (between m m') w t"
    by (simp add: asObject_def)
qed

lemma generated_objects:
  assumes "library_copies ext E"
  shows "list_all (\<lambda>(T, c). objectCopies c (has_type E T)) (generatedObjects ext)"
  using assms by (simp add: generatedObjects_def object_defs copies type_defs copy_defs)

section \<open>Witness\<close>

text \<open>The specification of a cluster with one plugin and a raw configuration, in four cells.\<close>

definition dcRaw :: gtype where "dcRaw = GStruct [(''Raw'', GSlice GScalar)]"

definition dcLibrary :: library where
  "dcLibrary n = (if n = ''RawExtension'' then copyStruct [(''Raw'', makeSlice assign)] else assign)"

definition dcTypes :: "string \<Rightarrow> content \<Rightarrow> bool" where
  "dcTypes n t = (if n = ''RawExtension'' then has_type (\<lambda>_ _. False) dcRaw t else has_type (\<lambda>_ _. False) GScalar t)"

lemma dc_library: "library_copies dcLibrary dcTypes"
  unfolding library_copies_def
proof
  fix n
  have "dcTypes n = has_type (\<lambda>_ _. False) (if n = ''RawExtension'' then dcRaw else GScalar)" by (auto simp: dcTypes_def)
  then show "deepCopies (dcLibrary n) (dcTypes n)" by (simp add: dcLibrary_def dcRaw_def copies)
qed

definition dcSpec :: "gval \<Rightarrow> gval \<Rightarrow> gval" where
  "dcSpec addons configuration = Struct [(''ApiServer'', Scalar ''https://a''),
     (''SecretRef'', Struct [(''Type'', Scalar ''token''), (''Name'', Scalar ''s''), (''Namespace'', Scalar ''n''), (''Field'', Scalar [])]),
     (''Addons'', addons), (''Configuration'', configuration)]"

definition dcContent :: content where
  "dcContent = CPtr (CStruct [(''ApiServer'', CScalar ''https://a''),
     (''SecretRef'', CStruct [(''Type'', CScalar ''token''), (''Name'', CScalar ''s''), (''Namespace'', CScalar ''n''), (''Field'', CScalar [])]),
     (''Addons'', CSlice [CStruct [(''Type'', CScalar ''in-tree''), (''Name'', CScalar ''kube''), (''Url'', CScalar []), (''Configuration'', CNil)]]),
     (''Configuration'', CPtr (CStruct [(''Raw'', CSlice [CScalar ''x''])]))])"

definition dcMem :: gmem where
  "dcMem = \<lparr>next_addr = 4, cell = (\<lambda>_. Elems [])
     (0 := Elems [dcSpec (SliceOf 1) (PtrTo 2)],
      1 := Elems [Struct [(''Type'', Scalar ''in-tree''), (''Name'', Scalar ''kube''), (''Url'', Scalar []), (''Configuration'', NilRef)]],
      2 := Elems [Struct [(''Raw'', SliceOf 3)]], 3 := Elems [Scalar ''x''])\<rparr>"

lemma dc_holds: "holds (cell dcMem) (allocated dcMem) (PtrTo 0) dcContent"
  by (simp add: dcMem_def dcSpec_def dcContent_def)

lemma dc_has_type: "has_type dcTypes (GPtr ClusterSpec_type) dcContent"
  by (simp add: dcContent_def type_defs dcTypes_def dcRaw_def)

text \<open>The copy ends in seven cells; a write to the bytes of its configuration stays in the copy.\<close>

lemma dc_runs:
  "fst (ClusterSpec_DeepCopy dcLibrary (PtrTo 0) dcMem) = PtrTo 7"
  "next_addr (snd (ClusterSpec_DeepCopy dcLibrary (PtrTo 0) dcMem)) = 8"
  "cell (snd (ClusterSpec_DeepCopy dcLibrary (PtrTo 0) dcMem)) 5 = Elems [Scalar ''x'']"
  by code_simp+

lemma deep_copies_are_separate_witness:
  "\<exists>m'. ClusterSpec_DeepCopy dcLibrary (PtrTo 0) dcMem = (PtrTo 7, m') \<and> holds (cell m') (\<lambda>a. 4 \<le> a \<and> a < 8) (PtrTo 7) dcContent \<and>
     cell m' 5 = Elems [Scalar ''x''] \<and> holds ((cell m')(5 := Elems [Scalar ''y''])) (\<lambda>a. a < 4) (PtrTo 0) dcContent"
proof -
  let ?m = "snd (ClusterSpec_DeepCopy dcLibrary (PtrTo 0) dcMem)"
  have run: "ClusterSpec_DeepCopy dcLibrary (PtrTo 0) dcMem = (PtrTo 7, ?m)" using dc_runs(1) by (metis prod.collapse)
  have "(GPtr ClusterSpec_type, ClusterSpec_DeepCopy dcLibrary) \<in> set (generatedCopies dcLibrary)"
    by (simp add: generatedCopies_def)
  from deep_copies_are_separate [OF dc_library this dc_has_type dc_holds run]
  have "holds (cell ?m) (between dcMem ?m) (PtrTo 7) dcContent"
    and "holds ((cell ?m)(5 := Elems [Scalar ''y''])) (allocated dcMem) (PtrTo 0) dcContent"
    by (auto simp: dc_runs(2)) (simp add: dcMem_def)
  with run dc_runs show ?thesis by (simp add: dcMem_def) blast
qed

end
