(* ===== verification/Clientset.thy ===== *)
theory Clientset
  imports KubeClient Float64
begin

text \<open>
  The generated clients (\<open>pkg/client/clientset\<close>): for every kind of object the calls of its client, each with
  the request it builds, and how a clientset is made from a configuration. The REST client that sends a
  request, and the server behind it, are a parameter. The twelve client files differ in the name of the
  resource, in the type of the objects, which is a type variable here, in whether the requests have a namespace,
  and in whether there is an \<open>UpdateStatus\<close>.
\<close>

section \<open>Requests\<close>

text \<open>The options of a call that the clients only hand on are opaque.\<close>

type_synonym options = string

record ListOptions =
  ls_TimeoutSeconds :: "int option"
  ls_Watch :: bool
  ls_Selectors :: string

definition noListOptions :: ListOptions where
  "noListOptions = \<lparr>ls_TimeoutSeconds = None, ls_Watch = False, ls_Selectors = []\<rparr>"

datatype params = Options options | Listing ListOptions

datatype 'o rest_body = ObjectBody 'o | OptionsBody options | DataBody string raw

text \<open>What the calls of a \<open>rest.Request\<close> have set before it is sent; \<open>None\<close> and \<open>[]\<close> where they were not made.\<close>

record 'o rest_request =
  rr_Verb :: string
  rr_Namespace :: "string option"
  rr_Resource :: string
  rr_Name :: "string option"
  rr_SubResource :: "string list"
  rr_Params :: "params option"
  rr_Timeout :: "int option"
  rr_Body :: "'o rest_body option"

text \<open>\<open>c.client.Get().Namespace(c.ns).Resource(...)\<close>; the clients of cluster-wide kinds do not call \<open>Namespace\<close>.\<close>

definition restRequest :: "string \<Rightarrow> string option \<Rightarrow> string \<Rightarrow> 'o rest_request" where
  "restRequest verb ns resource = \<lparr>rr_Verb = verb, rr_Namespace = ns, rr_Resource = resource, rr_Name = None,
     rr_SubResource = [], rr_Params = None, rr_Timeout = None, rr_Body = None\<rparr>"

text \<open>How a request is sent: for an object, for a list, for a watch, or only for its error.\<close>

record ('s, 'o) rest =
  rs_Into :: "'o rest_request \<Rightarrow> 's \<Rightarrow> (api_error + 'o) \<times> 's"
  rs_IntoList :: "'o rest_request \<Rightarrow> 's \<Rightarrow> (api_error + 'o list) \<times> 's"
  rs_Watch :: "'o rest_request \<Rightarrow> 's \<Rightarrow> (api_error + nat) \<times> 's"
  rs_Error :: "'o rest_request \<Rightarrow> 's \<Rightarrow> api_error option \<times> 's"

section \<open>The calls of a client\<close>

definition listTimeout :: "ListOptions \<Rightarrow> int" where
  "listTimeout opts = (case ls_TimeoutSeconds opts of None \<Rightarrow> 0 | Some t \<Rightarrow> seconds t)"

definition getRequest :: "string option \<Rightarrow> string \<Rightarrow> string \<Rightarrow> options \<Rightarrow> 'o rest_request" where
  "getRequest ns resource name opts =
     (restRequest ''GET'' ns resource)\<lparr>rr_Name := Some name, rr_Params := Some (Options opts)\<rparr>"

definition listRequest :: "string option \<Rightarrow> string \<Rightarrow> ListOptions \<Rightarrow> 'o rest_request" where
  "listRequest ns resource opts =
     (restRequest ''GET'' ns resource)\<lparr>rr_Params := Some (Listing opts), rr_Timeout := Some (listTimeout opts)\<rparr>"

definition watchRequest :: "string option \<Rightarrow> string \<Rightarrow> ListOptions \<Rightarrow> 'o rest_request" where
  "watchRequest ns resource opts =
     (restRequest ''GET'' ns resource)\<lparr>rr_Params := Some (Listing (opts\<lparr>ls_Watch := True\<rparr>)),
        rr_Timeout := Some (listTimeout opts)\<rparr>"

definition createRequest :: "string option \<Rightarrow> string \<Rightarrow> 'o \<Rightarrow> options \<Rightarrow> 'o rest_request" where
  "createRequest ns resource obj opts =
     (restRequest ''POST'' ns resource)\<lparr>rr_Params := Some (Options opts), rr_Body := Some (ObjectBody obj)\<rparr>"

definition updateRequest :: "('o \<Rightarrow> ObjectMeta) \<Rightarrow> string option \<Rightarrow> string \<Rightarrow> 'o \<Rightarrow> options \<Rightarrow> 'o rest_request" where
  "updateRequest meta ns resource obj opts =
     (restRequest ''PUT'' ns resource)\<lparr>rr_Name := Some (om_Name (meta obj)), rr_Params := Some (Options opts),
        rr_Body := Some (ObjectBody obj)\<rparr>"

definition updateStatusRequest :: "('o \<Rightarrow> ObjectMeta) \<Rightarrow> string option \<Rightarrow> string \<Rightarrow> 'o \<Rightarrow> options \<Rightarrow> 'o rest_request" where
  "updateStatusRequest meta ns resource obj opts =
     (restRequest ''PUT'' ns resource)\<lparr>rr_Name := Some (om_Name (meta obj)), rr_SubResource := [''status''],
        rr_Params := Some (Options opts), rr_Body := Some (ObjectBody obj)\<rparr>"

definition deleteRequest :: "string option \<Rightarrow> string \<Rightarrow> string \<Rightarrow> options \<Rightarrow> 'o rest_request" where
  "deleteRequest ns resource name opts =
     (restRequest ''DELETE'' ns resource)\<lparr>rr_Name := Some name, rr_Body := Some (OptionsBody opts)\<rparr>"

definition deleteCollectionRequest :: "string option \<Rightarrow> string \<Rightarrow> options \<Rightarrow> ListOptions \<Rightarrow> 'o rest_request" where
  "deleteCollectionRequest ns resource opts listOpts =
     (restRequest ''DELETE'' ns resource)\<lparr>rr_Params := Some (Listing listOpts), rr_Timeout := Some (listTimeout listOpts),
        rr_Body := Some (OptionsBody opts)\<rparr>"

definition patchRequest ::
  "string option \<Rightarrow> string \<Rightarrow> string \<Rightarrow> string \<Rightarrow> raw \<Rightarrow> options \<Rightarrow> string list \<Rightarrow> 'o rest_request" where
  "patchRequest ns resource name pt data opts subresources =
     (restRequest ''PATCH'' ns resource)\<lparr>rr_Name := Some name, rr_SubResource := subresources, rr_Params := Some (Options opts),
        rr_Body := Some (DataBody pt data)\<rparr>"

record ('s, 'o) typed_client =
  tc_Get :: "string \<Rightarrow> options \<Rightarrow> 's \<Rightarrow> (api_error + 'o) \<times> 's"
  tc_List :: "ListOptions \<Rightarrow> 's \<Rightarrow> (api_error + 'o list) \<times> 's"
  tc_Watch :: "ListOptions \<Rightarrow> 's \<Rightarrow> (api_error + nat) \<times> 's"
  tc_Create :: "'o \<Rightarrow> options \<Rightarrow> 's \<Rightarrow> (api_error + 'o) \<times> 's"
  tc_Update :: "'o \<Rightarrow> options \<Rightarrow> 's \<Rightarrow> (api_error + 'o) \<times> 's"
  tc_UpdateStatus :: "('o \<Rightarrow> options \<Rightarrow> 's \<Rightarrow> (api_error + 'o) \<times> 's) option"
  tc_Delete :: "string \<Rightarrow> options \<Rightarrow> 's \<Rightarrow> api_error option \<times> 's"
  tc_DeleteCollection :: "options \<Rightarrow> ListOptions \<Rightarrow> 's \<Rightarrow> api_error option \<times> 's"
  tc_Patch :: "string \<Rightarrow> string \<Rightarrow> raw \<Rightarrow> options \<Rightarrow> string list \<Rightarrow> 's \<Rightarrow> (api_error + 'o) \<times> 's"

definition typedClient ::
  "('s, 'o) rest \<Rightarrow> ('o \<Rightarrow> ObjectMeta) \<Rightarrow> string option \<Rightarrow> string \<Rightarrow> bool \<Rightarrow> ('s, 'o) typed_client" where
  "typedClient rest meta ns resource hasStatus = \<lparr>
     tc_Get = (\<lambda>name opts. rs_Into rest (getRequest ns resource name opts)),
     tc_List = (\<lambda>opts. rs_IntoList rest (listRequest ns resource opts)),
     tc_Watch = (\<lambda>opts. rs_Watch rest (watchRequest ns resource opts)),
     tc_Create = (\<lambda>obj opts. rs_Into rest (createRequest ns resource obj opts)),
     tc_Update = (\<lambda>obj opts. rs_Into rest (updateRequest meta ns resource obj opts)),
     tc_UpdateStatus = (if hasStatus then Some (\<lambda>obj opts. rs_Into rest (updateStatusRequest meta ns resource obj opts)) else None),
     tc_Delete = (\<lambda>name opts. rs_Error rest (deleteRequest ns resource name opts)),
     tc_DeleteCollection = (\<lambda>opts listOpts. rs_Error rest (deleteCollectionRequest ns resource opts listOpts)),
     tc_Patch = (\<lambda>name pt data opts subresources. rs_Into rest (patchRequest ns resource name pt data opts subresources))\<rparr>"

section \<open>The clients\<close>

definition aggregatedResources :: "('s, 'o) rest \<Rightarrow> ('o \<Rightarrow> ObjectMeta) \<Rightarrow> string \<Rightarrow> ('s, 'o) typed_client" where
  "aggregatedResources rest meta namespace = typedClient rest meta (Some namespace) ''aggregatedresources'' True"

definition clusters :: "('s, 'o) rest \<Rightarrow> ('o \<Rightarrow> ObjectMeta) \<Rightarrow> ('s, 'o) typed_client" where
  "clusters rest meta = typedClient rest meta None ''clusters'' True"

definition clusterResources :: "('s, 'o) rest \<Rightarrow> ('o \<Rightarrow> ObjectMeta) \<Rightarrow> string \<Rightarrow> ('s, 'o) typed_client" where
  "clusterResources rest meta namespace = typedClient rest meta (Some namespace) ''clusterresources'' True"

definition clusterSets :: "('s, 'o) rest \<Rightarrow> ('o \<Rightarrow> ObjectMeta) \<Rightarrow> ('s, 'o) typed_client" where
  "clusterSets rest meta = typedClient rest meta None ''clustersets'' False"

definition multiClusterResources :: "('s, 'o) rest \<Rightarrow> ('o \<Rightarrow> ObjectMeta) \<Rightarrow> string \<Rightarrow> ('s, 'o) typed_client" where
  "multiClusterResources rest meta namespace = typedClient rest meta (Some namespace) ''multiclusterresources'' True"

definition multiClusterResourceAggregatePolicies :: "('s, 'o) rest \<Rightarrow> ('o \<Rightarrow> ObjectMeta) \<Rightarrow> string \<Rightarrow> ('s, 'o) typed_client" where
  "multiClusterResourceAggregatePolicies rest meta namespace = typedClient rest meta (Some namespace) ''multiclusterresourceaggregatepolicies'' True"

definition multiClusterResourceAggregateRules :: "('s, 'o) rest \<Rightarrow> ('o \<Rightarrow> ObjectMeta) \<Rightarrow> string \<Rightarrow> ('s, 'o) typed_client" where
  "multiClusterResourceAggregateRules rest meta namespace = typedClient rest meta (Some namespace) ''multiclusterresourceaggregaterules'' True"

definition multiClusterResourceBindings :: "('s, 'o) rest \<Rightarrow> ('o \<Rightarrow> ObjectMeta) \<Rightarrow> string \<Rightarrow> ('s, 'o) typed_client" where
  "multiClusterResourceBindings rest meta namespace = typedClient rest meta (Some namespace) ''multiclusterresourcebindings'' True"

definition multiClusterResourceOverrides :: "('s, 'o) rest \<Rightarrow> ('o \<Rightarrow> ObjectMeta) \<Rightarrow> string \<Rightarrow> ('s, 'o) typed_client" where
  "multiClusterResourceOverrides rest meta namespace = typedClient rest meta (Some namespace) ''multiclusterresourceoverrides'' False"

definition multiClusterResourceSchedulePolicies :: "('s, 'o) rest \<Rightarrow> ('o \<Rightarrow> ObjectMeta) \<Rightarrow> string \<Rightarrow> ('s, 'o) typed_client" where
  "multiClusterResourceSchedulePolicies rest meta namespace = typedClient rest meta (Some namespace) ''multiclusterresourceschedulepolicies'' True"

definition namespaceMappings :: "('s, 'o) rest \<Rightarrow> ('o \<Rightarrow> ObjectMeta) \<Rightarrow> string \<Rightarrow> ('s, 'o) typed_client" where
  "namespaceMappings rest meta namespace = typedClient rest meta (Some namespace) ''namespacemappings'' False"

definition resourceAggregatePolicies :: "('s, 'o) rest \<Rightarrow> ('o \<Rightarrow> ObjectMeta) \<Rightarrow> string \<Rightarrow> ('s, 'o) typed_client" where
  "resourceAggregatePolicies rest meta namespace = typedClient rest meta (Some namespace) ''resourceaggregatepolicies'' True"

text \<open>The methods of \<open>MulticlusterV1alpha1Client\<close>, by name.\<close>

definition v1alpha1Clients ::
  "('s, 'o) rest \<Rightarrow> ('o \<Rightarrow> ObjectMeta) \<Rightarrow> string \<Rightarrow> (string \<times> ('s, 'o) typed_client) list" where
  "v1alpha1Clients rest meta namespace =
    [(''AggregatedResources'', aggregatedResources rest meta namespace),
     (''Clusters'', clusters rest meta),
     (''ClusterResources'', clusterResources rest meta namespace),
     (''ClusterSets'', clusterSets rest meta),
     (''MultiClusterResources'', multiClusterResources rest meta namespace),
     (''MultiClusterResourceAggregatePolicies'', multiClusterResourceAggregatePolicies rest meta namespace),
     (''MultiClusterResourceAggregateRules'', multiClusterResourceAggregateRules rest meta namespace),
     (''MultiClusterResourceBindings'', multiClusterResourceBindings rest meta namespace),
     (''MultiClusterResourceOverrides'', multiClusterResourceOverrides rest meta namespace),
     (''MultiClusterResourceSchedulePolicies'', multiClusterResourceSchedulePolicies rest meta namespace),
     (''NamespaceMappings'', namespaceMappings rest meta namespace),
     (''ResourceAggregatePolicies'', resourceAggregatePolicies rest meta namespace)]"

section \<open>Making a clientset\<close>

text \<open>
  The fields of a \<open>rest.Config\<close> that the generated code looks at; a rate limiter is a token bucket with its
  rate and its burst, or one that was there before.
\<close>

datatype rate_limiter = TokenBucket rat int | GivenLimiter

record rest_config =
  rc_GroupVersion :: "(string \<times> string) option"
  rc_APIPath :: string
  rc_UserAgent :: string
  rc_RateLimiter :: "rate_limiter option"
  rc_QPS :: rat
  rc_Burst :: int

definition SchemeGroupVersion :: "string \<times> string" where
  "SchemeGroupVersion = (''multicluster.harmonycloud.cn'', ''v1alpha1'')"

definition setConfigDefaults :: "string \<Rightarrow> rest_config \<Rightarrow> rest_config" where
  "setConfigDefaults defaultUserAgent config = config\<lparr>rc_GroupVersion := Some SchemeGroupVersion, rc_APIPath := ''/apis'',
     rc_UserAgent := (if rc_UserAgent config = [] then defaultUserAgent else rc_UserAgent config)\<rparr>"

definition newV1alpha1Client :: "string \<Rightarrow> (rest_config \<Rightarrow> go_error + 'r) \<Rightarrow> rest_config \<Rightarrow> go_error + 'r" where
  "newV1alpha1Client defaultUserAgent restClientFor c = restClientFor (setConfigDefaults defaultUserAgent c)"

text \<open>The configuration the two clients of a clientset get: a copy with a rate limiter of its own.\<close>

definition limitedConfig :: "rest_config \<Rightarrow> go_error + rest_config" where
  "limitedConfig c =
     (if rc_RateLimiter c = None \<and> rc_QPS c > 0
      then if rc_Burst c \<le> 0
           then Inl (ErrMsg ''burst is required to be greater than 0 when RateLimiter is not set and QPS is set to greater than 0'')
           else Inr (c\<lparr>rc_RateLimiter := Some (TokenBucket (rc_QPS c) (rc_Burst c))\<rparr>)
      else Inr c)"

definition NewForConfig ::
  "string \<Rightarrow> (rest_config \<Rightarrow> go_error + 'r) \<Rightarrow> (rest_config \<Rightarrow> go_error + 'd) \<Rightarrow> rest_config \<Rightarrow> go_error + 'd \<times> 'r" where
  "NewForConfig defaultUserAgent restClientFor discoveryFor c =
     (case limitedConfig c of
        Inl e \<Rightarrow> Inl e
      | Inr config \<Rightarrow>
          (case newV1alpha1Client defaultUserAgent restClientFor config of
             Inl e \<Rightarrow> Inl e
           | Inr rest \<Rightarrow> (case discoveryFor config of Inl e \<Rightarrow> Inl e | Inr d \<Rightarrow> Inr (d, rest))))"

section \<open>The custom resource definitions\<close>

text \<open>What \<open>kube/crd/bases\<close> tells the API server to serve.\<close>

record crd =
  crd_Group :: string
  crd_Version :: string
  crd_Kind :: string
  crd_Plural :: string
  crd_Scope :: string
  crd_Status :: bool

definition crd_aggregatedresources :: crd where
  "crd_aggregatedresources = \<lparr>crd_Group = ''multicluster.harmonycloud.cn'', crd_Version = ''v1alpha1'', crd_Kind = ''AggregatedResource'', crd_Plural = ''aggregatedresources'',
     crd_Scope = ''Namespaced'', crd_Status = True\<rparr>"

definition crd_clusters :: crd where
  "crd_clusters = \<lparr>crd_Group = ''multicluster.harmonycloud.cn'', crd_Version = ''v1alpha1'', crd_Kind = ''Cluster'', crd_Plural = ''clusters'',
     crd_Scope = ''Cluster'', crd_Status = True\<rparr>"

definition crd_clusterresources :: crd where
  "crd_clusterresources = \<lparr>crd_Group = ''multicluster.harmonycloud.cn'', crd_Version = ''v1alpha1'', crd_Kind = ''ClusterResource'', crd_Plural = ''clusterresources'',
     crd_Scope = ''Namespaced'', crd_Status = True\<rparr>"

definition crd_clustersets :: crd where
  "crd_clustersets = \<lparr>crd_Group = ''multicluster.harmonycloud.cn'', crd_Version = ''v1alpha1'', crd_Kind = ''ClusterSet'', crd_Plural = ''clustersets'',
     crd_Scope = ''Cluster'', crd_Status = False\<rparr>"

definition crd_multiclusterresources :: crd where
  "crd_multiclusterresources = \<lparr>crd_Group = ''multicluster.harmonycloud.cn'', crd_Version = ''v1alpha1'', crd_Kind = ''MultiClusterResource'', crd_Plural = ''multiclusterresources'',
     crd_Scope = ''Namespaced'', crd_Status = True\<rparr>"

definition crd_multiclusterresourceaggregatepolicies :: crd where
  "crd_multiclusterresourceaggregatepolicies = \<lparr>crd_Group = ''multicluster.harmonycloud.cn'', crd_Version = ''v1alpha1'', crd_Kind = ''MultiClusterResourceAggregatePolicy'', crd_Plural = ''multiclusterresourceaggregatepolicies'',
     crd_Scope = ''Namespaced'', crd_Status = True\<rparr>"

definition crd_multiclusterresourceaggregaterules :: crd where
  "crd_multiclusterresourceaggregaterules = \<lparr>crd_Group = ''multicluster.harmonycloud.cn'', crd_Version = ''v1alpha1'', crd_Kind = ''MultiClusterResourceAggregateRule'', crd_Plural = ''multiclusterresourceaggregaterules'',
     crd_Scope = ''Namespaced'', crd_Status = True\<rparr>"

definition crd_multiclusterresourcebindings :: crd where
  "crd_multiclusterresourcebindings = \<lparr>crd_Group = ''multicluster.harmonycloud.cn'', crd_Version = ''v1alpha1'', crd_Kind = ''MultiClusterResourceBinding'', crd_Plural = ''multiclusterresourcebindings'',
     crd_Scope = ''Namespaced'', crd_Status = True\<rparr>"

definition crd_multiclusterresourceoverrides :: crd where
  "crd_multiclusterresourceoverrides = \<lparr>crd_Group = ''multicluster.harmonycloud.cn'', crd_Version = ''v1alpha1'', crd_Kind = ''MultiClusterResourceOverride'', crd_Plural = ''multiclusterresourceoverrides'',
     crd_Scope = ''Namespaced'', crd_Status = False\<rparr>"

definition crd_multiclusterresourceschedulepolicies :: crd where
  "crd_multiclusterresourceschedulepolicies = \<lparr>crd_Group = ''multicluster.harmonycloud.cn'', crd_Version = ''v1alpha1'', crd_Kind = ''MultiClusterResourceSchedulePolicy'', crd_Plural = ''multiclusterresourceschedulepolicies'',
     crd_Scope = ''Namespaced'', crd_Status = True\<rparr>"

definition crd_namespacemappings :: crd where
  "crd_namespacemappings = \<lparr>crd_Group = ''multicluster.harmonycloud.cn'', crd_Version = ''v1alpha1'', crd_Kind = ''NamespaceMapping'', crd_Plural = ''namespacemappings'',
     crd_Scope = ''Namespaced'', crd_Status = False\<rparr>"

definition crd_resourceaggregatepolicies :: crd where
  "crd_resourceaggregatepolicies = \<lparr>crd_Group = ''multicluster.harmonycloud.cn'', crd_Version = ''v1alpha1'', crd_Kind = ''ResourceAggregatePolicy'', crd_Plural = ''resourceaggregatepolicies'',
     crd_Scope = ''Namespaced'', crd_Status = True\<rparr>"

definition customResources :: "(string \<times> crd) list" where
  "customResources =
    [(''AggregatedResources'', crd_aggregatedresources),
     (''Clusters'', crd_clusters),
     (''ClusterResources'', crd_clusterresources),
     (''ClusterSets'', crd_clustersets),
     (''MultiClusterResources'', crd_multiclusterresources),
     (''MultiClusterResourceAggregatePolicies'', crd_multiclusterresourceaggregatepolicies),
     (''MultiClusterResourceAggregateRules'', crd_multiclusterresourceaggregaterules),
     (''MultiClusterResourceBindings'', crd_multiclusterresourcebindings),
     (''MultiClusterResourceOverrides'', crd_multiclusterresourceoverrides),
     (''MultiClusterResourceSchedulePolicies'', crd_multiclusterresourceschedulepolicies),
     (''NamespaceMappings'', crd_namespacemappings),
     (''ResourceAggregatePolicies'', crd_resourceaggregatepolicies)]"

end
