(* ===== verification/Informers.thy ===== *)
theory Informers
  imports DeepCopy Clientset
begin

text \<open>
  The generated listers and informers (\<open>pkg/client/listers\<close>, \<open>pkg/client/informers\<close>). A cache is a parameter, with
  the Go type of every object in it: a lister asserts that the objects are of its kind. An informer is
  what \<open>cache.NewSharedIndexInformer\<close> is given, with the request that its list and its watch send; the factory
  creates at most one for every type and starts each at most once.
\<close>

section \<open>Listers\<close>

text \<open>
  \<open>cache.ListAll\<close> and \<open>cache.ListAllByNamespace\<close> with the objects they hand on and their error, and
  \<open>GetByKey\<close>; every object with the name of its type.
\<close>

record 'o indexer =
  ix_ListAll :: "string \<Rightarrow> (string \<times> 'o) list \<times> go_error option"
  ix_ListAllByNamespace :: "string \<Rightarrow> string \<Rightarrow> (string \<times> 'o) list \<times> go_error option"
  ix_GetByKey :: "string \<Rightarrow> go_error + (string \<times> 'o) option"

text \<open>\<open>ret = append(ret, m.(*T))\<close> for everything that is handed on; the assertion panics for another type.\<close>

fun appendAll :: "string \<Rightarrow> (string \<times> 'o) list \<Rightarrow> 'o list res" where
  "appendAll kind [] = Inr []"
| "appendAll kind ((t, x) # xs) = (if t = kind then bindR (appendAll kind xs) (\<lambda>ys. Inr (x # ys)) else Crash WrongType)"

definition listed :: "string \<Rightarrow> (string \<times> 'o) list \<times> go_error option \<Rightarrow> 'o list res" where
  "listed kind r = bindR (appendAll kind (fst r)) (\<lambda>ret. case snd r of None \<Rightarrow> Inr ret | Some e \<Rightarrow> Raise e)"

definition found :: "string \<Rightarrow> go_error + (string \<times> 'o) option \<Rightarrow> 'o res" where
  "found kind r =
     (case r of
        Inl e \<Rightarrow> Raise e
      | Inr None \<Rightarrow> Raise (ErrApi NotFound)
      | Inr (Some (t, x)) \<Rightarrow> if t = kind then Inr x else Crash WrongType)"

text \<open>
  A lister of objects; the lister of a namespaced kind lists all of them, and hands out one for each namespace.
\<close>

record 'o lister =
  li_List :: "string \<Rightarrow> 'o list res"
  li_Get :: "string \<Rightarrow> 'o res"

record 'o namespaced_lister =
  nl_List :: "string \<Rightarrow> 'o list res"
  nl_Namespace :: "string \<Rightarrow> 'o lister"

definition namespacedLister :: "string \<Rightarrow> 'o indexer \<Rightarrow> 'o namespaced_lister" where
  "namespacedLister kind ix = \<lparr>
     nl_List = (\<lambda>selector. listed kind (ix_ListAll ix selector)),
     nl_Namespace = (\<lambda>namespace. \<lparr>
       li_List = (\<lambda>selector. listed kind (ix_ListAllByNamespace ix namespace selector)),
       li_Get = (\<lambda>name. found kind (ix_GetByKey ix (namespace @ ''/'' @ name)))\<rparr>)\<rparr>"

definition clusterLister :: "string \<Rightarrow> 'o indexer \<Rightarrow> 'o lister" where
  "clusterLister kind ix = \<lparr>
     li_List = (\<lambda>selector. listed kind (ix_ListAll ix selector)),
     li_Get = (\<lambda>name. found kind (ix_GetByKey ix name))\<rparr>"

definition NewAggregatedResourceLister :: "'o indexer \<Rightarrow> 'o namespaced_lister" where
  "NewAggregatedResourceLister ix = namespacedLister ''AggregatedResource'' ix"

definition NewClusterLister :: "'o indexer \<Rightarrow> 'o lister" where
  "NewClusterLister ix = clusterLister ''Cluster'' ix"

definition NewClusterResourceLister :: "'o indexer \<Rightarrow> 'o namespaced_lister" where
  "NewClusterResourceLister ix = namespacedLister ''ClusterResource'' ix"

definition NewClusterSetLister :: "'o indexer \<Rightarrow> 'o lister" where
  "NewClusterSetLister ix = clusterLister ''ClusterSet'' ix"

definition NewMultiClusterResourceLister :: "'o indexer \<Rightarrow> 'o namespaced_lister" where
  "NewMultiClusterResourceLister ix = namespacedLister ''MultiClusterResource'' ix"

definition NewMultiClusterResourceAggregatePolicyLister :: "'o indexer \<Rightarrow> 'o namespaced_lister" where
  "NewMultiClusterResourceAggregatePolicyLister ix = namespacedLister ''MultiClusterResourceAggregatePolicy'' ix"

definition NewMultiClusterResourceAggregateRuleLister :: "'o indexer \<Rightarrow> 'o namespaced_lister" where
  "NewMultiClusterResourceAggregateRuleLister ix = namespacedLister ''MultiClusterResourceAggregateRule'' ix"

definition NewMultiClusterResourceBindingLister :: "'o indexer \<Rightarrow> 'o namespaced_lister" where
  "NewMultiClusterResourceBindingLister ix = namespacedLister ''MultiClusterResourceBinding'' ix"

definition NewMultiClusterResourceOverrideLister :: "'o indexer \<Rightarrow> 'o namespaced_lister" where
  "NewMultiClusterResourceOverrideLister ix = namespacedLister ''MultiClusterResourceOverride'' ix"

definition NewMultiClusterResourceSchedulePolicyLister :: "'o indexer \<Rightarrow> 'o namespaced_lister" where
  "NewMultiClusterResourceSchedulePolicyLister ix = namespacedLister ''MultiClusterResourceSchedulePolicy'' ix"

definition NewNamespaceMappingLister :: "'o indexer \<Rightarrow> 'o namespaced_lister" where
  "NewNamespaceMappingLister ix = namespacedLister ''NamespaceMapping'' ix"

definition NewResourceAggregatePolicyLister :: "'o indexer \<Rightarrow> 'o namespaced_lister" where
  "NewResourceAggregatePolicyLister ix = namespacedLister ''ResourceAggregatePolicy'' ix"

section \<open>Informers\<close>

type_synonym tweak = "ListOptions \<Rightarrow> ListOptions"

record informer =
  im_List :: "ListOptions \<Rightarrow> unit rest_request"
  im_Watch :: "ListOptions \<Rightarrow> unit rest_request"
  im_Object :: string
  im_Resync :: int
  im_Indexers :: "string list"

definition tweaked :: "tweak option \<Rightarrow> ListOptions \<Rightarrow> ListOptions" where
  "tweaked tweak opts = (case tweak of None \<Rightarrow> opts | Some f \<Rightarrow> f opts)"

definition sharedIndexInformer ::
  "string option \<Rightarrow> string \<Rightarrow> string \<Rightarrow> int \<Rightarrow> string list \<Rightarrow> tweak option \<Rightarrow> informer" where
  "sharedIndexInformer ns resource kind resync indexers tweak = \<lparr>
     im_List = (\<lambda>opts. listRequest ns resource (tweaked tweak opts)),
     im_Watch = (\<lambda>opts. watchRequest ns resource (tweaked tweak opts)),
     im_Object = kind, im_Resync = resync, im_Indexers = indexers\<rparr>"

section \<open>The factory\<close>

text \<open>\<open>fa_Runs\<close> are the informers for which \<open>go informer.Run\<close> was called, the last one first.\<close>

record informer_factory =
  fa_Namespace :: string
  fa_TweakListOptions :: "tweak option"
  fa_DefaultResync :: int
  fa_CustomResync :: "(string, int) gomap"
  fa_Informers :: "(string, informer) gomap"
  fa_Started :: "(string, bool) gomap"
  fa_Runs :: "string list"

type_synonym accessor = "informer_factory \<Rightarrow> informer \<times> informer_factory"

definition WithCustomResyncConfig :: "(string, int) gomap \<Rightarrow> informer_factory \<Rightarrow> informer_factory" where
  "WithCustomResyncConfig config f = f\<lparr>fa_CustomResync := fold (\<lambda>(k, v) m. gomap_put m k v) config (fa_CustomResync f)\<rparr>"

definition WithTweakListOptions :: "tweak option \<Rightarrow> informer_factory \<Rightarrow> informer_factory" where
  "WithTweakListOptions tweak f = f\<lparr>fa_TweakListOptions := tweak\<rparr>"

definition WithNamespace :: "string \<Rightarrow> informer_factory \<Rightarrow> informer_factory" where
  "WithNamespace namespace f = f\<lparr>fa_Namespace := namespace\<rparr>"

definition NewSharedInformerFactoryWithOptions ::
  "int \<Rightarrow> (informer_factory \<Rightarrow> informer_factory) list \<Rightarrow> informer_factory" where
  "NewSharedInformerFactoryWithOptions defaultResync options =
     fold (\<lambda>opt f. opt f) options
       \<lparr>fa_Namespace = [], fa_TweakListOptions = None, fa_DefaultResync = defaultResync, fa_CustomResync = [],
        fa_Informers = [], fa_Started = [], fa_Runs = []\<rparr>"

definition NewSharedInformerFactory :: "int \<Rightarrow> informer_factory" where
  "NewSharedInformerFactory defaultResync = NewSharedInformerFactoryWithOptions defaultResync []"

definition NewFilteredSharedInformerFactory :: "int \<Rightarrow> string \<Rightarrow> tweak option \<Rightarrow> informer_factory" where
  "NewFilteredSharedInformerFactory defaultResync namespace tweak =
     NewSharedInformerFactoryWithOptions defaultResync [WithNamespace namespace, WithTweakListOptions tweak]"

definition resyncPeriod :: "string \<Rightarrow> informer_factory \<Rightarrow> int" where
  "resyncPeriod kind f = (case gomap_get (fa_CustomResync f) kind of Some r \<Rightarrow> r | None \<Rightarrow> fa_DefaultResync f)"

definition InformerFor :: "string \<Rightarrow> (int \<Rightarrow> informer) \<Rightarrow> accessor" where
  "InformerFor kind newFunc f =
     (case gomap_get (fa_Informers f) kind of
        Some informer \<Rightarrow> (informer, f)
      | None \<Rightarrow>
          (let informer = newFunc (resyncPeriod kind f) in
           (informer, f\<lparr>fa_Informers := gomap_put (fa_Informers f) kind informer\<rparr>)))"

definition isStarted :: "informer_factory \<Rightarrow> string \<Rightarrow> bool" where
  "isStarted f kind \<longleftrightarrow> gomap_get (fa_Started f) kind = Some True"

definition startOne :: "string \<times> informer \<Rightarrow> informer_factory \<Rightarrow> informer_factory" where
  "startOne ki f =
     (if isStarted f (fst ki) then f
      else f\<lparr>fa_Runs := fst ki # fa_Runs f, fa_Started := gomap_put (fa_Started f) (fst ki) True\<rparr>)"

definition Start :: "informer_factory \<Rightarrow> informer_factory" where
  "Start f = fold startOne (fa_Informers f) f"

text \<open>\<open>synced\<close> is what \<open>cache.WaitForCacheSync\<close> answers for an informer.\<close>

definition WaitForCacheSync :: "(informer \<Rightarrow> bool) \<Rightarrow> informer_factory \<Rightarrow> (string, bool) gomap" where
  "WaitForCacheSync synced f =
     fold (\<lambda>(k, i) m. gomap_put m k (synced i)) (filter (\<lambda>(k, i). isStarted f k) (fa_Informers f)) []"

section \<open>The informers of the group\<close>

definition NewFilteredAggregatedResourceInformer :: "string \<Rightarrow> int \<Rightarrow> string list \<Rightarrow> tweak option \<Rightarrow> informer" where
  "NewFilteredAggregatedResourceInformer namespace resync indexers tweak =
     sharedIndexInformer (Some namespace) ''aggregatedresources'' ''AggregatedResource'' resync indexers tweak"

definition NewAggregatedResourceInformer :: "string \<Rightarrow> int \<Rightarrow> string list \<Rightarrow> informer" where
  "NewAggregatedResourceInformer namespace resync indexers = NewFilteredAggregatedResourceInformer namespace resync indexers None"

definition aggregatedResourceInformer :: "string \<Rightarrow> tweak option \<Rightarrow> accessor" where
  "aggregatedResourceInformer namespace tweak =
     InformerFor ''AggregatedResource'' (\<lambda>resync. NewFilteredAggregatedResourceInformer namespace resync [''namespace''] tweak)"

definition NewFilteredClusterInformer :: "int \<Rightarrow> string list \<Rightarrow> tweak option \<Rightarrow> informer" where
  "NewFilteredClusterInformer resync indexers tweak =
     sharedIndexInformer None ''clusters'' ''Cluster'' resync indexers tweak"

definition NewClusterInformer :: "int \<Rightarrow> string list \<Rightarrow> informer" where
  "NewClusterInformer resync indexers = NewFilteredClusterInformer resync indexers None"

definition clusterInformer :: "tweak option \<Rightarrow> accessor" where
  "clusterInformer tweak = InformerFor ''Cluster'' (\<lambda>resync. NewFilteredClusterInformer resync [''namespace''] tweak)"

definition NewFilteredClusterResourceInformer :: "string \<Rightarrow> int \<Rightarrow> string list \<Rightarrow> tweak option \<Rightarrow> informer" where
  "NewFilteredClusterResourceInformer namespace resync indexers tweak =
     sharedIndexInformer (Some namespace) ''clusterresources'' ''ClusterResource'' resync indexers tweak"

definition NewClusterResourceInformer :: "string \<Rightarrow> int \<Rightarrow> string list \<Rightarrow> informer" where
  "NewClusterResourceInformer namespace resync indexers = NewFilteredClusterResourceInformer namespace resync indexers None"

definition clusterResourceInformer :: "string \<Rightarrow> tweak option \<Rightarrow> accessor" where
  "clusterResourceInformer namespace tweak =
     InformerFor ''ClusterResource'' (\<lambda>resync. NewFilteredClusterResourceInformer namespace resync [''namespace''] tweak)"

definition NewFilteredClusterSetInformer :: "int \<Rightarrow> string list \<Rightarrow> tweak option \<Rightarrow> informer" where
  "NewFilteredClusterSetInformer resync indexers tweak =
     sharedIndexInformer None ''clustersets'' ''ClusterSet'' resync indexers tweak"

definition NewClusterSetInformer :: "int \<Rightarrow> string list \<Rightarrow> informer" where
  "NewClusterSetInformer resync indexers = NewFilteredClusterSetInformer resync indexers None"

definition clusterSetInformer :: "tweak option \<Rightarrow> accessor" where
  "clusterSetInformer tweak = InformerFor ''ClusterSet'' (\<lambda>resync. NewFilteredClusterSetInformer resync [''namespace''] tweak)"

definition NewFilteredMultiClusterResourceInformer :: "string \<Rightarrow> int \<Rightarrow> string list \<Rightarrow> tweak option \<Rightarrow> informer" where
  "NewFilteredMultiClusterResourceInformer namespace resync indexers tweak =
     sharedIndexInformer (Some namespace) ''multiclusterresources'' ''MultiClusterResource'' resync indexers tweak"

definition NewMultiClusterResourceInformer :: "string \<Rightarrow> int \<Rightarrow> string list \<Rightarrow> informer" where
  "NewMultiClusterResourceInformer namespace resync indexers = NewFilteredMultiClusterResourceInformer namespace resync indexers None"

definition multiClusterResourceInformer :: "string \<Rightarrow> tweak option \<Rightarrow> accessor" where
  "multiClusterResourceInformer namespace tweak =
     InformerFor ''MultiClusterResource'' (\<lambda>resync. NewFilteredMultiClusterResourceInformer namespace resync [''namespace''] tweak)"

definition NewFilteredMultiClusterResourceAggregatePolicyInformer :: "string \<Rightarrow> int \<Rightarrow> string list \<Rightarrow> tweak option \<Rightarrow> informer" where
  "NewFilteredMultiClusterResourceAggregatePolicyInformer namespace resync indexers tweak =
     sharedIndexInformer (Some namespace) ''multiclusterresourceaggregatepolicies'' ''MultiClusterResourceAggregatePolicy'' resync indexers tweak"

definition NewMultiClusterResourceAggregatePolicyInformer :: "string \<Rightarrow> int \<Rightarrow> string list \<Rightarrow> informer" where
  "NewMultiClusterResourceAggregatePolicyInformer namespace resync indexers = NewFilteredMultiClusterResourceAggregatePolicyInformer namespace resync indexers None"

definition multiClusterResourceAggregatePolicyInformer :: "string \<Rightarrow> tweak option \<Rightarrow> accessor" where
  "multiClusterResourceAggregatePolicyInformer namespace tweak =
     InformerFor ''MultiClusterResourceAggregatePolicy'' (\<lambda>resync. NewFilteredMultiClusterResourceAggregatePolicyInformer namespace resync [''namespace''] tweak)"

definition NewFilteredMultiClusterResourceAggregateRuleInformer :: "string \<Rightarrow> int \<Rightarrow> string list \<Rightarrow> tweak option \<Rightarrow> informer" where
  "NewFilteredMultiClusterResourceAggregateRuleInformer namespace resync indexers tweak =
     sharedIndexInformer (Some namespace) ''multiclusterresourceaggregaterules'' ''MultiClusterResourceAggregateRule'' resync indexers tweak"

definition NewMultiClusterResourceAggregateRuleInformer :: "string \<Rightarrow> int \<Rightarrow> string list \<Rightarrow> informer" where
  "NewMultiClusterResourceAggregateRuleInformer namespace resync indexers = NewFilteredMultiClusterResourceAggregateRuleInformer namespace resync indexers None"

definition multiClusterResourceAggregateRuleInformer :: "string \<Rightarrow> tweak option \<Rightarrow> accessor" where
  "multiClusterResourceAggregateRuleInformer namespace tweak =
     InformerFor ''MultiClusterResourceAggregateRule'' (\<lambda>resync. NewFilteredMultiClusterResourceAggregateRuleInformer namespace resync [''namespace''] tweak)"

definition NewFilteredMultiClusterResourceBindingInformer :: "string \<Rightarrow> int \<Rightarrow> string list \<Rightarrow> tweak option \<Rightarrow> informer" where
  "NewFilteredMultiClusterResourceBindingInformer namespace resync indexers tweak =
     sharedIndexInformer (Some namespace) ''multiclusterresourcebindings'' ''MultiClusterResourceBinding'' resync indexers tweak"

definition NewMultiClusterResourceBindingInformer :: "string \<Rightarrow> int \<Rightarrow> string list \<Rightarrow> informer" where
  "NewMultiClusterResourceBindingInformer namespace resync indexers = NewFilteredMultiClusterResourceBindingInformer namespace resync indexers None"

definition multiClusterResourceBindingInformer :: "string \<Rightarrow> tweak option \<Rightarrow> accessor" where
  "multiClusterResourceBindingInformer namespace tweak =
     InformerFor ''MultiClusterResourceBinding'' (\<lambda>resync. NewFilteredMultiClusterResourceBindingInformer namespace resync [''namespace''] tweak)"

definition NewFilteredMultiClusterResourceOverrideInformer :: "string \<Rightarrow> int \<Rightarrow> string list \<Rightarrow> tweak option \<Rightarrow> informer" where
  "NewFilteredMultiClusterResourceOverrideInformer namespace resync indexers tweak =
     sharedIndexInformer (Some namespace) ''multiclusterresourceoverrides'' ''MultiClusterResourceOverride'' resync indexers tweak"

definition NewMultiClusterResourceOverrideInformer :: "string \<Rightarrow> int \<Rightarrow> string list \<Rightarrow> informer" where
  "NewMultiClusterResourceOverrideInformer namespace resync indexers = NewFilteredMultiClusterResourceOverrideInformer namespace resync indexers None"

definition multiClusterResourceOverrideInformer :: "string \<Rightarrow> tweak option \<Rightarrow> accessor" where
  "multiClusterResourceOverrideInformer namespace tweak =
     InformerFor ''MultiClusterResourceOverride'' (\<lambda>resync. NewFilteredMultiClusterResourceOverrideInformer namespace resync [''namespace''] tweak)"

definition NewFilteredMultiClusterResourceSchedulePolicyInformer :: "string \<Rightarrow> int \<Rightarrow> string list \<Rightarrow> tweak option \<Rightarrow> informer" where
  "NewFilteredMultiClusterResourceSchedulePolicyInformer namespace resync indexers tweak =
     sharedIndexInformer (Some namespace) ''multiclusterresourceschedulepolicies'' ''MultiClusterResourceSchedulePolicy'' resync indexers tweak"

definition NewMultiClusterResourceSchedulePolicyInformer :: "string \<Rightarrow> int \<Rightarrow> string list \<Rightarrow> informer" where
  "NewMultiClusterResourceSchedulePolicyInformer namespace resync indexers = NewFilteredMultiClusterResourceSchedulePolicyInformer namespace resync indexers None"

definition multiClusterResourceSchedulePolicyInformer :: "string \<Rightarrow> tweak option \<Rightarrow> accessor" where
  "multiClusterResourceSchedulePolicyInformer namespace tweak =
     InformerFor ''MultiClusterResourceSchedulePolicy'' (\<lambda>resync. NewFilteredMultiClusterResourceSchedulePolicyInformer namespace resync [''namespace''] tweak)"

definition NewFilteredNamespaceMappingInformer :: "string \<Rightarrow> int \<Rightarrow> string list \<Rightarrow> tweak option \<Rightarrow> informer" where
  "NewFilteredNamespaceMappingInformer namespace resync indexers tweak =
     sharedIndexInformer (Some namespace) ''namespacemappings'' ''NamespaceMapping'' resync indexers tweak"

definition NewNamespaceMappingInformer :: "string \<Rightarrow> int \<Rightarrow> string list \<Rightarrow> informer" where
  "NewNamespaceMappingInformer namespace resync indexers = NewFilteredNamespaceMappingInformer namespace resync indexers None"

definition namespaceMappingInformer :: "string \<Rightarrow> tweak option \<Rightarrow> accessor" where
  "namespaceMappingInformer namespace tweak =
     InformerFor ''NamespaceMapping'' (\<lambda>resync. NewFilteredNamespaceMappingInformer namespace resync [''namespace''] tweak)"

definition NewFilteredResourceAggregatePolicyInformer :: "string \<Rightarrow> int \<Rightarrow> string list \<Rightarrow> tweak option \<Rightarrow> informer" where
  "NewFilteredResourceAggregatePolicyInformer namespace resync indexers tweak =
     sharedIndexInformer (Some namespace) ''resourceaggregatepolicies'' ''ResourceAggregatePolicy'' resync indexers tweak"

definition NewResourceAggregatePolicyInformer :: "string \<Rightarrow> int \<Rightarrow> string list \<Rightarrow> informer" where
  "NewResourceAggregatePolicyInformer namespace resync indexers = NewFilteredResourceAggregatePolicyInformer namespace resync indexers None"

definition resourceAggregatePolicyInformer :: "string \<Rightarrow> tweak option \<Rightarrow> accessor" where
  "resourceAggregatePolicyInformer namespace tweak =
     InformerFor ''ResourceAggregatePolicy'' (\<lambda>resync. NewFilteredResourceAggregatePolicyInformer namespace resync [''namespace''] tweak)"

text \<open>\<open>f.Multicluster().V1alpha1()\<close>: the informers with the namespace and the options of the factory, by resource.\<close>

definition v1alpha1Informers :: "informer_factory \<Rightarrow> (string \<times> accessor) list" where
  "v1alpha1Informers f =
    [(''aggregatedresources'', aggregatedResourceInformer (fa_Namespace f) (fa_TweakListOptions f)),
     (''clusters'', clusterInformer (fa_TweakListOptions f)),
     (''clusterresources'', clusterResourceInformer (fa_Namespace f) (fa_TweakListOptions f)),
     (''clustersets'', clusterSetInformer (fa_TweakListOptions f)),
     (''multiclusterresources'', multiClusterResourceInformer (fa_Namespace f) (fa_TweakListOptions f)),
     (''multiclusterresourceaggregatepolicies'', multiClusterResourceAggregatePolicyInformer (fa_Namespace f) (fa_TweakListOptions f)),
     (''multiclusterresourceaggregaterules'', multiClusterResourceAggregateRuleInformer (fa_Namespace f) (fa_TweakListOptions f)),
     (''multiclusterresourcebindings'', multiClusterResourceBindingInformer (fa_Namespace f) (fa_TweakListOptions f)),
     (''multiclusterresourceoverrides'', multiClusterResourceOverrideInformer (fa_Namespace f) (fa_TweakListOptions f)),
     (''multiclusterresourceschedulepolicies'', multiClusterResourceSchedulePolicyInformer (fa_Namespace f) (fa_TweakListOptions f)),
     (''namespacemappings'', namespaceMappingInformer (fa_Namespace f) (fa_TweakListOptions f)),
     (''resourceaggregatepolicies'', resourceAggregatePolicyInformer (fa_Namespace f) (fa_TweakListOptions f))]"

definition ForResource :: "string \<times> string \<Rightarrow> string \<Rightarrow> informer_factory \<Rightarrow> informer res \<times> informer_factory" where
  "ForResource groupVersion resource f =
     (if groupVersion = SchemeGroupVersion
      then case map_of (v1alpha1Informers f) resource of
             Some informer \<Rightarrow> (case informer f of (i, f') \<Rightarrow> (Inr i, f'))
           | None \<Rightarrow> (Raise (ErrFmt ''no informer found for %v'' [resource]), f)
      else (Raise (ErrFmt ''no informer found for %v'' [resource]), f))"

section \<open>What a list brings into a cache\<close>

text \<open>The Go type of the items of the list of a kind, as the list types declare them.\<close>

definition itemTypes :: "(string \<times> string) list" where
  "itemTypes =
    [(''AggregatedResource'', ''AggregatedResource''),
     (''Cluster'', ''Cluster''),
     (''ClusterResource'', ''ClusterResource''),
     (''ClusterSet'', ''ClusterSet''),
     (''MultiClusterResource'', ''MultiClusterResource''),
     (''MultiClusterResourceAggregatePolicy'', ''MultiClusterResourceAggregatePolicy''),
     (''MultiClusterResourceAggregateRule'', ''MultiClusterResourceAggregateRule''),
     (''MultiClusterResourceBinding'', ''MultiClusterResourceBinding''),
     (''MultiClusterResourceOverride'', ''MultiClusterResourceOverride''),
     (''MultiClusterResourceSchedulePolicy'', ''MultiClusterResourceSchedulePolicy''),
     (''NamespaceMapping'', ''ClusterSet''),
     (''ResourceAggregatePolicy'', ''ResourceAggregatePolicy'')]"

definition listAlls :: "(string \<times> ('o indexer \<Rightarrow> string \<Rightarrow> 'o list res)) list" where
  "listAlls =
    [(''AggregatedResource'', \<lambda>ix. nl_List (NewAggregatedResourceLister ix)),
     (''Cluster'', \<lambda>ix. li_List (NewClusterLister ix)),
     (''ClusterResource'', \<lambda>ix. nl_List (NewClusterResourceLister ix)),
     (''ClusterSet'', \<lambda>ix. li_List (NewClusterSetLister ix)),
     (''MultiClusterResource'', \<lambda>ix. nl_List (NewMultiClusterResourceLister ix)),
     (''MultiClusterResourceAggregatePolicy'', \<lambda>ix. nl_List (NewMultiClusterResourceAggregatePolicyLister ix)),
     (''MultiClusterResourceAggregateRule'', \<lambda>ix. nl_List (NewMultiClusterResourceAggregateRuleLister ix)),
     (''MultiClusterResourceBinding'', \<lambda>ix. nl_List (NewMultiClusterResourceBindingLister ix)),
     (''MultiClusterResourceOverride'', \<lambda>ix. nl_List (NewMultiClusterResourceOverrideLister ix)),
     (''MultiClusterResourceSchedulePolicy'', \<lambda>ix. nl_List (NewMultiClusterResourceSchedulePolicyLister ix)),
     (''NamespaceMapping'', \<lambda>ix. nl_List (NewNamespaceMappingLister ix)),
     (''ResourceAggregatePolicy'', \<lambda>ix. nl_List (NewResourceAggregatePolicyLister ix))]"

end
