(* ===== verification/ClientsetProps.thy ===== *)
theory ClientsetProps
  imports Clientset Server
begin

text \<open>
  The generated clients and the custom resource definitions fit together: behind a REST client that serves what
  the definitions say, the client of every kind does on the server what its calls are named for, which is
  what the rest of the development takes the calls of the clientset for (the record \<open>api\<close>).
\<close>

section \<open>What is served, and what a client should do\<close>

text \<open>
  A configured REST client serves a kind: requests for its resource, in a namespace when it has namespaces, are
  answered by the server. The status can be written alone where the definition has the subresource.
\<close>

definition serves :: "('s, 'o) rest \<Rightarrow> crd \<Rightarrow> ('s, 'o) api \<Rightarrow> ('o \<Rightarrow> ObjectMeta) \<Rightarrow> bool" where
  "serves rest crd a meta \<longleftrightarrow>
     (\<forall>r ns s. rr_Resource r = crd_Plural crd \<longrightarrow>
        (if crd_Scope crd = ''Cluster'' then ns = [] \<and> rr_Namespace r = None else rr_Namespace r = Some ns) \<longrightarrow>
        (\<forall>n. rr_Verb r = ''GET'' \<longrightarrow> rr_Name r = Some n \<longrightarrow> rr_SubResource r = [] \<longrightarrow>
           rs_Into rest r s = (api_Get a s ns n, s)) \<and>
        (rr_Verb r = ''GET'' \<longrightarrow> rr_Name r = None \<longrightarrow> rr_Params r = Some (Listing noListOptions) \<longrightarrow> rr_Timeout r = Some 0 \<longrightarrow>
           rs_IntoList rest r s = (api_List a s \<lparr>lo_Namespace = ns, lo_Selector = None\<rparr>, s)) \<and>
        (\<forall>obj. om_Namespace (meta obj) = ns \<longrightarrow>
           (rr_Verb r = ''POST'' \<longrightarrow> rr_Name r = None \<longrightarrow> rr_Body r = Some (ObjectBody obj) \<longrightarrow>
              rs_Into rest r s = api_Create a obj s) \<and>
           (rr_Verb r = ''PUT'' \<longrightarrow> rr_Name r = Some (om_Name (meta obj)) \<longrightarrow> rr_Body r = Some (ObjectBody obj) \<longrightarrow>
              (rr_SubResource r = [] \<longrightarrow> rs_Into rest r s = api_Update a obj s) \<and>
              (rr_SubResource r = [''status''] \<longrightarrow> crd_Status crd \<longrightarrow> rs_Into rest r s = api_UpdateStatus a obj s)) \<and>
           (rr_Verb r = ''DELETE'' \<longrightarrow> rr_Name r = Some (om_Name (meta obj)) \<longrightarrow> rr_SubResource r = [] \<longrightarrow>
              rs_Error rest r s = api_Delete a obj s)))"

definition implements :: "('s, 'o) typed_client \<Rightarrow> ('s, 'o) api \<Rightarrow> ('o \<Rightarrow> ObjectMeta) \<Rightarrow> string \<Rightarrow> bool \<Rightarrow> bool" where
  "implements c a meta ns hasStatus \<longleftrightarrow>
     (\<forall>n opts s. tc_Get c n opts s = (api_Get a s ns n, s)) \<and>
     (\<forall>s. tc_List c noListOptions s = (api_List a s \<lparr>lo_Namespace = ns, lo_Selector = None\<rparr>, s)) \<and>
     (\<forall>obj opts s. om_Namespace (meta obj) = ns \<longrightarrow>
        tc_Create c obj opts s = api_Create a obj s \<and> tc_Update c obj opts s = api_Update a obj s \<and>
        tc_Delete c (om_Name (meta obj)) opts s = api_Delete a obj s) \<and>
     (case tc_UpdateStatus c of
        None \<Rightarrow> \<not> hasStatus
      | Some f \<Rightarrow> hasStatus \<and> (\<forall>obj opts s. om_Namespace (meta obj) = ns \<longrightarrow> f obj opts s = api_UpdateStatus a obj s))"

lemmas request_defs = restRequest_def getRequest_def listRequest_def watchRequest_def createRequest_def updateRequest_def
  updateStatusRequest_def deleteRequest_def deleteCollectionRequest_def patchRequest_def

lemma servesD:
  assumes "serves rest crd a meta" and "rr_Resource r = crd_Plural crd"
    and "if crd_Scope crd = ''Cluster'' then ns = [] \<and> rr_Namespace r = None else rr_Namespace r = Some ns"
  shows "rr_Verb r = ''GET'' \<Longrightarrow> rr_Name r = Some n \<Longrightarrow> rr_SubResource r = [] \<Longrightarrow> rs_Into rest r s = (api_Get a s ns n, s)"
    and "rr_Verb r = ''GET'' \<Longrightarrow> rr_Name r = None \<Longrightarrow> rr_Params r = Some (Listing noListOptions) \<Longrightarrow> rr_Timeout r = Some 0 \<Longrightarrow>
           rs_IntoList rest r s = (api_List a s \<lparr>lo_Namespace = ns, lo_Selector = None\<rparr>, s)"
    and "om_Namespace (meta obj) = ns \<Longrightarrow> rr_Verb r = ''POST'' \<Longrightarrow> rr_Name r = None \<Longrightarrow> rr_Body r = Some (ObjectBody obj) \<Longrightarrow>
           rs_Into rest r s = api_Create a obj s"
    and "om_Namespace (meta obj) = ns \<Longrightarrow> rr_Verb r = ''PUT'' \<Longrightarrow> rr_Name r = Some (om_Name (meta obj)) \<Longrightarrow>
           rr_Body r = Some (ObjectBody obj) \<Longrightarrow> rr_SubResource r = [] \<Longrightarrow> rs_Into rest r s = api_Update a obj s"
    and "om_Namespace (meta obj) = ns \<Longrightarrow> rr_Verb r = ''PUT'' \<Longrightarrow> rr_Name r = Some (om_Name (meta obj)) \<Longrightarrow>
           rr_Body r = Some (ObjectBody obj) \<Longrightarrow> rr_SubResource r = [''status''] \<Longrightarrow> crd_Status crd \<Longrightarrow>
           rs_Into rest r s = api_UpdateStatus a obj s"
    and "om_Namespace (meta obj) = ns \<Longrightarrow> rr_Verb r = ''DELETE'' \<Longrightarrow> rr_Name r = Some (om_Name (meta obj)) \<Longrightarrow>
           rr_SubResource r = [] \<Longrightarrow> rs_Error rest r s = api_Delete a obj s"
  using assms unfolding serves_def by blast+

lemma typedClient_implements:
  fixes rest :: "('s, 'o) rest"
  assumes "serves rest crd a meta" and "if crd_Scope crd = ''Cluster'' then ns = [] \<and> nsopt = None else nsopt = Some ns"
  shows "implements (typedClient rest meta nsopt (crd_Plural crd) (crd_Status crd)) a meta ns (crd_Status crd)"
proof -
  note law = servesD [OF assms(1)]
  have "rs_Into rest (getRequest nsopt (crd_Plural crd) n opts) s = (api_Get a s ns n, s)" for n opts s
    by (rule law(1)) (use assms(2) in \<open>simp_all add: request_defs\<close>)
  moreover have "rs_IntoList rest (listRequest nsopt (crd_Plural crd) noListOptions) s = (api_List a s \<lparr>lo_Namespace = ns, lo_Selector = None\<rparr>, s)" for s
    by (rule law(2)) (use assms(2) in \<open>simp_all add: request_defs noListOptions_def listTimeout_def\<close>)
  moreover have "rs_Into rest (createRequest nsopt (crd_Plural crd) obj opts) s = api_Create a obj s" if "om_Namespace (meta obj) = ns" for obj opts s
    by (rule law(3) [OF _ _ that]) (use assms(2) in \<open>simp_all add: request_defs\<close>)
  moreover have "rs_Into rest (updateRequest meta nsopt (crd_Plural crd) obj opts) s = api_Update a obj s" if "om_Namespace (meta obj) = ns" for obj opts s
    by (rule law(4) [OF _ _ that]) (use assms(2) in \<open>simp_all add: request_defs\<close>)
  moreover have "rs_Into rest (updateStatusRequest meta nsopt (crd_Plural crd) obj opts) s = api_UpdateStatus a obj s"
    if "om_Namespace (meta obj) = ns" "crd_Status crd" for obj opts s
    by (rule law(5) [OF _ _ that(1)]) (use assms(2) that(2) in \<open>simp_all add: request_defs\<close>)
  moreover have "rs_Error rest (deleteRequest nsopt (crd_Plural crd) (om_Name (meta obj)) opts) s = api_Delete a obj s"
    if "om_Namespace (meta obj) = ns" for obj opts s
    by (rule law(6) [OF _ _ that]) (use assms(2) in \<open>simp_all add: request_defs\<close>)
  ultimately show ?thesis by (simp add: implements_def typedClient_def)
qed

text \<open>Every client is that of its definition: its resource, its namespace, its status.\<close>

lemmas crd_defs =
  crd_aggregatedresources_def crd_clusters_def crd_clusterresources_def crd_clustersets_def
  crd_multiclusterresources_def crd_multiclusterresourceaggregatepolicies_def
  crd_multiclusterresourceaggregaterules_def crd_multiclusterresourcebindings_def
  crd_multiclusterresourceoverrides_def crd_multiclusterresourceschedulepolicies_def crd_namespacemappings_def
  crd_resourceaggregatepolicies_def

lemmas client_defs =
  aggregatedResources_def clusters_def clusterResources_def clusterSets_def multiClusterResources_def
  multiClusterResourceAggregatePolicies_def multiClusterResourceAggregateRules_def
  multiClusterResourceBindings_def multiClusterResourceOverrides_def multiClusterResourceSchedulePolicies_def
  namespaceMappings_def resourceAggregatePolicies_def

lemma clients_fit:
  "list_all2 (\<lambda>(n, crd) (n', client). n = n' \<and>
      client = typedClient rest meta (if crd_Scope crd = ''Cluster'' then None else Some ns) (crd_Plural crd) (crd_Status crd))
     customResources (v1alpha1Clients rest meta ns)"
  by (simp add: customResources_def v1alpha1Clients_def crd_defs client_defs)

lemma customResources_group: "(name, crd) \<in> set customResources \<Longrightarrow> (crd_Group crd, crd_Version crd) = SchemeGroupVersion"
  by (auto simp: customResources_def crd_defs SchemeGroupVersion_def)

lemma same_name:
  assumes "list_all2 (\<lambda>(n, x) (n', y). n = n' \<and> Q x y) xs ys" "distinct (map fst xs)" "(n, x) \<in> set xs" "(n, y) \<in> set ys"
  shows "Q x y"
proof -
  from assms(1,3) obtain i where i: "i < length xs" "xs ! i = (n, x)" "length ys = length xs" by (metis in_set_conv_nth list_all2_lengthD)
  from assms(4) i(3) obtain j where j: "j < length xs" "ys ! j = (n, y)" by (metis in_set_conv_nth)
  have "fst (xs ! j) = n" using list_all2_nthD [OF assms(1) j(1)] j(2) by (auto split: prod.splits)
  with i j(1) assms(2) have "i = j" by (metis distinct_conv_nth fst_conv length_map nth_map)
  with list_all2_nthD [OF assms(1) i(1)] i j show ?thesis by simp
qed

section \<open>The clientset\<close>

text \<open>
  C26: a clientset made from any configuration has, for every custom resource that is defined, a client that
  implements it: reads, lists, creates, updates and deletes reach the objects of the namespace of the
  client, and there is a write of the status exactly where the definition has the subresource. That the REST
  client serves a definition is asked of it only for the path and the group of the definition.
\<close>

theorem clientset_implements_definitions:
  assumes made: "NewForConfig userAgent restClientFor discoveryFor config = Inr (d, rest)"
    and kind: "(name, crd) \<in> set customResources" "(name, client) \<in> set (v1alpha1Clients rest meta ns)"
    and scope: "crd_Scope crd = ''Cluster'' \<Longrightarrow> ns = []"
    and served: "\<And>cfg rest. restClientFor cfg = Inr rest \<Longrightarrow> rc_APIPath cfg = ''/apis'' \<Longrightarrow>
        rc_GroupVersion cfg = Some (crd_Group crd, crd_Version crd) \<Longrightarrow> serves rest crd a meta"
  shows "implements client a meta ns (crd_Status crd)"
proof -
  from made obtain cfg where "restClientFor (setConfigDefaults userAgent cfg) = Inr rest"
    by (auto simp: NewForConfig_def newV1alpha1Client_def split: sum.splits)
  then have "serves rest crd a meta"
    by (rule served) (simp_all add: setConfigDefaults_def customResources_group [OF kind(1)])
  moreover have "client = typedClient rest meta (if crd_Scope crd = ''Cluster'' then None else Some ns) (crd_Plural crd) (crd_Status crd)"
    by (rule same_name [OF clients_fit _ kind]) (simp add: customResources_def)
  ultimately show ?thesis using scope by (simp add: typedClient_implements)
qed

section \<open>Witness\<close>

text \<open>A REST client over an API server in memory that answers for one definition.\<close>

definition namespaceOf :: "'o rest_request \<Rightarrow> string" where
  "namespaceOf r = (case rr_Namespace r of None \<Rightarrow> [] | Some ns \<Rightarrow> ns)"

definition restOf :: "('s, 'o) api \<Rightarrow> ('s, 'o) rest" where
  "restOf a = \<lparr>
     rs_Into = (\<lambda>r s.
        if rr_Verb r = ''GET'' then (api_Get a s (namespaceOf r) (the (rr_Name r)), s)
        else case rr_Body r of
               Some (ObjectBody obj) \<Rightarrow>
                 if rr_Verb r = ''POST'' then api_Create a obj s
                 else if rr_SubResource r = [] then api_Update a obj s else api_UpdateStatus a obj s
             | _ \<Rightarrow> (Inl (OtherApiError ''bad request''), s)),
     rs_IntoList = (\<lambda>r s. (api_List a s \<lparr>lo_Namespace = namespaceOf r, lo_Selector = None\<rparr>, s)),
     rs_Watch = (\<lambda>r s. (Inl (OtherApiError ''no watch''), s)),
     rs_Error = (\<lambda>r s. case api_Get a s (namespaceOf r) (the (rr_Name r)) of
        Inl e \<Rightarrow> (Some e, s) | Inr x \<Rightarrow> api_Delete a x s)\<rparr>"

lemma memory_serves: "serves (restOf (memApi objs put meta upd status)) crd (memApi objs put meta upd status) meta"
proof -
  have "keyOf meta y = keyOf meta x" if "findObj meta (keyOf meta x) xs = Some y" for x y xs
    using that by (auto simp: findObj_def find_Some_iff)
  then have "memDelete objs put meta upd x s =
      (case findObj meta (keyOf meta x) (objs s) of None \<Rightarrow> (Some NotFound, s) | Some y \<Rightarrow> memDelete objs put meta upd y s)" for x s
    by (fastforce simp: memDelete_def split: option.splits)
  then show ?thesis
    by (auto simp: serves_def restOf_def namespaceOf_def memApi_def memGet_def keyOf_def split: option.splits)
qed

definition rcConfig :: rest_config where
  "rcConfig = \<lparr>rc_GroupVersion = None, rc_APIPath = [], rc_UserAgent = [], rc_RateLimiter = None, rc_QPS = 5, rc_Burst = 10\<rparr>"

definition rcResource :: ClusterResource where
  "rcResource = \<lparr>cr_Meta = zeroMeta\<lparr>om_Name := ''r'', om_Namespace := ''n''\<rparr>, cr_Resource = Some ''v'', cr_Status = zeroClusterResourceStatus\<rparr>"

lemma clientset_implements_definitions_witness:
  "\<exists>rest client. NewForConfig ''agent'' (\<lambda>c. Inr (restOf (kClusterResource memKube))) (\<lambda>c. Inr ()) rcConfig = Inr ((), rest) \<and>
     (''ClusterResources'', client) \<in> set (v1alpha1Clients rest cr_Meta ''n'') \<and>
     fst (tc_Get client ''r'' [] (snd (tc_Create client rcResource [] emptyMem))) = Inr rcResource \<and>
     tc_UpdateStatus client \<noteq> None"
proof -
  let ?rest = "restOf (kClusterResource memKube)" and ?client = "clusterResources (restOf (kClusterResource memKube)) cr_Meta ''n''"
  have made: "NewForConfig ''agent'' (\<lambda>c. Inr ?rest) (\<lambda>c. Inr ()) rcConfig = Inr ((), ?rest)"
    by (simp add: NewForConfig_def limitedConfig_def newV1alpha1Client_def rcConfig_def)
  have client: "(''ClusterResources'', ?client) \<in> set (v1alpha1Clients ?rest cr_Meta ''n'')" by (simp add: v1alpha1Clients_def)
  have "serves rest crd_clusterresources (kClusterResource memKube) cr_Meta" if "Inr ?rest = Inr rest" for rest
    using that memory_serves by (auto simp: memKube_def)
  from clientset_implements_definitions [OF made _ client, of crd_clusterresources "kClusterResource memKube"] this
  have "implements ?client (kClusterResource memKube) cr_Meta ''n'' (crd_Status crd_clusterresources)"
    by (simp add: customResources_def crd_defs)
  then have get: "tc_Get ?client n opts s = (api_Get (kClusterResource memKube) s ''n'' n, s)"
    and create: "tc_Create ?client rcResource opts s = api_Create (kClusterResource memKube) rcResource s"
    and status: "tc_UpdateStatus ?client \<noteq> None" for n opts s
    by (auto simp: implements_def rcResource_def crd_clusterresources_def split: option.splits)
  have "api_Create (kClusterResource memKube) rcResource emptyMem = (Inr rcResource, emptyMem\<lparr>mm_ClusterResources := [rcResource]\<rparr>)"
    by (simp add: memKube_def memApi_def memCreate_def findObj_def emptyMem_def)
  then have "api_Get (kClusterResource memKube) (snd (api_Create (kClusterResource memKube) rcResource emptyMem)) ''n'' ''r'' = Inr rcResource"
    by (simp add: memKube_def memApi_def memGet_def findObj_def keyOf_def rcResource_def)
  with made client status show ?thesis by (metis get create fst_conv)
qed

end
