(* ===== verification/InformersProps.thy ===== *)
theory InformersProps
  imports Informers ClientsetProps
begin

text \<open>
  The shared informers: one for each kind, however it is asked for, started once; and what a lister answers over
  a cache that a list has filled.
\<close>

section \<open>The informers of a factory\<close>

lemmas informer_defs =
  aggregatedResourceInformer_def clusterInformer_def clusterResourceInformer_def clusterSetInformer_def
  multiClusterResourceInformer_def multiClusterResourceAggregatePolicyInformer_def
  multiClusterResourceAggregateRuleInformer_def multiClusterResourceBindingInformer_def
  multiClusterResourceOverrideInformer_def multiClusterResourceSchedulePolicyInformer_def
  namespaceMappingInformer_def resourceAggregatePolicyInformer_def NewFilteredAggregatedResourceInformer_def
  NewFilteredClusterInformer_def NewFilteredClusterResourceInformer_def NewFilteredClusterSetInformer_def
  NewFilteredMultiClusterResourceInformer_def NewFilteredMultiClusterResourceAggregatePolicyInformer_def
  NewFilteredMultiClusterResourceAggregateRuleInformer_def NewFilteredMultiClusterResourceBindingInformer_def
  NewFilteredMultiClusterResourceOverrideInformer_def NewFilteredMultiClusterResourceSchedulePolicyInformer_def
  NewFilteredNamespaceMappingInformer_def NewFilteredResourceAggregatePolicyInformer_def

text \<open>The informer of a definition that a factory with these settings makes.\<close>

definition informerOf :: "crd \<Rightarrow> informer_factory \<Rightarrow> informer" where
  "informerOf crd f = sharedIndexInformer (if crd_Scope crd = ''Cluster'' then None else Some (fa_Namespace f)) (crd_Plural crd) (crd_Kind crd)
     (resyncPeriod (crd_Kind crd) f) [''namespace''] (fa_TweakListOptions f)"

text \<open>What does not change while a factory is used.\<close>

definition sameSettings :: "informer_factory \<Rightarrow> informer_factory \<Rightarrow> bool" where
  "sameSettings f g \<longleftrightarrow> fa_Namespace g = fa_Namespace f \<and> fa_TweakListOptions g = fa_TweakListOptions f \<and>
     fa_DefaultResync g = fa_DefaultResync f \<and> fa_CustomResync g = fa_CustomResync f"

definition informer_inv :: "informer_factory \<Rightarrow> bool" where
  "informer_inv f \<longleftrightarrow> gomap_wf (fa_Informers f) \<and> distinct (fa_Runs f) \<and>
     (\<forall>k. k \<in> set (fa_Runs f) \<longleftrightarrow> isStarted f k) \<and> set (fa_Runs f) \<subseteq> fst ` set (fa_Informers f) \<and>
     (\<forall>(k, i)\<in>set (fa_Informers f). \<exists>(name, crd)\<in>set customResources. k = crd_Kind crd \<and> i = informerOf crd f)"

lemma sameSettings_refl [simp]: "sameSettings f f" by (simp add: sameSettings_def)

lemma sameSettings_trans: "sameSettings f g \<Longrightarrow> sameSettings g h \<Longrightarrow> sameSettings f h" by (simp add: sameSettings_def)

lemma informerOf_settings: "sameSettings f g \<Longrightarrow> informerOf crd g = informerOf crd f"
  by (simp add: informerOf_def sameSettings_def resyncPeriod_def cong: option.case_cong)

lemma informers_fit:
  "list_all2 (\<lambda>(n, crd) (resource, informer). resource = crd_Plural crd \<and>
      informer f = InformerFor (crd_Kind crd) (\<lambda>resync. (informerOf crd f)\<lparr>im_Resync := resync\<rparr>) f)
     customResources (v1alpha1Informers f)"
  by (simp add: customResources_def v1alpha1Informers_def crd_defs informer_defs informerOf_def sharedIndexInformer_def)

lemma kinds_distinct:
  "distinct (map (\<lambda>(n, crd). crd_Kind crd) customResources)" "distinct (map (\<lambda>(n, crd). crd_Plural crd) customResources)"
  by (simp_all add: customResources_def crd_defs)

lemma gomap_put_new: "gomap_get m k = None \<Longrightarrow> set (gomap_put m k v) = insert (k, v) (set m)"
proof -
  assume "gomap_get m k = None"
  then have "k \<notin> fst ` set m" by (simp add: gomap_get_None_iff)
  then have "AList.update k v m = m @ [(k, v)]" by (induction m) auto
  then show ?thesis by (simp add: gomap_put_def)
qed

text \<open>Asking for an informer, when everything in the factory is as it should be.\<close>

lemma informer_asked:
  assumes inv: "informer_inv f" and crd: "(n, crd) \<in> set customResources"
  defines "r \<equiv> InformerFor (crd_Kind crd) (\<lambda>resync. (informerOf crd f)\<lparr>im_Resync := resync\<rparr>) f"
  shows "fst r = informerOf crd f" "sameSettings f (snd r)" "informer_inv (snd r)"
    and "fa_Runs (snd r) = fa_Runs f" "gomap_get (fa_Informers (snd r)) (crd_Kind crd) = Some (fst r)"
proof -
  have resync: "(informerOf crd f)\<lparr>im_Resync := resyncPeriod (crd_Kind crd) f\<rparr> = informerOf crd f"
    by (simp add: informerOf_def sharedIndexInformer_def)
  show "fst r = informerOf crd f"
  proof (cases "gomap_get (fa_Informers f) (crd_Kind crd)")
    case (Some i)
    then have "(crd_Kind crd, i) \<in> set (fa_Informers f)" using inv by (simp add: informer_inv_def gomap_get_Some_iff)
    then obtain m crd' where "(m, crd') \<in> set customResources" "crd_Kind crd = crd_Kind crd'" "i = informerOf crd' f"
      using inv by (auto simp: informer_inv_def)
    moreover from this crd have "crd' = crd" using kinds_distinct(1) by (metis (mono_tags, lifting) case_prod_conv distinct_map inj_onD snd_conv)
    ultimately show ?thesis using Some by (simp add: r_def InformerFor_def)
  qed (simp add: r_def InformerFor_def Let_def resync)
  show same: "sameSettings f (snd r)" and "fa_Runs (snd r) = fa_Runs f"
      and "gomap_get (fa_Informers (snd r)) (crd_Kind crd) = Some (fst r)"
    by (auto simp: r_def InformerFor_def sameSettings_def Let_def split: option.splits)
  show "informer_inv (snd r)"
  proof (cases "gomap_get (fa_Informers f) (crd_Kind crd)")
    case None
    let ?g = "f\<lparr>fa_Informers := gomap_put (fa_Informers f) (crd_Kind crd) (informerOf crd f)\<rparr>"
    have g: "snd r = ?g" using None by (simp add: r_def InformerFor_def Let_def resync)
    have set: "set (gomap_put (fa_Informers f) (crd_Kind crd) i) = insert (crd_Kind crd, i) (set (fa_Informers f))" for i
      using None by (simp add: gomap_put_new)
    have "informerOf crd' ?g = informerOf crd' f" for crd' by (rule informerOf_settings) (simp add: sameSettings_def)
    moreover have "isStarted ?g = isStarted f" by (simp add: isStarted_def fun_eq_iff)
    ultimately show ?thesis using inv crd by (auto simp: g informer_inv_def set)
  qed (use inv in \<open>simp add: r_def InformerFor_def\<close>)
qed

lemma startOne_runs:
  assumes "\<forall>k. k \<in> set (fa_Runs f) \<longleftrightarrow> isStarted f k" "distinct (fa_Runs f)"
  shows "(\<forall>k. k \<in> set (fa_Runs (fold startOne kis f)) \<longleftrightarrow> isStarted (fold startOne kis f) k) \<and> distinct (fa_Runs (fold startOne kis f)) \<and>
     set (fa_Runs (fold startOne kis f)) = set (fa_Runs f) \<union> fst ` set kis \<and> sameSettings f (fold startOne kis f) \<and>
     fa_Informers (fold startOne kis f) = fa_Informers f"
  using assms
proof (induction kis arbitrary: f)
  case (Cons ki kis)
  have g: "\<forall>k. k \<in> set (fa_Runs (startOne ki f)) \<longleftrightarrow> isStarted (startOne ki f) k" "distinct (fa_Runs (startOne ki f))"
      "set (fa_Runs (startOne ki f)) = insert (fst ki) (set (fa_Runs f))" "sameSettings f (startOne ki f)"
      "fa_Informers (startOne ki f) = fa_Informers f"
    using Cons.prems by (auto simp: startOne_def isStarted_def sameSettings_def)
  from Cons.IH [OF g(1,2)] g(3-5) show ?case by (auto intro: sameSettings_trans)
qed simp

lemma start_runs_all:
  assumes "informer_inv f"
  shows "informer_inv (Start f)" "sameSettings f (Start f)" "fa_Informers (Start f) = fa_Informers f"
    and "set (fa_Runs (Start f)) = fst ` set (fa_Informers f)"
proof -
  have old: "\<forall>k. k \<in> set (fa_Runs f) \<longleftrightarrow> isStarted f k" "distinct (fa_Runs f)" "set (fa_Runs f) \<subseteq> fst ` set (fa_Informers f)"
    using assms by (auto simp: informer_inv_def)
  note runs = startOne_runs [OF old(1,2), of "fa_Informers f", folded Start_def]
  then show "sameSettings f (Start f)" "fa_Informers (Start f) = fa_Informers f"
    and set: "set (fa_Runs (Start f)) = fst ` set (fa_Informers f)" using old(3) by auto
  show "informer_inv (Start f)"
    using assms runs old(3) informerOf_settings by (fastforce simp: informer_inv_def)
qed

text \<open>The calls of a factory: any of its informers, the same by resource, and the start.\<close>

inductive factory_step :: "informer_factory \<Rightarrow> informer_factory \<Rightarrow> bool" where
  asked: "(resource, informer) \<in> set (v1alpha1Informers f) \<Longrightarrow> factory_step f (snd (informer f))"
| for_resource: "factory_step f (snd (ForResource groupVersion resource f))"
| started: "factory_step f (Start f)"

definition factory_runs :: "informer_factory \<Rightarrow> informer_factory \<Rightarrow> bool" where
  "factory_runs = factory_step\<^sup>*\<^sup>*"

lemma accessor_of:
  assumes "(resource, informer) \<in> set (v1alpha1Informers f)"
  shows "\<exists>n crd. (n, crd) \<in> set customResources \<and> resource = crd_Plural crd \<and>
    informer f = InformerFor (crd_Kind crd) (\<lambda>resync. (informerOf crd f)\<lparr>im_Resync := resync\<rparr>) f"
proof -
  from assms obtain i where i: "i < length (v1alpha1Informers f)" "v1alpha1Informers f ! i = (resource, informer)"
    by (metis in_set_conv_nth)
  then have "i < length customResources" using list_all2_lengthD [OF informers_fit] by metis
  with list_all2_nthD [OF informers_fit this, of f] i show ?thesis by (metis (mono_tags, lifting) case_prod_unfold fst_conv nth_mem prod.collapse snd_conv)
qed

lemma forResource_asks: "snd (ForResource gv resource f) = f \<or> (\<exists>informer. (resource, informer) \<in> set (v1alpha1Informers f) \<and> snd (ForResource gv resource f) = snd (informer f))"
  by (auto simp: ForResource_def split: option.splits prod.splits dest!: map_of_SomeD)

lemma factory_step_inv:
  assumes "factory_step f g" "informer_inv f"
  shows "informer_inv g \<and> sameSettings f g"
proof -
  have ask: "informer_inv (snd (informer f)) \<and> sameSettings f (snd (informer f))" if "(resource, informer) \<in> set (v1alpha1Informers f)" for resource informer
    using accessor_of [OF that] informer_asked [OF assms(2)] by auto
  from assms(1) show ?thesis
  proof cases
    case (for_resource gv resource)
    then show ?thesis using forResource_asks [of gv resource f] ask assms(2) by auto
  qed (use ask start_runs_all [OF assms(2)] in auto)
qed

lemma factory_runs_inv:
  assumes "factory_runs f g" "informer_inv f"
  shows "informer_inv g \<and> sameSettings f g"
  using assms(1) unfolding factory_runs_def
proof (induction rule: rtranclp_induct)
  case (step g h)
  then show ?case using factory_step_inv sameSettings_trans by blast
qed (simp add: assms(2))

text \<open>
  C27: whatever has been asked of a factory and however often it was started: every informer runs at most once, after
  a start all that have been asked for run, and the informer of a kind, asked for by name or by resource, is the
  one that lists and watches the resource of its definition with the namespace, the options and the period of the
  factory; it is the one the factory keeps from then on.
\<close>

theorem informers_run_once:
  assumes new: "f0 = NewSharedInformerFactoryWithOptions resync options"
    and options: "set options \<subseteq> range WithCustomResyncConfig \<union> range WithTweakListOptions \<union> range WithNamespace"
    and runs: "factory_runs f0 f"
    and kind: "(name, crd) \<in> set customResources" and asked: "(crd_Plural crd, informer) \<in> set (v1alpha1Informers f)"
  shows "distinct (fa_Runs f) \<and> distinct (fa_Runs (Start f)) \<and> set (fa_Runs (Start f)) = fst ` set (fa_Informers f) \<and>
         fst (informer f) = informerOf crd f0 \<and> gomap_get (fa_Informers (snd (informer f))) (crd_Kind crd) = Some (informerOf crd f0) \<and>
         ForResource (crd_Group crd, crd_Version crd) (crd_Plural crd) f = (Inr (informerOf crd f0), snd (informer f))"
proof -
  have "informer_inv f0 \<and> fa_Informers f0 = [] \<and> fa_Runs f0 = [] \<and> fa_Started f0 = []"
  proof -
    have "fa_Informers (fold (\<lambda>opt f. opt f) options f) = fa_Informers f \<and> fa_Runs (fold (\<lambda>opt f. opt f) options f) = fa_Runs f \<and>
        fa_Started (fold (\<lambda>opt f. opt f) options f) = fa_Started f" for f
      using options by (induction options arbitrary: f) (auto simp: WithCustomResyncConfig_def WithTweakListOptions_def WithNamespace_def)
    then show ?thesis by (simp add: new NewSharedInformerFactoryWithOptions_def informer_inv_def isStarted_def)
  qed
  with factory_runs_inv [OF runs] have inv: "informer_inv f" "sameSettings f0 f" by auto
  obtain n crd' where "(n, crd') \<in> set customResources" "crd_Plural crd = crd_Plural crd'"
      and acc: "informer f = InformerFor (crd_Kind crd') (\<lambda>resync. (informerOf crd' f)\<lparr>im_Resync := resync\<rparr>) f"
    using accessor_of [OF asked] by auto
  moreover from this kind have "crd' = crd"
    using kinds_distinct(2) by (metis (mono_tags, lifting) case_prod_conv distinct_map inj_onD snd_conv)
  ultimately have acc: "informer f = InformerFor (crd_Kind crd) (\<lambda>resync. (informerOf crd f)\<lparr>im_Resync := resync\<rparr>) f" by simp
  note here = informer_asked [OF inv(1) kind, folded acc] informerOf_settings [OF inv(2), of crd]
  have "map_of (v1alpha1Informers f) (crd_Plural crd) = Some informer"
    using asked by (intro map_of_is_SomeI) (simp_all add: v1alpha1Informers_def)
  then have "ForResource (crd_Group crd, crd_Version crd) (crd_Plural crd) f = (Inr (fst (informer f)), snd (informer f))"
    by (simp add: ForResource_def customResources_group [OF kind] split: prod.splits)
  with here inv(1) start_runs_all [OF inv(1)] show ?thesis by (simp add: informer_inv_def)
qed

section \<open>Listers over what was listed\<close>

lemmas lister_defs =
  NewAggregatedResourceLister_def NewClusterLister_def NewClusterResourceLister_def NewClusterSetLister_def
  NewMultiClusterResourceLister_def NewMultiClusterResourceAggregatePolicyLister_def
  NewMultiClusterResourceAggregateRuleLister_def NewMultiClusterResourceBindingLister_def
  NewMultiClusterResourceOverrideLister_def NewMultiClusterResourceSchedulePolicyLister_def
  NewNamespaceMappingLister_def NewResourceAggregatePolicyLister_def namespacedLister_def clusterLister_def

text \<open>The declarations of the list types, and what their items are declared to be.\<close>

definition listTypes :: "(string \<times> gtype) list" where
  "listTypes =
    [(''AggregatedResource'', AggregatedResourceList_type),
     (''Cluster'', ClusterList_type),
     (''ClusterResource'', ClusterResourceList_type),
     (''ClusterSet'', ClusterSetList_type),
     (''MultiClusterResource'', MultiClusterResourceList_type),
     (''MultiClusterResourceAggregatePolicy'', MultiClusterResourceAggregatePolicyList_type),
     (''MultiClusterResourceAggregateRule'', MultiClusterResourceAggregateRuleList_type),
     (''MultiClusterResourceBinding'', MultiClusterResourceBindingList_type),
     (''MultiClusterResourceOverride'', MultiClusterResourceOverrideList_type),
     (''MultiClusterResourceSchedulePolicy'', MultiClusterResourceSchedulePolicyList_type),
     (''NamespaceMapping'', NamespaceMappingList_type),
     (''ResourceAggregatePolicy'', ResourceAggregatePolicyList_type)]"

definition kindTypes :: "(string \<times> gtype) list" where
  "kindTypes =
    [(''AggregatedResource'', AggregatedResource_type),
     (''Cluster'', Cluster_type),
     (''ClusterResource'', ClusterResource_type),
     (''ClusterSet'', ClusterSet_type),
     (''MultiClusterResource'', MultiClusterResource_type),
     (''MultiClusterResourceAggregatePolicy'', MultiClusterResourceAggregatePolicy_type),
     (''MultiClusterResourceAggregateRule'', MultiClusterResourceAggregateRule_type),
     (''MultiClusterResourceBinding'', MultiClusterResourceBinding_type),
     (''MultiClusterResourceOverride'', MultiClusterResourceOverride_type),
     (''MultiClusterResourceSchedulePolicy'', MultiClusterResourceSchedulePolicy_type),
     (''NamespaceMapping'', NamespaceMapping_type),
     (''ResourceAggregatePolicy'', ResourceAggregatePolicy_type)]"

definition itemsOf :: "gtype \<Rightarrow> gtype option" where
  "itemsOf T = (case T of GStruct fs \<Rightarrow> map_of fs ''Items'' | _ \<Rightarrow> None)"

lemma declared_items:
  "list_all2 (\<lambda>(k, t) (k', T). k = k' \<and> itemsOf T = map_option GSlice (map_of kindTypes t)) itemTypes listTypes"
  by (simp add: itemTypes_def listTypes_def kindTypes_def itemsOf_def AggregatedResourceList_type_def ClusterList_type_def
      ClusterResourceList_type_def ClusterSetList_type_def MultiClusterResourceList_type_def
      MultiClusterResourceAggregatePolicyList_type_def MultiClusterResourceAggregateRuleList_type_def
      MultiClusterResourceBindingList_type_def MultiClusterResourceOverrideList_type_def
      MultiClusterResourceSchedulePolicyList_type_def NamespaceMappingList_type_def ResourceAggregatePolicyList_type_def)

lemma appendAll_same: "appendAll kind (map (Pair t) xs) = (if t = kind \<or> xs = [] then Inr xs else Crash WrongType)"
  by (induction xs) auto

text \<open>
  C37: over a cache that a list of its kind has filled, a lister answers with everything that was listed, but for
  namespace mappings: the items of their list are declared to be cluster sets, so that the lister
  panics as soon as there is one.
\<close>

theorem listers_over_listed:
  assumes kind: "(kind, itemType) \<in> set itemTypes" "(kind, listOf) \<in> set listAlls"
    and cache: "ix_ListAll ix selector = (map (Pair itemType) xs, None)"
  shows "listOf ix selector = (if kind = ''NamespaceMapping'' \<and> xs \<noteq> [] then Crash WrongType else Inr xs)"
proof -
  have "listOf ix selector = bindR (appendAll kind (map (Pair itemType) xs)) (\<lambda>ret. Inr ret)"
    using kind(2) cache by (auto simp: listAlls_def lister_defs listed_def)
  moreover have "itemType = kind \<longleftrightarrow> kind \<noteq> ''NamespaceMapping''" using kind(1) by (auto simp: itemTypes_def)
  ultimately show ?thesis by (auto simp: appendAll_same)
qed

section \<open>Witnesses\<close>

definition ixOptions :: "(informer_factory \<Rightarrow> informer_factory) list" where
  "ixOptions = [WithNamespace ''n'', WithCustomResyncConfig [(''ClusterResource'', 5)]]"

definition ixFactory :: informer_factory where "ixFactory = NewSharedInformerFactoryWithOptions 60 ixOptions"

definition ixUsed :: informer_factory where "ixUsed = Start (snd (clusterResourceInformer ''n'' None ixFactory))"

lemma ix_factory: "fa_Namespace ixFactory = ''n''" "fa_TweakListOptions ixFactory = None"
  by (simp_all add: ixFactory_def ixOptions_def NewSharedInformerFactoryWithOptions_def WithNamespace_def WithCustomResyncConfig_def)

lemma informers_run_once_witness:
  "factory_runs ixFactory ixUsed \<and> fa_Runs ixUsed = [''ClusterResource''] \<and> set (fa_Runs (Start ixUsed)) = {''ClusterResource''} \<and>
   distinct (fa_Runs (Start ixUsed)) \<and> im_Resync (fst (clusterResourceInformer ''n'' None ixUsed)) = 5 \<and>
   fst (ForResource SchemeGroupVersion ''clusterresources'' ixUsed) = Inr (informerOf crd_clusterresources ixFactory)"
proof -
  have asked: "(''clusterresources'', clusterResourceInformer ''n'' None) \<in> set (v1alpha1Informers f)"
    if "fa_Namespace f = ''n''" "fa_TweakListOptions f = None" for f
    using that by (simp add: v1alpha1Informers_def)
  have "factory_step ixFactory (snd (clusterResourceInformer ''n'' None ixFactory))"
    by (rule factory_step.asked [OF asked]) (simp_all add: ix_factory)
  then have runs: "factory_runs ixFactory ixUsed"
    unfolding factory_runs_def ixUsed_def by (rule rtranclp.rtrancl_into_rtrancl [OF r_into_rtranclp]) (rule factory_step.started)
  have used: "fa_Runs ixUsed = [''ClusterResource'']" "fst ` set (fa_Informers ixUsed) = {''ClusterResource''}"
      "fa_Namespace ixUsed = ''n''" "fa_TweakListOptions ixUsed = None"
    by (simp_all add: ixUsed_def clusterResourceInformer_def InformerFor_def Let_def Start_def startOne_def isStarted_def gomap_put_def
        gomap_get_def ixFactory_def ixOptions_def NewSharedInformerFactoryWithOptions_def WithNamespace_def WithCustomResyncConfig_def)
  have "set ixOptions \<subseteq> range WithCustomResyncConfig \<union> range WithTweakListOptions \<union> range WithNamespace"
    by (simp add: ixOptions_def)
  from informers_run_once [OF ixFactory_def this runs, of "''ClusterResources''" crd_clusterresources "clusterResourceInformer ''n'' None"]
  have "distinct (fa_Runs (Start ixUsed)) \<and> set (fa_Runs (Start ixUsed)) = fst ` set (fa_Informers ixUsed) \<and>
      fst (clusterResourceInformer ''n'' None ixUsed) = informerOf crd_clusterresources ixFactory \<and>
      ForResource SchemeGroupVersion ''clusterresources'' ixUsed =
        (Inr (informerOf crd_clusterresources ixFactory), snd (clusterResourceInformer ''n'' None ixUsed))"
    using asked [OF used(3,4)] by (simp add: customResources_def crd_clusterresources_def SchemeGroupVersion_def)
  moreover have "im_Resync (informerOf crd_clusterresources ixFactory) = 5"
    by (simp add: informerOf_def sharedIndexInformer_def resyncPeriod_def crd_clusterresources_def ixFactory_def ixOptions_def
        NewSharedInformerFactoryWithOptions_def WithNamespace_def WithCustomResyncConfig_def)
  ultimately show ?thesis using runs used by simp
qed

lemma listers_over_listed_witness:
  "nl_List (NewNamespaceMappingLister \<lparr>ix_ListAll = \<lambda>_. ([(''ClusterSet'', 1 :: nat)], None), ix_ListAllByNamespace = \<lambda>_ _. ([], None),
      ix_GetByKey = \<lambda>_. Inr None\<rparr>) [] = Crash WrongType"
  using listers_over_listed [of "''NamespaceMapping''" "''ClusterSet''" "\<lambda>ix. nl_List (NewNamespaceMappingLister ix)"
      "\<lparr>ix_ListAll = \<lambda>_. ([(''ClusterSet'', 1 :: nat)], None), ix_ListAllByNamespace = \<lambda>_ _. ([], None), ix_GetByKey = \<lambda>_. Inr None\<rparr>" "[]" "[1]"]
  by (simp add: itemTypes_def listAlls_def)

end
