(* ===== verification/Spec2Isabelle.thy ===== *)
theory Spec2Isabelle
  imports ScheduleProps SetProps BindingProps BindingType Resource NsMapping ClusterResourceProps ProxyProps Lifecycle
    ClusterProps Webhook Delivery StartupProps DeepCopyProps InformersProps
begin

text \<open>
  \<^bold>\<open>Verification of the multi-cluster manager (stellaris).\<close>

  \<^bold>\<open>The program.\<close> One process, the core, runs in the control plane; one process, the proxy, in every managed
  cluster. Users write \<open>MultiClusterResource\<close>s (an object to distribute) and schedule policies. In the
  core the schedule controller turns a policy into a binding (which clusters, with which overrides), the
  binding controller turns a binding into one \<open>ClusterResource\<close> per resource and cluster, in the
  namespace the core keeps for that cluster, and the cluster resource controller sends each over a gRPC
  stream to the proxy of the cluster. The proxy stores it, and the same controller, now in the proxy, creates
  or updates the object and reports the outcome, which the core stores in the status of the cluster
  resource and collects in the status of the binding. A proxy registers, sends heartbeats with its health and
  its plugins, and receives the cluster resources and rules it should have. A monitor in the core takes
  clusters without heartbeat offline and asks for a reschedule of the policies they concern.

  \<^bold>\<open>Foundations.\<close>
  \<^item> Prelude: errors, panics and divergence as values (\<open>'a res\<close>), steps over a state (\<open>('s, 'a) step\<close>),
    Go maps as association lists (\<open>gomap\<close>), general lemmas.
  \<^item> GoLib: what is used of \<open>strings\<close> and \<open>strconv\<close>, with the round trip of printed numbers. Case
    conversion is that of ASCII.
  \<^item> Float64: \<open>int\<close> at 64 bits with wrap-around, \<open>float64\<close> with its rounding, as the weights use them.
  \<^item> KubeTypes: the custom resources of \<open>pkg/apis\<close>, field by field. KubeClient: the API server as a
    record of functions over an unspecified state; the laws of the server that properties rely on are the
    locales \<open>api_kind\<close> and \<open>api_status_kind\<close>, up to the generation the server counts itself, and
    \<open>api_delete_kind\<close>: a delete marks an object that has finalizers, and the update that takes the last one
    away removes it. These are for the custom resources of the program. Of the objects it distributes, of any
    kind, only \<open>object_kind\<close> is asked: what a successful write answers is what is read next and has the
    annotations that were sent, a failed create changes nothing, and an accepted delete removes the object
    or marks it. The server may default, prune and complete such objects.
  \<^item> Server: an API server in memory, which interprets these locales for every kind, and the locale of
    deletions for the kinds that are deleted through a finalizer; and the same server with an admission that drops the
    status of an object, defaults its spec and puts a finalizer of its own on it (\<open>admittingKube\<close>), which
    interprets \<open>object_kind\<close>. Namespaces go at once there. Federation and
    MemCodec: the clusters and the codec at which properties are evaluated. The model never uses the three.
  \<^item> SliceUtil (\<open>utils/slice\<close>), Finalizer (\<open>controller/common/helper.go\<close>, with the locale
    \<open>client_object\<close> and, for the finalizer of a controller, \<open>finalized_object\<close>), Naming (\<open>common/config.go\<close>).

  \<^bold>\<open>The schedule controller\<close> (\<open>controller/resource-schedule-policy\<close>).
  \<^item> Failover: which clusters are usable, the walk over the failover policy. FailoverCorrect: the walk takes
    the next available candidate of a flat list. Placement: the same for all clusters of a binding.
  \<^item> Replicas: the two splits of the replicas by weight. ReplicasCorrect: the second split ends, keeps the
    bounds of every cluster and reaches the total unless all are at a bound. RoleReplicas: the split by role.
    RoleCorrect: it ends, and the counts add up, when the roles it reaches have room.
  \<^item> Schedule: the generators, the comparison and the write of a binding, the reconcile. ScheduleCorrect and
    ScheduleProps: the bindings of weighted and duplicated policies, the stored binding, and the inputs at
    which the code panics, diverges or hands out too much. SetProps: the bindings of policies that name a cluster
    set, by the roles and by the selector of the set.

  \<^bold>\<open>The binding controller\<close> (\<open>controller/resource-binding\<close>). Override: the JSON patches of a cluster and
  the bindings that a changed override wakes. Binding: creating and updating cluster resources, collecting
  their status, the labels of a binding; the map of pointers to one loop variable (Go 1.16) is a
  \<open>shared_map\<close>, all of whose keys share one cell. BindingCorrect and BindingProps: their properties.
  BindingType: the shape of every binding the scheduler generates, the names of its clusters included, as a
  judgement that its operations preserve.
  Pipeline: both controllers one after the other, the binding of the scheduler given to the binding controller.

  \<^bold>\<open>Other controllers.\<close> Resource (\<open>controller/multi-cluster-resource\<close>): deleting a resource edits the
  bindings. NsMapping (\<open>controller/namespace-mapping\<close>): the labels that redirect a namespace, seen from
  the scheduler. ClusterControl (\<open>controller/cluster\<close>, \<open>cluster-set\<close>, \<open>pkg/cue\<close>): the reconcile of a
  cluster and the deployment of a proxy, with the rendering of its CUE template, where the evaluator is a
  parameter (\<open>cue_engine\<close>); ClusterProps: its property.

  \<^bold>\<open>The channel.\<close> Messages (\<open>pkg/model\<close>, \<open>config/channel.proto\<close>): requests, responses and bodies, with
  the JSON encodings as parameters. Channel: the stream table of the core and the connection of a proxy, alone
  and as steps that interleave. ClusterResourceControl (\<open>controller/cluster-resource\<close>) in both
  processes; ClusterResourceProps: a synchronisation settles objects with a spec, and only those, its
  outcome is reported, the core hands a resource over or does not release it. Core (\<open>core/handler\<close>): the receiving loop and the
  handlers; CoreProps: what they store and answer, and to which stream of a cluster the entry of the
  table is lent over a sequence of requests. Proxy (\<open>proxy/send\<close>, \<open>proxy/handler\<close>): registration,
  heartbeat, receiving. Addons (\<open>proxy/addons\<close>): the plugins of a proxy and their parallel load.
  ProxyProps: from the core's message to the stored cluster resource, and the plugins of a heartbeat.
  Monitor (\<open>core/monitor\<close>). Lifecycle: registrations, heartbeats and checks refine a state machine of three
  fields.

  \<^bold>\<open>From the binding to the object.\<close> Delivery composes the theories above over two API servers, that of the
  core and that of one proxy: the binding controller, the sending controller, the handler of the proxy, the same
  controller in the proxy; and the way of a deletion. At its end is the object as the server of the cluster has made it
  of a create request with exactly the contents sent, or, for a deletion, no object or one that is marked. What it asks of the servers are the locales of KubeClient
  and that a write of one kind does not change what is read of another
  (\<open>apart\<close>); of the JSON codec that it reads back the bodies that were sent (\<open>carries\<close>).

  \<^bold>\<open>The start of the processes\<close> (\<open>cmd\<close>, \<open>core/config\<close>, \<open>proxy/config\<close>, \<open>pkg/utils\<close>). Startup: the
  flags and the durations they parse, the configurations and their defaults, the path of the kube
  configuration, the groups of types known to the scheme, the registration of the controllers and of the
  webhooks, the wait for the secret of the webhooks, and the main functions of both processes as the list of what
  they start, in order, up to the first failure. StartupProps: the wait ends after at most as many
  rounds as its limit holds intervals, the core starts its monitor, its controllers and its manager only after
  the secret has been found, and a proxy registers once in its life.

  \<^bold>\<open>Webhooks.\<close> Webhook (\<open>pkg/webhook\<close>, \<open>common/validation\<close>): the three validating handlers.

  \<^bold>\<open>Generated code\<close> (\<open>zz_generated.deepcopy.go\<close> of both API packages, \<open>pkg/client\<close>). The component theories
  above read and write values, which are never shared in HOL; what makes that right for the Go code is that
  an object which is changed has been copied before. GoMemory is a memory of cells with the next free address, when a cell
  and what it reaches hold a value of a type (\<open>holds\<close>), and the statements of the generated copiers, one
  combinator for each shape of field: an assignment, a new pointer, a made slice or map, a struct copied in place.
  ApiTypes: the Go types of the API packages, as descriptors. DeepCopy: every \<open>DeepCopyInto\<close>, \<open>DeepCopy\<close> and
  \<open>DeepCopyObject\<close>, statement by statement, with the deep copies of the API machinery as a parameter.
  DeepCopyProps: each makes a copy that shares no cell with its original.
  Clientset: the requests of the twelve typed clients (verb, group, version, namespace, resource, subresource,
  timeout), how the clientset completes a configuration, and the custom resource definitions of
  \<open>kube/crd/bases\<close>, against which ClientsetProps checks the requests. Informers: the listers over a cache, the
  factory of shared informers with its table of those started, and the lookup by resource; the caches and the
  running of an informer are the library's. InformersProps: no informer is started twice, and what the listers
  answer over a cache that a list has filled with the declared item type.

  \<^bold>\<open>How the lemmas are grouped.\<close> Each component theory proves what its operations do on the branches that
  matter; the theories named Correct relate the detailed loops to specifications without indices; the
  properties, marked C1 to C40, are in the component theories and in those named Props, each followed
  by (or with a section of) witnesses at concrete inputs where it has hypotheses.

  \<^bold>\<open>Loops and bounds.\<close> Loops that may not end are \<open>partial_function (option)\<close>: the walk over the failover
  policy, the second splits by weight and by role, and the wait for the secret; all four are proved to end on
  sensible inputs, and inputs at which the first and the third do not end are given. All other loops recurse on
  a list. The endless loops of the processes (the heartbeat, the receiving loops, the monitor) are modelled by
  one round; their properties speak of sequences of rounds. No fuel is used.

  \<^bold>\<open>Concurrency.\<close> Operations that are not atomic in the source and share package state have a second model as
  an inductive step relation: the stream table, the connection of a proxy, the plugin manager. The requests of
  one reconcile see no foreign write in between.

  \<^bold>\<open>Not modelled.\<close> Of the generated code: the fake clientset, which records the calls of tests, and the
  protobuf and gRPC stubs (the stream is the record of functions \<open>net\<close> of Channel). The deep copies of the API machinery, the
  REST client, the caches of the informers, the CUE
  evaluator, the HTTP client, the time zone, the reader of the plugin configuration, logging and events are
  library calls, input and output. Of a start the model follows the calls of the main functions; what a
  goroutine does after it was started is in the theory of its component. Of the aggregated resources the source
  has types and an empty handler only.
\<close>

end
